(* ===== verification/Prelude.thy ===== *)
theory Prelude
  imports Main "HOL-Library.Word" "HOL-Library.Signed_Division"
begin

unbundle bit_operations_syntax

text \<open>
  Shared vocabulary of the development.

  \<^item> \<open>outcome\<close>: how a piece of C++ ends. It returns a value (\<open>Ret\<close>), throws an
    exception (\<open>Throw\<close>), reaches undefined behaviour (\<open>Undef\<close>, with the kind), or never
    returns (\<open>Diverge\<close>). A value and an exception carry the state as the code left it, because
    a C++ exception does not undo earlier assignments.
  \<^item> \<open>obind\<close> is sequencing, \<open>ocatch\<close> is \<open>try/catch\<close>, \<open>with_state\<close> runs a member
    function on a member object and puts the object back; \<open>relabel\<close> also changes the type of exceptions.
  \<^item> \<open>out_all P r\<close> says that whatever state \<open>r\<close> leaves behind satisfies \<open>P\<close>; its rules
    are collected in \<open>outcome_inv\<close>.
  \<^item> generic lemmas on words, used by the RAM, the field decoder and the page tables.
\<close>

named_theorems outcome_inv "rules for invariants of outcomes"

section \<open>Integer types\<close>

type_synonym u8 = "8 word"
type_synonym u16 = "16 word"
type_synonym u32 = "32 word"
type_synonym u64 = "64 word"

text \<open>Implicit conversion of an unsigned integer to a 32-bit \<open>int\<close> (modulo two to the 32).\<close>

definition to_int :: "'a::len word \<Rightarrow> int" where
  "to_int w = sint (ucast w :: u32)"

text \<open>Implicit conversion of a 32-bit \<open>int\<close> to \<open>uint64_t\<close>: sign extension.\<close>

definition int_to_u64 :: "u32 \<Rightarrow> u64" where
  "int_to_u64 w = scast w"

section \<open>Outcomes\<close>

datatype undefined_behaviour =
    Out_Of_Bounds        \<comment> \<open>access outside an array\<close>
  | Indeterminate_Value  \<comment> \<open>read of an uninitialised object\<close>
  | Shift_Too_Far        \<comment> \<open>shift count not below the operand's width\<close>
  | Signed_Overflow      \<comment> \<open>signed arithmetic overflow\<close>
  | Null_Pointer         \<comment> \<open>null pointer where the library wants a string\<close>

datatype ('a, 's, 'e) outcome =
    Ret 'a 's
  | Throw 'e 's
  | Undef undefined_behaviour
  | Diverge

primrec obind :: "('a, 's, 'e) outcome \<Rightarrow> ('a \<Rightarrow> 's \<Rightarrow> ('b, 's, 'e) outcome) \<Rightarrow> ('b, 's, 'e) outcome" where
  "obind (Ret a s) f = f a s"
| "obind (Throw e s) f = Throw e s"
| "obind (Undef u) f = Undef u"
| "obind Diverge f = Diverge"

primrec ocatch :: "('a, 's, 'e) outcome \<Rightarrow> ('e \<Rightarrow> 's \<Rightarrow> ('a, 's, 'e) outcome) \<Rightarrow> ('a, 's, 'e) outcome" where
  "ocatch (Ret a s) h = Ret a s"
| "ocatch (Throw e s) h = h e s"
| "ocatch (Undef u) h = Undef u"
| "ocatch Diverge h = Diverge"

primrec with_state :: "('s \<Rightarrow> 't) \<Rightarrow> ('a, 's, 'e) outcome \<Rightarrow> ('a, 't, 'e) outcome" where
  "with_state f (Ret a s) = Ret a (f s)"
| "with_state f (Throw e s) = Throw e (f s)"
| "with_state f (Undef u) = Undef u"
| "with_state f Diverge = Diverge"

text \<open>An outcome over another state and with another type of exceptions.\<close>

primrec relabel :: "('s \<Rightarrow> 't) \<Rightarrow> ('e \<Rightarrow> 'f) \<Rightarrow> ('a, 's, 'e) outcome \<Rightarrow> ('a, 't, 'f) outcome" where
  "relabel f g (Ret a s) = Ret a (f s)"
| "relabel f g (Throw e s) = Throw (g e) (f s)"
| "relabel f g (Undef u) = Undef u"
| "relabel f g Diverge = Diverge"

text \<open>Reading an object that may not have been initialised.\<close>

primrec read_cell :: "'a option \<Rightarrow> 's \<Rightarrow> ('a, 's, 'e) outcome" where
  "read_cell None s = Undef Indeterminate_Value"
| "read_cell (Some a) s = Ret a s"

primrec out_all :: "('s \<Rightarrow> bool) \<Rightarrow> ('a, 's, 'e) outcome \<Rightarrow> bool" where
  "out_all P (Ret a s) = P s"
| "out_all P (Throw e s) = P s"
| "out_all P (Undef u) = True"
| "out_all P Diverge = True"

text \<open>The outcome is a normal return.\<close>

primrec returns :: "('a, 's, 'e) outcome \<Rightarrow> bool" where
  "returns (Ret a s) = True"
| "returns (Throw e s) = False"
| "returns (Undef u) = False"
| "returns Diverge = False"

lemma obind_assoc: "obind (obind m f) g = obind m (\<lambda>a s. obind (f a s) g)"
  by (cases m) simp_all

lemma obind_Ret_iff: "obind m f = Ret b t \<longleftrightarrow> (\<exists>a s. m = Ret a s \<and> f a s = Ret b t)"
  by (cases m) simp_all

lemma obind_Throw_iff:
  "obind m f = Throw e t \<longleftrightarrow> m = Throw e t \<or> (\<exists>a s. m = Ret a s \<and> f a s = Throw e t)"
  by (cases m) simp_all

lemma obind_Diverge_iff:
  "obind m f = Diverge \<longleftrightarrow> m = Diverge \<or> (\<exists>a s. m = Ret a s \<and> f a s = Diverge)"
  by (cases m) simp_all

lemma with_state_Diverge_iff [simp]: "with_state f m = Diverge \<longleftrightarrow> m = Diverge"
  by (cases m) simp_all

lemma read_cell_not_Diverge [simp]: "read_cell c s \<noteq> Diverge"
  by (cases c) simp_all

lemma read_cell_not_Throw [simp]: "read_cell c s \<noteq> Throw e t"
  by (cases c) simp_all

lemma read_cell_Ret_iff [simp]: "read_cell c s = Ret a t \<longleftrightarrow> c = Some a \<and> t = s"
  by (cases c) auto

lemma with_state_Throw_iff: "with_state f m = Throw e t \<longleftrightarrow> (\<exists>s. m = Throw e s \<and> t = f s)"
  by (cases m) auto

lemma with_state_Ret_iff: "with_state f m = Ret a t \<longleftrightarrow> (\<exists>s. m = Ret a s \<and> t = f s)"
  by (cases m) auto

lemma returns_iff: "returns m \<longleftrightarrow> (\<exists>a s. m = Ret a s)"
  by (cases m) simp_all

lemma out_all_obind [outcome_inv]:
  "out_all P m \<Longrightarrow> (\<And>a s. P s \<Longrightarrow> out_all P (f a s)) \<Longrightarrow> out_all P (obind m f)"
  by (cases m) simp_all

lemma out_all_ocatch [outcome_inv]:
  "out_all P m \<Longrightarrow> (\<And>e s. P s \<Longrightarrow> out_all P (h e s)) \<Longrightarrow> out_all P (ocatch m h)"
  by (cases m) simp_all

lemma out_all_with_state: "out_all P (with_state f m) = out_all (\<lambda>s. P (f s)) m"
  by (cases m) simp_all

lemma out_all_read_cell [outcome_inv]: "P s \<Longrightarrow> out_all P (read_cell c s)"
  by (cases c) simp_all

lemma out_all_mono: "out_all P m \<Longrightarrow> (\<And>s. P s \<Longrightarrow> Q s) \<Longrightarrow> out_all Q m"
  by (cases m) simp_all

lemma out_all_True [simp]: "out_all (\<lambda>_. True) m"
  by (cases m) simp_all

lemma out_all_if [outcome_inv]:
  "(b \<Longrightarrow> out_all P m) \<Longrightarrow> (\<not> b \<Longrightarrow> out_all P n) \<Longrightarrow> out_all P (if b then m else n)"
  by simp

lemma out_all_RetI [outcome_inv]: "P s \<Longrightarrow> out_all P (Ret a s)"
  by simp

lemma out_all_ThrowI [outcome_inv]: "P s \<Longrightarrow> out_all P (Throw e s)"
  by simp

lemma out_all_UndefI [outcome_inv]: "out_all P (Undef u)"
  by simp

section \<open>Words\<close>

lemma sint_u32: "sint (x :: u32) = signed_take_bit 31 (uint x)"
  by (transfer, simp add: signed_take_bit_take_bit)

lemma to_int_small:
  fixes w :: "'a::len word"
  assumes "unat w < 2 ^ 31"
  shows "to_int w = int (unat w)"
proof -
  have w: "uint w < 2 ^ 31"
    using assms by (simp only: unat_eq_nat_uint nat_less_numeral_power_cancel_iff)
  have "- (2 ^ 31) \<le> uint w"
    by (rule order_trans [OF _ uint_ge_0]) simp
  with w have "signed_take_bit 31 (uint w) = uint w"
    by (rule signed_take_bit_int_eq_self [rotated])
  moreover have "take_bit 32 (uint w) = uint w"
    using w by (intro take_bit_int_eq_self) auto
  ultimately have "sint (ucast w :: u32) = uint w"
    by (simp only: sint_u32 unsigned_ucast_eq) (simp add: min_def)
  then show ?thesis
    by (simp add: to_int_def)
qed

lemma nat_to_int_small: "unat w < 2 ^ 31 \<Longrightarrow> nat (to_int w) = unat w" for w :: "'a::len word"
  by (simp add: to_int_small)

lemma unat_and_mask_less: "unat (w AND mask n) < 2 ^ n" for w :: "'a::len word"
  by (simp flip: take_bit_eq_mask add: unsigned_take_bit_eq)

lemma bit_not_mask: "bit (w AND NOT v) n \<longleftrightarrow> bit w n \<and> \<not> bit v n" for w v :: "'a::len word"
  by (auto simp: bit_simps dest: bit_imp_le_length)

lemma bit_int_to_u64: "bit (int_to_u64 w) n \<longleftrightarrow> n < 64 \<and> (if n < 32 then bit w n else bit w 31)"
proof -
  have "bit (int_to_u64 w) n \<longleftrightarrow> n < 64 \<and> bit w (min 31 n)"
    by (simp add: int_to_u64_def bit_simps)
  moreover have "n < 32 \<Longrightarrow> min 31 n = n" and "\<not> n < 32 \<Longrightarrow> min 31 n = 31"
    by auto
  ultimately show ?thesis by auto
qed

lemma int_to_u64_OR: "int_to_u64 (v OR w) = int_to_u64 v OR int_to_u64 w"
  by (rule bit_word_eqI) (auto simp: bit_int_to_u64 bit_simps)

end
