(* ===== verification/Config.thy ===== *)
theory Config
  imports Prelude
begin

text \<open>
  The constants of \<open>include/config.h\<close>: sizes of the register files and the physical memory map.
\<close>

definition N_REG :: int where "N_REG = 32"
definition N_CSR :: int where "N_CSR = 4096"

definition KERNBASE :: u64 where "KERNBASE = 0x80000000"
definition MEMORY_SIZE :: u64 where "MEMORY_SIZE = 1024 * 1024 * 128"
definition PAGE_SIZE :: int where "PAGE_SIZE = 4096"

definition UART_BASE :: u64 where "UART_BASE = 0x10000000"
definition UART_SIZE :: u64 where "UART_SIZE = 0x1000"

definition VIRTIO_BASE :: u64 where "VIRTIO_BASE = 0x10001000"
definition VIRTIO_SIZE :: u64 where "VIRTIO_SIZE = 0x1000"

definition CLINT_BASE :: u64 where "CLINT_BASE = 0x2000000"
definition CLINT_SIZE :: u64 where "CLINT_SIZE = 0x10000"

definition PLIC_BASE :: u64 where "PLIC_BASE = 0xc000000"
definition PLIC_SIZE :: u64 where "PLIC_SIZE = 0x4000000"

lemmas config_defs = N_REG_def N_CSR_def KERNBASE_def MEMORY_SIZE_def PAGE_SIZE_def
  UART_BASE_def UART_SIZE_def VIRTIO_BASE_def VIRTIO_SIZE_def CLINT_BASE_def CLINT_SIZE_def
  PLIC_BASE_def PLIC_SIZE_def

end
