(* ===== verification/Trap.thy ===== *)
theory Trap
  imports Prelude
begin

text \<open>
  \<open>include/trap.h\<close>: the causes of a trap, their numeric encoding and their printed names. The
  enumeration is a datatype; \<open>trap_code\<close> is the value of the \<open>uint64_t\<close> enumerator. A
  \<open>CPUTrapException\<close> carries exactly one \<open>trap_value\<close>, so it is the exception type of the
  outcomes of the whole model.
\<close>

definition interrupt_bit :: u64 where
  "interrupt_bit = 0x8000000000000000"

datatype trap_value =
    InstructionAddressMisaligned
  | InstructionAccessFault
  | IllegalInstruction
  | Breakpoint
  | LoadAddressMisaligned
  | LoadAccessFault
  | StoreAMOAddressMisaligned
  | StoreAMOAccessFault
  | EnvironmentCallFromUMode
  | EnvironmentCallFromSMode
  | EnvironmentCallFromMMode
  | InstructionPageFault
  | LoadPageFault
  | StoreAMOPageFault
  | UserSoftwareInterrupt
  | SupervisorSoftwareInterrupt
  | MachineSoftwareInterrupt
  | UserTimerInterrupt
  | SupervisorTimerInterrupt
  | MachineTimerInterrupt
  | UserExternalInterrupt
  | SupervisorExternalInterrupt
  | MachineExternalInterrupt

primrec trap_code :: "trap_value \<Rightarrow> u64" where
  "trap_code InstructionAddressMisaligned = 0x0"
| "trap_code InstructionAccessFault = 0x1"
| "trap_code IllegalInstruction = 0x2"
| "trap_code Breakpoint = 0x3"
| "trap_code LoadAddressMisaligned = 0x4"
| "trap_code LoadAccessFault = 0x5"
| "trap_code StoreAMOAddressMisaligned = 0x6"
| "trap_code StoreAMOAccessFault = 0x7"
| "trap_code EnvironmentCallFromUMode = 0x8"
| "trap_code EnvironmentCallFromSMode = 0x9"
| "trap_code EnvironmentCallFromMMode = 0xB"
| "trap_code InstructionPageFault = 0xC"
| "trap_code LoadPageFault = 0xD"
| "trap_code StoreAMOPageFault = 0xF"
| "trap_code UserSoftwareInterrupt = interrupt_bit"
| "trap_code SupervisorSoftwareInterrupt = interrupt_bit + 1"
| "trap_code MachineSoftwareInterrupt = interrupt_bit + 3"
| "trap_code UserTimerInterrupt = interrupt_bit + 4"
| "trap_code SupervisorTimerInterrupt = interrupt_bit + 5"
| "trap_code MachineTimerInterrupt = interrupt_bit + 7"
| "trap_code UserExternalInterrupt = interrupt_bit + 8"
| "trap_code SupervisorExternalInterrupt = interrupt_bit + 9"
| "trap_code MachineExternalInterrupt = interrupt_bit + 11"

primrec trap_what :: "trap_value \<Rightarrow> string" where
  "trap_what InstructionAddressMisaligned = ''Instruction Address Misaligned''"
| "trap_what InstructionAccessFault = ''Instruction Access Fault''"
| "trap_what IllegalInstruction = ''Illegal Instruction''"
| "trap_what Breakpoint = ''Breakpoint''"
| "trap_what LoadAddressMisaligned = ''Load Address Misaligned''"
| "trap_what LoadAccessFault = ''Load Access Fault''"
| "trap_what StoreAMOAddressMisaligned = ''Store/AMO Address Misaligned''"
| "trap_what StoreAMOAccessFault = ''Store/AMO Access Fault''"
| "trap_what EnvironmentCallFromUMode = ''Environment Call from U-Mode''"
| "trap_what EnvironmentCallFromSMode = ''Environment Call from S-Mode''"
| "trap_what EnvironmentCallFromMMode = ''Environment Call from M-Mode''"
| "trap_what InstructionPageFault = ''Instruction Page Fault''"
| "trap_what LoadPageFault = ''Load Page Fault''"
| "trap_what StoreAMOPageFault = ''Store/AMO Page Fault''"
| "trap_what UserSoftwareInterrupt = ''UserSoftwareInterrupt''"
| "trap_what SupervisorSoftwareInterrupt = ''SupervisorSoftwareInterrupt''"
| "trap_what MachineSoftwareInterrupt = ''MachineSoftwareInterrupt''"
| "trap_what UserTimerInterrupt = ''UserTimerInterrupt''"
| "trap_what SupervisorTimerInterrupt = ''SupervisorTimerInterrupt''"
| "trap_what MachineTimerInterrupt = ''MachineTimerInterrupt''"
| "trap_what UserExternalInterrupt = ''UserExternalInterrupt''"
| "trap_what SupervisorExternalInterrupt = ''SupervisorExternalInterrupt''"
| "trap_what MachineExternalInterrupt = ''MachineExternalInterrupt''"

type_synonym ('a, 's) trapping = "('a, 's, trap_value) outcome"

text \<open>The causes that are interrupts, by their top bit.\<close>

definition is_interrupt :: "trap_value \<Rightarrow> bool" where
  "is_interrupt t \<longleftrightarrow> trap_code t AND interrupt_bit \<noteq> 0"

text \<open>The cause number without the interrupt bit, as \<open>HandleTrap\<close> computes it.\<close>

definition cause_number :: "trap_value \<Rightarrow> u64" where
  "cause_number t = trap_code t AND NOT interrupt_bit"

lemma trap_code_inj: "trap_code s = trap_code t \<Longrightarrow> s = t"
  by (cases s; cases t; simp add: interrupt_bit_def)

lemma trap_what_inj: "trap_what s = trap_what t \<Longrightarrow> s = t"
  by (cases s; cases t; simp)

lemma cause_number_less: "unat (cause_number t) < 16"
  by (cases t; simp add: cause_number_def interrupt_bit_def)

end
