(* ===== verification/Device.thy ===== *)
theory Device
  imports Config Trap
begin

text \<open>
  The bus devices: the abstract class \<open>BaseDevice\<close> (\<open>include/base_device.h\<close>), the stub devices
  VIRTIO, CLINT and PLIC, and the UART (\<open>include/uart.h\<close>). RAM has a theory of its own.

  The reference parameter \<open>uint64_t& data\<close> is a cell \<open>u64 option\<close> that goes in and comes back;
  \<open>None\<close> is a variable that was declared but not yet assigned.
  A device's template parameters \<open>base_addr_mem\<close> and \<open>size_mem\<close> are ordinary arguments.
\<close>

section \<open>The interface BaseDevice\<close>

text \<open>
  What the bus relies on: \<open>IsValidAddr\<close> is membership in the device's address window, and a
  load or store of a device never diverges and throws only its own access fault.
\<close>

locale base_device =
  fixes Load :: "u64 \<Rightarrow> int \<Rightarrow> u64 option \<Rightarrow> 's \<Rightarrow> (u64 option, 's) trapping"
    and Store :: "u64 \<Rightarrow> int \<Rightarrow> u64 \<Rightarrow> 's \<Rightarrow> (unit, 's) trapping"
    and GetBaseAddr :: u64
    and GetSize :: u64
    and IsValidAddr :: "u64 \<Rightarrow> bool"
  assumes no_wrap: "unat GetBaseAddr + unat GetSize < 2 ^ 64"
    and window: "IsValidAddr addr \<longleftrightarrow> GetBaseAddr \<le> addr \<and> addr < GetBaseAddr + GetSize"
    and load_throws: "Load addr n d s = Throw e s' \<Longrightarrow> e = LoadAccessFault \<and> s' = s"
    and store_throws: "Store addr n v s = Throw e s' \<Longrightarrow> e = StoreAMOAccessFault \<and> s' = s"
    and load_returns: "Load addr n d s \<noteq> Diverge"
    and store_returns: "Store addr n v s \<noteq> Diverge"
begin

lemma window_nat:
  "IsValidAddr addr \<longleftrightarrow> unat GetBaseAddr \<le> unat addr \<and> unat addr < unat GetBaseAddr + unat GetSize"
proof -
  have "unat (GetBaseAddr + GetSize) = unat GetBaseAddr + unat GetSize"
    using no_wrap by (simp add: unat_word_ariths)
  then show ?thesis
    by (simp add: window word_le_nat_alt word_less_nat_alt)
qed

lemma index_less: "IsValidAddr addr \<Longrightarrow> unat (addr - GetBaseAddr) < unat GetSize"
  by (auto simp: window_nat unat_sub_if')

lemma base_valid: "0 < GetSize \<Longrightarrow> IsValidAddr GetBaseAddr"
  by (simp add: window_nat word_less_nat_alt)

lemma disjoint_windows:
  assumes "unat GetBaseAddr + unat GetSize \<le> unat b \<or> unat b + unat s \<le> unat GetBaseAddr"
    and "IsValidAddr addr"
  shows "\<not> (unat b \<le> unat addr \<and> unat addr < unat b + unat s)"
  using assms by (auto simp: window_nat)

lemma load_outcome:
  obtains (ret) d' s' where "Load addr n d s = Ret d' s'"
    | (fault) "Load addr n d s = Throw LoadAccessFault s"
    | (undef) u where "Load addr n d s = Undef u"
  using load_throws load_returns by (cases "Load addr n d s") auto

lemma store_outcome:
  obtains (ret) s' where "Store addr n v s = Ret () s'"
    | (fault) "Store addr n v s = Throw StoreAMOAccessFault s"
    | (undef) u where "Store addr n v s = Undef u"
  using store_throws store_returns by (cases "Store addr n v s") auto

end

text \<open>\<open>IsValidAddr\<close>, the same one-liner in every device class.\<close>

definition valid_addr :: "u64 \<Rightarrow> u64 \<Rightarrow> u64 \<Rightarrow> bool" where
  "valid_addr base_addr sz addr \<longleftrightarrow> addr \<ge> base_addr \<and> addr < base_addr + sz"

section \<open>Stub devices\<close>

text \<open>
  VIRTIO, CLINT and PLIC have no state. Their \<open>Load\<close> has an empty body: it leaves the caller's
  variable as it was, uninitialised if the caller did not initialise it. Their \<open>Store\<close> does nothing.
\<close>

definition virtio_Load :: "u64 \<Rightarrow> int \<Rightarrow> u64 option \<Rightarrow> unit \<Rightarrow> (u64 option, unit) trapping" where
  "virtio_Load addr sz data dev = Ret data dev"

definition virtio_Store :: "u64 \<Rightarrow> int \<Rightarrow> u64 \<Rightarrow> unit \<Rightarrow> (unit, unit) trapping" where
  "virtio_Store addr sz data dev = Ret () dev"

definition clint_Load :: "u64 \<Rightarrow> int \<Rightarrow> u64 option \<Rightarrow> unit \<Rightarrow> (u64 option, unit) trapping" where
  "clint_Load addr sz data dev = Ret data dev"

definition clint_Store :: "u64 \<Rightarrow> int \<Rightarrow> u64 \<Rightarrow> unit \<Rightarrow> (unit, unit) trapping" where
  "clint_Store addr sz data dev = Ret () dev"

definition plic_Load :: "u64 \<Rightarrow> int \<Rightarrow> u64 option \<Rightarrow> unit \<Rightarrow> (u64 option, unit) trapping" where
  "plic_Load addr sz data dev = Ret data dev"

definition plic_Store :: "u64 \<Rightarrow> int \<Rightarrow> u64 \<Rightarrow> unit \<Rightarrow> (unit, unit) trapping" where
  "plic_Store addr sz data dev = Ret () dev"

lemmas stub_defs = virtio_Load_def virtio_Store_def clint_Load_def clint_Store_def
  plic_Load_def plic_Store_def

interpretation virtio_dev: base_device virtio_Load virtio_Store VIRTIO_BASE VIRTIO_SIZE
    "valid_addr VIRTIO_BASE VIRTIO_SIZE"
  by unfold_locales (simp_all add: stub_defs valid_addr_def config_defs)

interpretation clint_dev: base_device clint_Load clint_Store CLINT_BASE CLINT_SIZE
    "valid_addr CLINT_BASE CLINT_SIZE"
  by unfold_locales (simp_all add: stub_defs valid_addr_def config_defs)

interpretation plic_dev: base_device plic_Load plic_Store PLIC_BASE PLIC_SIZE
    "valid_addr PLIC_BASE PLIC_SIZE"
  by unfold_locales (simp_all add: stub_defs valid_addr_def config_defs)

section \<open>UART\<close>

definition rhr :: u64 where "rhr = UART_BASE + 0x0"
definition thr :: u64 where "thr = UART_BASE + 0x0"
definition lsr :: u64 where "lsr = UART_BASE + 0x5"

definition lsr_rx_ready :: u8 where "lsr_rx_ready = push_bit 0 1"
definition lsr_tx_idle :: u8 where "lsr_tx_idle = push_bit 5 1"

text \<open>
  The constructor is defaulted, so the 128 characters of \<open>buffer\<close> start uninitialised
  (\<open>None\<close>). The two \<open>std::thread\<close> members are never started and are not modelled.
\<close>

record uart =
  buffer :: "nat \<Rightarrow> u8 option"

definition uart_init :: uart where
  "uart_init = \<lparr>buffer = (\<lambda>_. None)\<rparr>"

definition uart_buffer_size :: nat where
  "uart_buffer_size = 128"

text \<open>\<open>buffer[index] = f(buffer[index])\<close> for an index inside the array.\<close>

definition uart_modify :: "nat \<Rightarrow> (u8 \<Rightarrow> u8) \<Rightarrow> uart \<Rightarrow> (unit, uart) trapping" where
  "uart_modify index f dev =
     obind (read_cell (buffer dev index) dev)
       (\<lambda>b dev. Ret () (dev\<lparr>buffer := (buffer dev)(index := Some (f b))\<rparr>))"

text \<open>
  \<open>UART::Load\<close>. The index is \<open>base_addr - addr\<close> and the \<open>memcpy\<close> copies from
  \<open>data\<close> into the buffer, after \<open>data\<close> was set to 0: both as the source has them. Past the
  base address the index wraps to nearly two to the 64, outside the array.
\<close>

definition uart_Load :: "u64 \<Rightarrow> u64 \<Rightarrow> int \<Rightarrow> u64 option \<Rightarrow> uart \<Rightarrow> (u64 option, uart) trapping" where
  "uart_Load base_addr addr sz data dev =
     (if sz \<noteq> 1 then Throw LoadAccessFault dev
      else
        obind
          (if addr = rhr
           then uart_modify (unat (lsr - UART_BASE)) (\<lambda>b. b AND NOT lsr_rx_ready) dev
           else Ret () dev)
          (\<lambda>_ dev.
             let index = base_addr - addr;
                 data = (0 :: u64)
             in if unat index < uart_buffer_size
                then Ret (Some data) (dev\<lparr>buffer := (buffer dev)(unat index := Some (ucast data))\<rparr>)
                else Undef Out_Of_Bounds))"

definition uart_Store :: "u64 \<Rightarrow> int \<Rightarrow> u64 \<Rightarrow> uart \<Rightarrow> (unit, uart) trapping" where
  "uart_Store addr sz data dev =
     (if sz \<noteq> 1 then Throw StoreAMOAccessFault dev
      else if addr = thr
      then uart_modify (unat (lsr - UART_BASE)) (\<lambda>b. b OR lsr_tx_idle) dev
      else Ret () dev)"

lemma uart_modify_not_Throw [simp]: "uart_modify i f dev \<noteq> Throw e t"
  by (cases "buffer dev i") (simp_all add: uart_modify_def)

lemma uart_modify_not_Diverge [simp]: "uart_modify i f dev \<noteq> Diverge"
  by (cases "buffer dev i") (simp_all add: uart_modify_def)

lemma uart_Load_throws:
  "uart_Load base addr n d dev = Throw e t \<Longrightarrow> e = LoadAccessFault \<and> t = dev"
  by (auto simp: uart_Load_def obind_Throw_iff Let_def split: if_splits)

lemma uart_Load_not_Diverge: "uart_Load base addr n d dev \<noteq> Diverge"
  by (cases "uart_modify (unat (lsr - UART_BASE)) (\<lambda>b. b AND NOT lsr_rx_ready) dev")
    (auto simp: uart_Load_def Let_def)

interpretation uart_dev: base_device "uart_Load UART_BASE" uart_Store UART_BASE UART_SIZE
    "valid_addr UART_BASE UART_SIZE"
  by unfold_locales
    (auto simp: valid_addr_def config_defs uart_Store_def uart_Load_not_Diverge
      dest: uart_Load_throws split: if_splits)

text \<open>A one-byte load from the first register of an initialised UART.\<close>

lemma uart_Load_base:
  assumes "buffer dev 5 = Some b"
  shows "uart_Load UART_BASE UART_BASE 1 d dev =
    Ret (Some 0) (dev\<lparr>buffer := (buffer dev)(5 := Some (b AND NOT 1), 0 := Some 0)\<rparr>)"
  using assms
  by (simp add: uart_Load_def rhr_def lsr_def uart_modify_def lsr_rx_ready_def
      uart_buffer_size_def Let_def)

text \<open>Every other register of the UART window indexes the buffer outside its bounds.\<close>

lemma uart_Load_past_base:
  assumes "valid_addr UART_BASE UART_SIZE addr" and "addr \<noteq> UART_BASE"
  shows "uart_Load UART_BASE addr 1 d dev = Undef Out_Of_Bounds"
proof -
  have "unat addr \<noteq> unat UART_BASE"
    using assms(2) unsigned_word_eqI by blast
  with assms(1) uart_dev.window_nat [of addr]
  have "unat UART_BASE < unat addr" "unat addr < unat UART_BASE + 4096"
    by (auto simp: UART_SIZE_def)
  then have "\<not> unat (UART_BASE - addr) < 128"
    by (auto simp: unat_sub_if' UART_BASE_def)
  with assms show ?thesis
    by (simp add: uart_Load_def rhr_def uart_buffer_size_def Let_def)
qed

end
