(* ===== verification/Ram.thy ===== *)
theory Ram
  imports Device
begin

text \<open>
  \<open>include/ram.h\<close>: the RAM device. The array \<open>std::array<uint8_t, size_mem>\<close> is a function from
  indexes to bytes together with the bound \<open>size_mem\<close>; every access checks the bound and an
  access outside it is \<open>Undef Out_Of_Bounds\<close> (the code has no such check: \<open>IsValidAddr\<close> looks at
  the first byte only). \<open>std::memcpy\<close> between an integer and the array is little-endian, as on
  the hosts the program is built for.
\<close>

type_synonym ram = "nat \<Rightarrow> u8"

section \<open>memcpy between integers and bytes\<close>

primrec read_bytes :: "ram \<Rightarrow> nat \<Rightarrow> nat \<Rightarrow> u64" where
  "read_bytes m i 0 = 0"
| "read_bytes m i (Suc n) = ucast (m i) OR push_bit 8 (read_bytes m (Suc i) n)"

primrec write_bytes :: "ram \<Rightarrow> nat \<Rightarrow> nat \<Rightarrow> u64 \<Rightarrow> ram" where
  "write_bytes m i 0 v = m"
| "write_bytes m i (Suc n) v = (write_bytes m (Suc i) n (drop_bit 8 v))(i := ucast v)"

text \<open>For evaluation at a literal size.\<close>

lemma read_bytes_numeral:
  "read_bytes m i (numeral k) = ucast (m i) OR push_bit 8 (read_bytes m (Suc i) (pred_numeral k))"
  by (simp add: numeral_eq_Suc)

lemma write_bytes_numeral:
  "write_bytes m i (numeral k) v = (write_bytes m (Suc i) (pred_numeral k) (drop_bit 8 v))(i := ucast v)"
  by (simp add: numeral_eq_Suc)

lemmas bytes_eval = read_bytes_numeral write_bytes_numeral

text \<open>The sizes of the \<open>switch\<close>.\<close>

definition access_size :: "int \<Rightarrow> bool" where
  "access_size n \<longleftrightarrow> n = 1 \<or> n = 2 \<or> n = 4 \<or> n = 8"

section \<open>The device\<close>

definition ram_init :: "u64 \<Rightarrow> u8 list \<Rightarrow> 's \<Rightarrow> (ram, 's) trapping" where
  "ram_init size_mem binary s =
     (if length binary \<le> unat size_mem
      then Ret (\<lambda>i. if i < length binary then binary ! i else 0) s
      else Undef Out_Of_Bounds)"

definition ram_Load ::
    "u64 \<Rightarrow> u64 \<Rightarrow> u64 \<Rightarrow> int \<Rightarrow> u64 option \<Rightarrow> ram \<Rightarrow> (u64 option, ram) trapping" where
  "ram_Load base_addr size_mem addr n data mem =
     (let index = unat (addr - base_addr)
      in if access_size n
         then if index + nat n \<le> unat size_mem
              then Ret (Some (read_bytes mem index (nat n))) mem
              else Undef Out_Of_Bounds
         else Throw LoadAccessFault mem)"

definition ram_Store :: "u64 \<Rightarrow> u64 \<Rightarrow> u64 \<Rightarrow> int \<Rightarrow> u64 \<Rightarrow> ram \<Rightarrow> (unit, ram) trapping" where
  "ram_Store base_addr size_mem addr n data mem =
     (let index = unat (addr - base_addr)
      in if access_size n
         then if index + nat n \<le> unat size_mem
              then Ret () (write_bytes mem index (nat n) data)
              else Undef Out_Of_Bounds
         else Throw StoreAMOAccessFault mem)"

interpretation ram_dev: base_device "ram_Load KERNBASE MEMORY_SIZE" "ram_Store KERNBASE MEMORY_SIZE"
    KERNBASE MEMORY_SIZE "valid_addr KERNBASE MEMORY_SIZE"
  by unfold_locales
    (auto simp: valid_addr_def config_defs ram_Load_def ram_Store_def Let_def split: if_splits)

section \<open>Bytes of a word\<close>

lemma bit_read_bytes:
  "bit (read_bytes m i n) k \<longleftrightarrow> k < 64 \<and> k div 8 < n \<and> bit (m (i + k div 8)) (k mod 8)"
proof (induction n arbitrary: i k)
  case 0
  show ?case by simp
next
  case (Suc n)
  show ?case
  proof (cases "k < 8")
    case True
    then show ?thesis
      by (auto simp: bit_simps Suc.IH)
  next
    case False
    then obtain k' where "k = k' + 8"
      by (metis le_add_diff_inverse2 not_less)
    moreover have "(k' + 8) div 8 = Suc (k' div 8)"
      by simp
    ultimately show ?thesis
      by (auto simp: bit_simps Suc.IH dest: bit_imp_le_length)
  qed
qed

lemma write_bytes_outside: "j < i \<or> i + n \<le> j \<Longrightarrow> write_bytes m i n v j = m j"
  by (induction n arbitrary: i v) auto

lemma write_bytes_inside: "k < n \<Longrightarrow> write_bytes m i n v (i + k) = ucast (drop_bit (8 * k) v)"
proof (induction n arbitrary: i k v)
  case 0
  then show ?case by simp
next
  case (Suc n)
  show ?case
  proof (cases k)
    case 0
    then show ?thesis by simp
  next
    case (Suc k')
    then show ?thesis
      using Suc.IH [of k' "Suc i" "drop_bit 8 v"] Suc.prems by (simp add: add.commute)
  qed
qed

lemma read_write_bytes: "n \<le> 8 \<Longrightarrow> read_bytes (write_bytes m i n v) i n = take_bit (8 * n) v"
  by (rule bit_word_eqI)
    (auto simp: bit_read_bytes write_bytes_inside bit_simps less_mult_imp_div_less)

lemma read_bytes_cong: "(\<And>k. k < n \<Longrightarrow> m (i + k) = m' (i + k)) \<Longrightarrow> read_bytes m i n = read_bytes m' i n"
  by (rule bit_word_eqI) (auto simp: bit_read_bytes)

lemma read_write_bytes_disjoint:
  "i + n \<le> j \<or> j + k \<le> i \<Longrightarrow> read_bytes (write_bytes m i n v) j k = read_bytes m j k"
  by (rule read_bytes_cong) (auto simp: write_bytes_outside)

lemma write_read_bytes: "n \<le> 8 \<Longrightarrow> write_bytes m i n (read_bytes m i n) = m"
proof (rule ext)
  fix j
  assume n: "n \<le> 8"
  show "write_bytes m i n (read_bytes m i n) j = m j"
  proof (cases "i \<le> j \<and> j < i + n")
    case False
    then show ?thesis by (simp add: write_bytes_outside not_le not_less disj_commute)
  next
    case True
    then obtain k where k: "j = i + k" "k < n"
      by (metis le_Suc_ex nat_add_left_cancel_less)
    with n show ?thesis
      by (auto simp: write_bytes_inside bit_read_bytes bit_simps intro!: bit_word_eqI)
  qed
qed

lemma read_bytes_less: "n < 8 \<Longrightarrow> unat (read_bytes m i n) < 2 ^ (8 * n)"
proof -
  assume "n < 8"
  have "take_bit (8 * n) (read_bytes m i n) = read_bytes m i n"
    by (rule bit_word_eqI) (auto simp: bit_read_bytes bit_simps)
  then show ?thesis
    by (metis take_bit_nat_less_exp unsigned_take_bit_eq)
qed

section \<open>Loads after stores\<close>

lemma access_size_le: "access_size n \<Longrightarrow> nat n \<le> 8"
  by (auto simp: access_size_def)

lemma ram_Store_Ret_iff:
  "ram_Store base sz addr n v m = Ret u m' \<longleftrightarrow>
     access_size n \<and> unat (addr - base) + nat n \<le> unat sz \<and>
     m' = write_bytes m (unat (addr - base)) (nat n) v"
  by (auto simp: ram_Store_def Let_def)

lemma ram_Load_Ret_iff:
  "ram_Load base sz addr n d m = Ret r m' \<longleftrightarrow>
     access_size n \<and> unat (addr - base) + nat n \<le> unat sz \<and>
     r = Some (read_bytes m (unat (addr - base)) (nat n)) \<and> m' = m"
  by (auto simp: ram_Load_def Let_def)

text \<open>
  What a store of a byte, half-word, word or double-word puts into the RAM is what a load of
  the same size at the same address reads back: the low \<open>8 n\<close> bits of the stored value,
  zero-extended. Whatever the base and size of the RAM are, and whatever the caller's variable held.
\<close>

theorem ram_load_after_store:
  assumes "ram_Store base sz addr n v m = Ret () m'"
  shows "ram_Load base sz addr n d m' = Ret (Some (take_bit (8 * nat n) v)) m'"
  using assms by (auto simp: ram_Store_Ret_iff ram_Load_Ret_iff read_write_bytes access_size_le)

lemma ram_load_after_store_witness:
  "ram_Load 0x100 8 0x102 4 None (write_bytes (\<lambda>_. 0) 2 4 0x1122334455667788) =
     Ret (Some 0x55667788) (write_bytes (\<lambda>_. 0) 2 4 0x1122334455667788)"
proof -
  have "ram_Store 0x100 8 0x102 4 0x1122334455667788 (\<lambda>_. 0) =
      Ret () (write_bytes (\<lambda>_. 0) 2 4 0x1122334455667788)"
    by (simp add: ram_Store_Ret_iff access_size_def)
  from ram_load_after_store [OF this, of None] show ?thesis by simp
qed

end
