(* ===== verification/Mmu.thy ===== *)
theory Mmu
  imports Ram
begin

text \<open>
  \<open>include/mmu.h\<close> and \<open>source/mmu.cpp\<close>: the MMU, which is also the bus. The record holds the
  members; \<open>root_page_table\<close> is not set by the constructor, so it starts as \<open>None\<close>.

  \<open>MMU::Load\<close> calls \<open>MMU::Translate\<close>, and \<open>MMU::Translate\<close> reads page-table entries through
  \<open>MMU::Load\<close> again. The recursion is modelled with a call depth: \<open>Load_n k\<close> may nest \<open>k\<close>
  calls of \<open>MMU::Load\<close> and is \<open>Diverge\<close> beyond that. \<open>Load_n_depth\<close> shows that every
  depth from 1 on gives the same outcome, so the depth \<open>call_depth\<close> used by the CPU loses nothing.
\<close>

section \<open>Data\<close>

datatype PagingMode = Bare | Sv32 | Sv39 | Sv48 | Sv57

datatype PrivilegeMode = USER | SUPERVISOR | MACHINE

record Sv39PageTableEntry =
  pte_v :: "1 word"
  pte_r :: "1 word"
  pte_w :: "1 word"
  pte_x :: "1 word"
  pte_u :: "1 word"
  pte_g :: "1 word"
  pte_a :: "1 word"
  pte_d :: "1 word"
  pte_rsw :: "2 word"
  pte_ppn0 :: "9 word"
  pte_ppn1 :: "9 word"
  pte_ppn2 :: "26 word"
  pte_reserved :: "10 word"

record mmu =
  paging_mode :: PagingMode
  privilege_mode :: PrivilegeMode
  page_size :: int
  root_page_table :: "u64 option"
  ram :: ram
  uart :: uart
  virtio :: unit
  clint :: unit
  plic :: unit

text \<open>The constructor: the initialiser list over a RAM that holds the binary.\<close>

definition mmu_new :: "ram \<Rightarrow> mmu" where
  "mmu_new mem =
     \<lparr>paging_mode = Bare, privilege_mode = MACHINE, page_size = PAGE_SIZE, root_page_table = None,
      ram = mem, uart = uart_init, virtio = (), clint = (), plic = ()\<rparr>"

definition mmu_init :: "u8 list \<Rightarrow> (mmu, unit) trapping" where
  "mmu_init binary = obind (ram_init MEMORY_SIZE binary ()) (\<lambda>mem s. Ret (mmu_new mem) s)"

definition SetPagingMode :: "PagingMode \<Rightarrow> mmu \<Rightarrow> mmu" where
  "SetPagingMode mode m = m\<lparr>paging_mode := mode\<rparr>"

definition SetRootPageTable :: "u64 \<Rightarrow> mmu \<Rightarrow> mmu" where
  "SetRootPageTable page_table m = m\<lparr>root_page_table := Some page_table\<rparr>"

definition SetPrivilegeMode :: "PrivilegeMode \<Rightarrow> mmu \<Rightarrow> mmu" where
  "SetPrivilegeMode mode m = m\<lparr>privilege_mode := mode\<rparr>"

section \<open>The bus\<close>

text \<open>
  The part of \<open>MMU::Load\<close> and \<open>MMU::Store\<close> after the translation: the first device whose window
  holds the physical address serves the access. The second test of the VIRTIO window is in the source.
\<close>

definition bus_Load :: "u64 \<Rightarrow> int \<Rightarrow> u64 option \<Rightarrow> mmu \<Rightarrow> (u64 option, mmu) trapping" where
  "bus_Load pa n data m =
     (if valid_addr KERNBASE MEMORY_SIZE pa
      then with_state (\<lambda>r. m\<lparr>ram := r\<rparr>) (ram_Load KERNBASE MEMORY_SIZE pa n data (ram m))
      else if valid_addr UART_BASE UART_SIZE pa
      then with_state (\<lambda>u. m\<lparr>uart := u\<rparr>) (uart_Load UART_BASE pa n data (uart m))
      else if valid_addr VIRTIO_BASE VIRTIO_SIZE pa
      then with_state (\<lambda>v. m\<lparr>virtio := v\<rparr>) (virtio_Load pa n data (virtio m))
      else if valid_addr CLINT_BASE CLINT_SIZE pa
      then with_state (\<lambda>c. m\<lparr>clint := c\<rparr>) (clint_Load pa n data (clint m))
      else if valid_addr PLIC_BASE PLIC_SIZE pa
      then with_state (\<lambda>p. m\<lparr>plic := p\<rparr>) (plic_Load pa n data (plic m))
      else if valid_addr VIRTIO_BASE VIRTIO_SIZE pa
      then with_state (\<lambda>v. m\<lparr>virtio := v\<rparr>) (virtio_Load pa n data (virtio m))
      else Throw LoadAccessFault m)"

definition bus_Store :: "u64 \<Rightarrow> int \<Rightarrow> u64 \<Rightarrow> mmu \<Rightarrow> (unit, mmu) trapping" where
  "bus_Store pa n data m =
     (if valid_addr KERNBASE MEMORY_SIZE pa
      then with_state (\<lambda>r. m\<lparr>ram := r\<rparr>) (ram_Store KERNBASE MEMORY_SIZE pa n data (ram m))
      else if valid_addr UART_BASE UART_SIZE pa
      then with_state (\<lambda>u. m\<lparr>uart := u\<rparr>) (uart_Store pa n data (uart m))
      else if valid_addr VIRTIO_BASE VIRTIO_SIZE pa
      then with_state (\<lambda>v. m\<lparr>virtio := v\<rparr>) (virtio_Store pa n data (virtio m))
      else if valid_addr CLINT_BASE CLINT_SIZE pa
      then with_state (\<lambda>c. m\<lparr>clint := c\<rparr>) (clint_Store pa n data (clint m))
      else if valid_addr PLIC_BASE PLIC_SIZE pa
      then with_state (\<lambda>p. m\<lparr>plic := p\<rparr>) (plic_Store pa n data (plic m))
      else if valid_addr VIRTIO_BASE VIRTIO_SIZE pa
      then with_state (\<lambda>v. m\<lparr>virtio := v\<rparr>) (virtio_Store pa n data (virtio m))
      else Throw StoreAMOAccessFault m)"

section \<open>Address translation\<close>

definition ParsePageTableEntry :: "u64 \<Rightarrow> Sv39PageTableEntry" where
  "ParsePageTableEntry pte =
     \<lparr>pte_v = ucast (drop_bit 0 pte AND 0x1),
      pte_r = ucast (drop_bit 1 pte AND 0x1),
      pte_w = ucast (drop_bit 2 pte AND 0x1),
      pte_x = ucast (drop_bit 3 pte AND 0x1),
      pte_u = ucast (drop_bit 4 pte AND 0x1),
      pte_g = ucast (drop_bit 5 pte AND 0x1),
      pte_a = ucast (drop_bit 6 pte AND 0x1),
      pte_d = ucast (drop_bit 7 pte AND 0x1),
      pte_rsw = ucast (drop_bit 8 pte AND 0x3),
      pte_ppn0 = ucast (drop_bit 10 pte AND 0x1FF),
      pte_ppn1 = ucast (drop_bit 19 pte AND 0x1FF),
      pte_ppn2 = ucast (drop_bit 28 pte AND 0x3FFFFFF),
      pte_reserved = ucast (drop_bit 54 pte AND 0x3FF)\<rparr>"

text \<open>The three virtual page numbers and the page offset of an address.\<close>

definition vpns :: "u64 \<Rightarrow> u64 list" where
  "vpns virtual_addr =
     [drop_bit 12 virtual_addr AND 0x1FF,
      drop_bit 21 virtual_addr AND 0x1FF,
      drop_bit 30 virtual_addr AND 0x1FF]"

definition page_offset :: "u64 \<Rightarrow> u64" where
  "page_offset virtual_addr = virtual_addr AND 0xFFF"

text \<open>
  The assignment to \<open>a\<close> at the end of the loop body. The bit-fields promote to \<open>int\<close>, so
  the shifts and the product are 32-bit; \<open>*\<close> binds tighter than \<open>|\<close>; the product overflows
  (undefined) outside the \<open>int\<close> range; the result is sign-extended.
\<close>

definition next_table :: "int \<Rightarrow> Sv39PageTableEntry \<Rightarrow> 's \<Rightarrow> (u64, 's) trapping" where
  "next_table page_sz pte s =
     (let prod = sint (push_bit 12 (ucast (pte_ppn0 pte)) :: u32) * page_sz
      in if - (2 ^ 31) \<le> prod \<and> prod < 2 ^ 31
         then Ret (int_to_u64 (push_bit 30 (ucast (pte_ppn2 pte)) OR push_bit 21 (ucast (pte_ppn1 pte))
                     OR word_of_int prod)) s
         else Undef Signed_Overflow)"

text \<open>The \<open>switch(i)\<close> after the loop: the physical address of a leaf found at level \<open>i\<close>.\<close>

definition leaf_address :: "nat \<Rightarrow> Sv39PageTableEntry \<Rightarrow> u64 list \<Rightarrow> u64 \<Rightarrow> 's \<Rightarrow> (u64, 's) trapping" where
  "leaf_address i pte vpn offset s =
     (if i = 0
      then Ret (int_to_u64 (push_bit 12 (ucast (pte_ppn0 pte))) OR offset) s
      else if i = 1
      then Ret (int_to_u64 (push_bit 30 (ucast (pte_ppn2 pte)) OR push_bit 21 (ucast (pte_ppn1 pte)))
             OR push_bit 12 (vpn ! 0) OR offset) s
      else if i = 2
      then Ret (int_to_u64 (push_bit 30 (ucast (pte_ppn2 pte)))
             OR push_bit 21 (vpn ! 1) OR push_bit 12 (vpn ! 0) OR offset) s
      else Throw InstructionPageFault s)"

type_synonym 's loader = "u64 \<Rightarrow> int \<Rightarrow> u64 option \<Rightarrow> 's \<Rightarrow> (u64 option, 's) trapping"

text \<open>
  One round of the \<open>for\<close> loop: load and parse the entry, fault on an invalid one, stop at a leaf,
  else go on with \<open>descend\<close>.
\<close>

definition walk_level ::
    "'s loader \<Rightarrow> u64 list \<Rightarrow> nat \<Rightarrow> u64 \<Rightarrow> u64 \<Rightarrow> 's \<Rightarrow>
     (Sv39PageTableEntry \<Rightarrow> u64 \<Rightarrow> 's \<Rightarrow> (nat \<times> Sv39PageTableEntry, 's) trapping) \<Rightarrow>
     (nat \<times> Sv39PageTableEntry, 's) trapping" where
  "walk_level load vpn i a pte_raw s descend =
     obind (load (a + vpn ! i * 8) 8 (Some pte_raw) s) (\<lambda>cell s.
     obind (read_cell cell s) (\<lambda>pte_raw s.
       let pte = ParsePageTableEntry pte_raw
       in if pte_v pte = 0 \<or> (pte_r pte = 0 \<and> pte_w pte = 1)
          then Throw InstructionPageFault s
          else if pte_r pte = 1 \<or> pte_x pte = 1
          then Ret (i, pte) s
          else descend pte pte_raw s))"

primrec walk ::
    "'s loader \<Rightarrow> u64 list \<Rightarrow> int \<Rightarrow> nat \<Rightarrow> u64 \<Rightarrow> u64 \<Rightarrow> 's \<Rightarrow>
     (nat \<times> Sv39PageTableEntry, 's) trapping" where
  "walk load vpn page_sz 0 a pte_raw s =
     walk_level load vpn 0 a pte_raw s (\<lambda>pte pte_raw s. Throw InstructionPageFault s)"
| "walk load vpn page_sz (Suc i) a pte_raw s =
     walk_level load vpn (Suc i) a pte_raw s (\<lambda>pte pte_raw s.
       obind (next_table page_sz pte s) (\<lambda>a s. walk load vpn page_sz i a pte_raw s))"

text \<open>
  \<open>MMU::Translate\<close> over the function that loads the page-table entries. All three privilege
  modes fall through to the same code.
\<close>

definition translate_with :: "mmu loader \<Rightarrow> u64 \<Rightarrow> mmu \<Rightarrow> (u64, mmu) trapping" where
  "translate_with load virtual_addr m =
     (if paging_mode m = Bare then Ret virtual_addr m
      else if paging_mode m \<noteq> Sv39 then Throw InstructionPageFault m
      else
        obind (read_cell (root_page_table m) m) (\<lambda>root m.
        obind (walk load (vpns virtual_addr) (page_size m) 2 (root * word_of_int (page_size m)) 0 m)
          (\<lambda>(i, pte) m. leaf_address i pte (vpns virtual_addr) (page_offset virtual_addr) m)))"

primrec Load_n :: "nat \<Rightarrow> mmu loader" where
  "Load_n 0 = (\<lambda>addr n data m. Diverge)"
| "Load_n (Suc k) = (\<lambda>addr n data m.
     obind (translate_with (Load_n k) addr m) (\<lambda>pa m. bus_Load pa n data m))"

definition call_depth :: nat where
  "call_depth = 1024"

definition MMU_Load :: "mmu loader" where
  "MMU_Load = Load_n call_depth"

definition Translate :: "u64 \<Rightarrow> mmu \<Rightarrow> (u64, mmu) trapping" where
  "Translate virtual_addr m = translate_with MMU_Load virtual_addr m"

definition MMU_Store :: "u64 \<Rightarrow> int \<Rightarrow> u64 \<Rightarrow> mmu \<Rightarrow> (unit, mmu) trapping" where
  "MMU_Store addr n data m = obind (Translate addr m) (\<lambda>pa m. bus_Store pa n data m)"

section \<open>What the recursion does\<close>

lemma translate_with_Bare [simp]: "paging_mode m = Bare \<Longrightarrow> translate_with load va m = Ret va m"
  by (simp add: translate_with_def)

lemma translate_with_other:
  "paging_mode m \<noteq> Bare \<Longrightarrow> paging_mode m \<noteq> Sv39 \<Longrightarrow> translate_with load va m = Throw InstructionPageFault m"
  by (simp add: translate_with_def)

lemma walk_load_diverges:
  assumes "\<And>addr d. load addr 8 d s = Diverge"
  shows "walk load vpn ps i a raw s = Diverge"
  by (cases i) (simp_all add: walk_level_def assms)

text \<open>
  With paging on, the first thing a load does is a load. Whatever depth of calls is allowed, the
  page walk needs one more.
\<close>

lemma translate_with_Sv39_diverges:
  assumes "paging_mode m = Sv39" "root_page_table m = Some root"
    and "\<And>addr d. load addr 8 d m = Diverge"
  shows "translate_with load va m = Diverge"
  using assms by (simp add: translate_with_def walk_load_diverges)

lemma Load_n_Sv39:
  assumes "paging_mode m = Sv39" "root_page_table m = Some root"
  shows "Load_n k addr n d m = Diverge"
proof (induction k arbitrary: addr n d)
  case (Suc k)
  then show ?case
    by (simp add: translate_with_Sv39_diverges [OF assms])
qed simp

lemma Load_n_depth: "Load_n (Suc k) addr n d m = Load_n 1 addr n d m"
proof (cases "paging_mode m = Sv39")
  case False
  then show ?thesis
    by (cases "paging_mode m = Bare") (simp_all add: translate_with_other)
next
  case True
  then show ?thesis
  proof (cases "root_page_table m")
    case None
    with True show ?thesis by (simp add: translate_with_def)
  next
    case (Some root)
    show ?thesis by (simp only: Load_n_Sv39 [OF True Some])
  qed
qed

lemma MMU_Load_depth: "1 \<le> k \<Longrightarrow> Load_n k = MMU_Load"
proof (intro ext)
  fix addr n d m
  assume "1 \<le> k"
  then obtain k' where "k = Suc k'" by (cases k) auto
  then show "Load_n k addr n d m = MMU_Load addr n d m"
    using Load_n_depth [of k'] Load_n_depth [of 1023]
    by (simp add: MMU_Load_def call_depth_def eval_nat_numeral del: Load_n.simps)
qed

lemma MMU_Load_unfold:
  "MMU_Load addr n d m = obind (Translate addr m) (\<lambda>pa m. bus_Load pa n d m)"
proof -
  have "MMU_Load addr n d m = Load_n (Suc 1) addr n d m"
    by (subst MMU_Load_depth) simp_all
  also have "\<dots> = obind (translate_with (Load_n 1) addr m) (\<lambda>pa m. bus_Load pa n d m)"
    by (simp only: Load_n.simps)
  also have "Load_n 1 = MMU_Load"
    by (rule MMU_Load_depth) simp
  finally show ?thesis
    by (simp only: Translate_def)
qed

lemma Translate_Bare [simp]: "paging_mode m = Bare \<Longrightarrow> Translate va m = Ret va m"
  by (simp add: Translate_def)

lemma MMU_Load_Bare [simp]: "paging_mode m = Bare \<Longrightarrow> MMU_Load va n d m = bus_Load va n d m"
  by (simp add: MMU_Load_unfold)

lemma MMU_Store_Bare [simp]: "paging_mode m = Bare \<Longrightarrow> MMU_Store va n v m = bus_Store va n v m"
  by (simp add: MMU_Store_def)

lemma Translate_Sv39:
  assumes "paging_mode m = Sv39" "root_page_table m = Some root"
  shows "Translate va m = Diverge"
  by (simp add: Translate_def MMU_Load_def translate_with_Sv39_diverges [OF assms] Load_n_Sv39 [OF assms])

end
