(* ===== verification/Paging.thy ===== *)
theory Paging
  imports Mmu
begin

text \<open>
  The Sv39 page tables: the fields of an entry, the addresses that \<open>MMU::Translate\<close> computes from
  entries compared with those of the RISC-V privileged architecture (\<open>sv39_physical\<close>,
  \<open>sv39_table\<close>), and the outcome of a translation in every paging mode.
\<close>

section \<open>Masks as bit ranges\<close>

lemma mask_consts:
  "(0x1 :: u64) = mask 1" "(0x3 :: u64) = mask 2" "(0x1FF :: u64) = mask 9" "(0xFFF :: u64) = mask 12"
  "(0x3FFFFFF :: u64) = mask 26" "(0x3FF :: u64) = mask 10"
  by (simp_all add: mask_eq_exp_minus_1)

lemma bit_consts:
  "bit (0x3 :: u64) n \<longleftrightarrow> n < 2"
  "bit (0x1FF :: u64) n \<longleftrightarrow> n < 9"
  "bit (0xFFF :: u64) n \<longleftrightarrow> n < 12"
  "bit (0x3FFFFFF :: u64) n \<longleftrightarrow> n < 26"
  "bit (0x3FF :: u64) n \<longleftrightarrow> n < 10"
  by (auto simp: mask_consts bit_mask_iff)

section \<open>Entries\<close>

text \<open>The entry that the fields describe, as the hardware lays them out.\<close>

definition encode_pte :: "Sv39PageTableEntry \<Rightarrow> u64" where
  "encode_pte e =
     ucast (pte_v e) OR push_bit 1 (ucast (pte_r e)) OR push_bit 2 (ucast (pte_w e))
     OR push_bit 3 (ucast (pte_x e)) OR push_bit 4 (ucast (pte_u e)) OR push_bit 5 (ucast (pte_g e))
     OR push_bit 6 (ucast (pte_a e)) OR push_bit 7 (ucast (pte_d e)) OR push_bit 8 (ucast (pte_rsw e))
     OR push_bit 10 (ucast (pte_ppn0 e)) OR push_bit 19 (ucast (pte_ppn1 e))
     OR push_bit 28 (ucast (pte_ppn2 e)) OR push_bit 54 (ucast (pte_reserved e))"

text \<open>A field of width \<open>k\<close> at bit \<open>lo\<close>, taken out by shift and mask.\<close>

definition bit_field :: "nat \<Rightarrow> nat \<Rightarrow> u64 \<Rightarrow> 'a::len word" where
  "bit_field lo k w = ucast (drop_bit lo w AND mask k)"

lemma bit_bit_field:
  "k = LENGTH('a) \<Longrightarrow> bit (bit_field lo k w :: 'a::len word) n \<longleftrightarrow> n < k \<and> bit w (lo + n)"
  by (auto simp: bit_field_def bit_simps dest: bit_imp_le_length)

lemma bit_field_eqI:
  fixes x :: "'a::len word"
  assumes "k = LENGTH('a)" and "\<And>n. n < k \<Longrightarrow> bit w (lo + n) = bit x n"
  shows "bit_field lo k w = x"
  by (rule bit_word_eqI) (use assms in \<open>simp add: bit_bit_field\<close>)

lemma parse_fields:
  "ParsePageTableEntry w =
     \<lparr>pte_v = bit_field 0 1 w, pte_r = bit_field 1 1 w, pte_w = bit_field 2 1 w,
      pte_x = bit_field 3 1 w, pte_u = bit_field 4 1 w, pte_g = bit_field 5 1 w,
      pte_a = bit_field 6 1 w, pte_d = bit_field 7 1 w, pte_rsw = bit_field 8 2 w,
      pte_ppn0 = bit_field 10 9 w, pte_ppn1 = bit_field 19 9 w, pte_ppn2 = bit_field 28 26 w,
      pte_reserved = bit_field 54 10 w\<rparr>"
  unfolding ParsePageTableEntry_def bit_field_def mask_consts by simp

lemma bit_placed:
  "lo + LENGTH('a) \<le> 64 \<Longrightarrow>
     bit (push_bit lo (ucast (x :: 'a::len word)) :: u64) n \<longleftrightarrow> lo \<le> n \<and> n < lo + LENGTH('a) \<and> bit x (n - lo)"
  by (auto simp: bit_simps dest: bit_imp_le_length)

lemma pte_bit_cases:
  fixes n :: nat
  obtains "n = 0" | "n = 1" | "n = 2" | "n = 3" | "n = 4" | "n = 5" | "n = 6" | "n = 7"
    | "8 \<le> n \<and> n < 10" | "10 \<le> n \<and> n < 19" | "19 \<le> n \<and> n < 28" | "28 \<le> n \<and> n < 54" | "54 \<le> n"
  by linarith

lemma bit_encode_pte:
  "bit (encode_pte e) n \<longleftrightarrow>
     (if n = 0 then bit (pte_v e) 0
      else if n = 1 then bit (pte_r e) 0
      else if n = 2 then bit (pte_w e) 0
      else if n = 3 then bit (pte_x e) 0
      else if n = 4 then bit (pte_u e) 0
      else if n = 5 then bit (pte_g e) 0
      else if n = 6 then bit (pte_a e) 0
      else if n = 7 then bit (pte_d e) 0
      else if n < 10 then bit (pte_rsw e) (n - 8)
      else if n < 19 then bit (pte_ppn0 e) (n - 10)
      else if n < 28 then bit (pte_ppn1 e) (n - 19)
      else if n < 54 then bit (pte_ppn2 e) (n - 28)
      else bit (pte_reserved e) (n - 54))"
proof -
  have "encode_pte e =
     push_bit 0 (ucast (pte_v e)) OR push_bit 1 (ucast (pte_r e)) OR push_bit 2 (ucast (pte_w e))
     OR push_bit 3 (ucast (pte_x e)) OR push_bit 4 (ucast (pte_u e)) OR push_bit 5 (ucast (pte_g e))
     OR push_bit 6 (ucast (pte_a e)) OR push_bit 7 (ucast (pte_d e)) OR push_bit 8 (ucast (pte_rsw e))
     OR push_bit 10 (ucast (pte_ppn0 e)) OR push_bit 19 (ucast (pte_ppn1 e))
     OR push_bit 28 (ucast (pte_ppn2 e)) OR push_bit 54 (ucast (pte_reserved e))"
    by (simp only: encode_pte_def push_bit_0_id id_apply)
  then have "bit (encode_pte e) n \<longleftrightarrow>
      n < 1 \<and> bit (pte_v e) n \<or> 1 \<le> n \<and> n < 2 \<and> bit (pte_r e) (n - 1)
    \<or> 2 \<le> n \<and> n < 3 \<and> bit (pte_w e) (n - 2) \<or> 3 \<le> n \<and> n < 4 \<and> bit (pte_x e) (n - 3)
    \<or> 4 \<le> n \<and> n < 5 \<and> bit (pte_u e) (n - 4) \<or> 5 \<le> n \<and> n < 6 \<and> bit (pte_g e) (n - 5)
    \<or> 6 \<le> n \<and> n < 7 \<and> bit (pte_a e) (n - 6) \<or> 7 \<le> n \<and> n < 8 \<and> bit (pte_d e) (n - 7)
    \<or> 8 \<le> n \<and> n < 10 \<and> bit (pte_rsw e) (n - 8) \<or> 10 \<le> n \<and> n < 19 \<and> bit (pte_ppn0 e) (n - 10)
    \<or> 19 \<le> n \<and> n < 28 \<and> bit (pte_ppn1 e) (n - 19) \<or> 28 \<le> n \<and> n < 54 \<and> bit (pte_ppn2 e) (n - 28)
    \<or> 54 \<le> n \<and> n < 64 \<and> bit (pte_reserved e) (n - 54)"
    by (simp only: bit_or_iff disj_assoc) (simp add: bit_placed del: One_nat_def push_bit_0_id)
  moreover have "bit (pte_reserved e) (n - 54) \<Longrightarrow> n < 64"
    by (auto dest: bit_imp_le_length)
  ultimately show ?thesis
    by (cases n rule: pte_bit_cases) auto
qed

lemma parse_encode: "ParsePageTableEntry (encode_pte e) = e"
  by (cases e) (simp add: parse_fields, intro conjI; rule bit_field_eqI; simp add: bit_encode_pte)

lemma encode_parse: "encode_pte (ParsePageTableEntry w) = w"
  by (rule bit_word_eqI) (auto simp: bit_encode_pte parse_fields bit_bit_field)

section \<open>Addresses from entries\<close>

text \<open>The leaf addresses and the table addresses of the privileged architecture.\<close>

definition sv39_physical :: "nat \<Rightarrow> Sv39PageTableEntry \<Rightarrow> u64 \<Rightarrow> u64" where
  "sv39_physical i pte va =
     push_bit 30 (ucast (pte_ppn2 pte))
     OR (if i \<le> 1 then push_bit 21 (ucast (pte_ppn1 pte)) else push_bit 21 (take_bit 9 (drop_bit 21 va)))
     OR (if i = 0 then push_bit 12 (ucast (pte_ppn0 pte)) else push_bit 12 (take_bit 9 (drop_bit 12 va)))
     OR take_bit 12 va"

definition sv39_table :: "Sv39PageTableEntry \<Rightarrow> u64" where
  "sv39_table pte =
     push_bit 30 (ucast (pte_ppn2 pte)) OR push_bit 21 (ucast (pte_ppn1 pte))
     OR push_bit 12 (ucast (pte_ppn0 pte))"

lemma vpns_take_bit:
  "vpns va = [take_bit 9 (drop_bit 12 va), take_bit 9 (drop_bit 21 va), take_bit 9 (drop_bit 30 va)]"
  "page_offset va = take_bit 12 va"
  by (simp_all only: vpns_def page_offset_def mask_consts take_bit_eq_mask)

text \<open>The upper bits of a word vanish below a power of two.\<close>

lemma less_two_power_iff_bits: "unat w < 2 ^ k \<longleftrightarrow> (\<forall>n \<ge> k. \<not> bit w n)" for w :: "'a::len word"
proof
  assume "unat w < 2 ^ k"
  then have "take_bit k w = w"
    by (metis take_bit_nat_eq_self unsigned_take_bit_eq unsigned_word_eqI)
  then show "\<forall>n \<ge> k. \<not> bit w n"
    by (metis bit_take_bit_iff not_less)
next
  assume "\<forall>n \<ge> k. \<not> bit w n"
  then have "take_bit k w = w"
    by (intro bit_word_eqI) (simp add: bit_simps, meson not_less)
  then show "unat w < 2 ^ k"
    by (metis take_bit_nat_less_exp unsigned_take_bit_eq)
qed

lemma word_zero_iff_bits: "w = 0 \<longleftrightarrow> (\<forall>n. \<not> bit w n)" for w :: "'a::len word"
  by (auto intro: bit_word_eqI)

lemma bit_low: "bit (push_bit lo (take_bit 9 v)) n \<longleftrightarrow> lo \<le> n \<and> n < lo + 9 \<and> n < 64 \<and> bit v (n - lo)"
  for v :: u64
  by (auto simp: bit_simps)

lemma bit_int_field:
  fixes x :: "'a::len word"
  assumes "lo < 31"
  shows "bit (int_to_u64 (push_bit lo (ucast x))) n \<longleftrightarrow>
    n < 64 \<and> (if n < 32 then lo \<le> n \<and> bit x (n - lo) else bit x (31 - lo))"
  using assms by (auto simp: bit_int_to_u64 bit_simps)

text \<open>The sign-extended 32-bit shift of the third page number against the shift of its full width.\<close>

lemma ppn2_shift_iff:
  fixes x :: "26 word" and r :: u64
  assumes "\<And>n. bit r n \<Longrightarrow> n < 30"
  shows "int_to_u64 (push_bit 30 (ucast x)) OR r = push_bit 30 (ucast x) OR r \<longleftrightarrow> unat x < 2"
proof
  assume eq: "int_to_u64 (push_bit 30 (ucast x)) OR r = push_bit 30 (ucast x) OR r"
  have bits: "bit (int_to_u64 (push_bit 30 (ucast x))) n = bit (push_bit 30 (ucast x) :: u64) n"
    if "30 \<le> n" for n
    using arg_cong [OF eq, of "\<lambda>w. bit w n"] assms [of n] that by (auto simp: bit_or_iff)
  have no1: "\<not> bit x 1"
    using bits [of 60] bit_imp_le_length [of x 30] by (auto simp: bit_int_field bit_placed)
  have "\<not> bit x k" if "1 \<le> k" for k
  proof (cases "k = 1")
    case False
    with that no1 show ?thesis
      using bits [of "k + 30"] bit_imp_le_length [of x k] by (auto simp: bit_int_field bit_placed)
  qed (use no1 in simp)
  then show "unat x < 2"
    using less_two_power_iff_bits [of x 1] by simp
next
  assume "unat x < 2"
  then have "\<not> bit x n" if "1 \<le> n" for n
    using less_two_power_iff_bits [of x 1] that by simp
  then have "bit (int_to_u64 (push_bit 30 (ucast x))) n = bit (push_bit 30 (ucast x) :: u64) n" for n
    by (cases "n < 31") (auto simp: bit_int_field bit_placed)
  then have "int_to_u64 (push_bit 30 (ucast x)) = (push_bit 30 (ucast x) :: u64)"
    by (intro bit_word_eqI) auto
  then show "int_to_u64 (push_bit 30 (ucast x)) OR r = push_bit 30 (ucast x) OR r"
    by simp
qed

lemma int_field_fits:
  fixes x :: "9 word"
  assumes "lo \<le> 21"
  shows "int_to_u64 (push_bit lo (ucast x)) = push_bit lo (ucast x)"
  by (rule bit_word_eqI)
    (use assms in \<open>auto simp: bit_int_field bit_simps dest: bit_imp_le_length\<close>)

lemma leaf_0_iff:
  "int_to_u64 (push_bit 12 (ucast p0)) OR take_bit 12 va =
     push_bit 30 (ucast p2) OR push_bit 21 (ucast p1) OR push_bit 12 (ucast p0) OR take_bit 12 va
   \<longleftrightarrow> p2 = 0 \<and> p1 = 0"
  for p2 :: "26 word" and p1 p0 :: "9 word" and va :: u64
proof
  assume eq: "int_to_u64 (push_bit 12 (ucast p0)) OR take_bit 12 va =
     push_bit 30 (ucast p2) OR push_bit 21 (ucast p1) OR push_bit 12 (ucast p0) OR take_bit 12 va"
  have bits: "\<not> (n < 64 \<and> bit (push_bit 30 (ucast p2) OR push_bit 21 (ucast p1) :: u64) n)" if "21 \<le> n" for n
    using arg_cong [OF eq, of "\<lambda>w. bit w n"] that
    by (auto simp: int_field_fits bit_or_iff bit_placed bit_take_bit_iff dest: bit_imp_le_length)
  have "\<not> bit p2 n" for n
    using bits [of "n + 30"] bit_imp_le_length [of p2 n] by (auto simp: bit_or_iff bit_placed)
  moreover have "\<not> bit p1 n" for n
    using bits [of "n + 21"] bit_imp_le_length [of p1 n] by (auto simp: bit_or_iff bit_placed)
  ultimately show "p2 = 0 \<and> p1 = 0"
    by (simp add: word_zero_iff_bits)
qed (simp add: int_field_fits)

text \<open>
  C21. The physical address \<open>MMU::Translate\<close> computes from a leaf entry is the one of the Sv39
  specification exactly when the entry's upper page numbers are small: for a 4 KiB page only if PPN[2]
  and PPN[1] are both 0 (the code leaves them out), for a 2 MiB or 1 GiB page only if PPN[2] is
  below 2 (the code shifts it as a 32-bit \<open>int\<close>).
\<close>

theorem leaf_address_correct_iff:
  assumes "i \<le> 2"
  shows "leaf_address i pte (vpns va) (page_offset va) s = Ret (sv39_physical i pte va) s \<longleftrightarrow>
    (if i = 0 then pte_ppn2 pte = 0 \<and> pte_ppn1 pte = 0 else unat (pte_ppn2 pte) < 2)"
proof -
  consider "i = 0" | "i = 1" | "i = 2"
    using assms by linarith
  then show ?thesis
  proof cases
    case 1
    then show ?thesis
      by (simp add: leaf_address_def sv39_physical_def vpns_take_bit leaf_0_iff del: push_bit_take_bit)
  next
    case 2
    let ?r = "push_bit 21 (ucast (pte_ppn1 pte)) OR push_bit 12 (take_bit 9 (drop_bit 12 va)) OR take_bit 12 va"
    have "n < 30" if "bit ?r n" for n
      using that by (auto simp: bit_or_iff bit_placed bit_low bit_take_bit_iff)
    note iff = ppn2_shift_iff [of ?r "pte_ppn2 pte", OF this]
    with 2 show ?thesis
      by (simp add: leaf_address_def sv39_physical_def vpns_take_bit int_to_u64_OR int_field_fits or.assoc)
  next
    case 3
    let ?r = "push_bit 21 (take_bit 9 (drop_bit 21 va)) OR push_bit 12 (take_bit 9 (drop_bit 12 va))
      OR take_bit 12 va"
    have "n < 30" if "bit ?r n" for n
      using that by (auto simp: bit_or_iff bit_low bit_take_bit_iff)
    note iff = ppn2_shift_iff [of ?r "pte_ppn2 pte", OF this]
    with 3 show ?thesis
      by (simp add: leaf_address_def sv39_physical_def vpns_take_bit or.assoc)
  qed
qed

lemma leaf_address_correct_iff_witness:
  "leaf_address 2 (ParsePageTableEntry 0x1000000B) (vpns 0x12345678) (page_offset 0x12345678) () =
     Ret (sv39_physical 2 (ParsePageTableEntry 0x1000000B) 0x12345678) ()"
proof -
  have "unat (pte_ppn2 (ParsePageTableEntry 0x1000000B)) < 2"
    by (simp add: ParsePageTableEntry_def)
  with leaf_address_correct_iff [of 2 "ParsePageTableEntry 0x1000000B" "0x12345678" "()"]
  show ?thesis by simp
qed

lemma ram_address_bits:
  assumes "valid_addr KERNBASE MEMORY_SIZE pa"
  shows "bit pa 31 \<and> \<not> bit pa 32"
proof -
  have range: "2 ^ 31 \<le> unat pa" "unat pa < 2 ^ 32"
    using assms ram_dev.window_nat [of pa] by (simp_all add: config_defs)
  then have upper: "\<forall>n \<ge> 32. \<not> bit pa n"
    using less_two_power_iff_bits [of pa 32] by blast
  have "\<exists>n \<ge> 31. bit pa n"
    using range(1) less_two_power_iff_bits [of pa 31] by (meson not_less)
  then obtain n where "31 \<le> n" "bit pa n"
    by blast
  moreover from this upper have "n < 32"
    by (meson not_less)
  ultimately have "n = 31"
    by linarith
  with \<open>bit pa n\<close> upper show ?thesis
    by simp
qed

text \<open>
  C23. No leaf entry maps a virtual address into the emulator's RAM: the bits 31 and 32 of a
  translated address are always equal, and the RAM window at 0x80000000 needs them different.
\<close>

theorem leaf_never_in_ram:
  assumes "leaf_address i pte (vpns va) (page_offset va) s = Ret pa s'"
  shows "\<not> valid_addr KERNBASE MEMORY_SIZE pa"
proof
  assume "valid_addr KERNBASE MEMORY_SIZE pa"
  then have "bit pa 31" "\<not> bit pa 32"
    using ram_address_bits by blast+
  with assms show False
    by (auto simp: leaf_address_def vpns_take_bit int_to_u64_OR bit_or_iff bit_int_field bit_low
        bit_take_bit_iff dest: bit_imp_le_length split: if_splits)
qed

lemma leaf_never_in_ram_witness:
  "\<not> valid_addr KERNBASE MEMORY_SIZE 0xFFFFFFFF80000678"
proof -
  have "leaf_address 2 (ParsePageTableEntry 0x2000000F) (vpns 0x80000678) (page_offset 0x80000678) () =
      Ret 0xFFFFFFFF80000678 ()"
    by (simp add: leaf_address_def ParsePageTableEntry_def vpns_def page_offset_def int_to_u64_def)
  then show ?thesis by (rule leaf_never_in_ram)
qed

lemma next_table_product:
  fixes x :: "9 word"
  shows "sint (push_bit 12 (ucast x) :: u32) * 4096 = int (unat x) * 2 ^ 24"
proof -
  have x: "unat x < 512"
    using unsigned_less [of x] by simp
  have "unat (push_bit 12 (ucast x) :: u32) = unat x * 4096"
    using x by (simp add: push_bit_eq_mult unat_word_ariths unsigned_ucast_eq take_bit_nat_eq_self)
  then have "sint (push_bit 12 (ucast x) :: u32) = int (unat x * 4096)"
    using to_int_small [of "push_bit 12 (ucast x) :: u32"] x by (simp add: to_int_def)
  then show ?thesis by simp
qed

lemma next_table_4096:
  "next_table 4096 pte s =
     (if unat (pte_ppn0 pte) < 128
      then Ret (int_to_u64 (push_bit 30 (ucast (pte_ppn2 pte))) OR push_bit 21 (ucast (pte_ppn1 pte))
                OR push_bit 24 (ucast (pte_ppn0 pte))) s
      else Undef Signed_Overflow)"
proof (cases "unat (pte_ppn0 pte) < 128")
  case False
  then have "128 \<le> uint (pte_ppn0 pte)"
    using uint_nat [of "pte_ppn0 pte"] by linarith
  with False show ?thesis
    by (simp add: next_table_def next_table_product Let_def)
next
  case True
  then have "uint (pte_ppn0 pte) < 128" "- 128 \<le> uint (pte_ppn0 pte)"
    using uint_nat [of "pte_ppn0 pte"] by linarith+
  have "(word_of_int (int (unat (pte_ppn0 pte)) * 2 ^ 24) :: u32) = push_bit 24 (ucast (pte_ppn0 pte))"
    by (simp add: push_bit_eq_mult)
  moreover have "int_to_u64 (push_bit 24 (ucast (pte_ppn0 pte))) = push_bit 24 (ucast (pte_ppn0 pte))"
  proof -
    have "\<not> bit (pte_ppn0 pte) n" if "7 \<le> n" for n
      using True less_two_power_iff_bits [of "pte_ppn0 pte" 7] that by simp
    then show ?thesis
      by (intro bit_word_eqI) (auto simp: bit_int_field bit_placed intro: ccontr dest: bit_imp_le_length)
  qed
  ultimately show ?thesis
    using True \<open>uint (pte_ppn0 pte) < 128\<close> \<open>- 128 \<le> uint (pte_ppn0 pte)\<close>
    by (simp add: next_table_def next_table_product Let_def int_to_u64_OR int_field_fits or.assoc)
qed

text \<open>
  C22. The table the walk goes down to is the one of the Sv39 specification exactly when the
  pointer's PPN[0] is 0 and its PPN[2] is below 2; a PPN[0] of 128 or more overflows an \<open>int\<close>.
\<close>

theorem next_table_correct_iff:
  "(next_table 4096 pte s = Ret (sv39_table pte) s \<longleftrightarrow> pte_ppn0 pte = 0 \<and> unat (pte_ppn2 pte) < 2) \<and>
   (next_table 4096 pte s = Undef Signed_Overflow \<longleftrightarrow> 128 \<le> unat (pte_ppn0 pte))"
proof (intro conjI iffI)
  assume ret: "next_table 4096 pte s = Ret (sv39_table pte) s"
  then have small: "unat (pte_ppn0 pte) < 128"
    by (auto simp: next_table_4096 split: if_splits)
  with ret have eq: "int_to_u64 (push_bit 30 (ucast (pte_ppn2 pte))) OR push_bit 21 (ucast (pte_ppn1 pte))
      OR push_bit 24 (ucast (pte_ppn0 pte)) = sv39_table pte"
    by (simp add: next_table_4096)
  have "\<not> bit (pte_ppn0 pte) n" for n
    using arg_cong [OF eq, of "\<lambda>w. bit w (n + 12)"] bit_imp_le_length [of "pte_ppn0 pte" n]
    by (auto simp: sv39_table_def bit_or_iff bit_int_field bit_placed)
  then show "pte_ppn0 pte = 0"
    by (simp add: word_zero_iff_bits)
  with eq show "unat (pte_ppn2 pte) < 2"
    by (intro iffD1 [OF ppn2_shift_iff [of "push_bit 21 (ucast (pte_ppn1 pte))"]])
      (auto simp: sv39_table_def bit_placed)
next
  assume a: "pte_ppn0 pte = 0 \<and> unat (pte_ppn2 pte) < 2"
  then have "int_to_u64 (push_bit 30 (ucast (pte_ppn2 pte))) OR push_bit 21 (ucast (pte_ppn1 pte)) =
      push_bit 30 (ucast (pte_ppn2 pte)) OR push_bit 21 (ucast (pte_ppn1 pte))"
    by (intro iffD2 [OF ppn2_shift_iff]) (auto simp: bit_placed)
  with a show "next_table 4096 pte s = Ret (sv39_table pte) s"
    by (simp add: next_table_4096 sv39_table_def)
qed (auto simp: next_table_4096 split: if_splits)

lemma Translate_eq:
  "Translate va m =
     (if paging_mode m = Bare then Ret va m
      else if paging_mode m = Sv39
      then (case root_page_table m of None \<Rightarrow> Undef Indeterminate_Value | Some root \<Rightarrow> Diverge)
      else Throw InstructionPageFault m)"
proof (cases "paging_mode m = Sv39")
  case True
  then show ?thesis
    by (cases "root_page_table m") (simp_all add: Translate_Sv39, simp add: Translate_def translate_with_def)
next
  case False
  then show ?thesis
    by (auto simp: Translate_def translate_with_def)
qed

text \<open>
  C20. What \<open>MMU::Translate\<close> does in each paging mode, and that the call depth of the model is not
  the reason: without paging the address is returned as it is; with Sv39 paging the call never
  returns, whatever the address, the page tables and the allowed depth of nested calls, because each
  page-table entry is itself loaded through a translated access; the modes that are not implemented
  fault. Every depth from 1 on gives the same loads.
\<close>

theorem translate_outcome:
  "Translate va m =
     (if paging_mode m = Bare then Ret va m
      else if paging_mode m = Sv39
      then (case root_page_table m of None \<Rightarrow> Undef Indeterminate_Value | Some root \<Rightarrow> Diverge)
      else Throw InstructionPageFault m) \<and>
   Load_n (Suc k) = MMU_Load"
  using MMU_Load_depth [of "Suc k"] by (simp add: Translate_eq)

end
