(* ===== verification/Bus.thy ===== *)
theory Bus
  imports Mmu
begin

text \<open>
  The bus seen from the CPU: which device serves an address, when an access faults, and the memory
  contract of the RAM behind the MMU (with paging off).
\<close>

definition bus_windows :: "(u64 \<times> u64) list" where
  "bus_windows = [(KERNBASE, MEMORY_SIZE), (UART_BASE, UART_SIZE), (VIRTIO_BASE, VIRTIO_SIZE),
     (CLINT_BASE, CLINT_SIZE), (PLIC_BASE, PLIC_SIZE)]"

definition mapped :: "u64 \<Rightarrow> bool" where
  "mapped pa \<longleftrightarrow> list_ex (\<lambda>(b, s). valid_addr b s pa) bus_windows"

lemmas windows_nat = ram_dev.window_nat uart_dev.window_nat virtio_dev.window_nat
  clint_dev.window_nat plic_dev.window_nat

lemma mapped_iff:
  "mapped pa \<longleftrightarrow> valid_addr KERNBASE MEMORY_SIZE pa \<or> valid_addr UART_BASE UART_SIZE pa \<or>
     valid_addr VIRTIO_BASE VIRTIO_SIZE pa \<or> valid_addr CLINT_BASE CLINT_SIZE pa \<or>
     valid_addr PLIC_BASE PLIC_SIZE pa"
  by (simp add: mapped_def bus_windows_def)

text \<open>
  The address windows of the five bus devices do not overlap, so the order in which the MMU
  tries the devices does not matter: at most one window holds any physical address.
\<close>

theorem windows_disjoint:
  "length (filter (\<lambda>(b, s). valid_addr b s pa) bus_windows) \<le> 1"
proof -
  have ram: "valid_addr KERNBASE MEMORY_SIZE pa \<longleftrightarrow> 0x80000000 \<le> unat pa \<and> unat pa < 0x88000000"
    and uart: "valid_addr UART_BASE UART_SIZE pa \<longleftrightarrow> 0x10000000 \<le> unat pa \<and> unat pa < 0x10001000"
    and virtio: "valid_addr VIRTIO_BASE VIRTIO_SIZE pa \<longleftrightarrow> 0x10001000 \<le> unat pa \<and> unat pa < 0x10002000"
    and clint: "valid_addr CLINT_BASE CLINT_SIZE pa \<longleftrightarrow> 0x2000000 \<le> unat pa \<and> unat pa < 0x2010000"
    and plic: "valid_addr PLIC_BASE PLIC_SIZE pa \<longleftrightarrow> 0xc000000 \<le> unat pa \<and> unat pa < 0x10000000"
    unfolding windows_nat by (simp_all add: config_defs)
  show ?thesis
    by (simp add: bus_windows_def ram uart virtio clint plic)
qed

lemma uart_not_ram: "valid_addr UART_BASE UART_SIZE pa \<Longrightarrow> \<not> valid_addr KERNBASE MEMORY_SIZE pa"
  unfolding windows_nat by (simp add: config_defs)

lemma uart_Load_Throw_iff:
  "uart_Load UART_BASE pa n d dev = Throw e t \<longleftrightarrow> n \<noteq> 1 \<and> e = LoadAccessFault \<and> t = dev"
  by (auto simp: uart_Load_def obind_Throw_iff Let_def split: if_splits)

lemma uart_Store_Throw_iff:
  "uart_Store pa n v dev = Throw e t \<longleftrightarrow> n \<noteq> 1 \<and> e = StoreAMOAccessFault \<and> t = dev"
  by (auto simp: uart_Store_def)

lemma ram_no_Throw:
  assumes "access_size n"
  shows "ram_Load base sz pa n d r \<noteq> Throw e t" "ram_Store base sz pa n v r \<noteq> Throw e t"
  using assms by (simp_all add: ram_Load_def ram_Store_def Let_def)

lemma bus_Throw_iff:
  assumes "access_size n"
  shows "bus_Load pa n d m = Throw e m' \<longleftrightarrow>
      (\<not> mapped pa \<or> valid_addr UART_BASE UART_SIZE pa \<and> n \<noteq> 1) \<and> e = LoadAccessFault \<and> m' = m"
    and "bus_Store pa n v m = Throw e m' \<longleftrightarrow>
      (\<not> mapped pa \<or> valid_addr UART_BASE UART_SIZE pa \<and> n \<noteq> 1) \<and> e = StoreAMOAccessFault \<and> m' = m"
  using uart_not_ram [of pa]
  by (auto simp: bus_Load_def bus_Store_def mapped_iff with_state_Throw_iff ram_no_Throw [OF assms]
      uart_Load_Throw_iff uart_Store_Throw_iff stub_defs)

text \<open>
  C19. Exactly which accesses fault: an access of 1, 2, 4 or 8 bytes faults if no device is mapped at
  the address or if the UART is accessed by more than a byte. The fault is the one for the kind of
  access, and nothing is changed.
\<close>

theorem bus_faults_iff:
  assumes "access_size n"
  shows "(bus_Load pa n d m = Throw e m' \<longleftrightarrow>
            (\<not> mapped pa \<or> valid_addr UART_BASE UART_SIZE pa \<and> n \<noteq> 1) \<and> e = LoadAccessFault \<and> m' = m) \<and>
         (bus_Store pa n v m = Throw e m' \<longleftrightarrow>
            (\<not> mapped pa \<or> valid_addr UART_BASE UART_SIZE pa \<and> n \<noteq> 1) \<and> e = StoreAMOAccessFault \<and> m' = m)"
  by (simp only: bus_Throw_iff [OF assms] simp_thms)

lemma bus_faults_iff_witness:
  "bus_Load 0x4000 8 None (mmu_new (\<lambda>_. 0)) = Throw LoadAccessFault (mmu_new (\<lambda>_. 0)) \<and>
   bus_Store 0x4000 8 1 (mmu_new (\<lambda>_. 0)) = Throw StoreAMOAccessFault (mmu_new (\<lambda>_. 0))"
proof -
  have "access_size 8" "\<not> mapped 0x4000"
    by (simp_all add: access_size_def mapped_def bus_windows_def valid_addr_def config_defs)
  with bus_faults_iff [OF this(1), of "0x4000" None "mmu_new (\<lambda>_. 0)" _ "mmu_new (\<lambda>_. 0)" 1]
  show ?thesis by blast
qed

lemma bus_Load_ram:
  "valid_addr KERNBASE MEMORY_SIZE pa \<Longrightarrow>
   bus_Load pa n d m = with_state (\<lambda>r. m\<lparr>ram := r\<rparr>) (ram_Load KERNBASE MEMORY_SIZE pa n d (ram m))"
  by (simp add: bus_Load_def)

lemma bus_Store_ram:
  "valid_addr KERNBASE MEMORY_SIZE pa \<Longrightarrow>
   bus_Store pa n v m = with_state (\<lambda>r. m\<lparr>ram := r\<rparr>) (ram_Store KERNBASE MEMORY_SIZE pa n v (ram m))"
  by (simp add: bus_Store_def)

text \<open>An access of \<open>n\<close> bytes that lies inside the RAM, by its index.\<close>

definition in_ram :: "u64 \<Rightarrow> int \<Rightarrow> bool" where
  "in_ram pa n \<longleftrightarrow> valid_addr KERNBASE MEMORY_SIZE pa \<and> access_size n \<and>
     unat (pa - KERNBASE) + nat n \<le> unat MEMORY_SIZE"

lemma bus_Load_in_ram:
  "in_ram pa n \<Longrightarrow> bus_Load pa n d m = Ret (Some (read_bytes (ram m) (unat (pa - KERNBASE)) (nat n))) m"
  by (simp add: in_ram_def bus_Load_ram ram_Load_def Let_def)

lemma bus_Store_in_ram:
  "in_ram pa n \<Longrightarrow>
   bus_Store pa n v m = Ret () (m\<lparr>ram := write_bytes (ram m) (unat (pa - KERNBASE)) (nat n) v\<rparr>)"
  by (simp add: in_ram_def bus_Store_ram ram_Store_def Let_def)

text \<open>
  C18. The memory contract of the MMU with paging off. After a store inside the RAM, a load of the
  same address and size gives the stored value cut to the size, and a load of any other place of
  the RAM that does not overlap gives what it gave before.
\<close>

theorem mmu_memory_contract:
  assumes "paging_mode m = Bare" and "in_ram pa n"
  shows "\<exists>m'. MMU_Store pa n v m = Ret () m' \<and>
     MMU_Load pa n d m' = Ret (Some (take_bit (8 * nat n) v)) m' \<and>
     (\<forall>qa k. in_ram qa k \<and>
        (unat (pa - KERNBASE) + nat n \<le> unat (qa - KERNBASE) \<or>
         unat (qa - KERNBASE) + nat k \<le> unat (pa - KERNBASE)) \<longrightarrow>
        (\<exists>w. MMU_Load qa k d m = Ret (Some w) m \<and> MMU_Load qa k d m' = Ret (Some w) m'))"
  using assms
  by (auto simp: bus_Store_in_ram bus_Load_in_ram read_write_bytes_disjoint read_write_bytes
      access_size_le in_ram_def [of pa])

lemma mmu_memory_contract_witness:
  "\<exists>m'. MMU_Store 0x80000010 4 0xAABBCCDD (mmu_new (\<lambda>_. 7)) = Ret () m' \<and>
     MMU_Load 0x80000010 4 None m' = Ret (Some 0xAABBCCDD) m' \<and>
     MMU_Load 0x80000014 2 None m' = Ret (Some 0x0707) m'"
proof -
  let ?m = "mmu_new (\<lambda>_. 7)"
  have in_ram: "in_ram 0x80000010 4" "in_ram 0x80000014 2"
    by (simp_all add: in_ram_def access_size_def valid_addr_def config_defs)
  have bare: "paging_mode ?m = Bare"
    by (simp add: mmu_new_def)
  have old: "MMU_Load 0x80000014 2 None ?m = Ret (Some 0x0707) ?m"
    using in_ram(2) bare
    by (simp add: bus_Load_in_ram mmu_new_def KERNBASE_def bytes_eval)
  show ?thesis
    using mmu_memory_contract [OF bare in_ram(1), of "0xAABBCCDD" None] in_ram(2) old
    by (fastforce simp: KERNBASE_def)
qed

text \<open>
  C37. The RAM's window test looks at the first byte only: an access that starts inside the RAM and
  runs past its end is not faulted, it reads or writes outside the array, and these are the only
  undefined RAM accesses.
\<close>

theorem ram_overrun_iff:
  assumes "valid_addr KERNBASE MEMORY_SIZE pa" and "access_size n"
  shows "(bus_Load pa n d m = Undef u \<longleftrightarrow>
            u = Out_Of_Bounds \<and> unat KERNBASE + unat MEMORY_SIZE < unat pa + nat n) \<and>
         (bus_Store pa n v m = Undef u \<longleftrightarrow>
            u = Out_Of_Bounds \<and> unat KERNBASE + unat MEMORY_SIZE < unat pa + nat n)"
proof -
  have "unat KERNBASE \<le> unat pa"
    using assms(1) ram_dev.window_nat by blast
  then have "unat (pa - KERNBASE) = unat pa - unat KERNBASE"
    by (simp add: unat_sub_if')
  with assms \<open>unat KERNBASE \<le> unat pa\<close> show ?thesis
    by (auto simp: bus_Load_ram bus_Store_ram ram_Load_def ram_Store_def Let_def)
qed

lemma ram_overrun_iff_witness:
  "bus_Load 0x87FFFFFC 8 None (mmu_new (\<lambda>_. 0)) = Undef Out_Of_Bounds"
proof -
  have "valid_addr KERNBASE MEMORY_SIZE 0x87FFFFFC" "access_size 8"
    by (simp_all add: valid_addr_def config_defs access_size_def)
  from ram_overrun_iff [OF this, of None "mmu_new (\<lambda>_. 0)" Out_Of_Bounds 0] show ?thesis
    by (simp add: config_defs)
qed

end
