(* ===== verification/Formats.thy ===== *)
theory Formats
  imports Config Trap
begin

text \<open>
  The bit-field helpers, the sign extensions and the instruction formats of \<open>source/cpu.cpp\<close>.
  An \<open>int32_t\<close> is represented by its 32-bit pattern; where the code widens it to 64 bits the
  model applies \<open>int_to_u64\<close>. The formats are compared with the encodings of the RISC-V manual
  (\<open>encode_R\<close> to \<open>encode_J\<close>).
\<close>

section \<open>Helpers\<close>

definition mask32 :: "nat \<Rightarrow> nat \<Rightarrow> u32 \<Rightarrow> u32" where
  "mask32 start end instruction = drop_bit start instruction AND (push_bit (end - start + 1) 1 - 1)"

definition mask_and_shift32 :: "nat \<Rightarrow> nat \<Rightarrow> nat \<Rightarrow> u32 \<Rightarrow> u32" where
  "mask_and_shift32 start end dest instruction =
     push_bit dest (drop_bit start instruction AND (push_bit (end - start + 1) 1 - 1))"

definition mask64 :: "nat \<Rightarrow> nat \<Rightarrow> u64 \<Rightarrow> u64" where
  "mask64 start end instruction = drop_bit start instruction AND (push_bit (end - start + 1) 1 - 1)"

definition mask_and_shift64 :: "nat \<Rightarrow> nat \<Rightarrow> nat \<Rightarrow> u64 \<Rightarrow> u64" where
  "mask_and_shift64 start end dest instruction =
     push_bit dest (drop_bit start instruction AND (push_bit (end - start + 1) 1 - 1))"

definition sign_extend_12b :: "u32 \<Rightarrow> u32" where
  "sign_extend_12b imm = (if imm AND 0x800 \<noteq> 0 then imm OR 0xfffff000 else imm)"

definition sign_extend_13b :: "u32 \<Rightarrow> u32" where
  "sign_extend_13b imm = (if imm AND 0x1000 \<noteq> 0 then imm OR 0xffffe000 else imm)"

definition sign_extend_20b :: "u32 \<Rightarrow> u32" where
  "sign_extend_20b imm = (if imm AND 0x00080000 \<noteq> 0 then imm OR 0xfff00000 else imm)"

section \<open>Instruction formats\<close>

record InstructionFields =
  opcode :: u32
  rd :: u32
  funct3 :: u32
  rs1 :: u32
  rs2 :: u32
  funct7 :: u32
  imm :: u32

definition parse_R :: "u32 \<Rightarrow> InstructionFields" where
  "parse_R instruction =
     \<lparr>opcode = mask32 0 6 instruction,
      rd = mask32 7 11 instruction,
      funct3 = mask32 12 14 instruction,
      rs1 = mask32 15 19 instruction,
      rs2 = mask32 20 24 instruction,
      funct7 = mask32 25 31 instruction,
      imm = 0\<rparr>"

definition parse_I :: "u32 \<Rightarrow> InstructionFields" where
  "parse_I instruction =
     \<lparr>opcode = mask32 0 6 instruction,
      rd = mask32 7 11 instruction,
      funct3 = mask32 12 14 instruction,
      rs1 = mask32 15 19 instruction,
      rs2 = 0,
      funct7 = 0,
      imm = mask32 20 31 instruction\<rparr>"

definition parse_S :: "u32 \<Rightarrow> InstructionFields" where
  "parse_S instruction =
     \<lparr>opcode = mask32 0 6 instruction,
      rd = 0,
      funct3 = mask32 12 14 instruction,
      rs1 = mask32 15 19 instruction,
      rs2 = mask32 20 24 instruction,
      funct7 = 0,
      imm = mask32 7 11 instruction OR mask_and_shift32 25 31 5 instruction\<rparr>"

definition parse_B :: "u32 \<Rightarrow> InstructionFields" where
  "parse_B instruction =
     \<lparr>opcode = mask32 0 6 instruction,
      rd = 0,
      funct3 = mask32 12 14 instruction,
      rs1 = mask32 15 19 instruction,
      rs2 = mask32 20 24 instruction,
      funct7 = 0,
      imm = mask_and_shift32 7 7 11 instruction OR mask_and_shift32 8 11 1 instruction
          OR mask_and_shift32 25 30 5 instruction OR mask_and_shift32 31 31 12 instruction\<rparr>"

definition parse_U :: "u32 \<Rightarrow> InstructionFields" where
  "parse_U instruction =
     \<lparr>opcode = mask32 0 6 instruction,
      rd = mask32 7 11 instruction,
      funct3 = 0,
      rs1 = 0,
      rs2 = 0,
      funct7 = 0,
      imm = mask_and_shift32 12 31 12 instruction\<rparr>"

definition parse_J :: "u32 \<Rightarrow> InstructionFields" where
  "parse_J instruction =
     \<lparr>opcode = mask32 0 6 instruction,
      rd = mask32 7 11 instruction,
      funct3 = 0,
      rs1 = 0,
      rs2 = 0,
      funct7 = 0,
      imm = mask_and_shift32 21 30 1 instruction OR mask_and_shift32 20 20 11 instruction
          OR mask_and_shift32 12 19 12 instruction OR mask_and_shift32 31 31 20 instruction\<rparr>"

text \<open>The template over the format character; the general template throws.\<close>

definition parse_instruction :: "char \<Rightarrow> u32 \<Rightarrow> 's \<Rightarrow> (InstructionFields, 's) trapping" where
  "parse_instruction format instruction s =
     (if format = CHR ''R'' then Ret (parse_R instruction) s
      else if format = CHR ''I'' then Ret (parse_I instruction) s
      else if format = CHR ''S'' then Ret (parse_S instruction) s
      else if format = CHR ''B'' then Ret (parse_B instruction) s
      else if format = CHR ''U'' then Ret (parse_U instruction) s
      else if format = CHR ''J'' then Ret (parse_J instruction) s
      else Throw IllegalInstruction s)"

lemmas parse_defs = parse_R_def parse_I_def parse_S_def parse_B_def parse_U_def parse_J_def

section \<open>Bits of the helpers\<close>

lemma mask32_take_bit: "mask32 s e i = take_bit (e - s + 1) (drop_bit s i)"
  by (simp add: mask32_def take_bit_eq_mask mask_eq_exp_minus_1 push_bit_eq_mult)

lemma bit_mask32: "bit (mask32 s e i) n \<longleftrightarrow> n < e - s + 1 \<and> bit i (s + n)"
  by (auto simp: mask32_take_bit bit_simps)

lemma mask_and_shift32_push: "mask_and_shift32 s e d i = push_bit d (mask32 s e i)"
  by (simp add: mask_and_shift32_def mask32_def)

lemma bit_mask_and_shift32:
  "bit (mask_and_shift32 s e d i) n \<longleftrightarrow> n < 32 \<and> d \<le> n \<and> n - d < e - s + 1 \<and> bit i (s + (n - d))"
  by (auto simp: mask_and_shift32_push bit_push_bit_iff bit_mask32 possible_bit_def)

lemma mask64_take_bit: "mask64 s e i = take_bit (e - s + 1) (drop_bit s i)"
  by (simp add: mask64_def take_bit_eq_mask mask_eq_exp_minus_1 push_bit_eq_mult)

lemma unat_mask32_less: "unat (mask32 s e i) < 2 ^ (e - s + 1)"
  by (simp add: mask32_take_bit unsigned_take_bit_eq del: power_Suc)

lemma bit_placed32:
  "lo + LENGTH('a) \<le> 32 \<Longrightarrow>
     bit (push_bit lo (ucast (x :: 'a::len word)) :: u32) n \<longleftrightarrow> lo \<le> n \<and> n < lo + LENGTH('a) \<and> bit x (n - lo)"
  by (auto simp: bit_simps dest: bit_imp_le_length)

lemma bit_ucast32: "LENGTH('a) \<le> 32 \<Longrightarrow> bit (ucast (x :: 'a::len word) :: u32) n \<longleftrightarrow> bit x n"
  by (auto simp: bit_simps dest: bit_imp_le_length)

section \<open>The encodings of the manual\<close>

definition encode_R :: "7 word \<Rightarrow> 5 word \<Rightarrow> 5 word \<Rightarrow> 3 word \<Rightarrow> 5 word \<Rightarrow> 7 word \<Rightarrow> u32" where
  "encode_R f7 r2 r1 f3 d opc =
     push_bit 25 (ucast f7) OR push_bit 20 (ucast r2) OR push_bit 15 (ucast r1)
     OR push_bit 12 (ucast f3) OR push_bit 7 (ucast d) OR ucast opc"

definition encode_I :: "12 word \<Rightarrow> 5 word \<Rightarrow> 3 word \<Rightarrow> 5 word \<Rightarrow> 7 word \<Rightarrow> u32" where
  "encode_I im r1 f3 d opc =
     push_bit 20 (ucast im) OR push_bit 15 (ucast r1) OR push_bit 12 (ucast f3)
     OR push_bit 7 (ucast d) OR ucast opc"

text \<open>S: the immediate's bits 11 to 5 and 4 to 0.\<close>

definition encode_S :: "12 word \<Rightarrow> 5 word \<Rightarrow> 5 word \<Rightarrow> 3 word \<Rightarrow> 7 word \<Rightarrow> u32" where
  "encode_S im r2 r1 f3 opc =
     push_bit 25 (ucast (drop_bit 5 im)) OR push_bit 20 (ucast r2) OR push_bit 15 (ucast r1)
     OR push_bit 12 (ucast f3) OR push_bit 7 (ucast (take_bit 5 im)) OR ucast opc"

text \<open>
  B and J take the even offset without its lowest bit: \<open>off\<close> stands for the offset bits 12 to 1
  (B) and 20 to 1 (J).
\<close>

definition encode_B :: "12 word \<Rightarrow> 5 word \<Rightarrow> 5 word \<Rightarrow> 3 word \<Rightarrow> 7 word \<Rightarrow> u32" where
  "encode_B off r2 r1 f3 opc =
     push_bit 31 (ucast (drop_bit 11 off)) OR push_bit 25 (ucast (take_bit 6 (drop_bit 4 off)))
     OR push_bit 20 (ucast r2) OR push_bit 15 (ucast r1) OR push_bit 12 (ucast f3)
     OR push_bit 8 (ucast (take_bit 4 off)) OR push_bit 7 (ucast (take_bit 1 (drop_bit 10 off)))
     OR ucast opc"

definition encode_U :: "20 word \<Rightarrow> 5 word \<Rightarrow> 7 word \<Rightarrow> u32" where
  "encode_U im d opc = push_bit 12 (ucast im) OR push_bit 7 (ucast d) OR ucast opc"

definition encode_J :: "20 word \<Rightarrow> 5 word \<Rightarrow> 7 word \<Rightarrow> u32" where
  "encode_J off d opc =
     push_bit 31 (ucast (drop_bit 19 off)) OR push_bit 21 (ucast (take_bit 10 off))
     OR push_bit 20 (ucast (take_bit 1 (drop_bit 10 off)))
     OR push_bit 12 (ucast (take_bit 8 (drop_bit 11 off))) OR push_bit 7 (ucast d) OR ucast opc"

lemma bit_encode_R:
  "bit (encode_R f7 r2 r1 f3 d opc) n \<longleftrightarrow>
     (if n < 7 then bit opc n else if n < 12 then bit d (n - 7) else if n < 15 then bit f3 (n - 12)
      else if n < 20 then bit r1 (n - 15) else if n < 25 then bit r2 (n - 20) else bit f7 (n - 25))"
  unfolding encode_R_def bit_or_iff
  by (simp add: bit_placed32 bit_ucast32) (auto dest: bit_imp_le_length)

lemma bit_encode_I:
  "bit (encode_I im r1 f3 d opc) n \<longleftrightarrow>
     (if n < 7 then bit opc n else if n < 12 then bit d (n - 7) else if n < 15 then bit f3 (n - 12)
      else if n < 20 then bit r1 (n - 15) else bit im (n - 20))"
  unfolding encode_I_def bit_or_iff
  by (simp add: bit_placed32 bit_ucast32) (auto dest: bit_imp_le_length)

lemma bit_push_ucast:
  "bit (push_bit lo (ucast (x :: 'a::len word)) :: u32) n \<longleftrightarrow> n < 32 \<and> lo \<le> n \<and> bit x (n - lo)"
  by (auto simp: bit_simps)

lemma bit_encode_S:
  "bit (encode_S im r2 r1 f3 opc) n \<longleftrightarrow>
     (if n < 7 then bit opc n else if n < 12 then bit im (n - 7) else if n < 15 then bit f3 (n - 12)
      else if n < 20 then bit r1 (n - 15) else if n < 25 then bit r2 (n - 20) else bit im (n - 20))"
  unfolding encode_S_def bit_or_iff
  by (simp add: bit_push_ucast bit_ucast32 bit_drop_bit_eq bit_take_bit_iff)
    (auto dest: bit_imp_le_length)

lemma bit_encode_B:
  "bit (encode_B off r2 r1 f3 opc) n \<longleftrightarrow>
     (if n < 7 then bit opc n else if n = 7 then bit off 10 else if n < 12 then bit off (n - 8)
      else if n < 15 then bit f3 (n - 12) else if n < 20 then bit r1 (n - 15)
      else if n < 25 then bit r2 (n - 20) else if n < 31 then bit off (n - 21) else n = 31 \<and> bit off 11)"
proof -
  have long: "\<not> bit off k" if "12 \<le> k" for k
    using that by (auto dest: bit_imp_le_length)
  consider "n < 7" | "n = 7" | "8 \<le> n \<and> n < 12" | "12 \<le> n \<and> n < 15" | "15 \<le> n \<and> n < 20"
    | "20 \<le> n \<and> n < 25" | "25 \<le> n \<and> n < 31" | "n = 31" | "32 \<le> n"
    by linarith
  then show ?thesis
    unfolding encode_B_def bit_or_iff bit_push_ucast bit_drop_bit_eq bit_take_bit_iff comp_def
    by cases (auto simp: bit_ucast32 long dest: bit_imp_le_length)
qed

lemma bit_encode_J:
  "bit (encode_J off d opc) n \<longleftrightarrow>
     (if n < 7 then bit opc n else if n < 12 then bit d (n - 7) else if n < 20 then bit off (n - 1)
      else if n = 20 then bit off 10 else if n < 31 then bit off (n - 21) else n = 31 \<and> bit off 19)"
proof -
  have long: "\<not> bit off k" if "20 \<le> k" for k
    using that by (auto dest: bit_imp_le_length)
  consider "n < 7" | "7 \<le> n \<and> n < 12" | "12 \<le> n \<and> n < 20" | "n = 20" | "21 \<le> n \<and> n < 31"
    | "n = 31" | "32 \<le> n"
    by linarith
  then show ?thesis
    unfolding encode_J_def bit_or_iff bit_push_ucast bit_drop_bit_eq bit_take_bit_iff comp_def
    by cases (auto simp: bit_ucast32 long dest: bit_imp_le_length)
qed

lemma bit_encode_U:
  "bit (encode_U im d opc) n \<longleftrightarrow>
     (if n < 7 then bit opc n else if n < 12 then bit d (n - 7) else bit im (n - 12))"
  unfolding encode_U_def bit_or_iff
  by (simp add: bit_placed32 bit_ucast32) (auto dest: bit_imp_le_length)

lemma fields_R:
  "parse_R (encode_R f7 r2 r1 f3 d opc) =
     \<lparr>opcode = ucast opc, rd = ucast d, funct3 = ucast f3, rs1 = ucast r1, rs2 = ucast r2,
      funct7 = ucast f7, imm = 0\<rparr>"
  unfolding parse_R_def InstructionFields.ext_inject
  by (intro conjI refl; rule bit_word_eqI;
      simp add: bit_mask32 bit_encode_R bit_ucast32; auto dest: bit_imp_le_length)

lemma fields_I:
  "parse_I (encode_I im r1 f3 d opc) =
     \<lparr>opcode = ucast opc, rd = ucast d, funct3 = ucast f3, rs1 = ucast r1, rs2 = 0, funct7 = 0,
      imm = ucast im\<rparr>"
  unfolding parse_I_def InstructionFields.ext_inject
  by (intro conjI refl; rule bit_word_eqI;
      simp add: bit_mask32 bit_encode_I bit_ucast32; auto dest: bit_imp_le_length)

lemma fields_S:
  "parse_S (encode_S im r2 r1 f3 opc) =
     \<lparr>opcode = ucast opc, rd = 0, funct3 = ucast f3, rs1 = ucast r1, rs2 = ucast r2, funct7 = 0,
      imm = ucast im\<rparr>"
  unfolding parse_S_def InstructionFields.ext_inject
  by (intro conjI refl; rule bit_word_eqI;
      simp add: bit_or_iff bit_mask32 bit_mask_and_shift32 bit_encode_S bit_ucast32;
      auto dest: bit_imp_le_length)

lemma imm_B:
  "imm (parse_B (encode_B off r2 r1 f3 opc)) = push_bit 1 (ucast off)"
proof (rule bit_word_eqI)
  fix n
  assume "n < LENGTH(32)"
  have long: "\<not> bit off k" if "12 \<le> k" for k
    using that by (auto dest: bit_imp_le_length)
  consider "n = 0" | "1 \<le> n \<and> n < 5" | "5 \<le> n \<and> n < 11" | "n = 11" | "n = 12" | "13 \<le> n"
    by linarith
  then show "bit (imm (parse_B (encode_B off r2 r1 f3 opc))) n = bit (push_bit 1 (ucast off) :: u32) n"
    unfolding parse_B_def InstructionFields.select_convs bit_or_iff bit_mask_and_shift32 bit_push_ucast
    by cases (auto simp: bit_encode_B long dest: bit_imp_le_length)
qed

lemma imm_J:
  "imm (parse_J (encode_J off d opc)) = push_bit 1 (ucast off)"
proof (rule bit_word_eqI)
  fix n
  assume "n < LENGTH(32)"
  have long: "\<not> bit off k" if "20 \<le> k" for k
    using that by (auto dest: bit_imp_le_length)
  consider "n = 0" | "1 \<le> n \<and> n < 11" | "n = 11" | "12 \<le> n \<and> n < 20" | "n = 20" | "21 \<le> n"
    by linarith
  then show "bit (imm (parse_J (encode_J off d opc))) n = bit (push_bit 1 (ucast off) :: u32) n"
    unfolding parse_J_def InstructionFields.select_convs bit_or_iff bit_mask_and_shift32 bit_push_ucast
    by cases (auto simp: bit_encode_J long dest: bit_imp_le_length)
qed

lemma fields_B:
  "parse_B (encode_B off r2 r1 f3 opc) =
     \<lparr>opcode = ucast opc, rd = 0, funct3 = ucast f3, rs1 = ucast r1, rs2 = ucast r2, funct7 = 0,
      imm = push_bit 1 (ucast off)\<rparr>"
proof -
  have "mask32 0 6 (encode_B off r2 r1 f3 opc) = ucast opc"
    and "mask32 12 14 (encode_B off r2 r1 f3 opc) = ucast f3"
    and "mask32 15 19 (encode_B off r2 r1 f3 opc) = ucast r1"
    and "mask32 20 24 (encode_B off r2 r1 f3 opc) = ucast r2"
    by (rule bit_word_eqI; simp add: bit_mask32 bit_encode_B bit_ucast32;
        auto dest: bit_imp_le_length)+
  with imm_B [of off r2 r1 f3 opc] show ?thesis
    by (simp add: parse_B_def)
qed

lemma fields_J:
  "parse_J (encode_J off d opc) =
     \<lparr>opcode = ucast opc, rd = ucast d, funct3 = 0, rs1 = 0, rs2 = 0, funct7 = 0,
      imm = push_bit 1 (ucast off)\<rparr>"
proof -
  have "mask32 0 6 (encode_J off d opc) = ucast opc" and "mask32 7 11 (encode_J off d opc) = ucast d"
    by (rule bit_word_eqI; simp add: bit_mask32 bit_encode_J bit_ucast32;
        auto dest: bit_imp_le_length)+
  with imm_J [of off d opc] show ?thesis
    by (simp add: parse_J_def)
qed

lemma fields_U:
  "parse_U (encode_U im d opc) =
     \<lparr>opcode = ucast opc, rd = ucast d, funct3 = 0, rs1 = 0, rs2 = 0, funct7 = 0,
      imm = push_bit 12 (ucast im)\<rparr>"
  unfolding parse_U_def InstructionFields.ext_inject
  by (intro conjI refl; rule bit_word_eqI;
      simp add: bit_mask32 bit_mask_and_shift32 bit_encode_U bit_ucast32 bit_placed32;
      auto dest: bit_imp_le_length)

section \<open>Sign extension\<close>

lemma bit_numeral_consts32:
  "bit (0xfffff000 :: u32) n \<longleftrightarrow> 12 \<le> n \<and> n < 32"
  "bit (0xffffe000 :: u32) n \<longleftrightarrow> 13 \<le> n \<and> n < 32"
  "bit (0xfff00000 :: u32) n \<longleftrightarrow> 20 \<le> n \<and> n < 32"
proof -
  have bit: "bit (NOT (mask k) :: u32) n \<longleftrightarrow> k \<le> n \<and> n < 32" for k
    by (auto simp: bit_not_iff bit_mask_iff possible_bit_def)
  have "(0xfffff000 :: u32) = NOT (mask 12)" "(0xffffe000 :: u32) = NOT (mask 13)"
    "(0xfff00000 :: u32) = NOT (mask 20)"
    by (simp_all add: mask_eq_exp_minus_1)
  then show "bit (0xfffff000 :: u32) n \<longleftrightarrow> 12 \<le> n \<and> n < 32"
    "bit (0xffffe000 :: u32) n \<longleftrightarrow> 13 \<le> n \<and> n < 32"
    "bit (0xfff00000 :: u32) n \<longleftrightarrow> 20 \<le> n \<and> n < 32"
    by (simp_all only: bit)
qed

lemma sign_bits:
  "w AND 0x800 \<noteq> 0 \<longleftrightarrow> bit w 11" "w AND 0x1000 \<noteq> 0 \<longleftrightarrow> bit w 12" "w AND 0x80000 \<noteq> 0 \<longleftrightarrow> bit w 19"
  for w :: u32
  unfolding bit_iff_and_push_bit_not_eq_0 by simp_all

lemma bit_sign_extend:
  "bit (sign_extend_12b w) n \<longleftrightarrow> bit w n \<or> bit w 11 \<and> 12 \<le> n \<and> n < 32"
  "bit (sign_extend_13b w) n \<longleftrightarrow> bit w n \<or> bit w 12 \<and> 13 \<le> n \<and> n < 32"
  "bit (sign_extend_20b w) n \<longleftrightarrow> bit w n \<or> bit w 19 \<and> 20 \<le> n \<and> n < 32"
  unfolding sign_extend_12b_def sign_extend_13b_def sign_extend_20b_def sign_bits
  by (auto simp: bit_or_iff bit_numeral_consts32 simp del: bit_numeral_word_iff)

lemma sign_extend_12b_scast: "sign_extend_12b (ucast x) = scast x" for x :: "12 word"
proof (rule bit_word_eqI)
  fix n
  assume "n < LENGTH(32)"
  have long: "\<not> bit x k" if "12 \<le> k" for k
    using that by (auto dest: bit_imp_le_length)
  have "min 11 n = (if n \<le> 11 then n else 11)"
    by auto
  with \<open>n < LENGTH(32)\<close> show "bit (sign_extend_12b (ucast x)) n = bit (scast x :: u32) n"
    unfolding bit_sign_extend by (auto simp: bit_ucast32 bit_signed_iff long)
qed

lemma bit_push_scast:
  "bit (push_bit lo (scast (x :: 'a::len word)) :: 'b::len word) n \<longleftrightarrow>
     n < LENGTH('b) \<and> lo \<le> n \<and> bit x (min (LENGTH('a) - 1) (n - lo))"
  by (auto simp: bit_push_bit_iff bit_signed_iff possible_bit_def)

lemma sign_extend_13b_scast: "sign_extend_13b (push_bit 1 (ucast x)) = push_bit 1 (scast x)"
  for x :: "12 word"
proof (rule bit_word_eqI)
  fix n
  assume "n < LENGTH(32)"
  have long: "\<not> bit x k" if "12 \<le> k" for k
    using that by (auto dest: bit_imp_le_length)
  have "min 11 (n - 1) = (if n \<le> 12 then n - 1 else 11)"
    by auto
  with \<open>n < LENGTH(32)\<close> show "bit (sign_extend_13b (push_bit 1 (ucast x))) n = bit (push_bit 1 (scast x) :: u32) n"
    unfolding bit_sign_extend bit_push_ucast bit_push_scast by (auto simp: long)
qed

lemma int_to_u64_scast: "LENGTH('a) \<le> 32 \<Longrightarrow> int_to_u64 (scast x) = scast x" for x :: "'a::len word"
  unfolding int_to_u64_def
  by (rule bit_word_eqI) (auto simp: bit_signed_iff min_def)

section \<open>Properties of the decoder\<close>

text \<open>
  Every register number a format yields is below 32 and every I-type immediate below 4096,
  whatever the instruction word: the register file and the CSR file are never indexed out of
  bounds by a field.
\<close>

theorem fields_in_bounds:
  "parse_instruction format instruction s = Ret f t \<Longrightarrow>
     unat (rd f) < 32 \<and> unat (rs1 f) < 32 \<and> unat (rs2 f) < 32 \<and>
     (format = CHR ''I'' \<longrightarrow> unat (imm f) < 4096)"
  using unat_mask32_less [of 7 11 instruction] unat_mask32_less [of 15 19 instruction]
    unat_mask32_less [of 20 24 instruction] unat_mask32_less [of 20 31 instruction]
  by (auto simp: parse_instruction_def parse_defs split: if_splits)

lemma fields_in_bounds_witness:
  "unat (imm (parse_I 0xFFF00093)) < 4096"
proof -
  have "parse_instruction (CHR ''I'') 0xFFF00093 () = Ret (parse_I 0xFFF00093) ()"
    by (simp add: parse_instruction_def)
  from fields_in_bounds [OF this] show ?thesis by simp
qed

text \<open>
  Decoding the fields of an instruction encoded as the RISC-V manual lays out the six formats
  gives back the operands and the immediate.
\<close>

theorem fields_roundtrip:
  "parse_R (encode_R f7 r2 r1 f3 d opc) =
     \<lparr>opcode = ucast opc, rd = ucast d, funct3 = ucast f3, rs1 = ucast r1, rs2 = ucast r2,
      funct7 = ucast f7, imm = 0\<rparr> \<and>
   parse_I (encode_I im r1 f3 d opc) =
     \<lparr>opcode = ucast opc, rd = ucast d, funct3 = ucast f3, rs1 = ucast r1, rs2 = 0, funct7 = 0,
      imm = ucast im\<rparr> \<and>
   parse_S (encode_S im r2 r1 f3 opc) =
     \<lparr>opcode = ucast opc, rd = 0, funct3 = ucast f3, rs1 = ucast r1, rs2 = ucast r2, funct7 = 0,
      imm = ucast im\<rparr> \<and>
   parse_B (encode_B off r2 r1 f3 opc) =
     \<lparr>opcode = ucast opc, rd = 0, funct3 = ucast f3, rs1 = ucast r1, rs2 = ucast r2, funct7 = 0,
      imm = push_bit 1 (ucast off)\<rparr> \<and>
   parse_U (encode_U up d opc) =
     \<lparr>opcode = ucast opc, rd = ucast d, funct3 = 0, rs1 = 0, rs2 = 0, funct7 = 0,
      imm = push_bit 12 (ucast up)\<rparr> \<and>
   parse_J (encode_J joff d opc) =
     \<lparr>opcode = ucast opc, rd = ucast d, funct3 = 0, rs1 = 0, rs2 = 0, funct7 = 0,
      imm = push_bit 1 (ucast joff)\<rparr>"
  by (simp only: fields_R fields_I fields_S fields_B fields_U fields_J)

lemma jump_offset_iff:
  fixes off :: "20 word"
  shows "int_to_u64 (sign_extend_20b (push_bit 1 (ucast off))) = push_bit 1 (scast off) \<longleftrightarrow>
    bit off 18 = bit off 19"
proof
  assume eq: "int_to_u64 (sign_extend_20b (push_bit 1 (ucast off))) = push_bit 1 (scast off)"
  show "bit off 18 = bit off 19"
    using arg_cong [OF eq, of "\<lambda>w. bit w 21"]
    unfolding bit_int_to_u64 bit_sign_extend bit_push_ucast bit_push_scast
    by (auto simp: min_def dest: bit_imp_le_length)
next
  assume sgn: "bit off 18 = bit off 19"
  have long: "\<not> bit off k" if "20 \<le> k" for k
    using that by (auto dest: bit_imp_le_length)
  show "int_to_u64 (sign_extend_20b (push_bit 1 (ucast off))) = push_bit 1 (scast off)"
  proof (rule bit_word_eqI)
    fix n
    assume n: "n < LENGTH(64)"
    consider "n = 0" | "1 \<le> n \<and> n < 20" | "n = 20" | "21 \<le> n"
      by linarith
    then show "bit (int_to_u64 (sign_extend_20b (push_bit 1 (ucast off)))) n =
        bit (push_bit 1 (scast off) :: u64) n"
      unfolding bit_int_to_u64 bit_sign_extend bit_push_ucast bit_push_scast
      by cases (use n sgn long in \<open>auto simp: min_def le_Suc_eq not_le\<close>)
  qed
qed

lemma branch_offset: "int_to_u64 (push_bit 1 (scast boff)) = push_bit 1 (scast boff)"
  for boff :: "12 word"
proof (rule bit_word_eqI)
  fix n
  assume n: "n < LENGTH(64)"
  consider "n = 0" | "1 \<le> n \<and> n \<le> 12" | "13 \<le> n"
    by linarith
  then show "bit (int_to_u64 (push_bit 1 (scast boff))) n = bit (push_bit 1 (scast boff) :: u64) n"
    unfolding bit_int_to_u64 bit_push_scast
    by cases (use n in \<open>auto simp: min_def\<close>)
qed

text \<open>
  The sign extension of immediates. A branch offset and a 12-bit I-type immediate are extended
  as the manual says. A jump offset is extended from bit 19 instead of bit 20, so it is right
  exactly when these two bits agree (offsets from -512 KiB up to, not including, 512 KiB), although
  the format reaches to 1 MiB.
\<close>

theorem offsets_sign_extended:
  "int_to_u64 (sign_extend_12b (imm (parse_I (encode_I im r1 f3 d opc)))) = scast im \<and>
   int_to_u64 (sign_extend_13b (imm (parse_B (encode_B boff r2 r1 f3 opc)))) = push_bit 1 (scast boff) \<and>
   (int_to_u64 (sign_extend_20b (imm (parse_J (encode_J joff d opc)))) = push_bit 1 (scast joff) \<longleftrightarrow>
      bit joff 18 = bit joff 19)"
  by (simp add: fields_I fields_B fields_J sign_extend_12b_scast sign_extend_13b_scast
      int_to_u64_scast branch_offset jump_offset_iff del: One_nat_def push_bit_of_1)

end
