(* ===== verification/Cpu_State.thy ===== *)
theory Cpu_State
  imports Paging Bus Formats
begin

text \<open>
  The state of \<open>class CPU\<close> (\<open>include/cpu.h\<close>) and its accessors. The register files are
  \<open>std::array\<close>s indexed by an \<open>int\<close>; the index arrives as an unsigned value that is converted to
  \<open>int\<close> (\<open>to_int\<close>). \<open>SetReg\<close> and \<open>SetCsr\<close> check the bounds of the array and are
  undefined outside it. The reads \<open>GetReg\<close> and \<open>GetCsr\<close> are only ever given instruction fields
  and CSR constants, which are in bounds (\<open>fields_in_bounds\<close>).
\<close>

section \<open>CSR numbers and interrupt bits\<close>

definition sstatus :: u16 where "sstatus = 0x100"
definition sie :: u16 where "sie = 0x104"
definition stvec :: u16 where "stvec = 0x105"
definition sscratch :: u16 where "sscratch = 0x140"
definition sepc :: u16 where "sepc = 0x141"
definition scause :: u16 where "scause = 0x142"
definition stval :: u16 where "stval = 0x143"
definition sip :: u16 where "sip = 0x144"
definition satp :: u16 where "satp = 0x180"
definition mstatus :: u16 where "mstatus = 0x300"
definition medeleg :: u16 where "medeleg = 0x302"
definition mideleg :: u16 where "mideleg = 0x303"
definition mie :: u16 where "mie = 0x304"
definition mtvec :: u16 where "mtvec = 0x305"
definition mscratch :: u16 where "mscratch = 0x340"
definition mepc :: u16 where "mepc = 0x341"
definition mcause :: u16 where "mcause = 0x342"
definition mtval :: u16 where "mtval = 0x343"
definition mip :: u16 where "mip = 0x344"

lemmas csr_defs = sstatus_def sie_def stvec_def sscratch_def sepc_def scause_def stval_def sip_def
  satp_def mstatus_def medeleg_def mideleg_def mie_def mtvec_def mscratch_def mepc_def mcause_def
  mtval_def mip_def

text \<open>The keys of the interrupt table, \<open>enum MIP : uint64_t\<close>, with their values.\<close>

datatype MIP = ssip | msip | stip | mtip | seip | meip

primrec mip_bit :: "MIP \<Rightarrow> u64" where
  "mip_bit ssip = push_bit 1 1"
| "mip_bit msip = push_bit 3 1"
| "mip_bit stip = push_bit 5 1"
| "mip_bit mtip = push_bit 7 1"
| "mip_bit seip = push_bit 9 1"
| "mip_bit meip = push_bit 11 1"

section \<open>The state\<close>

record cpu =
  pc :: u64
  regs :: "nat \<Rightarrow> u64"
  csrs :: "nat \<Rightarrow> u64"
  priv_mode :: PrivilegeMode
  mmu :: mmu

definition xlen :: u64 where "xlen = 64"

definition cpu_new :: "mmu \<Rightarrow> u64 \<Rightarrow> cpu" where
  "cpu_new m entry_point =
     \<lparr>pc = entry_point, regs = (\<lambda>_. 0), csrs = (\<lambda>_. 0), priv_mode = MACHINE, mmu = m\<rparr>"

text \<open>The two constructors: with an entry point, and at \<open>KERNBASE\<close>.\<close>

definition CPU_entry :: "u8 list \<Rightarrow> u64 \<Rightarrow> (cpu, unit) trapping" where
  "CPU_entry binary entry_point = obind (mmu_init binary) (\<lambda>m s. Ret (cpu_new m entry_point) s)"

definition CPU_kernbase :: "u8 list \<Rightarrow> (cpu, unit) trapping" where
  "CPU_kernbase binary = obind (mmu_init binary) (\<lambda>m s. Ret (cpu_new m KERNBASE) s)"

type_synonym 'a exec = "('a, cpu) trapping"

definition GetMode :: "cpu \<Rightarrow> PrivilegeMode" where "GetMode cpu = priv_mode cpu"
definition SetMode :: "PrivilegeMode \<Rightarrow> cpu \<Rightarrow> cpu" where "SetMode mode cpu = cpu\<lparr>priv_mode := mode\<rparr>"
definition GetPc :: "cpu \<Rightarrow> u64" where "GetPc cpu = pc cpu"
definition SetPc :: "u64 \<Rightarrow> cpu \<Rightarrow> cpu" where "SetPc addr cpu = cpu\<lparr>pc := addr\<rparr>"

definition GetReg :: "'a::len word \<Rightarrow> cpu \<Rightarrow> u64" where
  "GetReg reg cpu = regs cpu (nat (to_int reg))"

definition SetReg :: "'a::len word \<Rightarrow> u64 \<Rightarrow> cpu \<Rightarrow> unit exec" where
  "SetReg reg val cpu =
     (let i = to_int reg
      in if 0 \<le> i \<and> i < N_REG then Ret () (cpu\<lparr>regs := (regs cpu)(nat i := val)\<rparr>)
         else Undef Out_Of_Bounds)"

definition GetCsr :: "'a::len word \<Rightarrow> cpu \<Rightarrow> u64" where
  "GetCsr csr cpu = csrs cpu (nat (to_int csr))"

definition UpdatePagingMode :: "u64 \<Rightarrow> cpu \<Rightarrow> unit exec" where
  "UpdatePagingMode satp_val cpu =
     (if xlen = 64
      then Ret () (cpu\<lparr>mmu := SetRootPageTable (mask64 0 43 satp_val)
                 (SetPagingMode (if mask64 63 63 satp_val \<noteq> 0 then Sv39 else Bare) (mmu cpu))\<rparr>)
      else Throw InstructionPageFault cpu)"

definition SetCsr :: "'a::len word \<Rightarrow> u64 \<Rightarrow> cpu \<Rightarrow> unit exec" where
  "SetCsr csr val cpu =
     (let i = to_int csr
      in if 0 \<le> i \<and> i < N_CSR
         then let cpu = cpu\<lparr>csrs := (csrs cpu)(nat i := val)\<rparr>
              in if i = to_int satp then UpdatePagingMode val cpu else Ret () cpu
         else Undef Out_Of_Bounds)"

definition CPU_Load :: "u64 \<Rightarrow> int \<Rightarrow> u64 option \<Rightarrow> cpu \<Rightarrow> (u64 option) exec" where
  "CPU_Load addr n data cpu = with_state (\<lambda>m. cpu\<lparr>mmu := m\<rparr>) (MMU_Load addr n data (mmu cpu))"

definition CPU_Store :: "u64 \<Rightarrow> int \<Rightarrow> u64 \<Rightarrow> cpu \<Rightarrow> unit exec" where
  "CPU_Store addr n data cpu = with_state (\<lambda>m. cpu\<lparr>mmu := m\<rparr>) (MMU_Store addr n data (mmu cpu))"

lemmas accessor_defs = GetMode_def SetMode_def GetPc_def SetPc_def

section \<open>Accesses in bounds\<close>

definition set_reg :: "nat \<Rightarrow> u64 \<Rightarrow> cpu \<Rightarrow> cpu" where
  "set_reg i v cpu = cpu\<lparr>regs := (regs cpu)(i := v)\<rparr>"

definition set_paging :: "u64 \<Rightarrow> mmu \<Rightarrow> mmu" where
  "set_paging v m = m\<lparr>paging_mode := (if bit v 63 then Sv39 else Bare), root_page_table := Some (take_bit 44 v)\<rparr>"

definition set_csr :: "nat \<Rightarrow> u64 \<Rightarrow> cpu \<Rightarrow> cpu" where
  "set_csr i v cpu =
     cpu\<lparr>csrs := (csrs cpu)(i := v), mmu := (if i = 0x180 then set_paging v (mmu cpu) else mmu cpu)\<rparr>"

lemma set_reg_simps [simp]:
  "pc (set_reg i v c) = pc c" "csrs (set_reg i v c) = csrs c" "priv_mode (set_reg i v c) = priv_mode c"
  "mmu (set_reg i v c) = mmu c" "regs (set_reg i v c) = (regs c)(i := v)"
  by (simp_all add: set_reg_def)

lemma set_csr_simps [simp]:
  "pc (set_csr i v c) = pc c" "regs (set_csr i v c) = regs c" "priv_mode (set_csr i v c) = priv_mode c"
  "csrs (set_csr i v c) = (csrs c)(i := v)"
  "mmu (set_csr i v c) = (if i = 0x180 then set_paging v (mmu c) else mmu c)"
  by (simp_all add: set_csr_def)

lemma GetReg_small: "unat r < 32 \<Longrightarrow> GetReg r c = regs c (unat r)"
  by (simp add: GetReg_def nat_to_int_small)

lemma SetReg_small:
  assumes "unat r < 32"
  shows "SetReg r v c = Ret () (set_reg (unat r) v c)"
proof -
  have "uint r < 32"
    using assms uint_nat [of r] by linarith
  with assms show ?thesis
    by (simp add: SetReg_def to_int_small Let_def N_REG_def set_reg_def)
qed

lemma GetCsr_small: "unat i < 4096 \<Longrightarrow> GetCsr i c = csrs c (unat i)"
  by (simp add: GetCsr_def nat_to_int_small)

lemma mask64_satp: "mask64 0 43 v = take_bit 44 v" "mask64 63 63 v \<noteq> 0 \<longleftrightarrow> bit v 63"
proof -
  show "mask64 0 43 v = take_bit 44 v"
    by (simp add: mask64_take_bit)
  have "mask64 63 63 v = of_bool (bit v 63)"
    by (simp add: mask64_take_bit take_bit_Suc_0 bit_iff_odd_drop_bit mod_2_eq_odd take_bit_eq_mod)
  then show "mask64 63 63 v \<noteq> 0 \<longleftrightarrow> bit v 63"
    by simp
qed

lemma SetCsr_eq:
  "SetCsr i v c =
     (if 0 \<le> to_int i \<and> to_int i < 4096 then Ret () (set_csr (nat (to_int i)) v c) else Undef Out_Of_Bounds)"
proof -
  have "to_int satp = 384"
    by (simp add: satp_def to_int_def)
  moreover have "nat (to_int i) = 384 \<longleftrightarrow> to_int i = 384"
    by auto
  ultimately show ?thesis
    by (simp add: SetCsr_def Let_def N_CSR_def set_csr_def UpdatePagingMode_def xlen_def
        mask64_satp set_paging_def SetRootPageTable_def SetPagingMode_def)
qed

lemma SetCsr_small:
  assumes "unat i < 4096"
  shows "SetCsr i v c = Ret () (set_csr (unat i) v c)"
proof -
  have "to_int i = int (unat i)"
    using assms by (intro to_int_small) simp
  with assms show ?thesis
    by (simp only: SetCsr_eq of_nat_0_le_iff of_nat_less_numeral_iff simp_thms nat_int if_True)
qed

section \<open>The configuration of the MMU follows the satp register\<close>

text \<open>
  What every operation of the CPU keeps: the MMU's paging mode and root page table are the ones the
  satp register asks for (the root is still unset while satp was never written with paging on), its
  page size is 4096, and its copy of the privilege mode is MACHINE.
\<close>

definition paging_coherent :: "u64 \<Rightarrow> mmu \<Rightarrow> bool" where
  "paging_coherent v m \<longleftrightarrow>
     paging_mode m = (if bit v 63 then Sv39 else Bare) \<and>
     (bit v 63 \<longrightarrow> root_page_table m = Some (take_bit 44 v)) \<and>
     page_size m = 4096 \<and> privilege_mode m = MACHINE"

definition cpu_ok :: "cpu \<Rightarrow> bool" where
  "cpu_ok c \<longleftrightarrow> paging_coherent (csrs c 0x180) (mmu c)"

definition same_config :: "mmu \<Rightarrow> mmu \<Rightarrow> bool" where
  "same_config m m' \<longleftrightarrow> paging_mode m' = paging_mode m \<and> root_page_table m' = root_page_table m \<and>
     page_size m' = page_size m \<and> privilege_mode m' = privilege_mode m"

lemma paging_coherent_cong: "same_config m m' \<Longrightarrow> paging_coherent v m' = paging_coherent v m"
  by (simp add: same_config_def paging_coherent_def)

lemma same_config_refl [simp]: "same_config m m"
  by (simp add: same_config_def)

lemma bus_same_config:
  "out_all (same_config m) (bus_Load pa n d m)" "out_all (same_config m) (bus_Store pa n v m)"
  by (simp_all add: bus_Load_def bus_Store_def out_all_with_state same_config_def)

lemma Translate_keeps: "out_all (\<lambda>m'. m' = m) (Translate va m)"
  by (simp add: Translate_eq split: option.split)

lemma MMU_same_config:
  "out_all (same_config m) (MMU_Load va n d m)" "out_all (same_config m) (MMU_Store va n v m)"
proof -
  show "out_all (same_config m) (MMU_Load va n d m)"
    using Translate_keeps [of m va]
    by (cases "Translate va m") (auto simp: MMU_Load_unfold bus_same_config)
  show "out_all (same_config m) (MMU_Store va n v m)"
    using Translate_keeps [of m va]
    by (cases "Translate va m") (auto simp: MMU_Store_def bus_same_config)
qed

lemma cpu_ok_Load [outcome_inv]: "cpu_ok c \<Longrightarrow> out_all cpu_ok (CPU_Load addr n d c)"
  unfolding CPU_Load_def out_all_with_state
  by (rule out_all_mono [OF MMU_same_config(1)]) (simp add: cpu_ok_def paging_coherent_cong)

lemma cpu_ok_Store [outcome_inv]: "cpu_ok c \<Longrightarrow> out_all cpu_ok (CPU_Store addr n v c)"
  unfolding CPU_Store_def out_all_with_state
  by (rule out_all_mono [OF MMU_same_config(2)]) (simp add: cpu_ok_def paging_coherent_cong)

lemma cpu_ok_SetReg [outcome_inv]: "cpu_ok c \<Longrightarrow> out_all cpu_ok (SetReg r v c)"
  by (simp add: SetReg_def Let_def cpu_ok_def)

lemma cpu_ok_set_csr: "cpu_ok c \<Longrightarrow> cpu_ok (set_csr i v c)"
  by (auto simp: cpu_ok_def paging_coherent_def set_paging_def)

lemma cpu_ok_SetCsr [outcome_inv]: "cpu_ok c \<Longrightarrow> out_all cpu_ok (SetCsr csr v c)"
  by (simp add: SetCsr_eq cpu_ok_set_csr)

lemma cpu_ok_SetPc [outcome_inv]: "cpu_ok c \<Longrightarrow> cpu_ok (SetPc a c)"
  by (simp add: cpu_ok_def SetPc_def)

lemma cpu_ok_SetMode [outcome_inv]: "cpu_ok c \<Longrightarrow> cpu_ok (SetMode md c)"
  by (simp add: cpu_ok_def SetMode_def)

lemma cpu_ok_new: "cpu_ok (cpu_new (mmu_new mem) entry)"
  by (simp add: cpu_ok_def cpu_new_def mmu_new_def paging_coherent_def PAGE_SIZE_def)

end
