(* ===== verification/Traps.thy ===== *)
theory Traps
  imports Cpu_State
begin

text \<open>
  Trap entry and interrupt delivery: \<open>CPU::HandleTrap\<close>, the table \<open>interrupt_handlers\<close> and
  \<open>CPU::HandleInterrupts\<close> of \<open>source/cpu.cpp\<close>. \<open>HandleTrap\<close> writes the array \<open>csrs\<close> directly,
  without \<open>SetCsr\<close>. The table is a \<open>std::map\<close> keyed by \<open>MIP\<close>: it is listed in one order and
  iterated in the order of its keys.
\<close>

section \<open>HandleTrap\<close>

definition csr_write :: "u16 \<Rightarrow> u64 \<Rightarrow> cpu \<Rightarrow> cpu" where
  "csr_write csr v cpu = cpu\<lparr>csrs := (csrs cpu)(nat (to_int csr) := v)\<rparr>"

definition HandleTrap :: "trap_value \<Rightarrow> cpu \<Rightarrow> cpu" where
  "HandleTrap tval cpu =
     (let trap_pc = pc cpu - 4;
          trap_priv_mode = GetMode cpu;
          cause = trap_code tval
      in if (trap_priv_mode = SUPERVISOR \<or> trap_priv_mode = USER) \<and>
            drop_bit (unat (cause AND NOT interrupt_bit)) (GetCsr medeleg cpu) AND 1 \<noteq> 0
         then
           let cpu = SetMode SUPERVISOR cpu;
               cpu = (if cause AND interrupt_bit \<noteq> 0
                      then let vec = (if GetCsr stvec cpu AND 1 \<noteq> 0 then 4 * cause else 0)
                           in cpu\<lparr>pc := (GetCsr stvec cpu AND NOT 1) + vec\<rparr>
                      else cpu\<lparr>pc := GetCsr stvec cpu AND NOT 1\<rparr>);
               cpu = csr_write sepc (trap_pc AND NOT 1) cpu;
               cpu = csr_write scause cause cpu;
               cpu = csr_write stval 0 cpu;
               cpu = csr_write sstatus
                       (if drop_bit 1 (GetCsr sstatus cpu) AND 1 \<noteq> 0
                        then GetCsr sstatus cpu OR push_bit 5 1
                        else GetCsr sstatus cpu AND NOT (push_bit 5 1)) cpu;
               cpu = csr_write sstatus (GetCsr sstatus cpu AND NOT (push_bit 1 1)) cpu
           in if trap_priv_mode = USER
              then csr_write sstatus (GetCsr sstatus cpu AND NOT (push_bit 8 1)) cpu
              else csr_write sstatus (GetCsr sstatus cpu OR push_bit 8 1) cpu
         else
           let cpu = cpu\<lparr>priv_mode := MACHINE\<rparr>;
               cpu = (if cause AND interrupt_bit \<noteq> 0
                      then let vec = (if GetCsr mtvec cpu AND 1 \<noteq> 0 then 4 * cause else 0)
                           in cpu\<lparr>pc := (GetCsr mtvec cpu AND NOT 1) + vec\<rparr>
                      else cpu\<lparr>pc := GetCsr mtvec cpu AND NOT 1\<rparr>);
               cpu = csr_write mepc (trap_pc AND NOT 1) cpu;
               cpu = csr_write mcause cause cpu;
               cpu = csr_write mtval 0 cpu;
               cpu = csr_write mstatus
                       (if drop_bit 3 (GetCsr mstatus cpu) AND 1 \<noteq> 0
                        then GetCsr mstatus cpu OR push_bit 7 1
                        else GetCsr mstatus cpu AND NOT (push_bit 7 1)) cpu;
               cpu = csr_write mstatus (GetCsr mstatus cpu AND NOT (push_bit 3 1)) cpu
           in csr_write mstatus (GetCsr mstatus cpu AND NOT (push_bit 11 3)) cpu)"

text \<open>The numbers of the CSR constants as array indexes.\<close>

lemma csr_index [simp]:
  "nat (to_int sstatus) = 0x100" "nat (to_int sie) = 0x104" "nat (to_int stvec) = 0x105"
  "nat (to_int sscratch) = 0x140" "nat (to_int sepc) = 0x141" "nat (to_int scause) = 0x142"
  "nat (to_int stval) = 0x143" "nat (to_int sip) = 0x144" "nat (to_int satp) = 0x180"
  "nat (to_int mstatus) = 0x300" "nat (to_int medeleg) = 0x302" "nat (to_int mideleg) = 0x303"
  "nat (to_int mie) = 0x304" "nat (to_int mtvec) = 0x305" "nat (to_int mscratch) = 0x340"
  "nat (to_int mepc) = 0x341" "nat (to_int mcause) = 0x342" "nat (to_int mtval) = 0x343"
  "nat (to_int mip) = 0x344"
  by (simp_all add: csr_defs to_int_def)

lemma csr_small [simp]:
  "SetCsr sstatus v c = Ret () (set_csr 0x100 v c)" "SetCsr mstatus v c = Ret () (set_csr 0x300 v c)"
  "SetCsr mip v c = Ret () (set_csr 0x344 v c)"
  by (simp_all add: csr_defs SetCsr_small)

lemma csr_and_1: "drop_bit k v AND 1 \<noteq> 0 \<longleftrightarrow> bit v k" "drop_bit k v AND 1 = 0 \<longleftrightarrow> \<not> bit v k"
  for v :: u64
  by (simp_all add: bit_iff_odd_drop_bit and_one_eq odd_iff_mod_2_eq_one even_iff_mod_2_eq_zero)

lemma and_1_bit: "v AND 1 \<noteq> 0 \<longleftrightarrow> bit v 0" for v :: u64
  using csr_and_1 [of 0 v] by simp

text \<open>When a trap goes to supervisor mode, as the code decides it.\<close>

definition delegated :: "trap_value \<Rightarrow> cpu \<Rightarrow> bool" where
  "delegated t c \<longleftrightarrow> priv_mode c \<noteq> MACHINE \<and> bit (csrs c 0x302) (unat (cause_number t))"

text \<open>
  The target of a trap vector: the base, and in vectored mode four bytes per interrupt number. The
  code multiplies the whole cause by 4; the interrupt bit falls out of the 64-bit product.
\<close>

definition vector_target :: "trap_value \<Rightarrow> u64 \<Rightarrow> u64" where
  "vector_target t v =
     (v AND NOT 1) + (if is_interrupt t \<and> bit v 0 then 4 * cause_number t else 0)"

lemma four_cause: "4 * trap_code t = 4 * cause_number t"
  by (cases t) (simp_all add: cause_number_def interrupt_bit_def)

text \<open>The interrupt-enable stack of a status register on trap entry.\<close>

definition push_ie :: "nat \<Rightarrow> nat \<Rightarrow> u64 \<Rightarrow> u64" where
  "push_ie ie pie v = unset_bit ie (if bit v ie then set_bit pie v else unset_bit pie v)"

lemma clear_bit: "v AND NOT (push_bit k 1) = unset_bit k v" for v :: u64
  by (simp add: unset_bit_eq_and_not)

lemma put_bit: "v OR push_bit k 1 = set_bit k v" for v :: u64
  by (simp add: set_bit_eq_or)

lemma not_machine: "p = SUPERVISOR \<or> p = USER \<longleftrightarrow> p \<noteq> MACHINE"
  by (cases p) simp_all

lemma vector_code:
  "(if trap_code t AND interrupt_bit \<noteq> 0
    then cpu\<lparr>pc := (v AND NOT 1) + (if bit v 0 then 4 * trap_code t else 0)\<rparr>
    else cpu\<lparr>pc := v AND NOT 1\<rparr>) = cpu\<lparr>pc := vector_target t v\<rparr>"
  by (simp add: vector_target_def is_interrupt_def four_cause)

lemmas HandleTrap_unfold = HandleTrap_def Let_def not_machine clear_bit put_bit csr_and_1 and_1_bit not_not
  GetMode_def SetMode_def GetCsr_def csr_write_def csr_index vector_code cause_number_def [symmetric]

lemma HandleTrap_delegated:
  assumes "delegated t c"
  shows "HandleTrap t c =
     c\<lparr>pc := vector_target t (csrs c 0x105), priv_mode := SUPERVISOR,
       csrs := (csrs c)(0x141 := (pc c - 4) AND NOT 1, 0x142 := trap_code t, 0x143 := 0,
         0x100 := (if priv_mode c = USER then unset_bit 8 (push_ie 1 5 (csrs c 0x100))
                   else set_bit 8 (push_ie 1 5 (csrs c 0x100))))\<rparr>"
proof -
  have "priv_mode c \<noteq> MACHINE \<and> bit (csrs c 0x302) (unat (cause_number t))"
    using assms by (simp add: delegated_def)
  then show ?thesis
    unfolding HandleTrap_unfold by (simp add: vector_code push_ie_def del: fun_upd_apply)
      (simp add: fun_eq_iff)
qed

lemma HandleTrap_machine:
  assumes "\<not> delegated t c"
  shows "HandleTrap t c =
     c\<lparr>pc := vector_target t (csrs c 0x305), priv_mode := MACHINE,
       csrs := (csrs c)(0x341 := (pc c - 4) AND NOT 1, 0x342 := trap_code t, 0x343 := 0,
         0x300 := push_ie 3 7 (csrs c 0x300) AND NOT (push_bit 11 3))\<rparr>"
proof -
  have no: "\<not> (priv_mode c \<noteq> MACHINE \<and> bit (csrs c 0x302) (unat (cause_number t)))"
    using assms by (simp add: delegated_def)
  show ?thesis
    unfolding HandleTrap_unfold if_not_P [OF no]
    by (simp add: vector_code push_ie_def del: fun_upd_apply) (simp add: fun_eq_iff)
qed

section \<open>Interrupts\<close>

text \<open>\<open>MIP\<close> keys are compared by their value, as \<open>std::map\<close> does with \<open>std::less\<close>.\<close>

lemma mip_bit_inj: "mip_bit j = mip_bit k \<longleftrightarrow> j = k"
  by (cases j; cases k) simp_all

instantiation MIP :: linorder
begin

definition less_eq_MIP :: "MIP \<Rightarrow> MIP \<Rightarrow> bool" where
  "less_eq_MIP j k \<longleftrightarrow> mip_bit j \<le> mip_bit k"

definition less_MIP :: "MIP \<Rightarrow> MIP \<Rightarrow> bool" where
  "less_MIP j k \<longleftrightarrow> mip_bit j < mip_bit k"

instance
  by standard (auto simp: less_eq_MIP_def less_MIP_def mip_bit_inj [symmetric] not_le)

end

text \<open>The lambda of one entry: clear the pending bit, then trap.\<close>

definition interrupt_entry :: "MIP \<Rightarrow> trap_value \<Rightarrow> cpu \<Rightarrow> unit exec" where
  "interrupt_entry k t cpu =
     obind (SetCsr mip (GetCsr mip cpu AND NOT (mip_bit k)) cpu) (\<lambda>_ cpu. Ret () (HandleTrap t cpu))"

text \<open>The table as it is listed, and as the map iterates it.\<close>

definition interrupt_table :: "(MIP \<times> (cpu \<Rightarrow> unit exec)) list" where
  "interrupt_table =
     [(meip, interrupt_entry meip MachineExternalInterrupt),
      (msip, interrupt_entry msip MachineSoftwareInterrupt),
      (mtip, interrupt_entry mtip MachineTimerInterrupt),
      (seip, interrupt_entry seip SupervisorExternalInterrupt),
      (ssip, interrupt_entry ssip SupervisorSoftwareInterrupt),
      (stip, interrupt_entry stip SupervisorTimerInterrupt)]"

definition interrupt_handlers :: "(MIP \<times> (cpu \<Rightarrow> unit exec)) list" where
  "interrupt_handlers = sort_key fst interrupt_table"

fun run_handlers :: "u64 \<Rightarrow> (MIP \<times> (cpu \<Rightarrow> unit exec)) list \<Rightarrow> cpu \<Rightarrow> unit exec" where
  "run_handlers pending [] cpu = Ret () cpu"
| "run_handlers pending ((k, h) # hs) cpu =
     (if pending AND mip_bit k \<noteq> 0 then h cpu else run_handlers pending hs cpu)"

definition HandleInterrupts :: "cpu \<Rightarrow> unit exec" where
  "HandleInterrupts cpu =
     (if GetMode cpu = MACHINE \<and> drop_bit 3 (GetCsr mstatus cpu) AND 1 = 0 then Ret () cpu
      else if GetMode cpu = SUPERVISOR \<and> drop_bit 1 (GetCsr sstatus cpu) AND 1 = 0 then Ret () cpu
      else run_handlers (GetCsr mie cpu AND GetCsr mip cpu) interrupt_handlers cpu)"

lemma mip_order [simp]:
  "ssip \<le> k" "k \<le> meip" "msip \<le> stip" "msip \<le> mtip" "msip \<le> seip" "stip \<le> mtip" "stip \<le> seip"
  "mtip \<le> seip" "\<not> stip \<le> msip" "\<not> mtip \<le> msip" "\<not> seip \<le> msip" "\<not> mtip \<le> stip"
  "\<not> seip \<le> stip" "\<not> seip \<le> mtip" "meip \<le> k \<longleftrightarrow> k = meip" "k \<le> ssip \<longleftrightarrow> k = ssip"
  by (cases k; simp add: less_eq_MIP_def)+

lemma interrupt_handlers_order:
  "interrupt_handlers =
     [(ssip, interrupt_entry ssip SupervisorSoftwareInterrupt),
      (msip, interrupt_entry msip MachineSoftwareInterrupt),
      (stip, interrupt_entry stip SupervisorTimerInterrupt),
      (mtip, interrupt_entry mtip MachineTimerInterrupt),
      (seip, interrupt_entry seip SupervisorExternalInterrupt),
      (meip, interrupt_entry meip MachineExternalInterrupt)]"
  by (simp add: interrupt_handlers_def interrupt_table_def)

primrec mip_trap :: "MIP \<Rightarrow> trap_value" where
  "mip_trap ssip = SupervisorSoftwareInterrupt"
| "mip_trap msip = MachineSoftwareInterrupt"
| "mip_trap stip = SupervisorTimerInterrupt"
| "mip_trap mtip = MachineTimerInterrupt"
| "mip_trap seip = SupervisorExternalInterrupt"
| "mip_trap meip = MachineExternalInterrupt"

text \<open>Whether the code looks at pending interrupts, which are pending, and what taking one does.\<close>

definition interrupts_enabled :: "cpu \<Rightarrow> bool" where
  "interrupts_enabled c \<longleftrightarrow>
     (case priv_mode c of MACHINE \<Rightarrow> bit (csrs c 0x300) 3 | SUPERVISOR \<Rightarrow> bit (csrs c 0x100) 1 | USER \<Rightarrow> True)"

definition pending_interrupts :: "cpu \<Rightarrow> MIP set" where
  "pending_interrupts c = {k. (csrs c 0x304 AND csrs c 0x344) AND mip_bit k \<noteq> 0}"

definition take_interrupt :: "MIP \<Rightarrow> cpu \<Rightarrow> cpu" where
  "take_interrupt k c = HandleTrap (mip_trap k) (set_csr 0x344 (csrs c 0x344 AND NOT (mip_bit k)) c)"

lemma finite_MIP [simp]: "finite (S :: MIP set)"
proof (rule finite_subset)
  show "S \<subseteq> {ssip, msip, stip, mtip, seip, meip}"
  proof
    fix k
    show "k \<in> {ssip, msip, stip, mtip, seip, meip}"
      by (cases k) simp_all
  qed
qed simp

lemma interrupt_entry_eq: "t = mip_trap k \<Longrightarrow> interrupt_entry k t c = Ret () (take_interrupt k c)"
  by (simp add: interrupt_entry_def take_interrupt_def GetCsr_def)

lemma run_handlers_least:
  assumes "pending AND mip_bit k \<noteq> 0" and "\<And>j. j < k \<Longrightarrow> pending AND mip_bit j = 0"
  shows "run_handlers pending interrupt_handlers c = Ret () (take_interrupt k c)"
proof -
  have less: "j < k \<Longrightarrow> pending AND mip_bit j = 0" for j
    by (rule assms(2))
  show ?thesis
    using assms(1) less [of ssip] less [of msip] less [of stip] less [of mtip] less [of seip]
    by (cases k) (simp_all add: interrupt_handlers_order interrupt_entry_eq less_MIP_def)
qed

lemma run_handlers_none:
  "(\<And>k. pending AND mip_bit k = 0) \<Longrightarrow> run_handlers pending interrupt_handlers c = Ret () c"
  by (simp add: interrupt_handlers_order del: mip_bit.simps)

lemma HandleInterrupts_eq:
  "HandleInterrupts c =
     (if interrupts_enabled c \<and> pending_interrupts c \<noteq> {}
      then Ret () (take_interrupt (Min (pending_interrupts c)) c) else Ret () c)"
proof -
  have "HandleInterrupts c =
      (if interrupts_enabled c then run_handlers (csrs c 0x304 AND csrs c 0x344) interrupt_handlers c
       else Ret () c)"
    unfolding HandleInterrupts_def csr_and_1 GetMode_def GetCsr_def csr_index interrupts_enabled_def
    by (cases "priv_mode c") auto
  moreover have "run_handlers (csrs c 0x304 AND csrs c 0x344) interrupt_handlers c =
      (if pending_interrupts c = {} then Ret () c
       else Ret () (take_interrupt (Min (pending_interrupts c)) c))"
  proof (cases "pending_interrupts c = {}")
    case True
    then show ?thesis
      by (simp add: run_handlers_none pending_interrupts_def)
  next
    case False
    obtain k where k: "k = Min (pending_interrupts c)"
      by blast
    have "k \<in> pending_interrupts c"
      unfolding k by (rule Min_in [OF finite_MIP False])
    moreover have "j \<notin> pending_interrupts c" if "j < k" for j
      using that Min_le [OF finite_MIP] unfolding k by (meson leD)
    ultimately have "run_handlers (csrs c 0x304 AND csrs c 0x344) interrupt_handlers c =
        Ret () (take_interrupt k c)"
      by (intro run_handlers_least) (auto simp: pending_interrupts_def)
    with False k show ?thesis
      by simp
  qed
  ultimately show ?thesis by simp
qed

section \<open>Invariant\<close>

lemma cpu_ok_HandleTrap [outcome_inv]: "cpu_ok c \<Longrightarrow> cpu_ok (HandleTrap t c)"
  by (cases "delegated t c") (simp_all add: HandleTrap_delegated HandleTrap_machine cpu_ok_def)

lemma cpu_ok_HandleInterrupts [outcome_inv]: "cpu_ok c \<Longrightarrow> out_all cpu_ok (HandleInterrupts c)"
  by (simp add: HandleInterrupts_eq take_interrupt_def cpu_ok_HandleTrap cpu_ok_set_csr)

section \<open>Properties\<close>

text \<open>
  C4. Trap entry, completely. A trap taken outside machine mode whose cause number is set in
  medeleg enters supervisor mode, any other enters machine mode; the pc goes to the target of the
  mode's trap vector (vectored by the number of an interrupt); epc is the pc of the trapping instruction
  (pc - 4) with bit 0 cleared, cause and tval are set; the interrupt enable moves to its previous-enable
  bit and is cleared; SPP records the mode, MPP is cleared. Nothing else changes.
\<close>

theorem trap_entry:
  "HandleTrap t c =
     (if delegated t c
      then c\<lparr>pc := vector_target t (csrs c 0x105), priv_mode := SUPERVISOR,
             csrs := (csrs c)(0x141 := (pc c - 4) AND NOT 1, 0x142 := trap_code t, 0x143 := 0,
               0x100 := (if priv_mode c = USER then unset_bit 8 (push_ie 1 5 (csrs c 0x100))
                         else set_bit 8 (push_ie 1 5 (csrs c 0x100))))\<rparr>
      else c\<lparr>pc := vector_target t (csrs c 0x305), priv_mode := MACHINE,
             csrs := (csrs c)(0x341 := (pc c - 4) AND NOT 1, 0x342 := trap_code t, 0x343 := 0,
               0x300 := push_ie 3 7 (csrs c 0x300) AND NOT (push_bit 11 3))\<rparr>)"
  by (cases "delegated t c") (simp_all only: HandleTrap_delegated HandleTrap_machine if_True if_False not_False_eq_True)

text \<open>The privileged architecture delegates interrupts by mideleg and exceptions by medeleg.\<close>

definition delegated_isa :: "trap_value \<Rightarrow> cpu \<Rightarrow> bool" where
  "delegated_isa t c \<longleftrightarrow> priv_mode c \<noteq> MACHINE \<and>
     bit (if is_interrupt t then csrs c 0x303 else csrs c 0x302) (unat (cause_number t))"

text \<open>
  Where the delegation follows the privileged architecture: for every exception, and for an
  interrupt only in machine mode or if medeleg and mideleg agree on its number, because the code
  looks an interrupt up in medeleg as well.
\<close>

theorem trap_mode_isa_iff:
  "priv_mode (HandleTrap t c) = (if delegated_isa t c then SUPERVISOR else MACHINE) \<longleftrightarrow>
     \<not> is_interrupt t \<or> priv_mode c = MACHINE \<or>
     bit (csrs c 0x302) (unat (cause_number t)) = bit (csrs c 0x303) (unat (cause_number t))"
  by (cases "delegated t c")
    (auto simp: HandleTrap_delegated HandleTrap_machine delegated_def delegated_isa_def)

text \<open>
  C16. Interrupt delivery. An interrupt is taken exactly when the current mode lets interrupts
  through and one is both pending and enabled; exactly one is taken, it is the one with the
  smallest bit of mip, its pending bit is cleared and the trap for it entered. (The table lists the
  interrupts by the priority of the architecture, but the map iterates it by key, which is nearly the reverse.)
\<close>

theorem interrupt_delivery:
  "HandleInterrupts c =
     (if interrupts_enabled c \<and> pending_interrupts c \<noteq> {}
      then Ret () (take_interrupt (Min (pending_interrupts c)) c) else Ret () c)"
  by (rule HandleInterrupts_eq)

end
