(* ===== verification/Insn.thy ===== *)
theory Insn
  imports Traps
begin

text \<open>
  What an entry of the table \<open>instructions[]\<close> in \<open>source/cpu.cpp\<close> is (\<open>struct Instruction\<close> of
  \<open>include/cpu.h\<close>), and the C++ shifts its lambdas use: a shift of a 64-bit value by 64 or more is
  undefined. The entries themselves are in \<open>Insn_I\<close>, \<open>Insn_I64\<close>, \<open>Insn_M\<close> and \<open>Insn_A\<close>, one
  definition each, in the order and with the text of the source.
\<close>

record instruction =
  name :: string
  format :: char
  mask_field :: u32
  instruction_matcher :: u32
  execute :: "u32 \<Rightarrow> cpu \<Rightarrow> unit exec"

definition shl64 :: "u64 \<Rightarrow> 'a::len word \<Rightarrow> cpu \<Rightarrow> u64 exec" where
  "shl64 a n cpu = (if unat n < 64 then Ret (push_bit (unat n) a) cpu else Undef Shift_Too_Far)"

definition shr64 :: "u64 \<Rightarrow> 'a::len word \<Rightarrow> cpu \<Rightarrow> u64 exec" where
  "shr64 a n cpu = (if unat n < 64 then Ret (drop_bit (unat n) a) cpu else Undef Shift_Too_Far)"

lemma cpu_ok_shift [outcome_inv]:
  "cpu_ok c \<Longrightarrow> out_all cpu_ok (shl64 a n c)" "cpu_ok c \<Longrightarrow> out_all cpu_ok (shr64 a n c)"
  by (simp_all add: shl64_def shr64_def)

text \<open>An entry whose lambda keeps the invariant of the CPU, whatever it returns or throws.\<close>

definition keeps_ok :: "instruction \<Rightarrow> bool" where
  "keeps_ok inst \<longleftrightarrow> (\<forall>instruction c. cpu_ok c \<longrightarrow> out_all cpu_ok (execute inst instruction c))"

definition pattern :: "instruction \<Rightarrow> u32 \<times> u32" where
  "pattern i = (mask_field i, instruction_matcher i)"

lemma keeps_okI:
  "(\<And>instruction c. cpu_ok c \<Longrightarrow> out_all cpu_ok (execute inst instruction c)) \<Longrightarrow> keeps_ok inst"
  by (simp add: keeps_ok_def)

end
