(* ===== verification/Insn_I.thy ===== *)
theory Insn_I
  imports Insn
begin

text \<open>
  The table entries of the privileged returns and of RV32I (\<open>source/cpu.cpp\<close>, lines 131 to 620).
\<close>

section \<open>Privileged\<close>

definition i_SRET :: instruction where
  "i_SRET =
     \<lparr>name = ''SRET'', format = CHR ''R'', mask_field = 0xffffffff, instruction_matcher = 0x10200073,
      execute = (\<lambda>instruction cpu.
       let cpu = SetPc (GetCsr sepc cpu) cpu;
           cpu = SetMode (if drop_bit 8 (GetCsr sstatus cpu) AND 1 \<noteq> 0 then SUPERVISOR else USER) cpu
       in obind (SetCsr sstatus (if drop_bit 5 (GetCsr sstatus cpu) AND 1 \<noteq> 0
                                 then GetCsr sstatus cpu OR push_bit 1 1
                                 else GetCsr sstatus cpu AND NOT (push_bit 1 1)) cpu) (\<lambda>_ cpu.
          obind (SetCsr sstatus (GetCsr sstatus cpu OR push_bit 5 1) cpu) (\<lambda>_ cpu.
          SetCsr sstatus (GetCsr sstatus cpu AND NOT (push_bit 8 1)) cpu)))\<rparr>"

definition i_MRET :: instruction where
  "i_MRET =
     \<lparr>name = ''MRET'', format = CHR ''R'', mask_field = 0xffffffff, instruction_matcher = 0x30200073,
      execute = (\<lambda>instruction cpu.
       let cpu = SetPc (GetCsr mepc cpu) cpu;
           mpp = drop_bit 11 (GetCsr mstatus cpu) AND 3;
           cpu = SetMode (if mpp = 2 then MACHINE else if mpp = 1 then SUPERVISOR else USER) cpu
       in obind (SetCsr mstatus (if drop_bit 7 (GetCsr mstatus cpu) AND 1 \<noteq> 0
                                 then GetCsr mstatus cpu OR push_bit 3 1
                                 else GetCsr mstatus cpu AND NOT (push_bit 3 1)) cpu) (\<lambda>_ cpu.
          obind (SetCsr mstatus (GetCsr mstatus cpu OR push_bit 7 1) cpu) (\<lambda>_ cpu.
          SetCsr mstatus (GetCsr mstatus cpu AND NOT (push_bit 11 3)) cpu)))\<rparr>"

section \<open>RV32I\<close>

definition i_LUI :: instruction where
  "i_LUI =
     \<lparr>name = ''LUI'', format = CHR ''U'', mask_field = 0x0000007f, instruction_matcher = 0x00000037,
      execute = (\<lambda>instruction cpu.
       let fields = parse_U instruction
       in SetReg (rd fields) (int_to_u64 (imm fields)) cpu)\<rparr>"

definition i_AUIPC :: instruction where
  "i_AUIPC =
     \<lparr>name = ''AUIPC'', format = CHR ''U'', mask_field = 0x0000007f, instruction_matcher = 0x00000017,
      execute = (\<lambda>instruction cpu.
       let fields = parse_U instruction
       in SetReg (rd fields) (GetPc cpu + ucast (imm fields) - 4) cpu)\<rparr>"

definition i_JAL :: instruction where
  "i_JAL =
     \<lparr>name = ''JAL'', format = CHR ''J'', mask_field = 0x0000007f, instruction_matcher = 0x0000006f,
      execute = (\<lambda>instruction cpu.
       let fields = parse_J instruction
       in obind (SetReg (rd fields) (GetPc cpu) cpu) (\<lambda>_ cpu.
          Ret () (SetPc (GetPc cpu + int_to_u64 (sign_extend_20b (imm fields)) - 4) cpu)))\<rparr>"

definition i_JALR :: instruction where
  "i_JALR =
     \<lparr>name = ''JALR'', format = CHR ''I'', mask_field = 0x0000707f, instruction_matcher = 0x00000067,
      execute = (\<lambda>instruction cpu.
       let fields = parse_I instruction
       in obind (SetReg (rd fields) (GetPc cpu) cpu) (\<lambda>_ cpu.
          Ret () (SetPc ((GetReg (rs1 fields) cpu + int_to_u64 (sign_extend_12b (imm fields))) AND NOT 1) cpu)))\<rparr>"

definition i_BEQ :: instruction where
  "i_BEQ =
     \<lparr>name = ''BEQ'', format = CHR ''B'', mask_field = 0x0000707f, instruction_matcher = 0x00000063,
      execute = (\<lambda>instruction cpu.
       let fields = parse_B instruction
       in if GetReg (rs1 fields) cpu = GetReg (rs2 fields) cpu
          then Ret () (SetPc (GetPc cpu + int_to_u64 (sign_extend_13b (imm fields)) - 4) cpu)
          else Ret () cpu)\<rparr>"

definition i_BNE :: instruction where
  "i_BNE =
     \<lparr>name = ''BNE'', format = CHR ''B'', mask_field = 0x0000707f, instruction_matcher = 0x00001063,
      execute = (\<lambda>instruction cpu.
       let fields = parse_B instruction
       in if GetReg (rs1 fields) cpu \<noteq> GetReg (rs2 fields) cpu
          then Ret () (SetPc (GetPc cpu + int_to_u64 (sign_extend_13b (imm fields)) - 4) cpu)
          else Ret () cpu)\<rparr>"

definition i_BLT :: instruction where
  "i_BLT =
     \<lparr>name = ''BLT'', format = CHR ''B'', mask_field = 0x0000707f, instruction_matcher = 0x00004063,
      execute = (\<lambda>instruction cpu.
       let fields = parse_B instruction
       in if sint (GetReg (rs1 fields) cpu) < sint (GetReg (rs2 fields) cpu)
          then Ret () (SetPc (GetPc cpu + int_to_u64 (sign_extend_13b (imm fields)) - 4) cpu)
          else Ret () cpu)\<rparr>"

definition i_BGE :: instruction where
  "i_BGE =
     \<lparr>name = ''BGE'', format = CHR ''B'', mask_field = 0x0000707f, instruction_matcher = 0x00005063,
      execute = (\<lambda>instruction cpu.
       let fields = parse_B instruction
       in if sint (GetReg (rs1 fields) cpu) \<ge> sint (GetReg (rs2 fields) cpu)
          then Ret () (SetPc (GetPc cpu + int_to_u64 (sign_extend_13b (imm fields)) - 4) cpu)
          else Ret () cpu)\<rparr>"

definition i_BLTU :: instruction where
  "i_BLTU =
     \<lparr>name = ''BLTU'', format = CHR ''B'', mask_field = 0x0000707f, instruction_matcher = 0x00006063,
      execute = (\<lambda>instruction cpu.
       let fields = parse_B instruction
       in if GetReg (rs1 fields) cpu < GetReg (rs2 fields) cpu
          then Ret () (SetPc (GetPc cpu + int_to_u64 (sign_extend_13b (imm fields)) - 4) cpu)
          else Ret () cpu)\<rparr>"

definition i_BGEU :: instruction where
  "i_BGEU =
     \<lparr>name = ''BGEU'', format = CHR ''B'', mask_field = 0x0000707f, instruction_matcher = 0x00007063,
      execute = (\<lambda>instruction cpu.
       let fields = parse_B instruction
       in if GetReg (rs1 fields) cpu \<ge> GetReg (rs2 fields) cpu
          then Ret () (SetPc (GetPc cpu + int_to_u64 (sign_extend_13b (imm fields)) - 4) cpu)
          else Ret () cpu)\<rparr>"

definition i_LB :: instruction where
  "i_LB =
     \<lparr>name = ''LB'', format = CHR ''I'', mask_field = 0x0000707f, instruction_matcher = 0x00000003,
      execute = (\<lambda>instruction cpu.
       let fields = parse_I instruction;
           addr = GetReg (rs1 fields) cpu + ucast (imm fields)
       in obind (CPU_Load addr 1 None cpu) (\<lambda>data cpu.
          obind (read_cell data cpu) (\<lambda>data cpu.
          SetReg (rd fields) (scast (ucast data :: u8)) cpu)))\<rparr>"

definition i_LH :: instruction where
  "i_LH =
     \<lparr>name = ''LH'', format = CHR ''I'', mask_field = 0x0000707f, instruction_matcher = 0x00001003,
      execute = (\<lambda>instruction cpu.
       let fields = parse_I instruction;
           addr = GetReg (rs1 fields) cpu + ucast (imm fields)
       in obind (CPU_Load addr 2 None cpu) (\<lambda>data cpu.
          obind (read_cell data cpu) (\<lambda>data cpu.
          SetReg (rd fields) (scast (ucast data :: u16)) cpu)))\<rparr>"

definition i_LW :: instruction where
  "i_LW =
     \<lparr>name = ''LW'', format = CHR ''I'', mask_field = 0x0000707f, instruction_matcher = 0x00002003,
      execute = (\<lambda>instruction cpu.
       let fields = parse_I instruction;
           addr = GetReg (rs1 fields) cpu + ucast (imm fields)
       in obind (CPU_Load addr 4 None cpu) (\<lambda>data cpu.
          obind (read_cell data cpu) (\<lambda>data cpu.
          SetReg (rd fields) (scast (ucast data :: u32)) cpu)))\<rparr>"

definition i_LBU :: instruction where
  "i_LBU =
     \<lparr>name = ''LBU'', format = CHR ''I'', mask_field = 0x0000707f, instruction_matcher = 0x00004003,
      execute = (\<lambda>instruction cpu.
       let fields = parse_I instruction;
           addr = GetReg (rs1 fields) cpu + ucast (imm fields)
       in obind (CPU_Load addr 1 None cpu) (\<lambda>data cpu.
          obind (read_cell data cpu) (\<lambda>data cpu.
          SetReg (rd fields) (data) cpu)))\<rparr>"

definition i_LHU :: instruction where
  "i_LHU =
     \<lparr>name = ''LHU'', format = CHR ''I'', mask_field = 0x0000707f, instruction_matcher = 0x00005003,
      execute = (\<lambda>instruction cpu.
       let fields = parse_I instruction;
           addr = GetReg (rs1 fields) cpu + ucast (imm fields)
       in obind (CPU_Load addr 2 None cpu) (\<lambda>data cpu.
          obind (read_cell data cpu) (\<lambda>data cpu.
          SetReg (rd fields) (data) cpu)))\<rparr>"

definition i_SB :: instruction where
  "i_SB =
     \<lparr>name = ''SB'', format = CHR ''S'', mask_field = 0x0000707f, instruction_matcher = 0x00000023,
      execute = (\<lambda>instruction cpu.
       let fields = parse_S instruction;
           addr = GetReg (rs1 fields) cpu + ucast (imm fields);
           data = GetReg (rs2 fields) cpu
       in CPU_Store addr 1 data cpu)\<rparr>"

definition i_SH :: instruction where
  "i_SH =
     \<lparr>name = ''SH'', format = CHR ''S'', mask_field = 0x0000707f, instruction_matcher = 0x00001023,
      execute = (\<lambda>instruction cpu.
       let fields = parse_S instruction;
           addr = GetReg (rs1 fields) cpu + ucast (imm fields);
           data = GetReg (rs2 fields) cpu
       in CPU_Store addr 2 data cpu)\<rparr>"

definition i_SW :: instruction where
  "i_SW =
     \<lparr>name = ''SW'', format = CHR ''S'', mask_field = 0x0000707f, instruction_matcher = 0x00002023,
      execute = (\<lambda>instruction cpu.
       let fields = parse_S instruction;
           addr = GetReg (rs1 fields) cpu + ucast (imm fields);
           data = GetReg (rs2 fields) cpu
       in CPU_Store addr 4 data cpu)\<rparr>"

definition i_ADDI :: instruction where
  "i_ADDI =
     \<lparr>name = ''ADDI'', format = CHR ''I'', mask_field = 0x0000707f, instruction_matcher = 0x00000013,
      execute = (\<lambda>instruction cpu.
       let fields = parse_I instruction
       in SetReg (rd fields) (GetReg (rs1 fields) cpu + int_to_u64 (sign_extend_12b (imm fields))) cpu)\<rparr>"

definition i_SLTI :: instruction where
  "i_SLTI =
     \<lparr>name = ''SLTI'', format = CHR ''I'', mask_field = 0x0000707f, instruction_matcher = 0x00002013,
      execute = (\<lambda>instruction cpu.
       let fields = parse_I instruction
       in SetReg (rd fields) (of_bool (GetReg (rs1 fields) cpu < ucast (imm fields))) cpu)\<rparr>"

definition i_SLTIU :: instruction where
  "i_SLTIU =
     \<lparr>name = ''SLTIU'', format = CHR ''I'', mask_field = 0x0000707f, instruction_matcher = 0x00003013,
      execute = (\<lambda>instruction cpu.
       let fields = parse_I instruction
       in SetReg (rd fields) (of_bool (GetReg (rs1 fields) cpu < ucast (imm fields))) cpu)\<rparr>"

definition i_XORI :: instruction where
  "i_XORI =
     \<lparr>name = ''XORI'', format = CHR ''I'', mask_field = 0x0000707f, instruction_matcher = 0x00004013,
      execute = (\<lambda>instruction cpu.
       let fields = parse_I instruction
       in SetReg (rd fields) (GetReg (rs1 fields) cpu XOR ucast (imm fields)) cpu)\<rparr>"

definition i_ORI :: instruction where
  "i_ORI =
     \<lparr>name = ''ORI'', format = CHR ''I'', mask_field = 0x0000707f, instruction_matcher = 0x00006013,
      execute = (\<lambda>instruction cpu.
       let fields = parse_I instruction
       in SetReg (rd fields) (GetReg (rs1 fields) cpu OR ucast (imm fields)) cpu)\<rparr>"

definition i_ANDI :: instruction where
  "i_ANDI =
     \<lparr>name = ''ANDI'', format = CHR ''I'', mask_field = 0x0000707f, instruction_matcher = 0x00007013,
      execute = (\<lambda>instruction cpu.
       let fields = parse_I instruction
       in SetReg (rd fields) (GetReg (rs1 fields) cpu AND ucast (imm fields)) cpu)\<rparr>"

definition i_SLLI :: instruction where
  "i_SLLI =
     \<lparr>name = ''SLLI'', format = CHR ''I'', mask_field = 0xfc00707f, instruction_matcher = 0x00001013,
      execute = (\<lambda>instruction cpu.
       let fields = parse_I instruction
       in obind (shl64 (GetReg (rs1 fields) cpu) (imm fields) cpu) (\<lambda>v cpu.
          SetReg (rd fields) v cpu))\<rparr>"

definition i_SRLI :: instruction where
  "i_SRLI =
     \<lparr>name = ''SRLI'', format = CHR ''I'', mask_field = 0xfc00707f, instruction_matcher = 0x00005013,
      execute = (\<lambda>instruction cpu.
       let fields = parse_I instruction
       in obind (shr64 (GetReg (rs1 fields) cpu) (imm fields) cpu) (\<lambda>v cpu.
          SetReg (rd fields) v cpu))\<rparr>"

definition i_SRAI :: instruction where
  "i_SRAI =
     \<lparr>name = ''SRAI'', format = CHR ''I'', mask_field = 0xfc00707f, instruction_matcher = 0x40005013,
      execute = (\<lambda>instruction cpu.
       let fields = parse_I instruction
       in obind (shr64 (GetReg (rs1 fields) cpu) (imm fields) cpu) (\<lambda>v cpu.
          SetReg (rd fields) v cpu))\<rparr>"

definition i_ADD :: instruction where
  "i_ADD =
     \<lparr>name = ''ADD'', format = CHR ''R'', mask_field = 0xfe00707f, instruction_matcher = 0x00000033,
      execute = (\<lambda>instruction cpu.
       let fields = parse_R instruction
       in SetReg (rd fields) (GetReg (rs1 fields) cpu + GetReg (rs2 fields) cpu) cpu)\<rparr>"

definition i_SUB :: instruction where
  "i_SUB =
     \<lparr>name = ''SUB'', format = CHR ''R'', mask_field = 0xfe00707f, instruction_matcher = 0x40000033,
      execute = (\<lambda>instruction cpu.
       let fields = parse_R instruction
       in SetReg (rd fields) (GetReg (rs1 fields) cpu - GetReg (rs2 fields) cpu) cpu)\<rparr>"

definition i_SLL :: instruction where
  "i_SLL =
     \<lparr>name = ''SLL'', format = CHR ''R'', mask_field = 0xfe00707f, instruction_matcher = 0x00001033,
      execute = (\<lambda>instruction cpu.
       let fields = parse_R instruction
       in obind (shl64 (GetReg (rs1 fields) cpu) (GetReg (rs2 fields) cpu) cpu) (\<lambda>v cpu.
          SetReg (rd fields) v cpu))\<rparr>"

definition i_SLT :: instruction where
  "i_SLT =
     \<lparr>name = ''SLT'', format = CHR ''R'', mask_field = 0xfe00707f, instruction_matcher = 0x00002033,
      execute = (\<lambda>instruction cpu.
       let fields = parse_R instruction
       in SetReg (rd fields) (of_bool (GetReg (rs1 fields) cpu < GetReg (rs2 fields) cpu)) cpu)\<rparr>"

definition i_SLTU :: instruction where
  "i_SLTU =
     \<lparr>name = ''SLTU'', format = CHR ''R'', mask_field = 0xfe00707f, instruction_matcher = 0x00003033,
      execute = (\<lambda>instruction cpu.
       let fields = parse_R instruction
       in SetReg (rd fields) (of_bool (GetReg (rs1 fields) cpu < GetReg (rs2 fields) cpu)) cpu)\<rparr>"

definition i_XOR :: instruction where
  "i_XOR =
     \<lparr>name = ''XOR'', format = CHR ''R'', mask_field = 0xfe00707f, instruction_matcher = 0x00004033,
      execute = (\<lambda>instruction cpu.
       let fields = parse_R instruction
       in SetReg (rd fields) (GetReg (rs1 fields) cpu XOR GetReg (rs2 fields) cpu) cpu)\<rparr>"

definition i_SRL :: instruction where
  "i_SRL =
     \<lparr>name = ''SRL'', format = CHR ''R'', mask_field = 0xfe00707f, instruction_matcher = 0x00005033,
      execute = (\<lambda>instruction cpu.
       let fields = parse_R instruction
       in obind (shr64 (GetReg (rs1 fields) cpu) (GetReg (rs2 fields) cpu) cpu) (\<lambda>v cpu.
          SetReg (rd fields) v cpu))\<rparr>"

definition i_SRA :: instruction where
  "i_SRA =
     \<lparr>name = ''SRA'', format = CHR ''R'', mask_field = 0xfe00707f, instruction_matcher = 0x40005033,
      execute = (\<lambda>instruction cpu.
       let fields = parse_R instruction
       in obind (shr64 (GetReg (rs1 fields) cpu) (GetReg (rs2 fields) cpu) cpu) (\<lambda>v cpu.
          SetReg (rd fields) v cpu))\<rparr>"

definition i_OR :: instruction where
  "i_OR =
     \<lparr>name = ''OR'', format = CHR ''R'', mask_field = 0xfe00707f, instruction_matcher = 0x00006033,
      execute = (\<lambda>instruction cpu.
       let fields = parse_R instruction
       in SetReg (rd fields) (GetReg (rs1 fields) cpu OR GetReg (rs2 fields) cpu) cpu)\<rparr>"

definition i_AND :: instruction where
  "i_AND =
     \<lparr>name = ''AND'', format = CHR ''R'', mask_field = 0xfe00707f, instruction_matcher = 0x00007033,
      execute = (\<lambda>instruction cpu.
       let fields = parse_R instruction
       in SetReg (rd fields) (GetReg (rs1 fields) cpu AND GetReg (rs2 fields) cpu) cpu)\<rparr>"

definition i_FENCE :: instruction where
  "i_FENCE =
     \<lparr>name = ''FENCE'', format = CHR ''I'', mask_field = 0xffffffff, instruction_matcher = 0x0000000f,
      execute = (\<lambda>instruction cpu.
       Ret () cpu)\<rparr>"

definition i_ECALL :: instruction where
  "i_ECALL =
     \<lparr>name = ''ECALL'', format = CHR ''I'', mask_field = 0xffffffff, instruction_matcher = 0x00000073,
      execute = (\<lambda>instruction cpu.
       case GetMode cpu of
         MACHINE \<Rightarrow> Throw EnvironmentCallFromMMode cpu
       | SUPERVISOR \<Rightarrow> Throw EnvironmentCallFromSMode cpu
       | USER \<Rightarrow> Throw EnvironmentCallFromUMode cpu)\<rparr>"

definition i_EBREAK :: instruction where
  "i_EBREAK =
     \<lparr>name = ''EBREAK'', format = CHR ''I'', mask_field = 0xffffffff, instruction_matcher = 0x00100073,
      execute = (\<lambda>instruction cpu.
       Ret () cpu)\<rparr>"

lemmas insns_I_defs =
  i_SRET_def i_MRET_def i_LUI_def i_AUIPC_def i_JAL_def i_JALR_def i_BEQ_def i_BNE_def i_BLT_def
  i_BGE_def i_BLTU_def i_BGEU_def i_LB_def i_LH_def i_LW_def i_LBU_def i_LHU_def i_SB_def
  i_SH_def i_SW_def i_ADDI_def i_SLTI_def i_SLTIU_def i_XORI_def i_ORI_def i_ANDI_def i_SLLI_def
  i_SRLI_def i_SRAI_def i_ADD_def i_SUB_def i_SLL_def i_SLT_def i_SLTU_def i_XOR_def i_SRL_def
  i_SRA_def i_OR_def i_AND_def i_FENCE_def i_ECALL_def i_EBREAK_def

text \<open>The entries of this part of the table, in order.\<close>

definition insns_I :: "instruction list" where
  "insns_I =
     [i_SRET, i_MRET, i_LUI, i_AUIPC, i_JAL, i_JALR, i_BEQ, i_BNE, i_BLT, i_BGE, i_BLTU,
      i_BGEU, i_LB, i_LH, i_LW, i_LBU, i_LHU, i_SB, i_SH, i_SW, i_ADDI, i_SLTI, i_SLTIU,
      i_XORI, i_ORI, i_ANDI, i_SLLI, i_SRLI, i_SRAI, i_ADD, i_SUB, i_SLL, i_SLT, i_SLTU,
      i_XOR, i_SRL, i_SRA, i_OR, i_AND, i_FENCE, i_ECALL, i_EBREAK]"

text \<open>Mask and matcher of each entry.\<close>

lemma insns_I_patterns:
  "pattern i_SRET = (0xffffffff, 0x10200073)"
  "pattern i_MRET = (0xffffffff, 0x30200073)"
  "pattern i_LUI = (0x0000007f, 0x00000037)"
  "pattern i_AUIPC = (0x0000007f, 0x00000017)"
  "pattern i_JAL = (0x0000007f, 0x0000006f)"
  "pattern i_JALR = (0x0000707f, 0x00000067)"
  "pattern i_BEQ = (0x0000707f, 0x00000063)"
  "pattern i_BNE = (0x0000707f, 0x00001063)"
  "pattern i_BLT = (0x0000707f, 0x00004063)"
  "pattern i_BGE = (0x0000707f, 0x00005063)"
  "pattern i_BLTU = (0x0000707f, 0x00006063)"
  "pattern i_BGEU = (0x0000707f, 0x00007063)"
  "pattern i_LB = (0x0000707f, 0x00000003)"
  "pattern i_LH = (0x0000707f, 0x00001003)"
  "pattern i_LW = (0x0000707f, 0x00002003)"
  "pattern i_LBU = (0x0000707f, 0x00004003)"
  "pattern i_LHU = (0x0000707f, 0x00005003)"
  "pattern i_SB = (0x0000707f, 0x00000023)"
  "pattern i_SH = (0x0000707f, 0x00001023)"
  "pattern i_SW = (0x0000707f, 0x00002023)"
  "pattern i_ADDI = (0x0000707f, 0x00000013)"
  "pattern i_SLTI = (0x0000707f, 0x00002013)"
  "pattern i_SLTIU = (0x0000707f, 0x00003013)"
  "pattern i_XORI = (0x0000707f, 0x00004013)"
  "pattern i_ORI = (0x0000707f, 0x00006013)"
  "pattern i_ANDI = (0x0000707f, 0x00007013)"
  "pattern i_SLLI = (0xfc00707f, 0x00001013)"
  "pattern i_SRLI = (0xfc00707f, 0x00005013)"
  "pattern i_SRAI = (0xfc00707f, 0x40005013)"
  "pattern i_ADD = (0xfe00707f, 0x00000033)"
  "pattern i_SUB = (0xfe00707f, 0x40000033)"
  "pattern i_SLL = (0xfe00707f, 0x00001033)"
  "pattern i_SLT = (0xfe00707f, 0x00002033)"
  "pattern i_SLTU = (0xfe00707f, 0x00003033)"
  "pattern i_XOR = (0xfe00707f, 0x00004033)"
  "pattern i_SRL = (0xfe00707f, 0x00005033)"
  "pattern i_SRA = (0xfe00707f, 0x40005033)"
  "pattern i_OR = (0xfe00707f, 0x00006033)"
  "pattern i_AND = (0xfe00707f, 0x00007033)"
  "pattern i_FENCE = (0xffffffff, 0x0000000f)"
  "pattern i_ECALL = (0xffffffff, 0x00000073)"
  "pattern i_EBREAK = (0xffffffff, 0x00100073)"
  by (simp_all only: pattern_def insns_I_defs instruction.select_convs)

lemma insns_I_keep_ok: "list_all keeps_ok insns_I"
  unfolding insns_I_def list.pred_inject
  by (intro conjI list.pred_inject(1) keeps_okI;
      simp only: insns_I_defs instruction.select_convs Let_def split: PrivilegeMode.split;
      intro outcome_inv allI impI conjI; assumption)

end
