(* ===== verification/Insn_I64.thy ===== *)
theory Insn_I64
  imports Insn
begin

text \<open>
  The table entries of RV64I, Zifencei and Zicsr (\<open>source/cpu.cpp\<close>, lines 620 to 843).
\<close>

section \<open>RV64I\<close>

text \<open>
  The W-form shifts are parsed with the R format, whose immediate is 0.
\<close>

definition i_LWU :: instruction where
  "i_LWU =
     \<lparr>name = ''LWU'', format = CHR ''I'', mask_field = 0x0000707f, instruction_matcher = 0x00006003,
      execute = (\<lambda>instruction cpu.
       let fields = parse_I instruction;
           addr = GetReg (rs1 fields) cpu + ucast (imm fields)
       in obind (CPU_Load addr 4 None cpu) (\<lambda>data cpu.
          obind (read_cell data cpu) (\<lambda>data cpu.
          SetReg (rd fields) (data) cpu)))\<rparr>"

definition i_LD :: instruction where
  "i_LD =
     \<lparr>name = ''LD'', format = CHR ''I'', mask_field = 0x0000707f, instruction_matcher = 0x00003003,
      execute = (\<lambda>instruction cpu.
       let fields = parse_I instruction;
           addr = GetReg (rs1 fields) cpu + ucast (imm fields)
       in obind (CPU_Load addr 8 None cpu) (\<lambda>data cpu.
          obind (read_cell data cpu) (\<lambda>data cpu.
          SetReg (rd fields) (data) cpu)))\<rparr>"

definition i_SD :: instruction where
  "i_SD =
     \<lparr>name = ''SD'', format = CHR ''S'', mask_field = 0x0000707f, instruction_matcher = 0x00003023,
      execute = (\<lambda>instruction cpu.
       let fields = parse_S instruction;
           addr = GetReg (rs1 fields) cpu + ucast (imm fields);
           data = GetReg (rs2 fields) cpu
       in CPU_Store addr 8 data cpu)\<rparr>"

definition i_ADDIW :: instruction where
  "i_ADDIW =
     \<lparr>name = ''ADDIW'', format = CHR ''I'', mask_field = 0x0000707f, instruction_matcher = 0x0000001b,
      execute = (\<lambda>instruction cpu.
       let fields = parse_I instruction
       in SetReg (rd fields) (int_to_u64 (ucast (GetReg (rs1 fields) cpu + int_to_u64 (sign_extend_12b (imm fields))))) cpu)\<rparr>"

definition i_SLLIW :: instruction where
  "i_SLLIW =
     \<lparr>name = ''SLLIW'', format = CHR ''R'', mask_field = 0xfe00707f, instruction_matcher = 0x0000101b,
      execute = (\<lambda>instruction cpu.
       let fields = parse_R instruction
       in obind (shl64 (GetReg (rs1 fields) cpu) (imm fields) cpu) (\<lambda>v cpu.
          SetReg (rd fields) v cpu))\<rparr>"

definition i_SRLIW :: instruction where
  "i_SRLIW =
     \<lparr>name = ''SRLIW'', format = CHR ''R'', mask_field = 0xfc00707f, instruction_matcher = 0x0000501b,
      execute = (\<lambda>instruction cpu.
       let fields = parse_R instruction
       in obind (shr64 (GetReg (rs1 fields) cpu) (imm fields) cpu) (\<lambda>v cpu.
          SetReg (rd fields) v cpu))\<rparr>"

definition i_SRAIW :: instruction where
  "i_SRAIW =
     \<lparr>name = ''SRAIW'', format = CHR ''R'', mask_field = 0xfc00707f, instruction_matcher = 0x4000501b,
      execute = (\<lambda>instruction cpu.
       let fields = parse_R instruction
       in obind (shr64 (GetReg (rs1 fields) cpu) (imm fields) cpu) (\<lambda>v cpu.
          SetReg (rd fields) v cpu))\<rparr>"

definition i_ADDW :: instruction where
  "i_ADDW =
     \<lparr>name = ''ADDW'', format = CHR ''R'', mask_field = 0xfe00707f, instruction_matcher = 0x0000003b,
      execute = (\<lambda>instruction cpu.
       let fields = parse_R instruction
       in SetReg (rd fields) (GetReg (rs1 fields) cpu + GetReg (rs2 fields) cpu) cpu)\<rparr>"

definition i_SUBW :: instruction where
  "i_SUBW =
     \<lparr>name = ''SUBW'', format = CHR ''R'', mask_field = 0xfe00707f, instruction_matcher = 0x4000003b,
      execute = (\<lambda>instruction cpu.
       let fields = parse_R instruction
       in SetReg (rd fields) (GetReg (rs1 fields) cpu - GetReg (rs2 fields) cpu) cpu)\<rparr>"

definition i_SLLW :: instruction where
  "i_SLLW =
     \<lparr>name = ''SLLW'', format = CHR ''R'', mask_field = 0xfe00707f, instruction_matcher = 0x0000103b,
      execute = (\<lambda>instruction cpu.
       let fields = parse_R instruction
       in obind (shl64 (GetReg (rs1 fields) cpu) (GetReg (rs2 fields) cpu) cpu) (\<lambda>v cpu.
          SetReg (rd fields) v cpu))\<rparr>"

definition i_SRLW :: instruction where
  "i_SRLW =
     \<lparr>name = ''SRLW'', format = CHR ''R'', mask_field = 0xfe00707f, instruction_matcher = 0x0000503b,
      execute = (\<lambda>instruction cpu.
       let fields = parse_R instruction
       in obind (shr64 (GetReg (rs1 fields) cpu) (GetReg (rs2 fields) cpu) cpu) (\<lambda>v cpu.
          SetReg (rd fields) v cpu))\<rparr>"

definition i_SRAW :: instruction where
  "i_SRAW =
     \<lparr>name = ''SRAW'', format = CHR ''R'', mask_field = 0xfe00707f, instruction_matcher = 0x4000503b,
      execute = (\<lambda>instruction cpu.
       let fields = parse_R instruction
       in obind (shr64 (GetReg (rs1 fields) cpu) (GetReg (rs2 fields) cpu) cpu) (\<lambda>v cpu.
          SetReg (rd fields) v cpu))\<rparr>"

section \<open>Zifencei\<close>

definition i_FENCE_I :: instruction where
  "i_FENCE_I =
     \<lparr>name = ''FENCE.I'', format = CHR ''I'', mask_field = 0x0000007f, instruction_matcher = 0x0000000f,
      execute = (\<lambda>instruction cpu.
       Ret () cpu)\<rparr>"

section \<open>Zicsr\<close>

text \<open>
  The old value of the CSR is kept in a \<open>uint32_t\<close>.
\<close>

definition i_CSRRW :: instruction where
  "i_CSRRW =
     \<lparr>name = ''CSRRW'', format = CHR ''I'', mask_field = 0x0000707f, instruction_matcher = 0x00001073,
      execute = (\<lambda>instruction cpu.
       let fields = parse_I instruction;
           csr = ucast (GetCsr (imm fields) cpu) :: u32
       in obind (SetCsr (imm fields) (GetReg (rs1 fields) cpu) cpu) (\<lambda>_ cpu.
          SetReg (rd fields) (ucast csr) cpu))\<rparr>"

definition i_CSRRS :: instruction where
  "i_CSRRS =
     \<lparr>name = ''CSRRS'', format = CHR ''I'', mask_field = 0x0000707f, instruction_matcher = 0x00002073,
      execute = (\<lambda>instruction cpu.
       let fields = parse_I instruction;
           csr = ucast (GetCsr (imm fields) cpu) :: u32
       in obind (SetCsr (imm fields) (ucast csr OR GetReg (rs1 fields) cpu) cpu) (\<lambda>_ cpu.
          SetReg (rd fields) (ucast csr) cpu))\<rparr>"

definition i_CSRRC :: instruction where
  "i_CSRRC =
     \<lparr>name = ''CSRRC'', format = CHR ''I'', mask_field = 0x0000707f, instruction_matcher = 0x00003073,
      execute = (\<lambda>instruction cpu.
       let fields = parse_I instruction;
           csr = ucast (GetCsr (imm fields) cpu) :: u32
       in obind (SetCsr (imm fields) (ucast csr AND NOT (GetReg (rs1 fields) cpu)) cpu) (\<lambda>_ cpu.
          SetReg (rd fields) (ucast csr) cpu))\<rparr>"

definition i_CSRRWI :: instruction where
  "i_CSRRWI =
     \<lparr>name = ''CSRRWI'', format = CHR ''I'', mask_field = 0x0000707f, instruction_matcher = 0x00005073,
      execute = (\<lambda>instruction cpu.
       let fields = parse_I instruction;
           csr = ucast (GetCsr (imm fields) cpu) :: u32
       in obind (SetCsr (imm fields) (ucast (rs1 fields)) cpu) (\<lambda>_ cpu.
          SetReg (rd fields) (ucast csr) cpu))\<rparr>"

definition i_CSRRSI :: instruction where
  "i_CSRRSI =
     \<lparr>name = ''CSRRSI'', format = CHR ''I'', mask_field = 0x0000707f, instruction_matcher = 0x00006073,
      execute = (\<lambda>instruction cpu.
       let fields = parse_I instruction;
           csr = ucast (GetCsr (imm fields) cpu) :: u32
       in obind (SetCsr (imm fields) (ucast (csr OR rs1 fields)) cpu) (\<lambda>_ cpu.
          SetReg (rd fields) (ucast csr) cpu))\<rparr>"

definition i_CSRRCI :: instruction where
  "i_CSRRCI =
     \<lparr>name = ''CSRRCI'', format = CHR ''I'', mask_field = 0x0000707f, instruction_matcher = 0x00007073,
      execute = (\<lambda>instruction cpu.
       let fields = parse_I instruction;
           csr = ucast (GetCsr (imm fields) cpu) :: u32
       in obind (SetCsr (imm fields) (ucast (csr AND NOT (rs1 fields))) cpu) (\<lambda>_ cpu.
          SetReg (rd fields) (ucast csr) cpu))\<rparr>"

lemmas insns_I64_defs =
  i_LWU_def i_LD_def i_SD_def i_ADDIW_def i_SLLIW_def i_SRLIW_def i_SRAIW_def i_ADDW_def
  i_SUBW_def i_SLLW_def i_SRLW_def i_SRAW_def i_FENCE_I_def i_CSRRW_def i_CSRRS_def i_CSRRC_def
  i_CSRRWI_def i_CSRRSI_def i_CSRRCI_def

text \<open>The entries of this part of the table, in order.\<close>

definition insns_I64 :: "instruction list" where
  "insns_I64 =
     [i_LWU, i_LD, i_SD, i_ADDIW, i_SLLIW, i_SRLIW, i_SRAIW, i_ADDW, i_SUBW, i_SLLW,
      i_SRLW, i_SRAW, i_FENCE_I, i_CSRRW, i_CSRRS, i_CSRRC, i_CSRRWI, i_CSRRSI, i_CSRRCI]"

text \<open>Mask and matcher of each entry.\<close>

lemma insns_I64_patterns:
  "pattern i_LWU = (0x0000707f, 0x00006003)"
  "pattern i_LD = (0x0000707f, 0x00003003)"
  "pattern i_SD = (0x0000707f, 0x00003023)"
  "pattern i_ADDIW = (0x0000707f, 0x0000001b)"
  "pattern i_SLLIW = (0xfe00707f, 0x0000101b)"
  "pattern i_SRLIW = (0xfc00707f, 0x0000501b)"
  "pattern i_SRAIW = (0xfc00707f, 0x4000501b)"
  "pattern i_ADDW = (0xfe00707f, 0x0000003b)"
  "pattern i_SUBW = (0xfe00707f, 0x4000003b)"
  "pattern i_SLLW = (0xfe00707f, 0x0000103b)"
  "pattern i_SRLW = (0xfe00707f, 0x0000503b)"
  "pattern i_SRAW = (0xfe00707f, 0x4000503b)"
  "pattern i_FENCE_I = (0x0000007f, 0x0000000f)"
  "pattern i_CSRRW = (0x0000707f, 0x00001073)"
  "pattern i_CSRRS = (0x0000707f, 0x00002073)"
  "pattern i_CSRRC = (0x0000707f, 0x00003073)"
  "pattern i_CSRRWI = (0x0000707f, 0x00005073)"
  "pattern i_CSRRSI = (0x0000707f, 0x00006073)"
  "pattern i_CSRRCI = (0x0000707f, 0x00007073)"
  by (simp_all only: pattern_def insns_I64_defs instruction.select_convs)

lemma insns_I64_keep_ok: "list_all keeps_ok insns_I64"
  unfolding insns_I64_def list.pred_inject
  by (intro conjI list.pred_inject(1) keeps_okI;
      simp only: insns_I64_defs instruction.select_convs Let_def split: PrivilegeMode.split;
      intro outcome_inv allI impI conjI; assumption)

end
