(* ===== verification/Insn_M.thy ===== *)
theory Insn_M
  imports Insn
begin

text \<open>
  The table entries of RV32M and RV64M (\<open>source/cpu.cpp\<close>, lines 843 to 1057). \<open>int64_t\<close> and
  \<open>int32_t\<close> values are integers here; C++ division truncates towards zero (\<open>sdiv\<close>, \<open>smod\<close>).
\<close>

section \<open>RV32M\<close>

definition i_MUL :: instruction where
  "i_MUL =
     \<lparr>name = ''MUL'', format = CHR ''R'', mask_field = 0xfe00707f, instruction_matcher = 0x02000033,
      execute = (\<lambda>instruction cpu.
       let fields = parse_R instruction
       in SetReg (rd fields) (GetReg (rs1 fields) cpu * GetReg (rs2 fields) cpu) cpu)\<rparr>"

definition i_MULH :: instruction where
  "i_MULH =
     \<lparr>name = ''MULH'', format = CHR ''R'', mask_field = 0xfe00707f, instruction_matcher = 0x02001033,
      execute = (\<lambda>instruction cpu.
       let fields = parse_R instruction
       in SetReg (rd fields) (GetReg (rs1 fields) cpu * GetReg (rs2 fields) cpu) cpu)\<rparr>"

definition i_MULHSU :: instruction where
  "i_MULHSU =
     \<lparr>name = ''MULHSU'', format = CHR ''R'', mask_field = 0xfe00707f, instruction_matcher = 0x02002033,
      execute = (\<lambda>instruction cpu.
       let fields = parse_R instruction
       in SetReg (rd fields) (GetReg (rs1 fields) cpu * GetReg (rs2 fields) cpu) cpu)\<rparr>"

definition i_MULHU :: instruction where
  "i_MULHU =
     \<lparr>name = ''MULHU'', format = CHR ''R'', mask_field = 0xfe00707f, instruction_matcher = 0x02003033,
      execute = (\<lambda>instruction cpu.
       let fields = parse_R instruction
       in SetReg (rd fields) (GetReg (rs1 fields) cpu * GetReg (rs2 fields) cpu) cpu)\<rparr>"

definition i_DIV :: instruction where
  "i_DIV =
     \<lparr>name = ''DIV'', format = CHR ''R'', mask_field = 0xfe00707f, instruction_matcher = 0x02004033,
      execute = (\<lambda>instruction cpu.
       let fields = parse_R instruction;
           dividend = sint (GetReg (rs1 fields) cpu);
           divisor = sint (GetReg (rs2 fields) cpu)
       in if divisor = 0 then SetReg (rd fields) (- 1) cpu
          else if dividend = - (2 ^ 63) \<and> divisor = - 1 then SetReg (rd fields) (word_of_int dividend) cpu
          else SetReg (rd fields) (word_of_int (dividend sdiv divisor)) cpu)\<rparr>"

definition i_DIVU :: instruction where
  "i_DIVU =
     \<lparr>name = ''DIVU'', format = CHR ''R'', mask_field = 0xfe00707f, instruction_matcher = 0x02005033,
      execute = (\<lambda>instruction cpu.
       let fields = parse_R instruction;
           dividend = GetReg (rs1 fields) cpu;
           divisor = GetReg (rs2 fields) cpu
       in if divisor = 0 then SetReg (rd fields) (- 1) cpu
          else SetReg (rd fields) (dividend div divisor) cpu)\<rparr>"

definition i_REM :: instruction where
  "i_REM =
     \<lparr>name = ''REM'', format = CHR ''R'', mask_field = 0xfe00707f, instruction_matcher = 0x02006033,
      execute = (\<lambda>instruction cpu.
       let fields = parse_R instruction;
           dividend = sint (GetReg (rs1 fields) cpu);
           divisor = sint (GetReg (rs2 fields) cpu)
       in if divisor = 0 then SetReg (rd fields) (word_of_int dividend) cpu
          else if dividend = - (2 ^ 63) \<and> divisor = - 1 then SetReg (rd fields) (0) cpu
          else SetReg (rd fields) (word_of_int (dividend smod divisor)) cpu)\<rparr>"

definition i_REMU :: instruction where
  "i_REMU =
     \<lparr>name = ''REMU'', format = CHR ''R'', mask_field = 0xfe00707f, instruction_matcher = 0x02007033,
      execute = (\<lambda>instruction cpu.
       let fields = parse_R instruction;
           dividend = GetReg (rs1 fields) cpu;
           divisor = GetReg (rs2 fields) cpu
       in if divisor = 0 then SetReg (rd fields) (dividend) cpu
          else SetReg (rd fields) (dividend mod divisor) cpu)\<rparr>"

section \<open>RV64M\<close>

definition i_MULW :: instruction where
  "i_MULW =
     \<lparr>name = ''MULW'', format = CHR ''R'', mask_field = 0xfe00707f, instruction_matcher = 0x0200003b,
      execute = (\<lambda>instruction cpu.
       let fields = parse_R instruction
       in SetReg (rd fields) (GetReg (rs1 fields) cpu * GetReg (rs2 fields) cpu) cpu)\<rparr>"

definition i_DIVW :: instruction where
  "i_DIVW =
     \<lparr>name = ''DIVW'', format = CHR ''R'', mask_field = 0xfe00707f, instruction_matcher = 0x0200403b,
      execute = (\<lambda>instruction cpu.
       let fields = parse_R instruction;
           dividend = sint (ucast (GetReg (rs1 fields) cpu) :: u32);
           divisor = sint (ucast (GetReg (rs2 fields) cpu) :: u32)
       in if divisor = 0 then SetReg (rd fields) (- 1) cpu
          else if dividend = - (2 ^ 31) \<and> divisor = - 1 then SetReg (rd fields) (word_of_int dividend) cpu
          else SetReg (rd fields) (word_of_int (dividend sdiv divisor)) cpu)\<rparr>"

definition i_DIVUW :: instruction where
  "i_DIVUW =
     \<lparr>name = ''DIVUW'', format = CHR ''R'', mask_field = 0xfe00707f, instruction_matcher = 0x0200503b,
      execute = (\<lambda>instruction cpu.
       let fields = parse_R instruction;
           dividend = ucast (GetReg (rs1 fields) cpu) :: u32;
           divisor = ucast (GetReg (rs2 fields) cpu) :: u32
       in if divisor = 0 then SetReg (rd fields) (- 1) cpu
          else SetReg (rd fields) (ucast (dividend div divisor)) cpu)\<rparr>"

definition i_REMW :: instruction where
  "i_REMW =
     \<lparr>name = ''REMW'', format = CHR ''R'', mask_field = 0xfe00707f, instruction_matcher = 0x0200603b,
      execute = (\<lambda>instruction cpu.
       let fields = parse_R instruction;
           dividend = sint (ucast (GetReg (rs1 fields) cpu) :: u32);
           divisor = sint (ucast (GetReg (rs2 fields) cpu) :: u32)
       in if divisor = 0 then SetReg (rd fields) (word_of_int dividend) cpu
          else if dividend = - (2 ^ 31) \<and> divisor = - 1 then SetReg (rd fields) (0) cpu
          else SetReg (rd fields) (word_of_int (dividend smod divisor)) cpu)\<rparr>"

definition i_REMUW :: instruction where
  "i_REMUW =
     \<lparr>name = ''REMUW'', format = CHR ''R'', mask_field = 0xfe00707f, instruction_matcher = 0x0200703b,
      execute = (\<lambda>instruction cpu.
       let fields = parse_R instruction;
           dividend = ucast (GetReg (rs1 fields) cpu) :: u32;
           divisor = ucast (GetReg (rs2 fields) cpu) :: u32
       in if divisor = 0 then SetReg (rd fields) (ucast dividend) cpu
          else SetReg (rd fields) (ucast (dividend mod divisor)) cpu)\<rparr>"

lemmas insns_M_defs =
  i_MUL_def i_MULH_def i_MULHSU_def i_MULHU_def i_DIV_def i_DIVU_def i_REM_def i_REMU_def
  i_MULW_def i_DIVW_def i_DIVUW_def i_REMW_def i_REMUW_def

text \<open>The entries of this part of the table, in order.\<close>

definition insns_M :: "instruction list" where
  "insns_M =
     [i_MUL, i_MULH, i_MULHSU, i_MULHU, i_DIV, i_DIVU, i_REM, i_REMU, i_MULW, i_DIVW,
      i_DIVUW, i_REMW, i_REMUW]"

text \<open>Mask and matcher of each entry.\<close>

lemma insns_M_patterns:
  "pattern i_MUL = (0xfe00707f, 0x02000033)"
  "pattern i_MULH = (0xfe00707f, 0x02001033)"
  "pattern i_MULHSU = (0xfe00707f, 0x02002033)"
  "pattern i_MULHU = (0xfe00707f, 0x02003033)"
  "pattern i_DIV = (0xfe00707f, 0x02004033)"
  "pattern i_DIVU = (0xfe00707f, 0x02005033)"
  "pattern i_REM = (0xfe00707f, 0x02006033)"
  "pattern i_REMU = (0xfe00707f, 0x02007033)"
  "pattern i_MULW = (0xfe00707f, 0x0200003b)"
  "pattern i_DIVW = (0xfe00707f, 0x0200403b)"
  "pattern i_DIVUW = (0xfe00707f, 0x0200503b)"
  "pattern i_REMW = (0xfe00707f, 0x0200603b)"
  "pattern i_REMUW = (0xfe00707f, 0x0200703b)"
  by (simp_all only: pattern_def insns_M_defs instruction.select_convs)

lemma insns_M_keep_ok: "list_all keeps_ok insns_M"
  unfolding insns_M_def list.pred_inject
  by (intro conjI list.pred_inject(1) keeps_okI;
      simp only: insns_M_defs instruction.select_convs Let_def split: PrivilegeMode.split;
      intro outcome_inv allI impI conjI; assumption)

end
