(* ===== verification/Insn_A.thy ===== *)
theory Insn_A
  imports Insn
begin

text \<open>
  The table entries of RV32A and RV64A (\<open>source/cpu.cpp\<close>, lines 1057 to 1324). The loads and stores
  use the register number as address, and the AMOs work on registers: some index the register file
  with the contents of rs1.
\<close>

section \<open>RV32A\<close>

definition i_LR_W :: instruction where
  "i_LR_W =
     \<lparr>name = ''LR.W'', format = CHR ''R'', mask_field = 0xf9f0707f, instruction_matcher = 0x1000202f,
      execute = (\<lambda>instruction cpu.
       let fields = parse_R instruction
       in obind (CPU_Load (ucast (rs1 fields)) 4 None cpu) (\<lambda>data cpu.
          obind (read_cell data cpu) (\<lambda>data cpu.
          SetReg (rd fields) data cpu)))\<rparr>"

definition i_SC_W :: instruction where
  "i_SC_W =
     \<lparr>name = ''SC.W'', format = CHR ''R'', mask_field = 0xf800707f, instruction_matcher = 0x1800202f,
      execute = (\<lambda>instruction cpu.
       let fields = parse_R instruction;
           data = GetReg (rs2 fields) cpu
       in obind (CPU_Store (ucast (rs1 fields)) 4 data cpu) (\<lambda>_ cpu.
          SetReg (rd fields) 0 cpu))\<rparr>"

definition i_AMOSWAP_W :: instruction where
  "i_AMOSWAP_W =
     \<lparr>name = ''AMOSWAP.W'', format = CHR ''R'', mask_field = 0xf800707f, instruction_matcher = 0x0800202f,
      execute = (\<lambda>instruction cpu.
       let fields = parse_R instruction;
           data = GetReg (rs1 fields) cpu
       in obind (SetReg (GetReg (rs1 fields) cpu) (GetReg (rs2 fields) cpu) cpu) (\<lambda>_ cpu.
          SetReg (rd fields) data cpu))\<rparr>"

definition i_AMOADD_W :: instruction where
  "i_AMOADD_W =
     \<lparr>name = ''AMOADD.W'', format = CHR ''R'', mask_field = 0xf800707f, instruction_matcher = 0x0000202f,
      execute = (\<lambda>instruction cpu.
       let fields = parse_R instruction;
           data = GetReg (rs1 fields) cpu
       in SetReg (GetReg (rs1 fields) cpu) (data + GetReg (rs2 fields) cpu) cpu)\<rparr>"

definition i_AMOXOR_W :: instruction where
  "i_AMOXOR_W =
     \<lparr>name = ''AMOXOR.W'', format = CHR ''R'', mask_field = 0xf800707f, instruction_matcher = 0x2000202f,
      execute = (\<lambda>instruction cpu.
       let fields = parse_R instruction;
           data = GetReg (rs1 fields) cpu
       in SetReg (GetReg (rs1 fields) cpu) (data XOR GetReg (rs2 fields) cpu) cpu)\<rparr>"

definition i_AMOAND_W :: instruction where
  "i_AMOAND_W =
     \<lparr>name = ''AMOAND.W'', format = CHR ''R'', mask_field = 0xf800707f, instruction_matcher = 0x6000202f,
      execute = (\<lambda>instruction cpu.
       let fields = parse_R instruction;
           data = GetReg (rs1 fields) cpu
       in SetReg (GetReg (rs1 fields) cpu) (data AND GetReg (rs2 fields) cpu) cpu)\<rparr>"

definition i_AMOOR_W :: instruction where
  "i_AMOOR_W =
     \<lparr>name = ''AMOOR.W'', format = CHR ''R'', mask_field = 0xf800707f, instruction_matcher = 0x4000202f,
      execute = (\<lambda>instruction cpu.
       let fields = parse_R instruction;
           data = GetReg (rs1 fields) cpu
       in SetReg (GetReg (rs1 fields) cpu) (data OR GetReg (rs2 fields) cpu) cpu)\<rparr>"

definition i_AMOMIN_W :: instruction where
  "i_AMOMIN_W =
     \<lparr>name = ''AMOMIN.W'', format = CHR ''R'', mask_field = 0xf800707f, instruction_matcher = 0x8000202f,
      execute = (\<lambda>instruction cpu.
       let fields = parse_R instruction;
           data = GetReg (rs1 fields) cpu
       in SetReg (GetReg (rs1 fields) cpu) (min data (GetReg (rs2 fields) cpu)) cpu)\<rparr>"

definition i_AMOMAX_W :: instruction where
  "i_AMOMAX_W =
     \<lparr>name = ''AMOMAX.W'', format = CHR ''R'', mask_field = 0xf800707f, instruction_matcher = 0xa000202f,
      execute = (\<lambda>instruction cpu.
       let fields = parse_R instruction;
           data = GetReg (rs1 fields) cpu
       in SetReg (GetReg (rs1 fields) cpu) (max data (GetReg (rs2 fields) cpu)) cpu)\<rparr>"

definition i_AMOMINU_W :: instruction where
  "i_AMOMINU_W =
     \<lparr>name = ''AMOMINU.W'', format = CHR ''R'', mask_field = 0xf800707f, instruction_matcher = 0xc000202f,
      execute = (\<lambda>instruction cpu.
       let fields = parse_R instruction;
           data = GetReg (rs1 fields) cpu
       in SetReg (GetReg (rs1 fields) cpu) (min data (GetReg (rs2 fields) cpu)) cpu)\<rparr>"

definition i_AMOMAXU_W :: instruction where
  "i_AMOMAXU_W =
     \<lparr>name = ''AMOMAXU.W'', format = CHR ''R'', mask_field = 0xf800707f, instruction_matcher = 0xe000202f,
      execute = (\<lambda>instruction cpu.
       let fields = parse_R instruction;
           data = GetReg (rs1 fields) cpu
       in SetReg (GetReg (rs1 fields) cpu) (max data (GetReg (rs2 fields) cpu)) cpu)\<rparr>"

section \<open>RV64A\<close>

definition i_LR_D :: instruction where
  "i_LR_D =
     \<lparr>name = ''LR.D'', format = CHR ''R'', mask_field = 0xf9f0707f, instruction_matcher = 0x1000302f,
      execute = (\<lambda>instruction cpu.
       let fields = parse_R instruction
       in obind (CPU_Load (ucast (rs1 fields)) 8 None cpu) (\<lambda>data cpu.
          obind (read_cell data cpu) (\<lambda>data cpu.
          SetReg (rd fields) data cpu)))\<rparr>"

definition i_SC_D :: instruction where
  "i_SC_D =
     \<lparr>name = ''SC.D'', format = CHR ''R'', mask_field = 0xf800707f, instruction_matcher = 0x1800302f,
      execute = (\<lambda>instruction cpu.
       let fields = parse_R instruction;
           data = GetReg (rs2 fields) cpu
       in obind (CPU_Store (ucast (rs1 fields)) 8 data cpu) (\<lambda>_ cpu.
          SetReg (rd fields) 0 cpu))\<rparr>"

definition i_AMOSWAP_D :: instruction where
  "i_AMOSWAP_D =
     \<lparr>name = ''AMOSWAP.D'', format = CHR ''R'', mask_field = 0xf800707f, instruction_matcher = 0x0800302f,
      execute = (\<lambda>instruction cpu.
       let fields = parse_R instruction;
           data = GetReg (rs1 fields) cpu
       in obind (SetReg (rd fields) data cpu) (\<lambda>_ cpu.
          SetReg (rs1 fields) (GetReg (rs2 fields) cpu) cpu))\<rparr>"

definition i_AMOADD_D :: instruction where
  "i_AMOADD_D =
     \<lparr>name = ''AMOADD.D'', format = CHR ''R'', mask_field = 0xf800707f, instruction_matcher = 0x0000302f,
      execute = (\<lambda>instruction cpu.
       let fields = parse_R instruction;
           data = GetReg (rs1 fields) cpu
       in obind (SetReg (rd fields) data cpu) (\<lambda>_ cpu.
          SetReg (rs1 fields) (data + GetReg (rs2 fields) cpu) cpu))\<rparr>"

definition i_AMOXOR_D :: instruction where
  "i_AMOXOR_D =
     \<lparr>name = ''AMOXOR.D'', format = CHR ''R'', mask_field = 0xf800707f, instruction_matcher = 0x2000302f,
      execute = (\<lambda>instruction cpu.
       let fields = parse_R instruction;
           data = GetReg (rs1 fields) cpu
       in obind (SetReg (rd fields) data cpu) (\<lambda>_ cpu.
          SetReg (rs1 fields) (data XOR GetReg (rs2 fields) cpu) cpu))\<rparr>"

definition i_AMOAND_D :: instruction where
  "i_AMOAND_D =
     \<lparr>name = ''AMOAND.D'', format = CHR ''R'', mask_field = 0xf800707f, instruction_matcher = 0x6000302f,
      execute = (\<lambda>instruction cpu.
       let fields = parse_R instruction;
           data = GetReg (rs1 fields) cpu
       in obind (SetReg (rd fields) data cpu) (\<lambda>_ cpu.
          SetReg (rs1 fields) (data AND GetReg (rs2 fields) cpu) cpu))\<rparr>"

definition i_AMOOR_D :: instruction where
  "i_AMOOR_D =
     \<lparr>name = ''AMOOR.D'', format = CHR ''R'', mask_field = 0xf800707f, instruction_matcher = 0x4000302f,
      execute = (\<lambda>instruction cpu.
       let fields = parse_R instruction;
           data = GetReg (rs1 fields) cpu
       in obind (SetReg (rd fields) data cpu) (\<lambda>_ cpu.
          SetReg (rs1 fields) (data OR GetReg (rs2 fields) cpu) cpu))\<rparr>"

definition i_AMOMIN_D :: instruction where
  "i_AMOMIN_D =
     \<lparr>name = ''AMOMIN.D'', format = CHR ''R'', mask_field = 0xf800707f, instruction_matcher = 0x8000302f,
      execute = (\<lambda>instruction cpu.
       let fields = parse_R instruction;
           data = GetReg (rs1 fields) cpu
       in SetReg (GetReg (rs1 fields) cpu) (min data (GetReg (rs2 fields) cpu)) cpu)\<rparr>"

definition i_AMOMAX_D :: instruction where
  "i_AMOMAX_D =
     \<lparr>name = ''AMOMAX.D'', format = CHR ''R'', mask_field = 0xf800707f, instruction_matcher = 0xa000302f,
      execute = (\<lambda>instruction cpu.
       let fields = parse_R instruction;
           data = GetReg (rs1 fields) cpu
       in SetReg (GetReg (rs1 fields) cpu) (max data (GetReg (rs2 fields) cpu)) cpu)\<rparr>"

definition i_AMOMINU_D :: instruction where
  "i_AMOMINU_D =
     \<lparr>name = ''AMOMINU.D'', format = CHR ''R'', mask_field = 0xf800707f, instruction_matcher = 0xc000302f,
      execute = (\<lambda>instruction cpu.
       let fields = parse_R instruction;
           data = GetReg (rs1 fields) cpu
       in SetReg (GetReg (rs1 fields) cpu) (min data (GetReg (rs2 fields) cpu)) cpu)\<rparr>"

definition i_AMOMAXU_D :: instruction where
  "i_AMOMAXU_D =
     \<lparr>name = ''AMOMAXU.D'', format = CHR ''R'', mask_field = 0xf800707f, instruction_matcher = 0xe000302f,
      execute = (\<lambda>instruction cpu.
       let fields = parse_R instruction;
           data = GetReg (rs1 fields) cpu
       in SetReg (GetReg (rs1 fields) cpu) (max data (GetReg (rs2 fields) cpu)) cpu)\<rparr>"

lemmas insns_A_defs =
  i_LR_W_def i_SC_W_def i_AMOSWAP_W_def i_AMOADD_W_def i_AMOXOR_W_def i_AMOAND_W_def
  i_AMOOR_W_def i_AMOMIN_W_def i_AMOMAX_W_def i_AMOMINU_W_def i_AMOMAXU_W_def i_LR_D_def
  i_SC_D_def i_AMOSWAP_D_def i_AMOADD_D_def i_AMOXOR_D_def i_AMOAND_D_def i_AMOOR_D_def
  i_AMOMIN_D_def i_AMOMAX_D_def i_AMOMINU_D_def i_AMOMAXU_D_def

text \<open>The entries of this part of the table, in order.\<close>

definition insns_A :: "instruction list" where
  "insns_A =
     [i_LR_W, i_SC_W, i_AMOSWAP_W, i_AMOADD_W, i_AMOXOR_W, i_AMOAND_W, i_AMOOR_W,
      i_AMOMIN_W, i_AMOMAX_W, i_AMOMINU_W, i_AMOMAXU_W, i_LR_D, i_SC_D, i_AMOSWAP_D,
      i_AMOADD_D, i_AMOXOR_D, i_AMOAND_D, i_AMOOR_D, i_AMOMIN_D, i_AMOMAX_D, i_AMOMINU_D,
      i_AMOMAXU_D]"

text \<open>Mask and matcher of each entry.\<close>

lemma insns_A_patterns:
  "pattern i_LR_W = (0xf9f0707f, 0x1000202f)"
  "pattern i_SC_W = (0xf800707f, 0x1800202f)"
  "pattern i_AMOSWAP_W = (0xf800707f, 0x0800202f)"
  "pattern i_AMOADD_W = (0xf800707f, 0x0000202f)"
  "pattern i_AMOXOR_W = (0xf800707f, 0x2000202f)"
  "pattern i_AMOAND_W = (0xf800707f, 0x6000202f)"
  "pattern i_AMOOR_W = (0xf800707f, 0x4000202f)"
  "pattern i_AMOMIN_W = (0xf800707f, 0x8000202f)"
  "pattern i_AMOMAX_W = (0xf800707f, 0xa000202f)"
  "pattern i_AMOMINU_W = (0xf800707f, 0xc000202f)"
  "pattern i_AMOMAXU_W = (0xf800707f, 0xe000202f)"
  "pattern i_LR_D = (0xf9f0707f, 0x1000302f)"
  "pattern i_SC_D = (0xf800707f, 0x1800302f)"
  "pattern i_AMOSWAP_D = (0xf800707f, 0x0800302f)"
  "pattern i_AMOADD_D = (0xf800707f, 0x0000302f)"
  "pattern i_AMOXOR_D = (0xf800707f, 0x2000302f)"
  "pattern i_AMOAND_D = (0xf800707f, 0x6000302f)"
  "pattern i_AMOOR_D = (0xf800707f, 0x4000302f)"
  "pattern i_AMOMIN_D = (0xf800707f, 0x8000302f)"
  "pattern i_AMOMAX_D = (0xf800707f, 0xa000302f)"
  "pattern i_AMOMINU_D = (0xf800707f, 0xc000302f)"
  "pattern i_AMOMAXU_D = (0xf800707f, 0xe000302f)"
  by (simp_all only: pattern_def insns_A_defs instruction.select_convs)

lemma insns_A_keep_ok: "list_all keeps_ok insns_A"
  unfolding insns_A_def list.pred_inject
  by (intro conjI list.pred_inject(1) keeps_okI;
      simp only: insns_A_defs instruction.select_convs Let_def split: PrivilegeMode.split;
      intro outcome_inv allI impI conjI; assumption)

end
