(* ===== verification/Decode.thy ===== *)
theory Decode
  imports Insn_I Insn_I64 Insn_M Insn_A
begin

text \<open>
  The table \<open>instructions[]\<close> and \<open>CPU::Decode\<close> of \<open>source/cpu.cpp\<close>: the first entry whose masked
  bits are its matcher.
\<close>

definition instructions :: "instruction list" where
  "instructions = insns_I @ insns_I64 @ insns_M @ insns_A"

definition matches :: "u32 \<Rightarrow> instruction \<Rightarrow> bool" where
  "matches instruction i \<longleftrightarrow> instruction AND mask_field i = instruction_matcher i"

primrec decode_loop :: "u32 \<Rightarrow> instruction list \<Rightarrow> cpu \<Rightarrow> instruction exec" where
  "decode_loop instruction [] cpu = Throw IllegalInstruction cpu"
| "decode_loop instruction (i # is) cpu =
     (if instruction AND mask_field i = instruction_matcher i then Ret i cpu
      else decode_loop instruction is cpu)"

definition Decode :: "u32 \<Rightarrow> cpu \<Rightarrow> instruction exec" where
  "Decode instruction cpu = decode_loop instruction instructions cpu"

section \<open>Patterns\<close>

text \<open>Two patterns clash if some word matches both.\<close>

definition clash :: "u32 \<times> u32 \<Rightarrow> u32 \<times> u32 \<Rightarrow> bool" where
  "clash p q \<longleftrightarrow> snd p AND fst q = snd q AND fst p"

lemmas insn_defs = insns_I_defs insns_I64_defs insns_M_defs insns_A_defs

lemma matches_clash:
  assumes "matches w i" "matches w j"
  shows "clash (pattern i) (pattern j)"
proof -
  have "(w AND mask_field i) AND mask_field j = (w AND mask_field j) AND mask_field i"
    by (simp only: and.assoc and.commute [of "mask_field i"])
  with assms show ?thesis
    by (simp add: matches_def clash_def pattern_def)
qed

primrec clashing :: "(u32 \<times> u32) list \<Rightarrow> ((u32 \<times> u32) \<times> (u32 \<times> u32)) list" where
  "clashing [] = []"
| "clashing (p # ps) = map (Pair p) (filter (clash p) ps) @ clashing ps"

definition patterns :: "(u32 \<times> u32) list" where
  "patterns = map pattern instructions"

text \<open>Every pattern fixes the opcode, so only patterns of the same opcode can clash.\<close>

definition opcode_of :: "u32 \<times> u32 \<Rightarrow> u32" where
  "opcode_of p = snd p AND 0x7f"

definition opcodes :: "u32 list" where
  "opcodes = [0x73, 0x37, 0x17, 0x6f, 0x67, 0x63, 0x03, 0x23, 0x13, 0x33, 0x0f, 0x1b, 0x3b, 0x2f]"

lemmas patterns_eval = patterns_def instructions_def insns_I_def insns_I64_def insns_M_def insns_A_def
  append.simps list.map insns_I_patterns insns_I64_patterns insns_M_patterns insns_A_patterns

lemma patterns_opcode:
  "list_all (\<lambda>p. fst p AND 0x7f = 0x7f \<and> opcode_of p \<in> set opcodes) patterns"
  unfolding patterns_eval by (simp add: opcode_of_def opcodes_def)

lemma clash_opcode:
  assumes "fst p AND 0x7f = 0x7f" "fst q AND 0x7f = 0x7f" "clash p q"
  shows "opcode_of p = opcode_of q"
proof -
  have "snd p AND 0x7f = (snd p AND fst q) AND 0x7f"
    using assms(2) by (metis and.assoc)
  also have "\<dots> = (snd q AND fst p) AND 0x7f"
    using assms(3) by (simp add: clash_def)
  also have "\<dots> = snd q AND 0x7f"
    using assms(1) by (metis and.assoc)
  finally show ?thesis
    by (simp add: opcode_of_def)
qed

text \<open>The patterns of one opcode, with the opcodes computed once.\<close>

definition tagged :: "(u32 \<times> u32 \<times> u32) list" where
  "tagged = map (\<lambda>p. (opcode_of p, p)) patterns"

definition group :: "u32 \<Rightarrow> (u32 \<times> u32) list" where
  "group oc = map snd (filter (\<lambda>tp. fst tp = oc) tagged)"

lemma group_eq: "group oc = filter (\<lambda>p. opcode_of p = oc) patterns"
  by (simp add: group_def tagged_def filter_map comp_def)

lemmas tagged_eval = tagged_def [unfolded patterns_eval opcode_of_def, simplified]

lemma group_clashes:
  "concat (map (\<lambda>oc. clashing (group oc)) opcodes) = [(pattern i_FENCE, pattern i_FENCE_I)]"
  unfolding group_def tagged_eval opcodes_def insns_I_patterns insns_I64_patterns
  by (simp add: clash_def)

lemma clashing_nth:
  "i < j \<Longrightarrow> j < length ps \<Longrightarrow> clash (ps ! i) (ps ! j) \<Longrightarrow> (ps ! i, ps ! j) \<in> set (clashing ps)"
proof (induction ps arbitrary: i j)
  case (Cons p ps)
  obtain j' where j: "j = Suc j'"
    using Cons.prems(1) by (cases j) auto
  with Cons show ?case
    by (cases i) auto
qed simp

lemma clashing_filter:
  "(p, q) \<in> set (clashing ps) \<Longrightarrow> P p \<Longrightarrow> P q \<Longrightarrow> (p, q) \<in> set (clashing (filter P ps))"
  by (induction ps) auto

lemma clashing_in: "(p, q) \<in> set (clashing ps) \<Longrightarrow> p \<in> set ps \<and> q \<in> set ps \<and> clash p q"
  by (induction ps) auto

lemma clashing_patterns:
  assumes "(p, q) \<in> set (clashing patterns)"
  shows "p = pattern i_FENCE \<and> q = pattern i_FENCE_I"
proof -
  have in_patterns: "p \<in> set patterns" "q \<in> set patterns" and "clash p q"
    using clashing_in [OF assms] by simp_all
  moreover have "fst p AND 0x7f = 0x7f" "fst q AND 0x7f = 0x7f" and oc: "opcode_of p \<in> set opcodes"
    using patterns_opcode in_patterns by (simp_all add: list_all_iff)
  ultimately have "opcode_of q = opcode_of p"
    by (metis clash_opcode)
  then have "(p, q) \<in> set (clashing (group (opcode_of p)))"
    unfolding group_eq by (intro clashing_filter assms) simp_all
  with oc have "(p, q) \<in> set (concat (map (\<lambda>oc. clashing (group oc)) opcodes))"
    by auto
  then show ?thesis
    unfolding group_clashes by simp
qed

lemma only_fence:
  assumes "i < j" "j < length instructions" "matches w (instructions ! i)" "matches w (instructions ! j)"
  shows "w = 0xf"
proof -
  have "clash (patterns ! i) (patterns ! j)"
    using assms matches_clash [of w "instructions ! i" "instructions ! j"] by (simp add: patterns_def)
  with assms have "(patterns ! i, patterns ! j) \<in> set (clashing patterns)"
    by (intro clashing_nth) (simp_all add: patterns_def)
  then have "patterns ! i = (0xffffffff, 0xf)"
    using clashing_patterns by (simp add: insns_I_patterns)
  with assms have "mask_field (instructions ! i) = 0xffffffff" "instruction_matcher (instructions ! i) = 0xf"
    by (simp_all add: patterns_def pattern_def)
  moreover have "(0xffffffff :: u32) = - 1"
    by simp
  ultimately show ?thesis
    using assms(3) by (simp add: matches_def)
qed

lemma one_match:
  assumes "w \<noteq> 0xf" "a \<in> set instructions" "b \<in> set instructions" "matches w a" "matches w b"
  shows "a = b"
proof -
  obtain i j where ij: "i < length instructions" "instructions ! i = a" "j < length instructions"
      "instructions ! j = b"
    using assms(2,3) by (auto simp: in_set_conv_nth)
  with assms only_fence [of i j w] only_fence [of j i w] have "i = j"
    by (metis linorder_neqE_nat)
  with ij show ?thesis by simp
qed

section \<open>The loop\<close>

lemma decode_loop_find:
  "decode_loop w is c = (case find (matches w) is of None \<Rightarrow> Throw IllegalInstruction c | Some i \<Rightarrow> Ret i c)"
  by (induction "is") (simp_all add: matches_def)

lemma decode_loop_one:
  assumes "i \<in> set is" "matches w i" "\<And>j. j \<in> set is \<Longrightarrow> matches w j \<Longrightarrow> j = i"
  shows "decode_loop w is c = Ret i c"
proof -
  have "find (matches w) is = Some i"
  proof (cases "find (matches w) is")
    case None
    with assms(1,2) show ?thesis
      by (auto simp: find_None_iff)
  next
    case (Some j)
    then have "j \<in> set is \<and> matches w j"
      by (auto simp: find_Some_iff)
    with Some assms(3) show ?thesis
      by simp
  qed
  then show ?thesis
    by (simp add: decode_loop_find)
qed

lemma decode_loop_none: "(\<And>i. i \<in> set is \<Longrightarrow> \<not> matches w i) \<Longrightarrow> decode_loop w is c = Throw IllegalInstruction c"
  by (simp add: decode_loop_find find_None_iff [THEN iffD2])

lemma Decode_matches:
  assumes "i \<in> set instructions" "matches w i" "w \<noteq> 0xf"
  shows "Decode w c = Ret i c"
  unfolding Decode_def using assms by (intro decode_loop_one) (auto intro: one_match)

lemma Decode_0xf: "Decode 0xf c = Ret i_FENCE c"
  unfolding Decode_def instructions_def insns_I_def
  by (simp add: insns_I_defs)

lemma Decode_cases:
  obtains (found) i where "i \<in> set instructions" "matches w i" "Decode w c = Ret i c"
  | (illegal) "\<And>i. i \<in> set instructions \<Longrightarrow> \<not> matches w i" "Decode w c = Throw IllegalInstruction c"
proof (cases "find (matches w) instructions")
  case None
  then have "Decode w c = Throw IllegalInstruction c"
    by (simp add: Decode_def decode_loop_find)
  moreover have "\<not> matches w i" if "i \<in> set instructions" for i
    using that None by (auto simp: find_None_iff)
  ultimately show ?thesis
    using illegal by blast
next
  case (Some i)
  then have "i \<in> set instructions \<and> matches w i"
    by (auto simp: find_Some_iff)
  with Some show ?thesis
    by (intro found [of i]) (auto simp: Decode_def decode_loop_find)
qed

lemma instructions_keep_ok: "list_all keeps_ok instructions"
  by (simp add: instructions_def insns_I_keep_ok insns_I64_keep_ok insns_M_keep_ok insns_A_keep_ok)

section \<open>Properties\<close>

text \<open>
  C8. Decoding is right. A word decodes to an entry exactly if the entry is in the table and its
  masked bits are the matcher (the word 0xf, which two entries match, decodes to the first of them);
  it is an illegal instruction exactly if no entry matches. The state is untouched.
\<close>

theorem decode_correct:
  "(Decode w c = Ret i c' \<longleftrightarrow>
      c' = c \<and> (if w = 0xf then i = i_FENCE else i \<in> set instructions \<and> matches w i)) \<and>
   (Decode w c = Throw e c' \<longleftrightarrow>
      e = IllegalInstruction \<and> c' = c \<and> \<not> (\<exists>i\<in>set instructions. matches w i))"
proof (cases "w = 0xf")
  case True
  have "i_FENCE \<in> set instructions \<and> matches 0xf i_FENCE"
    by (simp add: instructions_def insns_I_def matches_def i_FENCE_def)
  with True show ?thesis
    by (auto simp: Decode_0xf)
next
  case False
  show ?thesis
  proof (cases rule: Decode_cases [of w c])
    case (found j)
    with False one_match [of w j i] show ?thesis
      by auto
  next
    case illegal
    with False show ?thesis
      by auto
  qed
qed

text \<open>
  The table is unambiguous: no word except 0xf matches two entries, so the linear search of
  \<open>Decode\<close> gives the same result over any list with the same entries, in whatever order.
\<close>

theorem decode_order_irrelevant:
  assumes "set is = set instructions" and "w \<noteq> 0xf"
  shows "decode_loop w is c = Decode w c"
proof (cases rule: Decode_cases [of w c])
  case (found i)
  with assms have "decode_loop w is c = Ret i c"
    by (intro decode_loop_one) (auto intro: one_match)
  with found show ?thesis
    by simp
next
  case illegal
  with assms(1) have "decode_loop w is c = Throw IllegalInstruction c"
    by (intro decode_loop_none) auto
  with illegal show ?thesis
    by simp
qed

lemma decode_order_irrelevant_witness:
  "decode_loop 0x13 (rev instructions) (cpu_new (mmu_new (\<lambda>_. 0)) 0) =
     Decode 0x13 (cpu_new (mmu_new (\<lambda>_. 0)) 0)"
  by (rule decode_order_irrelevant) simp_all

end
