(* ===== verification/Step.thy ===== *)
theory Step
  imports Decode
begin

text \<open>
  The fetch-decode-execute cycle of \<open>source/cpu.cpp\<close>: \<open>CPU::Fetch\<close>, \<open>CPU::Step\<close>
  and \<open>CPU::Run\<close>. \<open>Step\<close> catches the traps of \<open>execute\<close> only; the ones
  of \<open>Fetch\<close> and \<open>Decode\<close> leave it. \<open>Run\<close> never returns, so the model has its loop body and the
  first \<open>k\<close> rounds of the loop, with what they print on standard error. The last sections give
  the states a CPU can reach and the invariants they share.
\<close>

section \<open>The cycle\<close>

definition Fetch :: "cpu \<Rightarrow> u32 exec" where
  "Fetch cpu =
     obind (CPU_Load (pc cpu) 4 None cpu) (\<lambda>inst cpu.
       let cpu = cpu\<lparr>pc := pc cpu + 4\<rparr>
       in obind (read_cell inst cpu) (\<lambda>inst cpu. Ret (ucast inst) cpu))"

definition Step :: "cpu \<Rightarrow> unit exec" where
  "Step cpu =
     (let cpu = cpu\<lparr>regs := (regs cpu)(0 := 0)\<rparr>
      in obind (Fetch cpu) (\<lambda>instruction cpu.
         obind (Decode instruction cpu) (\<lambda>inst cpu.
         obind (ocatch (execute inst instruction cpu) (\<lambda>e cpu. Ret () (HandleTrap e cpu))) (\<lambda>_ cpu.
         HandleInterrupts cpu))))"

definition unhandled :: "trap_value \<Rightarrow> string" where
  "unhandled e = ''Unhandled trap: '' @ trap_what e"

text \<open>One round of the loop of \<open>Run\<close>, with the lines it prints; and \<open>k\<close> rounds.\<close>

definition run_round :: "cpu \<Rightarrow> string list exec" where
  "run_round cpu =
     ocatch (obind (Step cpu) (\<lambda>_ cpu. Ret [] cpu)) (\<lambda>e cpu. Ret [unhandled e] cpu)"

primrec Run :: "nat \<Rightarrow> cpu \<Rightarrow> string list exec" where
  "Run 0 cpu = Ret [] cpu"
| "Run (Suc k) cpu =
     obind (run_round cpu) (\<lambda>out cpu. obind (Run k cpu) (\<lambda>out' cpu. Ret (out @ out') cpu))"

section \<open>Reachable states\<close>

text \<open>
  The states an object can be in after any number of calls of an operation, each of which may
  return or throw (the loops that call \<open>Step\<close> go on after a trap).
\<close>

inductive reach :: "('s \<Rightarrow> ('a, 's, 'e) outcome) \<Rightarrow> 's \<Rightarrow> 's \<Rightarrow> bool" for step where
  start: "reach step s s"
| ret: "reach step s t \<Longrightarrow> step t = Ret a u \<Longrightarrow> reach step s u"
| throw: "reach step s t \<Longrightarrow> step t = Throw e u \<Longrightarrow> reach step s u"

inductive_cases reach_cases: "reach step s t"

lemma reach_trans: "reach step t u \<Longrightarrow> reach step s t \<Longrightarrow> reach step s u"
  by (induction rule: reach.induct) (auto intro: reach.intros)

locale step_invariant =
  fixes step :: "'s \<Rightarrow> ('a, 's, 'e) outcome" and inv :: "'s \<Rightarrow> bool"
  assumes keep: "inv s \<Longrightarrow> out_all inv (step s)"
begin

lemma keep_ret: "inv s \<Longrightarrow> step s = Ret a t \<Longrightarrow> inv t"
  using keep [of s] by simp

lemma keep_throw: "inv s \<Longrightarrow> step s = Throw e t \<Longrightarrow> inv t"
  using keep [of s] by simp

lemma reach_inv: "reach step s t \<Longrightarrow> inv s \<Longrightarrow> inv t"
  by (induction rule: reach.induct) (auto intro: keep_ret keep_throw)

end

lemma reach_stuck:
  assumes "step s = Throw e s"
  shows "reach step s t \<longleftrightarrow> t = s"
proof
  assume "reach step s t"
  then show "t = s"
    using assms by (induction rule: reach.induct) auto
qed (simp add: reach.start)

section \<open>The invariant of the CPU\<close>

lemma cpu_ok_regs: "cpu_ok (c\<lparr>regs := r\<rparr>) = cpu_ok c" and cpu_ok_pc: "cpu_ok (c\<lparr>pc := a\<rparr>) = cpu_ok c"
  by (simp_all add: cpu_ok_def)

lemma cpu_ok_Fetch [outcome_inv]: "cpu_ok c \<Longrightarrow> out_all cpu_ok (Fetch c)"
  unfolding Fetch_def Let_def by (intro outcome_inv) (simp_all add: cpu_ok_pc)

lemma cpu_ok_execute [outcome_inv]:
  "i \<in> set instructions \<Longrightarrow> cpu_ok c \<Longrightarrow> out_all cpu_ok (execute i w c)"
  using instructions_keep_ok by (auto simp: list_all_iff keeps_ok_def)

lemma cpu_ok_Decode:
  assumes "cpu_ok c" and "\<And>i. i \<in> set instructions \<Longrightarrow> out_all cpu_ok (f i c)"
  shows "out_all cpu_ok (obind (Decode w c) f)"
  using assms by (cases rule: Decode_cases [of w c]) simp_all

lemma cpu_ok_Step [outcome_inv]: "cpu_ok c \<Longrightarrow> out_all cpu_ok (Step c)"
  unfolding Step_def Let_def
  by (intro out_all_obind cpu_ok_Fetch cpu_ok_Decode out_all_ocatch cpu_ok_execute
      cpu_ok_HandleInterrupts outcome_inv) (simp_all add: cpu_ok_regs)

interpretation cpu_steps: step_invariant Step cpu_ok
  by unfold_locales (rule cpu_ok_Step)

lemma fresh_cpu_ok: "reach Step (cpu_new (mmu_new mem) entry) c \<Longrightarrow> cpu_ok c"
  using cpu_steps.reach_inv cpu_ok_new by blast

section \<open>No instruction loops by itself\<close>

lemma accessors_converge:
  "SetReg r v c \<noteq> Diverge" "SetCsr n v c \<noteq> Diverge" "shl64 a k c \<noteq> Diverge" "shr64 a k c \<noteq> Diverge"
  "read_cell d c \<noteq> Diverge" "Ret a c \<noteq> Diverge" "Throw e c \<noteq> Diverge" "Undef u \<noteq> Diverge"
  by (simp_all add: SetReg_def Let_def SetCsr_eq shl64_def shr64_def)

lemma bus_converges: "bus_Load pa n d m \<noteq> Diverge" "bus_Store pa n v m \<noteq> Diverge"
  by (simp_all add: bus_Load_def bus_Store_def ram_dev.load_returns ram_dev.store_returns
      uart_dev.load_returns uart_dev.store_returns virtio_dev.load_returns virtio_dev.store_returns
      clint_dev.load_returns clint_dev.store_returns plic_dev.load_returns plic_dev.store_returns)

lemma access_converges:
  assumes "paging_mode (mmu c) = Bare"
  shows "CPU_Load a n d c \<noteq> Diverge" "CPU_Store a n v c \<noteq> Diverge"
  using assms by (simp_all add: CPU_Load_def CPU_Store_def bus_converges)

definition converges :: "instruction \<Rightarrow> bool" where
  "converges i \<longleftrightarrow> (\<forall>w c. paging_mode (mmu c) = Bare \<longrightarrow> execute i w c \<noteq> Diverge)"

lemma convergesI: "(\<And>w c. paging_mode (mmu c) = Bare \<Longrightarrow> execute i w c \<noteq> Diverge) \<Longrightarrow> converges i"
  by (simp add: converges_def)

lemmas converge_simps = obind_Diverge_iff accessors_converge access_converges

lemma instructions_converge: "list_all converges instructions"
  unfolding instructions_def insns_I_def insns_I64_def insns_M_def insns_A_def append.simps list.pred_inject
  by (intro conjI list.pred_inject(1) convergesI;
      simp only: insn_defs instruction.select_convs Let_def;
      simp add: converge_simps SetPc_def SetMode_def split: PrivilegeMode.split)

lemma execute_converges:
  "i \<in> set instructions \<Longrightarrow> paging_mode (mmu c) = Bare \<Longrightarrow> execute i w c \<noteq> Diverge"
  using instructions_converge by (auto simp: list_all_iff converges_def)

section \<open>The cycle with paging off\<close>

lemma HandleInterrupts_returns: "\<exists>d. HandleInterrupts c = Ret () d"
  by (simp add: HandleInterrupts_eq)

lemma Fetch_Bare:
  assumes "paging_mode (mmu c) = Bare"
  shows "Fetch c \<noteq> Diverge"
    and "Fetch c = Throw e d \<longleftrightarrow>
      e = LoadAccessFault \<and> d = c \<and> (\<not> mapped (pc c) \<or> valid_addr UART_BASE UART_SIZE (pc c))"
    and "Fetch c = Ret w d \<Longrightarrow> d = c\<lparr>pc := pc c + 4\<rparr> \<and> paging_mode (mmu d) = Bare"
proof -
  show "Fetch c \<noteq> Diverge"
    by (simp add: Fetch_def Let_def converge_simps assms)
  show "Fetch c = Throw e d \<longleftrightarrow>
      e = LoadAccessFault \<and> d = c \<and> (\<not> mapped (pc c) \<or> valid_addr UART_BASE UART_SIZE (pc c))"
    by (auto simp: Fetch_def Let_def obind_Throw_iff CPU_Load_def with_state_Throw_iff assms
        bus_Throw_iff access_size_def)
  show "Fetch c = Ret w d \<Longrightarrow> d = c\<lparr>pc := pc c + 4\<rparr> \<and> paging_mode (mmu d) = Bare"
    using assms
    by (auto simp: Fetch_def Let_def obind_Ret_iff CPU_Load_def with_state_Ret_iff
        bus_Load_def ram_Load_Ret_iff uart_Load_def stub_defs split: if_splits)
qed

text \<open>The instruction word in the RAM at the pc.\<close>

definition instr_at :: "u32 \<Rightarrow> cpu \<Rightarrow> bool" where
  "instr_at w c \<longleftrightarrow> in_ram (pc c) 4 \<and> w = ucast (read_bytes (ram (mmu c)) (unat (pc c - KERNBASE)) 4)"

lemma Fetch_ram:
  "paging_mode (mmu c) = Bare \<Longrightarrow> instr_at w c \<Longrightarrow> Fetch c = Ret w (c\<lparr>pc := pc c + 4\<rparr>)"
  by (simp add: Fetch_def CPU_Load_def instr_at_def bus_Load_in_ram Let_def)

text \<open>The state in which \<open>execute\<close> starts.\<close>

definition ready :: "cpu \<Rightarrow> cpu" where
  "ready c = c\<lparr>regs := (regs c)(0 := 0), pc := pc c + 4\<rparr>"

lemma ready_simps [simp]:
  "pc (ready c) = pc c + 4" "csrs (ready c) = csrs c" "priv_mode (ready c) = priv_mode c"
  "mmu (ready c) = mmu c" "regs (ready c) = (regs c)(0 := 0)"
  by (simp_all add: ready_def)

text \<open>\<open>Step\<close> with the fetched word and the decoded entry known.\<close>

lemma Step_unfold:
  "Step c = obind (Fetch (set_reg 0 0 c)) (\<lambda>w c. obind (Decode w c) (\<lambda>i c.
     obind (ocatch (execute i w c) (\<lambda>e c. Ret () (HandleTrap e c))) (\<lambda>_. HandleInterrupts)))"
  by (simp add: Step_def Let_def set_reg_def)

lemma Step_fetched:
  "Fetch (set_reg 0 0 c) = Ret w d \<Longrightarrow> Step c = obind (Decode w d) (\<lambda>i c.
     obind (ocatch (execute i w c) (\<lambda>e c. Ret () (HandleTrap e c))) (\<lambda>_. HandleInterrupts))"
  by (simp add: Step_unfold)

lemma Step_fault: "Fetch (set_reg 0 0 c) = Throw e d \<Longrightarrow> Step c = Throw e d"
  by (simp add: Step_unfold)

lemma Step_ram:
  assumes "paging_mode (mmu c) = Bare" "instr_at w c" "i \<in> set instructions" "matches w i" "w \<noteq> 0xf"
  shows "Step c = obind (ocatch (execute i w (ready c)) (\<lambda>e c. Ret () (HandleTrap e c))) (\<lambda>_. HandleInterrupts)"
proof -
  have "Fetch (set_reg 0 0 c) = Ret w (ready c)"
    using assms(1,2) by (subst Fetch_ram) (simp_all add: instr_at_def set_reg_def ready_def)
  then show ?thesis
    by (simp add: Step_fetched Decode_matches [OF assms(3-5)])
qed

lemma handled_Throw: "obind (ocatch m (\<lambda>e c. Ret () (HandleTrap e c))) (\<lambda>_. HandleInterrupts) \<noteq> Throw e d"
proof -
  have "HandleInterrupts c \<noteq> Throw e d" for c
    by (simp add: HandleInterrupts_eq)
  then show ?thesis
    by (cases m) simp_all
qed

lemma handled_Diverge_iff:
  "obind (ocatch m (\<lambda>e c. Ret () (HandleTrap e c))) (\<lambda>_. HandleInterrupts) = Diverge \<longleftrightarrow> m = Diverge"
proof -
  have "HandleInterrupts c \<noteq> Diverge" for c
    by (simp add: HandleInterrupts_eq)
  then show ?thesis
    by (cases m) simp_all
qed

lemma Step_fetched_Throw_iff:
  assumes "Fetch (set_reg 0 0 c) = Ret w c'"
  shows "Step c = Throw e d \<longleftrightarrow>
    \<not> (\<exists>i\<in>set instructions. matches w i) \<and> e = IllegalInstruction \<and> d = c'"
proof (cases rule: Decode_cases [of w c'])
  case (found i)
  then have "\<exists>i\<in>set instructions. matches w i"
    by blast
  with found show ?thesis
    by (simp add: Step_fetched [OF assms] handled_Throw)
next
  case illegal
  then have "\<not> (\<exists>i\<in>set instructions. matches w i)"
    by blast
  with illegal show ?thesis
    by (auto simp: Step_fetched [OF assms])
qed

definition fetch_faults :: "cpu \<Rightarrow> bool" where
  "fetch_faults c \<longleftrightarrow> \<not> mapped (pc c) \<or> valid_addr UART_BASE UART_SIZE (pc c)"

lemma Fetch_x0:
  assumes "paging_mode (mmu c) = Bare"
  shows "Fetch (set_reg 0 0 c) = Throw e d \<longleftrightarrow> fetch_faults c \<and> e = LoadAccessFault \<and> d = set_reg 0 0 c"
    and "Fetch (set_reg 0 0 c) = Ret w d \<Longrightarrow> d = ready c \<and> \<not> fetch_faults c"
proof -
  show 1: "Fetch (set_reg 0 0 c) = Throw e d \<longleftrightarrow> fetch_faults c \<and> e = LoadAccessFault \<and> d = set_reg 0 0 c" for e d
    using Fetch_Bare(2) [of "set_reg 0 0 c" e d] assms by (auto simp: fetch_faults_def)
  show "Fetch (set_reg 0 0 c) = Ret w d \<Longrightarrow> d = ready c \<and> \<not> fetch_faults c"
    using Fetch_Bare(3) [of "set_reg 0 0 c" w d] assms 1 [of LoadAccessFault "set_reg 0 0 c"]
    by (auto simp: set_reg_def ready_def)
qed

lemma Step_Throw_Bare:
  assumes "paging_mode (mmu c) = Bare"
  shows "Step c = Throw e d \<longleftrightarrow>
    fetch_faults c \<and> e = LoadAccessFault \<and> d = set_reg 0 0 c \<or>
    (\<exists>w. Fetch (set_reg 0 0 c) = Ret w d \<and> \<not> (\<exists>i\<in>set instructions. matches w i) \<and>
       e = IllegalInstruction \<and> d = ready c)"
proof (cases "Fetch (set_reg 0 0 c)")
  case (Ret w c')
  with Fetch_x0(2) [OF assms Ret] show ?thesis
    by (auto simp: Step_fetched_Throw_iff)
next
  case (Throw e' d')
  with Fetch_x0(1) [OF assms, of e' d'] Fetch_x0(1) [OF assms, of e d] show ?thesis
    by (auto simp: Step_fault)
next
  case (Undef u)
  with Fetch_x0(1) [OF assms, of LoadAccessFault "set_reg 0 0 c"] show ?thesis
    by (simp add: Step_unfold)
next
  case Diverge
  then show ?thesis
    using Fetch_Bare(1) [of "set_reg 0 0 c"] assms by simp
qed

lemma Step_Diverge_iff:
  assumes "cpu_ok c"
  shows "Step c = Diverge \<longleftrightarrow> bit (csrs c 0x180) 63"
proof (cases "bit (csrs c 0x180) 63")
  case True
  then have "paging_mode (mmu c) = Sv39" "root_page_table (mmu c) = Some (take_bit 44 (csrs c 0x180))"
    using assms by (simp_all add: cpu_ok_def paging_coherent_def)
  with True show ?thesis
    by (simp add: Step_unfold Fetch_def CPU_Load_def MMU_Load_unfold Translate_Sv39)
next
  case False
  then have bare: "paging_mode (mmu c) = Bare"
    using assms by (simp add: cpu_ok_def paging_coherent_def)
  have "Step c \<noteq> Diverge"
  proof (cases "Fetch (set_reg 0 0 c)")
    case (Ret w c')
    then have c': "paging_mode (mmu c') = Bare"
      using Fetch_Bare(3) [OF _ Ret] bare by simp
    show ?thesis
      using Ret c'
      by (cases rule: Decode_cases [of w c']) (simp_all add: Step_unfold handled_Diverge_iff execute_converges)
  qed (use Fetch_Bare(1) [of "set_reg 0 0 c"] bare in \<open>simp_all add: Step_unfold\<close>)
  with False show ?thesis by simp
qed

section \<open>Properties\<close>

text \<open>
  C1. One step of the machine. With paging off and an instruction word of the table in the RAM at the
  pc, a step executes exactly that entry on the state with x0 zeroed and the pc advanced by 4; an
  exception of the entry becomes a trap entry on the state the entry left; then interrupts are served.
\<close>

theorem step_executes:
  assumes "paging_mode (mmu c) = Bare" and "instr_at w c"
    and "i \<in> set instructions" and "matches w i" and "w \<noteq> 0xf"
  shows "Step c =
     (case execute i w (ready c) of
        Ret _ d \<Rightarrow> HandleInterrupts d
      | Throw e d \<Rightarrow> HandleInterrupts (HandleTrap e d)
      | Undef u \<Rightarrow> Undef u
      | Diverge \<Rightarrow> Diverge)"
  by (simp add: Step_ram [OF assms] split: outcome.split)

text \<open>A machine that holds one instruction, \<open>addi x1, x0, 5\<close>, at the start of the RAM.\<close>

definition addi_machine :: cpu where
  "addi_machine = cpu_new (mmu_new (\<lambda>i. if i < 4 then [0x93, 0x00, 0x50, 0x00] ! i else 0)) KERNBASE"

lemma step_executes_witness:
  "Step addi_machine = Ret () (set_reg 1 5 (ready addi_machine))"
proof -
  have m: "mmu addi_machine = mmu_new (\<lambda>i. if i < 4 then [0x93, 0x00, 0x50, 0x00] ! i else 0)"
    and pc: "pc addi_machine = KERNBASE"
    by (simp_all add: addi_machine_def cpu_new_def)
  have bare: "paging_mode (mmu addi_machine) = Bare"
    by (simp add: m mmu_new_def)
  have at: "instr_at 0x00500093 addi_machine"
    by (simp add: instr_at_def in_ram_def m pc mmu_new_def bytes_eval valid_addr_def config_defs access_size_def)
  have i: "i_ADDI \<in> set instructions" "matches 0x00500093 i_ADDI" "(0x00500093 :: u32) \<noteq> 0xf"
    by (simp_all add: instructions_def insns_I_def matches_def i_ADDI_def)
  have "execute i_ADDI 0x00500093 (ready addi_machine) = Ret () (set_reg 1 5 (ready addi_machine))"
    by (simp add: i_ADDI_def parse_I_def mask32_def sign_extend_12b_def GetReg_small SetReg_small
        int_to_u64_def)
  with step_executes [OF bare at i] show ?thesis
    by (simp add: HandleInterrupts_eq interrupts_enabled_def addi_machine_def cpu_new_def)
qed

text \<open>
  C17. Which traps leave a step. With paging off a step throws only for a fetch that faults (no device
  at the pc, or the UART) or for a word that no entry matches. In both cases no trap is entered: the
  first leaves the machine as it was, with x0 zeroed, and the second with the pc past the word. The
  traps of the instructions themselves never leave a step.
\<close>

theorem step_throws_iff:
  assumes "paging_mode (mmu c) = Bare"
  shows "Step c = Throw e d \<longleftrightarrow>
    fetch_faults c \<and> e = LoadAccessFault \<and> d = set_reg 0 0 c \<or>
    (\<exists>w. Fetch (set_reg 0 0 c) = Ret w d \<and> \<not> (\<exists>i\<in>set instructions. matches w i) \<and>
       e = IllegalInstruction \<and> d = ready c)"
  by (rule Step_Throw_Bare [OF assms])

lemma step_throws_iff_witness:
  "Step (cpu_new (mmu_new (\<lambda>_. 0)) 0x1000) = Throw LoadAccessFault (set_reg 0 0 (cpu_new (mmu_new (\<lambda>_. 0)) 0x1000))"
proof -
  have "paging_mode (mmu (cpu_new (mmu_new (\<lambda>_. 0)) 0x1000)) = Bare"
    by (simp add: cpu_new_def mmu_new_def)
  moreover have "fetch_faults (cpu_new (mmu_new (\<lambda>_. 0)) 0x1000)"
    by (simp add: fetch_faults_def cpu_new_def mapped_iff valid_addr_def config_defs)
  ultimately show ?thesis
    using step_throws_iff [of "cpu_new (mmu_new (\<lambda>_. 0)) 0x1000"] by blast
qed

text \<open>A machine that holds \<open>addi x1, x0, -1\<close> and \<open>csrrw x0, satp, x1\<close>, and its state after the two.\<close>

definition paging_machine :: cpu where
  "paging_machine = cpu_new (mmu_new (\<lambda>i. if i < 8 then [0x93, 0x00, 0xf0, 0xff, 0x73, 0x90, 0x00, 0x18] ! i else 0)) KERNBASE"

definition paging_machine_1 :: cpu where
  "paging_machine_1 = set_reg 1 (- 1) (ready paging_machine)"

definition paging_machine_2 :: cpu where
  "paging_machine_2 = set_reg 0 0 (set_csr 0x180 (- 1) (ready paging_machine_1))"

lemma paging_machine_at:
  "instr_at 0xfff00093 paging_machine" "instr_at 0x18009073 paging_machine_1"
  "paging_mode (mmu paging_machine) = Bare" "paging_mode (mmu paging_machine_1) = Bare"
  by (simp_all add: instr_at_def in_ram_def paging_machine_1_def paging_machine_def cpu_new_def mmu_new_def
      bytes_eval valid_addr_def config_defs access_size_def)

lemma paging_machine_steps:
  "Step paging_machine = Ret () paging_machine_1" "Step paging_machine_1 = Ret () paging_machine_2"
proof -
  have "i_ADDI \<in> set instructions" "matches 0xfff00093 i_ADDI" "(0xfff00093 :: u32) \<noteq> 0xf"
    by (simp_all add: instructions_def insns_I_def matches_def i_ADDI_def)
  note 1 = Step_ram [OF paging_machine_at(3,1) this]
  have "i_CSRRW \<in> set instructions" "matches 0x18009073 i_CSRRW" "(0x18009073 :: u32) \<noteq> 0xf"
    by (simp_all add: instructions_def insns_I64_def matches_def i_CSRRW_def)
  note 2 = Step_ram [OF paging_machine_at(4,2) this]
  have "execute i_ADDI 0xfff00093 (ready paging_machine) = Ret () paging_machine_1"
    by (simp add: i_ADDI_def parse_I_def mask32_def sign_extend_12b_def GetReg_small SetReg_small
        int_to_u64_def paging_machine_1_def)
  with 1 show "Step paging_machine = Ret () paging_machine_1"
    by (simp add: HandleInterrupts_eq interrupts_enabled_def paging_machine_1_def paging_machine_def cpu_new_def)
  have "csrs paging_machine 0x180 = 0"
    by (simp add: paging_machine_def cpu_new_def)
  then have "execute i_CSRRW 0x18009073 (ready paging_machine_1) = Ret () paging_machine_2"
    by (simp add: i_CSRRW_def parse_I_def mask32_def GetReg_small SetReg_small GetCsr_small SetCsr_small
        paging_machine_2_def paging_machine_1_def)
  with 2 show "Step paging_machine_1 = Ret () paging_machine_2"
    by (simp add: HandleInterrupts_eq interrupts_enabled_def paging_machine_2_def paging_machine_1_def
        paging_machine_def cpu_new_def)
qed

lemma paging_machine_reach: "reach Step paging_machine paging_machine_2"
  using paging_machine_steps by (meson reach.intros)

text \<open>
  C13. The MMU follows the satp register. In every state a fresh CPU can reach, by any number of steps
  that return or throw, the paging mode and the root page table of the MMU are the ones satp asks for.
\<close>

theorem reachable_paging_coherent:
  assumes "reach Step (cpu_new (mmu_new mem) entry) c"
  shows "paging_mode (mmu c) = (if bit (csrs c 0x180) 63 then Sv39 else Bare) \<and>
    (if bit (csrs c 0x180) 63 then root_page_table (mmu c) = Some (take_bit 44 (csrs c 0x180)) else True) \<and>
    page_size (mmu c) = 4096 \<and> privilege_mode (mmu c) = MACHINE"
  using fresh_cpu_ok [OF assms] by (auto simp: cpu_ok_def paging_coherent_def)

lemma reachable_paging_coherent_witness:
  "paging_mode (mmu paging_machine_2) = Sv39 \<and> root_page_table (mmu paging_machine_2) = Some 0xFFFFFFFFFFF"
  using reachable_paging_coherent [OF paging_machine_reach [unfolded paging_machine_def]]
  by (simp add: paging_machine_2_def take_bit_eq_mask mask_eq_exp_minus_1)

text \<open>
  C6. Termination of a step. In every reachable state a step ends (with a result, a trap or undefined
  behaviour) exactly if satp's mode bit is clear. Once paging is switched on every step recurses for
  ever, because the page walk loads its entries through the translating load.
\<close>

theorem step_diverges_iff:
  assumes "reach Step (cpu_new (mmu_new mem) entry) c"
  shows "Step c = Diverge \<longleftrightarrow> bit (csrs c 0x180) 63"
  by (rule Step_Diverge_iff [OF fresh_cpu_ok [OF assms]])

lemma step_diverges_iff_witness:
  "Step paging_machine_2 = Diverge"
  using step_diverges_iff [OF paging_machine_reach [unfolded paging_machine_def]]
  by (simp add: paging_machine_2_def)

text \<open>
  x0 reads as zero: whatever the previous instruction wrote to register 0, a step behaves as if it
  had not, and the entry it executes sees 0 there.
\<close>

theorem x0_is_zero: "Step (set_reg 0 v c) = Step c \<and> GetReg (0 :: u32) (ready c) = 0"
  by (simp add: Step_unfold set_reg_def GetReg_small)

lemma run_round_fault:
  "Step c = Throw e d \<Longrightarrow> run_round c = Ret [unhandled e] d"
  by (simp add: run_round_def)

text \<open>
  C39. \<open>Run\<close> does not recover from a fetch fault. No trap is entered and the pc stays, so each round
  reports the same fault: after any number of rounds the output is that many copies of the message
  and the machine is where it was.
\<close>

theorem run_fetch_fault_livelock:
  assumes "paging_mode (mmu c) = Bare" and "fetch_faults c"
  shows "Run (Suc k) c = Ret (replicate (Suc k) (unhandled LoadAccessFault)) (set_reg 0 0 c)"
proof -
  have fault: "run_round d = Ret [unhandled LoadAccessFault] (set_reg 0 0 c)"
    if "d = c \<or> d = set_reg 0 0 c" for d
  proof -
    have "Step d = Throw LoadAccessFault (set_reg 0 0 d)"
      using that assms by (auto simp: Step_Throw_Bare fetch_faults_def)
    moreover have "set_reg 0 0 d = set_reg 0 0 c"
      using that by (auto simp: set_reg_def)
    ultimately show ?thesis
      by (simp add: run_round_fault)
  qed
  have "Run k (set_reg 0 0 c) = Ret (replicate k (unhandled LoadAccessFault)) (set_reg 0 0 c)"
    by (induction k) (simp_all add: fault)
  then show ?thesis
    by (simp add: fault)
qed

lemma run_fetch_fault_livelock_witness:
  "Run 3 (cpu_new (mmu_new (\<lambda>_. 0)) 0x1000) =
     Ret (replicate 3 ''Unhandled trap: Load Access Fault'') (set_reg 0 0 (cpu_new (mmu_new (\<lambda>_. 0)) 0x1000))"
proof -
  have "paging_mode (mmu (cpu_new (mmu_new (\<lambda>_. 0)) 0x1000)) = Bare"
    and "fetch_faults (cpu_new (mmu_new (\<lambda>_. 0)) 0x1000)"
    by (simp_all add: fetch_faults_def cpu_new_def mmu_new_def mapped_iff valid_addr_def config_defs)
  from run_fetch_fault_livelock [OF this, of 2] show ?thesis
    by (simp add: unhandled_def numeral_eq_Suc)
qed

end
