(* ===== verification/Isa.thy ===== *)
theory Isa
  imports Step
begin

text \<open>
  The instruction set as the RISC-V manual describes it (RV64IM, Zifencei, Zicsr, and the returns SRET and
  MRET): the mnemonics with their operands, their encodings and what they compute. The definitions here are
  the reference; they are not translated from the program. \<open>entry\<close> names the entry of the program's
  table for a mnemonic, and \<open>assemble_decodes\<close> shows that \<open>Decode\<close> finds it, except for FENCE.
\<close>

section \<open>Mnemonics\<close>

datatype alu =
    Add | Sub | Sll | Slt | Sltu | Xor | Srl | Sra | Or | And
  | Mul | Mulh | Mulhsu | Mulhu | Div | Divu | Rem | Remu
  | Addw | Subw | Sllw | Srlw | Sraw | Mulw | Divw | Divuw | Remw | Remuw

datatype alui = Addi | Slti | Sltiu | Xori | Ori | Andi | Addiw

datatype shifti = Slli | Srli | Srai | Slliw | Srliw | Sraiw

datatype branch = Beq | Bne | Blt | Bge | Bltu | Bgeu

datatype load = Lb | Lh | Lw | Ld | Lbu | Lhu | Lwu

datatype store = Sb | Sh | Sw | Sd

datatype csrop = Csrrw | Csrrs | Csrrc | Csrrwi | Csrrsi | Csrrci

text \<open>FENCE has the fields fm, pred and succ.\<close>

datatype system = Fence "4 word" "4 word" "4 word" | Fence_I | Ecall | Ebreak | Sret | Mret

type_synonym regno = "5 word"

text \<open>Branch and jump offsets are given without their lowest bit, as in the encodings.\<close>

datatype instr =
    Alu alu regno regno regno
  | Alui alui regno regno "12 word"
  | Shifti shifti regno regno "6 word"
  | Lui regno "20 word"
  | Auipc regno "20 word"
  | Jal regno "20 word"
  | Jalr regno regno "12 word"
  | Branch branch regno regno "12 word"
  | Load load regno regno "12 word"
  | Store store regno regno "12 word"
  | Csr csrop regno regno "12 word"
  | System system

section \<open>Encodings\<close>

text \<open>funct7, funct3 and opcode of the R-type instructions; funct3 and opcode of the others.\<close>

primrec alu_code :: "alu \<Rightarrow> 7 word \<times> 3 word \<times> 7 word" where
  "alu_code Add = (0, 0, 0x33)"
| "alu_code Sub = (0x20, 0, 0x33)"
| "alu_code Sll = (0, 1, 0x33)"
| "alu_code Slt = (0, 2, 0x33)"
| "alu_code Sltu = (0, 3, 0x33)"
| "alu_code Xor = (0, 4, 0x33)"
| "alu_code Srl = (0, 5, 0x33)"
| "alu_code Sra = (0x20, 5, 0x33)"
| "alu_code Or = (0, 6, 0x33)"
| "alu_code And = (0, 7, 0x33)"
| "alu_code Mul = (1, 0, 0x33)"
| "alu_code Mulh = (1, 1, 0x33)"
| "alu_code Mulhsu = (1, 2, 0x33)"
| "alu_code Mulhu = (1, 3, 0x33)"
| "alu_code Div = (1, 4, 0x33)"
| "alu_code Divu = (1, 5, 0x33)"
| "alu_code Rem = (1, 6, 0x33)"
| "alu_code Remu = (1, 7, 0x33)"
| "alu_code Addw = (0, 0, 0x3b)"
| "alu_code Subw = (0x20, 0, 0x3b)"
| "alu_code Sllw = (0, 1, 0x3b)"
| "alu_code Srlw = (0, 5, 0x3b)"
| "alu_code Sraw = (0x20, 5, 0x3b)"
| "alu_code Mulw = (1, 0, 0x3b)"
| "alu_code Divw = (1, 4, 0x3b)"
| "alu_code Divuw = (1, 5, 0x3b)"
| "alu_code Remw = (1, 6, 0x3b)"
| "alu_code Remuw = (1, 7, 0x3b)"

primrec alui_code :: "alui \<Rightarrow> 3 word \<times> 7 word" where
  "alui_code Addi = (0, 0x13)"
| "alui_code Slti = (2, 0x13)"
| "alui_code Sltiu = (3, 0x13)"
| "alui_code Xori = (4, 0x13)"
| "alui_code Ori = (6, 0x13)"
| "alui_code Andi = (7, 0x13)"
| "alui_code Addiw = (0, 0x1b)"

text \<open>The shifts by a constant: the six bits above the amount, funct3 and opcode.\<close>

primrec shifti_code :: "shifti \<Rightarrow> 6 word \<times> 3 word \<times> 7 word" where
  "shifti_code Slli = (0, 1, 0x13)"
| "shifti_code Srli = (0, 5, 0x13)"
| "shifti_code Srai = (0x10, 5, 0x13)"
| "shifti_code Slliw = (0, 1, 0x1b)"
| "shifti_code Srliw = (0, 5, 0x1b)"
| "shifti_code Sraiw = (0x10, 5, 0x1b)"

primrec branch_code :: "branch \<Rightarrow> 3 word" where
  "branch_code Beq = 0"
| "branch_code Bne = 1"
| "branch_code Blt = 4"
| "branch_code Bge = 5"
| "branch_code Bltu = 6"
| "branch_code Bgeu = 7"

primrec load_code :: "load \<Rightarrow> 3 word" where
  "load_code Lb = 0"
| "load_code Lh = 1"
| "load_code Lw = 2"
| "load_code Ld = 3"
| "load_code Lbu = 4"
| "load_code Lhu = 5"
| "load_code Lwu = 6"

primrec store_code :: "store \<Rightarrow> 3 word" where
  "store_code Sb = 0"
| "store_code Sh = 1"
| "store_code Sw = 2"
| "store_code Sd = 3"

primrec csr_code :: "csrop \<Rightarrow> 3 word" where
  "csr_code Csrrw = 1"
| "csr_code Csrrs = 2"
| "csr_code Csrrc = 3"
| "csr_code Csrrwi = 5"
| "csr_code Csrrsi = 6"
| "csr_code Csrrci = 7"

definition shift_imm :: "6 word \<Rightarrow> 6 word \<Rightarrow> 12 word" where
  "shift_imm hi amount = push_bit 6 (ucast hi) OR ucast amount"

primrec system_code :: "system \<Rightarrow> u32" where
  "system_code (Fence fm pre suc) = encode_I (push_bit 8 (ucast fm) OR push_bit 4 (ucast pre) OR ucast suc) 0 0 0 0x0f"
| "system_code Fence_I = encode_I 0 0 1 0 0x0f"
| "system_code Ecall = encode_I 0 0 0 0 0x73"
| "system_code Ebreak = encode_I 1 0 0 0 0x73"
| "system_code Sret = encode_I 0x102 0 0 0 0x73"
| "system_code Mret = encode_I 0x302 0 0 0 0x73"

primrec assemble :: "instr \<Rightarrow> u32" where
  "assemble (Alu op d r1 r2) = (case alu_code op of (f7, f3, opc) \<Rightarrow> encode_R f7 r2 r1 f3 d opc)"
| "assemble (Alui op d r1 im) = (case alui_code op of (f3, opc) \<Rightarrow> encode_I im r1 f3 d opc)"
| "assemble (Shifti op d r1 n) =
     (case shifti_code op of (f6, f3, opc) \<Rightarrow> encode_I (shift_imm f6 n) r1 f3 d opc)"
| "assemble (Lui d im) = encode_U im d 0x37"
| "assemble (Auipc d im) = encode_U im d 0x17"
| "assemble (Jal d off) = encode_J off d 0x6f"
| "assemble (Jalr d r1 im) = encode_I im r1 0 d 0x67"
| "assemble (Branch op r1 r2 off) = encode_B off r2 r1 (branch_code op) 0x63"
| "assemble (Load op d r1 im) = encode_I im r1 (load_code op) d 0x03"
| "assemble (Store op r1 r2 im) = encode_S im r2 r1 (store_code op) 0x23"
| "assemble (Csr op d r1 n) = encode_I n r1 (csr_code op) d 0x73"
| "assemble (System op) = system_code op"

text \<open>The W-form shifts have a five-bit amount.\<close>

primrec word_shift :: "shifti \<Rightarrow> bool" where
  "word_shift Slli = False"
| "word_shift Srli = False"
| "word_shift Srai = False"
| "word_shift Slliw = True"
| "word_shift Srliw = True"
| "word_shift Sraiw = True"

primrec legal :: "instr \<Rightarrow> bool" where
  "legal (Alu op d r1 r2) = True"
| "legal (Alui op d r1 im) = True"
| "legal (Shifti op d r1 n) = (if word_shift op then \<not> bit n 5 else True)"
| "legal (Lui d im) = True"
| "legal (Auipc d im) = True"
| "legal (Jal d off) = True"
| "legal (Jalr d r1 im) = True"
| "legal (Branch op r1 r2 off) = True"
| "legal (Load op d r1 im) = True"
| "legal (Store op r1 r2 im) = True"
| "legal (Csr op d r1 n) = True"
| "legal (System op) = True"

section \<open>The entries of the program's table\<close>

primrec alu_entry :: "alu \<Rightarrow> instruction" where
  "alu_entry Add = i_ADD"
| "alu_entry Sub = i_SUB"
| "alu_entry Sll = i_SLL"
| "alu_entry Slt = i_SLT"
| "alu_entry Sltu = i_SLTU"
| "alu_entry Xor = i_XOR"
| "alu_entry Srl = i_SRL"
| "alu_entry Sra = i_SRA"
| "alu_entry Or = i_OR"
| "alu_entry And = i_AND"
| "alu_entry Mul = i_MUL"
| "alu_entry Mulh = i_MULH"
| "alu_entry Mulhsu = i_MULHSU"
| "alu_entry Mulhu = i_MULHU"
| "alu_entry Div = i_DIV"
| "alu_entry Divu = i_DIVU"
| "alu_entry Rem = i_REM"
| "alu_entry Remu = i_REMU"
| "alu_entry Addw = i_ADDW"
| "alu_entry Subw = i_SUBW"
| "alu_entry Sllw = i_SLLW"
| "alu_entry Srlw = i_SRLW"
| "alu_entry Sraw = i_SRAW"
| "alu_entry Mulw = i_MULW"
| "alu_entry Divw = i_DIVW"
| "alu_entry Divuw = i_DIVUW"
| "alu_entry Remw = i_REMW"
| "alu_entry Remuw = i_REMUW"

primrec alui_entry :: "alui \<Rightarrow> instruction" where
  "alui_entry Addi = i_ADDI"
| "alui_entry Slti = i_SLTI"
| "alui_entry Sltiu = i_SLTIU"
| "alui_entry Xori = i_XORI"
| "alui_entry Ori = i_ORI"
| "alui_entry Andi = i_ANDI"
| "alui_entry Addiw = i_ADDIW"

primrec shifti_entry :: "shifti \<Rightarrow> instruction" where
  "shifti_entry Slli = i_SLLI"
| "shifti_entry Srli = i_SRLI"
| "shifti_entry Srai = i_SRAI"
| "shifti_entry Slliw = i_SLLIW"
| "shifti_entry Srliw = i_SRLIW"
| "shifti_entry Sraiw = i_SRAIW"

primrec branch_entry :: "branch \<Rightarrow> instruction" where
  "branch_entry Beq = i_BEQ"
| "branch_entry Bne = i_BNE"
| "branch_entry Blt = i_BLT"
| "branch_entry Bge = i_BGE"
| "branch_entry Bltu = i_BLTU"
| "branch_entry Bgeu = i_BGEU"

primrec load_entry :: "load \<Rightarrow> instruction" where
  "load_entry Lb = i_LB"
| "load_entry Lh = i_LH"
| "load_entry Lw = i_LW"
| "load_entry Ld = i_LD"
| "load_entry Lbu = i_LBU"
| "load_entry Lhu = i_LHU"
| "load_entry Lwu = i_LWU"

primrec store_entry :: "store \<Rightarrow> instruction" where
  "store_entry Sb = i_SB"
| "store_entry Sh = i_SH"
| "store_entry Sw = i_SW"
| "store_entry Sd = i_SD"

primrec csr_entry :: "csrop \<Rightarrow> instruction" where
  "csr_entry Csrrw = i_CSRRW"
| "csr_entry Csrrs = i_CSRRS"
| "csr_entry Csrrc = i_CSRRC"
| "csr_entry Csrrwi = i_CSRRWI"
| "csr_entry Csrrsi = i_CSRRSI"
| "csr_entry Csrrci = i_CSRRCI"

primrec system_entry :: "system \<Rightarrow> instruction" where
  "system_entry (Fence fm pre suc) = i_FENCE"
| "system_entry Fence_I = i_FENCE_I"
| "system_entry Ecall = i_ECALL"
| "system_entry Ebreak = i_EBREAK"
| "system_entry Sret = i_SRET"
| "system_entry Mret = i_MRET"

primrec entry :: "instr \<Rightarrow> instruction" where
  "entry (Alu op d r1 r2) = alu_entry op"
| "entry (Alui op d r1 im) = alui_entry op"
| "entry (Shifti op d r1 n) = shifti_entry op"
| "entry (Lui d im) = i_LUI"
| "entry (Auipc d im) = i_AUIPC"
| "entry (Jal d off) = i_JAL"
| "entry (Jalr d r1 im) = i_JALR"
| "entry (Branch op r1 r2 off) = branch_entry op"
| "entry (Load op d r1 im) = load_entry op"
| "entry (Store op r1 r2 im) = store_entry op"
| "entry (Csr op d r1 n) = csr_entry op"
| "entry (System op) = system_entry op"

section \<open>The encodings are decoded\<close>

lemma bit_masks:
  "bit (0x7f :: u32) n \<longleftrightarrow> n < 7"
  "bit (0x707f :: u32) n \<longleftrightarrow> n < 7 \<or> 12 \<le> n \<and> n < 15"
  "bit (0xfe00707f :: u32) n \<longleftrightarrow> n < 7 \<or> 12 \<le> n \<and> n < 15 \<or> 25 \<le> n \<and> n < 32"
  "bit (0xfc00707f :: u32) n \<longleftrightarrow> n < 7 \<or> 12 \<le> n \<and> n < 15 \<or> 26 \<le> n \<and> n < 32"
proof -
  have eq: "(0x7f :: u32) = mask 7" "(0x707f :: u32) = mask 7 OR push_bit 12 (mask 3)"
    "(0xfe00707f :: u32) = mask 7 OR push_bit 12 (mask 3) OR push_bit 25 (mask 7)"
    "(0xfc00707f :: u32) = mask 7 OR push_bit 12 (mask 3) OR push_bit 26 (mask 6)"
    by (simp_all add: mask_eq_exp_minus_1)
  have bit: "bit (push_bit a (mask b) :: u32) n \<longleftrightarrow> a \<le> n \<and> n < a + b \<and> n < 32"
    "bit (mask b :: u32) n \<longleftrightarrow> n < b \<and> n < 32" for a b
    by (auto simp: bit_push_bit_iff bit_mask_iff possible_bit_def)
  show "bit (0x7f :: u32) n \<longleftrightarrow> n < 7"
    "bit (0x707f :: u32) n \<longleftrightarrow> n < 7 \<or> 12 \<le> n \<and> n < 15"
    "bit (0xfe00707f :: u32) n \<longleftrightarrow> n < 7 \<or> 12 \<le> n \<and> n < 15 \<or> 25 \<le> n \<and> n < 32"
    "bit (0xfc00707f :: u32) n \<longleftrightarrow> n < 7 \<or> 12 \<le> n \<and> n < 15 \<or> 26 \<le> n \<and> n < 32"
    unfolding eq bit_or_iff bit by linarith+
qed

lemma bit_shift_imm: "bit (shift_imm hi n) k \<longleftrightarrow> (if k < 6 then bit n k else bit hi (k - 6))"
  unfolding shift_imm_def bit_or_iff
  by (auto simp: bit_push_bit_iff bit_unsigned_iff possible_bit_def dest: bit_imp_le_length)

lemma masked:
  "encode_R f7 r2 r1 f3 d opc AND 0xfe00707f = encode_R f7 0 0 f3 0 opc"
  "encode_I im r1 f3 d opc AND 0x707f = encode_I 0 0 f3 0 opc"
  "encode_I (shift_imm hi n) r1 f3 d opc AND 0xfc00707f = encode_I (shift_imm hi 0) 0 f3 0 opc"
  "encode_S im r2 r1 f3 opc AND 0x707f = encode_I 0 0 f3 0 opc"
  "encode_B off r2 r1 f3 opc AND 0x707f = encode_I 0 0 f3 0 opc"
  "encode_U up d opc AND 0x7f = ucast opc"
  "encode_J joff d opc AND 0x7f = ucast opc"
  by (rule bit_word_eqI;
      simp add: bit_and_iff bit_masks bit_encode_R bit_encode_I bit_encode_S bit_encode_B bit_encode_U
        bit_encode_J bit_shift_imm bit_ucast32 del: bit_numeral_word_iff; auto dest: bit_imp_le_length)+

lemma masked_shift_word:
  assumes "\<not> bit n 5"
  shows "encode_I (shift_imm hi n) r1 f3 d opc AND 0xfe00707f = encode_I (shift_imm hi 0) 0 f3 0 opc"
proof (rule bit_word_eqI)
  fix k
  assume "k < LENGTH(32)"
  have "k = 25" if "k - 20 < 6" "25 \<le> k"
    using that by linarith
  with assms \<open>k < LENGTH(32)\<close> show "bit (encode_I (shift_imm hi n) r1 f3 d opc AND 0xfe00707f) k =
      bit (encode_I (shift_imm hi 0) 0 f3 0 opc) k"
    by (auto simp: bit_and_iff bit_masks bit_encode_I bit_shift_imm simp del: bit_numeral_word_iff
        dest: bit_imp_le_length)
qed

lemma opcode_bits:
  "encode_R f7 r2 r1 f3 d opc AND 0x7f = ucast opc" "encode_I im r1 f3 d opc AND 0x7f = ucast opc"
  "encode_S im r2 r1 f3 opc AND 0x7f = ucast opc" "encode_B off r2 r1 f3 opc AND 0x7f = ucast opc"
  by (rule bit_word_eqI;
      simp add: bit_and_iff bit_masks bit_encode_R bit_encode_I bit_encode_S bit_encode_B bit_ucast32
        del: bit_numeral_word_iff; auto dest: bit_imp_le_length)+

lemmas table_eval = instructions_def insns_I_def insns_I64_def insns_M_def

lemma alu_entry_in_table: "alu_entry op \<in> set instructions"
  by (cases op) (simp_all add: table_eval)

lemma alui_entry_in_table: "alui_entry op \<in> set instructions"
  by (cases op) (simp_all add: table_eval)

lemma shifti_entry_in_table: "shifti_entry op \<in> set instructions"
  by (cases op) (simp_all add: table_eval)

lemma branch_entry_in_table: "branch_entry op \<in> set instructions"
  by (cases op) (simp_all add: table_eval)

lemma load_entry_in_table: "load_entry op \<in> set instructions"
  by (cases op) (simp_all add: table_eval)

lemma store_entry_in_table: "store_entry op \<in> set instructions"
  by (cases op) (simp_all add: table_eval)

lemma csr_entry_in_table: "csr_entry op \<in> set instructions"
  by (cases op) (simp_all add: table_eval)

lemma system_entry_in_table: "system_entry op \<in> set instructions"
  by (cases op) (simp_all add: table_eval)

lemmas entries_in_table = system_entry_in_table alu_entry_in_table alui_entry_in_table shifti_entry_in_table
  branch_entry_in_table load_entry_in_table store_entry_in_table csr_entry_in_table

lemma entry_in_table: "entry i \<in> set instructions"
  by (cases i) (simp_all add: entries_in_table, simp_all add: table_eval)

lemma matches_alu: "matches (assemble (Alu op d r1 r2)) (alu_entry op)"
  by (cases op; simp add: matches_def insn_defs masked; simp add: encode_R_def)

lemma matches_alui: "matches (assemble (Alui op d r1 im)) (alui_entry op)"
  by (cases op; simp add: matches_def insn_defs masked; simp add: encode_I_def)

lemma matches_branch: "matches (assemble (Branch op r1 r2 off)) (branch_entry op)"
  by (cases op; simp add: matches_def insn_defs masked; simp add: encode_I_def)

lemma matches_load: "matches (assemble (Load op d r1 im)) (load_entry op)"
  by (cases op; simp add: matches_def insn_defs masked; simp add: encode_I_def)

lemma matches_store: "matches (assemble (Store op r1 r2 im)) (store_entry op)"
  by (cases op; simp add: matches_def insn_defs masked; simp add: encode_I_def)

lemma matches_csr: "matches (assemble (Csr op d r1 n)) (csr_entry op)"
  by (cases op; simp add: matches_def insn_defs masked; simp add: encode_I_def)

lemma matches_jumps:
  "matches (assemble (Lui d up)) i_LUI" "matches (assemble (Auipc d up)) i_AUIPC"
  "matches (assemble (Jal d joff)) i_JAL" "matches (assemble (Jalr d r1 im)) i_JALR"
  by (simp_all add: matches_def insn_defs masked) (simp add: encode_I_def)

lemmas matches_entries = matches_alu matches_alui matches_branch matches_load matches_store matches_csr
  matches_jumps

lemma matches_shifti:
  "legal (Shifti f d r1 n) \<Longrightarrow> matches (assemble (Shifti f d r1 n)) (shifti_entry f)"
  by (cases f; simp add: matches_def insn_defs masked masked_shift_word; simp add: encode_I_def shift_imm_def)

text \<open>
  FENCE is matched as a whole word, with all fields 0, while the mask of FENCE.I covers the opcode only. All the
  other encodings match their entry.
\<close>

definition is_fence :: "instr \<Rightarrow> bool" where
  "is_fence i \<longleftrightarrow> (case i of System (Fence fm pre suc) \<Rightarrow> True | _ \<Rightarrow> False)"

lemma matches_system: "\<not> is_fence (System op) \<Longrightarrow> matches (system_code op) (system_entry op)"
  by (cases op) (simp_all add: is_fence_def matches_def insn_defs encode_I_def)

lemma matches_FENCE_I: "matches (system_code (Fence fm pre suc)) i_FENCE_I"
  by (simp add: matches_def insn_defs opcode_bits)

lemma matches_entry: "legal i \<Longrightarrow> \<not> is_fence i \<Longrightarrow> matches (assemble i) (entry i)"
  by (cases i) (simp_all only: entry.simps matches_entries matches_shifti matches_system assemble.simps(12)
      not_False_eq_True)

lemma opcode_not_fence:
  assumes "\<And>op. i \<noteq> System op"
  shows "assemble i AND 0x7f \<noteq> 0xf"
proof (cases i)
  case (Alu op d r1 r2)
  then show ?thesis by (cases op) (simp_all add: opcode_bits)
next
  case (Alui op d r1 im)
  then show ?thesis by (cases op) (simp_all add: opcode_bits)
next
  case (Shifti op d r1 im)
  then show ?thesis by (cases op) (simp_all add: opcode_bits)
qed (use assms in \<open>simp_all add: opcode_bits masked\<close>)

lemma system_not_0xf: "\<not> is_fence (System op) \<Longrightarrow> system_code op \<noteq> 0xf"
  by (cases op) (simp_all add: is_fence_def encode_I_def)

lemma assemble_not_0xf:
  assumes "\<not> is_fence i"
  shows "assemble i \<noteq> 0xf"
proof (cases "\<exists>op. i = System op")
  case True
  with assms show ?thesis
    by (auto dest: system_not_0xf)
next
  case False
  then have "assemble i AND 0x7f \<noteq> 0xf"
    by (intro opcode_not_fence) blast
  then show ?thesis
    by auto
qed

lemma fence_in_table: "i_FENCE_I \<in> set instructions"
  by (simp add: table_eval)

lemma Decode_assemble:
  assumes "legal i"
  shows "Decode (assemble i) c = Ret (if is_fence i \<and> assemble i \<noteq> 0xf then i_FENCE_I else entry i) c"
proof (cases "is_fence i")
  case False
  with assms show ?thesis
    by (simp only: simp_thms if_False) (intro Decode_matches entry_in_table matches_entry assemble_not_0xf)
next
  case True
  then obtain fm pre suc where i: "i = System (Fence fm pre suc)"
    by (auto simp: is_fence_def split: instr.splits system.splits)
  show ?thesis
  proof (cases "assemble i = 0xf")
    case False
    with True matches_FENCE_I [of fm pre suc] show ?thesis
      by (simp add: i Decode_matches fence_in_table del: system_code.simps)
  qed (simp add: i Decode_0xf del: assemble.simps)
qed

text \<open>
  C9. What the encodings of the manual decode to. Every instruction of RV64IM, Zifencei and Zicsr, and SRET and
  MRET, encoded as the manual says with any operands, is decoded to the entry of the table with its
  mnemonic, with one exception: a FENCE is decoded to FENCE.I, unless all its fields are 0.
\<close>

theorem assemble_decodes:
  assumes "legal i"
  shows "Decode (assemble i) c = Ret (if is_fence i \<and> assemble i \<noteq> 0xf then i_FENCE_I else entry i) c"
  by (rule Decode_assemble [OF assms])

lemma assemble_decodes_witness:
  "Decode 0x41F5D59B (cpu_new (mmu_new (\<lambda>_. 0)) 0) = Ret i_SRAIW (cpu_new (mmu_new (\<lambda>_. 0)) 0) \<and>
   Decode 0x0FF0000F (cpu_new (mmu_new (\<lambda>_. 0)) 0) = Ret i_FENCE_I (cpu_new (mmu_new (\<lambda>_. 0)) 0)"
proof -
  have "assemble (Shifti Sraiw 11 11 31) = 0x41F5D59B" "assemble (System (Fence 0 15 15)) = 0x0FF0000F"
    by (simp_all add: encode_I_def shift_imm_def)
  with assemble_decodes [of "Shifti Sraiw 11 11 31" "cpu_new (mmu_new (\<lambda>_. 0)) 0"]
    assemble_decodes [of "System (Fence 0 15 15)" "cpu_new (mmu_new (\<lambda>_. 0)) 0"] show ?thesis
    by (simp add: is_fence_def)
qed

end
