(* ===== verification/Isa_Alu.thy ===== *)
theory Isa_Alu
  imports Isa
begin

text \<open>
  Register-to-register arithmetic: what the manual says each R-type instruction of RV64IM computes,
  and exactly for which operands the program's entry computes it.
\<close>

section \<open>Reference\<close>

definition sext32 :: "u64 \<Rightarrow> u64" where
  "sext32 v = scast (ucast v :: u32)"

primrec isa_alu :: "alu \<Rightarrow> u64 \<Rightarrow> u64 \<Rightarrow> u64" where
  "isa_alu Add a b = a + b"
| "isa_alu Sub a b = a - b"
| "isa_alu Sll a b = push_bit (unat (take_bit 6 b)) a"
| "isa_alu Slt a b = of_bool (sint a < sint b)"
| "isa_alu Sltu a b = of_bool (a < b)"
| "isa_alu Xor a b = a XOR b"
| "isa_alu Srl a b = drop_bit (unat (take_bit 6 b)) a"
| "isa_alu Sra a b = signed_drop_bit (unat (take_bit 6 b)) a"
| "isa_alu Or a b = a OR b"
| "isa_alu And a b = a AND b"
| "isa_alu Mul a b = a * b"
| "isa_alu Mulh a b = word_of_int ((sint a * sint b) div 2 ^ 64)"
| "isa_alu Mulhsu a b = word_of_int ((sint a * uint b) div 2 ^ 64)"
| "isa_alu Mulhu a b = word_of_int ((uint a * uint b) div 2 ^ 64)"
| "isa_alu Div a b = (if b = 0 then - 1 else word_of_int (sint a sdiv sint b))"
| "isa_alu Divu a b = (if b = 0 then - 1 else a div b)"
| "isa_alu Rem a b = (if b = 0 then a else word_of_int (sint a smod sint b))"
| "isa_alu Remu a b = (if b = 0 then a else a mod b)"
| "isa_alu Addw a b = sext32 (a + b)"
| "isa_alu Subw a b = sext32 (a - b)"
| "isa_alu Sllw a b = sext32 (push_bit (unat (take_bit 5 b)) a)"
| "isa_alu Srlw a b = scast (drop_bit (unat (take_bit 5 b)) (ucast a :: u32))"
| "isa_alu Sraw a b = scast (signed_drop_bit (unat (take_bit 5 b)) (ucast a :: u32))"
| "isa_alu Mulw a b = sext32 (a * b)"
| "isa_alu Divw a b =
     (let x = ucast a :: u32; y = ucast b :: u32
      in if y = 0 then - 1 else scast (word_of_int (sint x sdiv sint y) :: u32))"
| "isa_alu Divuw a b =
     (let x = ucast a :: u32; y = ucast b :: u32 in if y = 0 then - 1 else scast (x div y))"
| "isa_alu Remw a b =
     (let x = ucast a :: u32; y = ucast b :: u32
      in if y = 0 then scast x else scast (word_of_int (sint x smod sint y) :: u32))"
| "isa_alu Remuw a b =
     (let x = ucast a :: u32; y = ucast b :: u32 in if y = 0 then scast x else scast (x mod y))"

text \<open>The operands on which the program follows the manual.\<close>

definition fits32 :: "u64 \<Rightarrow> bool" where
  "fits32 v \<longleftrightarrow> sext32 v = v"

primrec alu_agrees :: "alu \<Rightarrow> u64 \<Rightarrow> u64 \<Rightarrow> bool" where
  "alu_agrees Add a b = True"
| "alu_agrees Sub a b = True"
| "alu_agrees Sll a b = (unat b < 64)"
| "alu_agrees Slt a b = (bit a 63 = bit b 63)"
| "alu_agrees Sltu a b = True"
| "alu_agrees Xor a b = True"
| "alu_agrees Srl a b = (unat b < 64)"
| "alu_agrees Sra a b = (unat b < 64 \<and> (\<not> bit a 63 \<or> b = 0))"
| "alu_agrees Or a b = True"
| "alu_agrees And a b = True"
| "alu_agrees Mul a b = True"
| "alu_agrees Mulh a b = (isa_alu Mulh a b = a * b)"
| "alu_agrees Mulhsu a b = (isa_alu Mulhsu a b = a * b)"
| "alu_agrees Mulhu a b = (isa_alu Mulhu a b = a * b)"
| "alu_agrees Div a b = True"
| "alu_agrees Divu a b = True"
| "alu_agrees Rem a b = True"
| "alu_agrees Remu a b = True"
| "alu_agrees Addw a b = fits32 (a + b)"
| "alu_agrees Subw a b = fits32 (a - b)"
| "alu_agrees Sllw a b = (unat b < 64 \<and> isa_alu Sllw a b = push_bit (unat b) a)"
| "alu_agrees Srlw a b = (unat b < 64 \<and> isa_alu Srlw a b = drop_bit (unat b) a)"
| "alu_agrees Sraw a b = (unat b < 64 \<and> isa_alu Sraw a b = drop_bit (unat b) a)"
| "alu_agrees Mulw a b = fits32 (a * b)"
| "alu_agrees Divw a b = True"
| "alu_agrees Divuw a b = ((ucast b :: u32) = 0 \<or> \<not> bit ((ucast a :: u32) div ucast b) 31)"
| "alu_agrees Remw a b = True"
| "alu_agrees Remuw a b =
     (if (ucast b :: u32) = 0 then \<not> bit (ucast a :: u32) 31 else \<not> bit ((ucast a :: u32) mod ucast b) 31)"

section \<open>Operands\<close>

lemma unat_regno: "unat (ucast (r :: regno) :: u32) = unat r"
proof -
  have "unat r < 2 ^ 32"
    by (rule less_trans [OF unsigned_less]) simp
  then show ?thesis
    by (simp add: unsigned_ucast_eq take_bit_nat_eq_self)
qed

lemma regno_less [simp]: "unat (r :: regno) < 32"
  using unsigned_less [of r] by simp

lemma GetReg_regno [simp]: "GetReg (ucast (r :: regno) :: u32) c = regs c (unat r)"
  by (simp add: GetReg_small unat_regno)

lemma SetReg_regno [simp]: "SetReg (ucast (r :: regno) :: u32) v c = Ret () (set_reg (unat r) v c)"
  by (simp add: SetReg_small unat_regno)

lemma set_reg_inject [simp]: "set_reg i v c = set_reg i w c \<longleftrightarrow> v = w"
proof
  assume "set_reg i v c = set_reg i w c"
  then have "regs (set_reg i v c) i = regs (set_reg i w c) i"
    by simp
  then show "v = w" by simp
qed simp

section \<open>Arithmetic\<close>

lemma sint_msb: "sint a = uint a - (if bit a 63 then 2 ^ 64 else 0)" for a :: u64
  by transfer (simp add: signed_take_bit_eq_take_bit_minus)

lemma signed_order:
  fixes x y :: int
  assumes "0 \<le> x" "x < 2 ^ 64" "0 \<le> y" "y < 2 ^ 64"
    and "sx = x - (if p then 2 ^ 64 else 0)" "sy = y - (if q then 2 ^ 64 else 0)"
    and "- (2 ^ 63) \<le> sx" "sx < 2 ^ 63" "- (2 ^ 63) \<le> sy" "sy < 2 ^ 63"
  shows "(x < y) = (sx < sy) \<longleftrightarrow> p = q"
  using assms by (cases p; cases q) auto

lemma slt_iff: "(a < b) = (sint a < sint b) \<longleftrightarrow> bit a 63 = bit b 63" for a b :: u64
  unfolding word_less_alt
  by (rule signed_order [OF _ _ _ _ sint_msb sint_msb])
    (use sint_ge [of a] sint_lt [of a] sint_ge [of b] sint_lt [of b] uint_lt2p [of a] uint_lt2p [of b] in simp_all)

lemma signed_drop_bit_iff:
  fixes a :: u64
  assumes "n < 64"
  shows "drop_bit n a = signed_drop_bit n a \<longleftrightarrow> \<not> bit a 63 \<or> n = 0"
proof (cases "n = 0")
  case False
  have long: "\<not> bit a k" if "64 \<le> k" for k
    using that by (auto dest: bit_imp_le_length)
  have "64 - n \<le> 63"
    using False by linarith
  show ?thesis
  proof
    assume "drop_bit n a = signed_drop_bit n a"
    from arg_cong [OF this, of "\<lambda>w. bit w 63"] False \<open>64 - n \<le> 63\<close> show "\<not> bit a 63 \<or> n = 0"
      by (simp add: bit_drop_bit_eq bit_signed_drop_bit_iff long)
  next
    assume "\<not> bit a 63 \<or> n = 0"
    with False have "\<not> bit a 63" by simp
    then show "drop_bit n a = signed_drop_bit n a"
      by (intro bit_word_eqI) (simp add: bit_drop_bit_eq bit_signed_drop_bit_iff long)
  qed
qed simp

lemma shift_amount: "unat b < 64 \<Longrightarrow> unat (take_bit 6 b) = unat b" for b :: u64
  by (simp add: unsigned_take_bit_eq take_bit_nat_eq_self)

lemma Sra_iff:
  "unat b < 64 \<and> drop_bit (unat b) a = signed_drop_bit (unat (take_bit 6 b)) a \<longleftrightarrow>
     unat b < 64 \<and> (\<not> bit a 63 \<or> b = 0)" for a b :: u64
  by (auto simp: shift_amount signed_drop_bit_iff unsigned_eq_0_iff)

lemma zero_extend_iff: "ucast x = (scast x :: u64) \<longleftrightarrow> \<not> bit x 31" for x :: u32
proof
  assume "ucast x = (scast x :: u64)"
  from arg_cong [OF this, of "\<lambda>w. bit w 63"] show "\<not> bit x 31"
    by (auto simp: bit_unsigned_iff bit_signed_iff dest: bit_imp_le_length)
next
  assume "\<not> bit x 31"
  moreover have "\<not> bit x k" if "32 \<le> k" for k
    using that by (auto dest: bit_imp_le_length)
  ultimately have "bit x n \<longleftrightarrow> bit x (min 31 n)" for n
    by (cases "n \<le> 31") (simp_all add: min_def)
  then show "ucast x = (scast x :: u64)"
    by (intro bit_word_eqI) (simp add: bit_unsigned_iff bit_signed_iff)
qed

lemma scast_of_int:
  assumes "- (2 ^ 31) \<le> q" "q < 2 ^ 31"
  shows "scast (word_of_int q :: u32) = (word_of_int q :: u64)"
proof -
  have "sint (word_of_int q :: u32) = q"
    using assms by (simp add: int_word_sint)
  then show ?thesis
    by (simp add: scast_eq)
qed


section \<open>Division\<close>

lemma sdiv_bounds: "\<bar>x sdiv y\<bar> \<le> \<bar>x\<bar>" and smod_bounds: "\<bar>x smod y\<bar> \<le> \<bar>x\<bar>" for x y :: int
proof -
  have "\<bar>x\<bar> div \<bar>y\<bar> \<le> \<bar>x\<bar>" "0 \<le> \<bar>x\<bar> div \<bar>y\<bar>"
    using zdiv_mono2 [of "\<bar>x\<bar>" 1 "\<bar>y\<bar>"] by (cases "y = 0"; simp add: div_int_pos_iff)+
  then show "\<bar>x sdiv y\<bar> \<le> \<bar>x\<bar>"
    by (simp add: signed_divide_int_def abs_mult)
  have "\<bar>x\<bar> mod \<bar>y\<bar> \<le> \<bar>x\<bar>" "0 \<le> \<bar>x\<bar> mod \<bar>y\<bar>"
    by (cases "y = 0"; simp add: zmod_le_nonneg_dividend)+
  then show "\<bar>x smod y\<bar> \<le> \<bar>x\<bar>"
    by (simp add: smod_int_alt_def abs_mult)
qed

lemma sint32_bounds: "- (2 ^ 31) \<le> sint x" "sint x < 2 ^ 31" for x :: u32
  using sint_ge [of x] sint_lt [of x] by simp_all

lemma sdiv_31:
  fixes x y :: u32
  assumes "\<not> (sint x = - (2 ^ 31) \<and> sint y = - 1)"
  shows "- (2 ^ 31) \<le> sint x sdiv sint y" "sint x sdiv sint y < 2 ^ 31"
proof -
  have small: "\<bar>sint x sdiv sint y\<bar> \<le> \<bar>sint x\<bar>"
    by (rule sdiv_bounds)
  with sint32_bounds [of x] show "- (2 ^ 31) \<le> sint x sdiv sint y"
    by linarith
  show "sint x sdiv sint y < 2 ^ 31"
  proof (cases "sint x = - (2 ^ 31)")
    case False
    with small sint32_bounds [of x] show ?thesis
      by linarith
  next
    case True
    have "(2 :: int) ^ 31 div \<bar>sint y\<bar> < 2 ^ 31" if "1 < \<bar>sint y\<bar>"
      using that zdiv_mono2 [of "2 ^ 31" 2 "\<bar>sint y\<bar>"] by simp
    moreover have "0 \<le> (2 :: int) ^ 31 div \<bar>sint y\<bar>"
      by (simp add: div_int_pos_iff)
    moreover have "1 < \<bar>sint y\<bar> \<or> sint y = 0 \<or> sint y = 1 \<or> sint y = - 1"
      by linarith
    ultimately show ?thesis
      using True assms by (auto simp: signed_divide_int_def sgn_if)
  qed
qed

lemma smod_31: "- (2 ^ 31) \<le> sint x smod sint y" "sint y \<noteq> 0 \<Longrightarrow> sint x smod sint y < 2 ^ 31" for x y :: u32
proof -
  have small: "\<bar>sint x smod sint y\<bar> \<le> \<bar>sint x\<bar>"
    by (rule smod_bounds)
  with sint32_bounds [of x] show "- (2 ^ 31) \<le> sint x smod sint y"
    by linarith
  show "sint x smod sint y < 2 ^ 31" if "sint y \<noteq> 0"
  proof -
    have "sint x smod sint y < \<bar>sint y\<bar>"
      using that smod_int_compares(1,4) [of "sint x" "sint y"]
      by (smt (verit) smod_int_compares)
    with sint32_bounds [of y] show ?thesis
      by linarith
  qed
qed


lemma Div_eq:
  "(if sint b = 0 then - 1
    else if sint a = - (2 ^ 63) \<and> sint b = - 1 then word_of_int (sint a)
    else word_of_int (sint a sdiv sint b)) = isa_alu Div a b"
  by (auto simp: signed_eq_0_iff)

lemma smod_one [simp]: "x smod 1 = 0" for x :: int
  by (simp add: smod_int_alt_def)

lemma Rem_eq:
  "(if sint b = 0 then word_of_int (sint a)
    else if sint a = - (2 ^ 63) \<and> sint b = - 1 then 0
    else word_of_int (sint a smod sint b)) = isa_alu Rem a b"
  by (auto simp: signed_eq_0_iff)

lemma Divw_word:
  fixes x y :: u32
  shows "(if sint y = 0 then - 1
    else if sint x = - (2 ^ 31) \<and> sint y = - 1 then word_of_int (sint x)
    else word_of_int (sint x sdiv sint y)) =
   (if y = 0 then - 1 else scast (word_of_int (sint x sdiv sint y) :: u32) :: u64)"
proof (cases "sint x = - (2 ^ 31) \<and> sint y = - 1")
  case True
  then have "y \<noteq> 0"
    by auto
  with True show ?thesis
    by (simp add: scast_eq)
next
  case False
  have "(sint y = 0) = (y = 0)"
    by (simp add: signed_eq_0_iff)
  then show ?thesis
    unfolding if_not_P [OF False] by (simp add: scast_of_int [OF sdiv_31 [OF False]])
qed

lemma Remw_word:
  fixes x y :: u32
  shows "(if sint y = 0 then word_of_int (sint x)
    else if sint x = - (2 ^ 31) \<and> sint y = - 1 then 0
    else word_of_int (sint x smod sint y)) =
   (if y = 0 then scast x else scast (word_of_int (sint x smod sint y) :: u32) :: u64)"
proof (cases "y = 0")
  case True
  then show ?thesis
    by simp
next
  case False
  then have y: "sint y \<noteq> 0"
    by (simp add: signed_eq_0_iff)
  obtain S where S: "S \<longleftrightarrow> sint x = - (2 ^ 31) \<and> sint y = - 1"
    by blast
  obtain m where m: "m = sint x smod sint y"
    by blast
  have "S \<Longrightarrow> m = 0"
    unfolding S m by simp
  moreover have "scast (word_of_int m :: u32) = (word_of_int m :: u64)"
    unfolding m by (rule scast_of_int [OF smod_31(1) smod_31(2) [OF y]])
  ultimately show ?thesis
    unfolding S [symmetric] m [symmetric] if_not_P [OF False] if_not_P [OF y] by auto
qed

lemmas Divw_eq = Divw_word [where x = "ucast a" and y = "ucast b" for a b :: u64, folded isa_alu.simps(25) [unfolded Let_def]]
lemmas Remw_eq = Remw_word [where x = "ucast a" and y = "ucast b" for a b :: u64, folded isa_alu.simps(27) [unfolded Let_def]]

section \<open>The entries\<close>

text \<open>What each entry computes on its two source values; \<open>None\<close> for an undefined shift.\<close>

primrec code_alu :: "alu \<Rightarrow> u64 \<Rightarrow> u64 \<Rightarrow> u64 option" where
  "code_alu Add a b = Some (a + b)"
| "code_alu Sub a b = Some (a - b)"
| "code_alu Sll a b = (if unat b < 64 then Some (push_bit (unat b) a) else None)"
| "code_alu Slt a b = Some (of_bool (a < b))"
| "code_alu Sltu a b = Some (of_bool (a < b))"
| "code_alu Xor a b = Some (a XOR b)"
| "code_alu Srl a b = (if unat b < 64 then Some (drop_bit (unat b) a) else None)"
| "code_alu Sra a b = (if unat b < 64 then Some (drop_bit (unat b) a) else None)"
| "code_alu Or a b = Some (a OR b)"
| "code_alu And a b = Some (a AND b)"
| "code_alu Mul a b = Some (a * b)"
| "code_alu Mulh a b = Some (a * b)"
| "code_alu Mulhsu a b = Some (a * b)"
| "code_alu Mulhu a b = Some (a * b)"
| "code_alu Div a b = Some (isa_alu Div a b)"
| "code_alu Divu a b = Some (isa_alu Divu a b)"
| "code_alu Rem a b = Some (isa_alu Rem a b)"
| "code_alu Remu a b = Some (isa_alu Remu a b)"
| "code_alu Addw a b = Some (a + b)"
| "code_alu Subw a b = Some (a - b)"
| "code_alu Sllw a b = (if unat b < 64 then Some (push_bit (unat b) a) else None)"
| "code_alu Srlw a b = (if unat b < 64 then Some (drop_bit (unat b) a) else None)"
| "code_alu Sraw a b = (if unat b < 64 then Some (drop_bit (unat b) a) else None)"
| "code_alu Mulw a b = Some (a * b)"
| "code_alu Divw a b = Some (isa_alu Divw a b)"
| "code_alu Divuw a b =
     Some (if (ucast b :: u32) = 0 then - 1 else ucast ((ucast a :: u32) div ucast b))"
| "code_alu Remw a b = Some (isa_alu Remw a b)"
| "code_alu Remuw a b =
     Some (if (ucast b :: u32) = 0 then ucast (ucast a :: u32) else ucast ((ucast a :: u32) mod ucast b))"

lemma if_Ret: "(if p then SetReg r v c else SetReg r w c) = SetReg r (if p then v else w) c"
  by simp

lemma execute_Div:
  "execute i_DIV (encode_R f7 r2 r1 f3 d opc) c = Ret () (set_reg (unat d) (isa_alu Div (regs c (unat r1)) (regs c (unat r2))) c)"
  "execute i_REM (encode_R f7 r2 r1 f3 d opc) c = Ret () (set_reg (unat d) (isa_alu Rem (regs c (unat r1)) (regs c (unat r2))) c)"
  "execute i_DIVW (encode_R f7 r2 r1 f3 d opc) c = Ret () (set_reg (unat d) (isa_alu Divw (regs c (unat r1)) (regs c (unat r2))) c)"
  "execute i_REMW (encode_R f7 r2 r1 f3 d opc) c = Ret () (set_reg (unat d) (isa_alu Remw (regs c (unat r1)) (regs c (unat r2))) c)"
  by (simp_all only: i_DIV_def i_REM_def i_DIVW_def i_REMW_def instruction.select_convs Let_def if_Ret
      fields_R InstructionFields.select_convs GetReg_regno SetReg_regno Div_eq Rem_eq Divw_eq Remw_eq)

lemma execute_alu:
  "execute (alu_entry op) (encode_R f7 r2 r1 f3 d opc) c =
     (case code_alu op (regs c (unat r1)) (regs c (unat r2)) of
        Some v \<Rightarrow> Ret () (set_reg (unat d) v c) | None \<Rightarrow> Undef Shift_Too_Far)"
proof (cases op)
  case Div
  then show ?thesis by (simp only: alu_entry.simps execute_Div code_alu.simps option.case)
next
  case Rem
  then show ?thesis by (simp only: alu_entry.simps execute_Div code_alu.simps option.case)
next
  case Divw
  then show ?thesis by (simp only: alu_entry.simps execute_Div code_alu.simps option.case)
next
  case Remw
  then show ?thesis by (simp only: alu_entry.simps execute_Div code_alu.simps option.case)
qed (simp_all add: insns_I_defs insns_I64_defs insns_M_defs fields_R shl64_def shr64_def)

lemma code_alu_iff: "code_alu op a b = Some (isa_alu op a b) \<longleftrightarrow> alu_agrees op a b"
proof (cases op)
  case Sra
  then show ?thesis
    using Sra_iff [of b a] by (auto split: if_splits)
next
  case Slt
  then show ?thesis
    using slt_iff [of a b] by (auto simp: of_bool_def)
qed (auto simp: shift_amount fits32_def zero_extend_iff Let_def)

section \<open>Properties\<close>

text \<open>
  C7. Register-to-register arithmetic, all 28 instructions. The entry writes to rd what the manual
  prescribes, and nothing else, exactly on the operands of \<open>alu_agrees\<close>: always for ADD, SUB, SLTU,
  XOR, OR, AND, MUL and the divisions DIV, DIVU, REM, REMU, DIVW, REMW with their special cases;
  for shift amounts below 64 (a larger one is undefined behaviour, where the manual takes its low six
  bits), for operands of equal sign (SLT compares unsigned), for non-negative values (SRA shifts
  in zeros), for results that fit in 32 bits (ADDW, SUBW, MULW do not truncate, DIVUW and REMUW do not
  sign-extend), and for the high products only where high and low half coincide.
\<close>

theorem alu_conforms_iff:
  "execute (alu_entry op) (assemble (Alu op d r1 r2)) c =
     Ret () (set_reg (unat d) (isa_alu op (regs c (unat r1)) (regs c (unat r2))) c) \<longleftrightarrow>
   alu_agrees op (regs c (unat r1)) (regs c (unat r2))"
  by (simp add: execute_alu code_alu_iff [symmetric] split: prod.split option.split)

section \<open>Immediate operands\<close>

primrec isa_alui :: "alui \<Rightarrow> u64 \<Rightarrow> 12 word \<Rightarrow> u64" where
  "isa_alui Addi a im = a + scast im"
| "isa_alui Slti a im = of_bool (sint a < sint im)"
| "isa_alui Sltiu a im = of_bool (a < scast im)"
| "isa_alui Xori a im = a XOR scast im"
| "isa_alui Ori a im = a OR scast im"
| "isa_alui Andi a im = a AND scast im"
| "isa_alui Addiw a im = sext32 (a + scast im)"

primrec alui_agrees :: "alui \<Rightarrow> u64 \<Rightarrow> 12 word \<Rightarrow> bool" where
  "alui_agrees Addi a im = True"
| "alui_agrees Slti a im =
     (if bit im 11 then sint im \<le> sint a \<and> (bit a 63 \<or> ucast im \<le> a) else \<not> bit a 63)"
| "alui_agrees Sltiu a im = (\<not> bit im 11 \<or> a < ucast im \<or> scast im \<le> a)"
| "alui_agrees Xori a im = (\<not> bit im 11)"
| "alui_agrees Ori a im = (\<not> bit im 11 \<or> drop_bit 12 a = mask 52)"
| "alui_agrees Andi a im = (\<not> bit im 11 \<or> drop_bit 12 a = 0)"
| "alui_agrees Addiw a im = True"

primrec code_alui :: "alui \<Rightarrow> u64 \<Rightarrow> 12 word \<Rightarrow> u64" where
  "code_alui Addi a im = a + scast im"
| "code_alui Slti a im = of_bool (a < ucast im)"
| "code_alui Sltiu a im = of_bool (a < ucast im)"
| "code_alui Xori a im = a XOR ucast im"
| "code_alui Ori a im = a OR ucast im"
| "code_alui Andi a im = a AND ucast im"
| "code_alui Addiw a im = sext32 (a + scast im)"

lemma imm_scast: "int_to_u64 (sign_extend_12b (ucast im)) = scast im" for im :: "12 word"
  by (simp add: sign_extend_12b_scast int_to_u64_scast)

lemma imm_ucast: "ucast (ucast im :: u32) = (ucast im :: u64)" for im :: "12 word"
  by (rule bit_word_eqI) (auto simp: bit_unsigned_iff dest: bit_imp_le_length)

lemma int_to_u64_sext32: "int_to_u64 (ucast v) = sext32 v"
  by (simp add: int_to_u64_def sext32_def)

lemma execute_alui:
  "execute (alui_entry op) (encode_I im r1 f3 d opc) c =
     Ret () (set_reg (unat d) (code_alui op (regs c (unat r1)) im) c)"
  by (cases op)
    (simp_all add: insns_I_defs i_ADDIW_def fields_I imm_scast imm_ucast int_to_u64_sext32)

lemma bit_ext12:
  "bit (ucast im :: u64) n \<longleftrightarrow> n < 12 \<and> bit im n"
  "bit (scast im :: u64) n \<longleftrightarrow> n < 64 \<and> (if n < 12 then bit im n else bit im 11)"
  for im :: "12 word"
proof -
  show "bit (ucast im :: u64) n \<longleftrightarrow> n < 12 \<and> bit im n"
    by (auto simp: bit_unsigned_iff dest: bit_imp_le_length)
  have "min 11 n = (if n < 12 then n else 11)"
    by auto
  then show "bit (scast im :: u64) n \<longleftrightarrow> n < 64 \<and> (if n < 12 then bit im n else bit im 11)"
    by (auto simp: bit_signed_iff)
qed

lemma ucast_scast_iff: "ucast im = (scast im :: u64) \<longleftrightarrow> \<not> bit im 11" for im :: "12 word"
proof
  assume "ucast im = (scast im :: u64)"
  from arg_cong [OF this, of "\<lambda>w. bit w 12"] show "\<not> bit im 11"
    by (simp add: bit_ext12)
next
  assume "\<not> bit im 11"
  then show "ucast im = (scast im :: u64)"
    by (intro bit_word_eqI) (simp add: bit_ext12)
qed

lemma xor_iff: "a XOR ucast im = a XOR scast im \<longleftrightarrow> \<not> bit im 11" for a :: u64 and im :: "12 word"
proof -
  have "a XOR ucast im = a XOR scast im \<longleftrightarrow> ucast im = (scast im :: u64)"
    by (metis bit.xor_left_self)
  then show ?thesis
    by (simp add: ucast_scast_iff)
qed

lemma bit_drop12: "bit (drop_bit 12 a) n \<longleftrightarrow> n < 52 \<and> bit a (n + 12)" for a :: u64
proof -
  have "n < 52" if "bit a (n + 12)"
    using bit_imp_le_length [OF that] by simp
  then show ?thesis
    by (auto simp: bit_drop_bit_eq add.commute)
qed

lemma or_iff:
  fixes a :: u64 and im :: "12 word"
  shows "a OR ucast im = a OR scast im \<longleftrightarrow> \<not> bit im 11 \<or> drop_bit 12 a = mask 52"
proof
  assume eq: "a OR ucast im = a OR scast im"
  have "bit a (n + 12)" if "bit im 11" "n < 52" for n
    using arg_cong [OF eq, of "\<lambda>w. bit w (n + 12)"] that by (simp add: bit_or_iff bit_ext12)
  then show "\<not> bit im 11 \<or> drop_bit 12 a = mask 52"
    by (auto intro!: bit_word_eqI simp: bit_drop12 bit_mask_iff possible_bit_def)
next
  assume "\<not> bit im 11 \<or> drop_bit 12 a = mask 52"
  moreover have "bit a n" if "drop_bit 12 a = mask 52" "12 \<le> n" "n < 64" for n
    using arg_cong [OF that(1), of "\<lambda>w. bit w (n - 12)"] that(2,3)
    by (auto simp: bit_drop_bit_eq bit_mask_iff possible_bit_def)
  ultimately show "a OR ucast im = a OR scast im"
    by (intro bit_word_eqI) (auto simp: bit_or_iff bit_ext12 not_less)
qed

lemma and_iff:
  fixes a :: u64 and im :: "12 word"
  shows "a AND ucast im = a AND scast im \<longleftrightarrow> \<not> bit im 11 \<or> drop_bit 12 a = 0"
proof
  assume eq: "a AND ucast im = a AND scast im"
  have "\<not> bit a (n + 12)" if "bit im 11" "n < 52" for n
    using arg_cong [OF eq, of "\<lambda>w. bit w (n + 12)"] that by (simp add: bit_and_iff bit_ext12)
  then show "\<not> bit im 11 \<or> drop_bit 12 a = 0"
    by (auto intro!: bit_word_eqI simp: bit_drop12)
next
  assume "\<not> bit im 11 \<or> drop_bit 12 a = 0"
  moreover have "\<not> bit a n" if "drop_bit 12 a = 0" "12 \<le> n" for n
    using arg_cong [OF that(1), of "\<lambda>w. bit w (n - 12)"] that(2)
    by (auto simp: bit_drop_bit_eq)
  ultimately show "a AND ucast im = a AND scast im"
    by (intro bit_word_eqI) (auto simp: bit_and_iff bit_ext12 not_less)
qed

lemma order_of_ints:
  fixes x P :: int
  assumes "0 \<le> x" "x < 2 ^ 64" "sx = x - (if p then 2 ^ 64 else 0)" "- (2 ^ 63) \<le> sx" "sx < 2 ^ 63"
    and "0 \<le> P" "P < 2 ^ 12" "sP = P - (if q then 2 ^ 12 else 0)"
  shows "(x < P) = (sx < sP) \<longleftrightarrow> (if q then sP \<le> sx \<and> (p \<or> P \<le> x) else \<not> p)"
  using assms by (cases p; cases q) auto

lemma sint_msb12: "sint im = uint im - (if bit im 11 then 2 ^ 12 else 0)" for im :: "12 word"
  by transfer (simp add: signed_take_bit_eq_take_bit_minus)

lemma uint_ext12: "uint (ucast im :: u64) = uint im" for im :: "12 word"
  by (simp add: unsigned_ucast_eq take_bit_int_eq_self less_trans [OF uint_lt2p])

lemma slti_iff:
  "(a < ucast im) = (sint a < sint im) \<longleftrightarrow>
     (if bit im 11 then sint im \<le> sint a \<and> (bit a 63 \<or> ucast im \<le> a) else \<not> bit a 63)"
  for a :: u64 and im :: "12 word"
  unfolding word_less_alt word_le_def uint_ext12
  by (rule order_of_ints [OF _ _ sint_msb _ _ _ _ sint_msb12])
    (use sint_ge [of a] sint_lt [of a] uint_lt2p [of a] uint_lt2p [of im] in simp_all)

lemma sltiu_iff:
  "(a < ucast im) = (a < scast im) \<longleftrightarrow> \<not> bit im 11 \<or> a < ucast im \<or> scast im \<le> a"
  for a :: u64 and im :: "12 word"
proof -
  have "ucast im = (scast im :: u64) \<longleftrightarrow> \<not> bit im 11"
    by (rule ucast_scast_iff)
  moreover have "(ucast im :: u64) \<le> scast im"
  proof -
    have "ucast im = take_bit 12 (scast im :: u64)"
      by (rule bit_word_eqI) (auto simp: bit_ext12 bit_take_bit_iff)
    then show ?thesis
      by (simp add: word_le_nat_alt unsigned_take_bit_eq del: take_bit_word_eq_self)
  qed
  ultimately show ?thesis
    by (auto simp: not_less not_le)
qed

lemma code_alui_iff: "code_alui op a im = isa_alui op a im \<longleftrightarrow> alui_agrees op a im"
proof (cases op)
  case Slti
  then show ?thesis
    using slti_iff [of a im] by (auto simp: of_bool_def)
next
  case Sltiu
  then show ?thesis
    using sltiu_iff [of a im] by (auto simp: of_bool_def)
qed (simp_all add: xor_iff or_iff and_iff)

text \<open>
  C26. Arithmetic with an immediate. The entry follows the manual exactly on the operands of
  \<open>alui_agrees\<close>: always for ADDI and ADDIW; the others do not sign-extend the immediate, so a negative
  one is right for XORI never, for ORI (ANDI) only if the upper 52 bits of the operand are all one (zero),
  for the comparisons only where the order of the zero-extended value happens to be the same.
\<close>

theorem alui_conforms_iff:
  "execute (alui_entry op) (assemble (Alui op d r1 im)) c =
     Ret () (set_reg (unat d) (isa_alui op (regs c (unat r1)) im) c) \<longleftrightarrow>
   alui_agrees op (regs c (unat r1)) im"
  by (simp add: execute_alui code_alui_iff split: prod.split)

section \<open>Shifts by a constant\<close>

primrec isa_shifti :: "shifti \<Rightarrow> u64 \<Rightarrow> nat \<Rightarrow> u64" where
  "isa_shifti Slli a n = push_bit n a"
| "isa_shifti Srli a n = drop_bit n a"
| "isa_shifti Srai a n = signed_drop_bit n a"
| "isa_shifti Slliw a n = sext32 (push_bit n a)"
| "isa_shifti Srliw a n = scast (drop_bit n (ucast a :: u32))"
| "isa_shifti Sraiw a n = scast (signed_drop_bit n (ucast a :: u32))"

primrec code_shifti :: "shifti \<Rightarrow> u64 \<Rightarrow> nat \<Rightarrow> u64 option" where
  "code_shifti Slli a n = Some (push_bit n a)"
| "code_shifti Srli a n = Some (drop_bit n a)"
| "code_shifti Srai a n = None"
| "code_shifti Slliw a n = Some a"
| "code_shifti Srliw a n = Some a"
| "code_shifti Sraiw a n = Some a"

lemma unat_shift_imm:
  "unat (ucast (shift_imm 0 n) :: u32) = unat n" "64 \<le> unat (ucast (shift_imm 0x10 n) :: u32)"
proof -
  have "ucast (shift_imm 0 n) = (ucast n :: u32)"
    by (rule bit_word_eqI) (auto simp: bit_unsigned_iff bit_shift_imm dest: bit_imp_le_length)
  then show "unat (ucast (shift_imm 0 n) :: u32) = unat n"
    by (simp add: unsigned_ucast_eq take_bit_nat_eq_self less_trans [OF unsigned_less])
  have "\<not> unat (ucast (shift_imm 0x10 n) :: u32) < 2 ^ 6"
  proof
    assume "unat (ucast (shift_imm 0x10 n) :: u32) < 2 ^ 6"
    then have "\<not> bit (unat (ucast (shift_imm 0x10 n) :: u32)) 10"
      by (simp add: bit_iff_odd)
    moreover have "bit (ucast (shift_imm 0x10 n) :: u32) 10"
      by (simp add: bit_unsigned_iff bit_shift_imm)
    ultimately show False
      by (simp add: bit_unsigned_iff)
  qed
  then show "64 \<le> unat (ucast (shift_imm 0x10 n) :: u32)"
    by simp
qed

lemma parse_R_of_I:
  "rd (parse_R (encode_I im r1 f3 d opc)) = ucast d" "rs1 (parse_R (encode_I im r1 f3 d opc)) = ucast r1"
  "imm (parse_R w) = 0"
  using fields_I [of im r1 f3 d opc] by (simp_all add: parse_R_def parse_I_def)

lemma execute_shifti:
  "execute (shifti_entry op) (encode_I (shift_imm (fst (shifti_code op)) n) r1 f3 d opc) c =
     (case code_shifti op (regs c (unat r1)) (unat n) of
        Some v \<Rightarrow> Ret () (set_reg (unat d) v c) | None \<Rightarrow> Undef Shift_Too_Far)"
proof -
  have "unat n < 64"
    using unsigned_less [of n] by simp
  then show ?thesis
    using unat_shift_imm(2) [of n]
    by (cases op) (simp_all add: insns_I_defs insns_I64_defs fields_I parse_R_of_I shl64_def shr64_def
        unat_shift_imm(1) Let_def)
qed

lemma code_shifti_iff:
  "code_shifti op a n = Some (isa_shifti op a n) \<longleftrightarrow>
   (if op = Srai then False else if word_shift op then isa_shifti op a n = a else True)"
  by (cases op) auto

text \<open>
  C27. Shifts by a constant. SLLI and SRLI follow the manual for every amount; SRAI never does: its
  shift count includes the funct6 bits, so executing it is undefined behaviour; SLLIW, SRLIW and SRAIW
  shift by 0 whatever the amount, so they are right only where the shifted value is the operand itself.
\<close>

theorem shifti_conforms_iff:
  "execute (shifti_entry op) (assemble (Shifti op d r1 n)) c =
     Ret () (set_reg (unat d) (isa_shifti op (regs c (unat r1)) (unat n)) c) \<longleftrightarrow>
   (if op = Srai then False
    else if word_shift op then isa_shifti op (regs c (unat r1)) (unat n) = regs c (unat r1)
    else True)"
proof -
  obtain f6 f3 opc where code: "shifti_code op = (f6, f3, opc)"
    by (cases "shifti_code op") auto
  show ?thesis
    using execute_shifti [of op n r1 f3 d opc c] unfolding code_shifti_iff [symmetric]
    by (simp add: code split: option.split)
qed

end
