(* ===== verification/Isa_Control.thy ===== *)
theory Isa_Control
  imports Isa_Alu
begin

text \<open>
  Upper immediates, jumps and branches against the manual. When an entry executes, \<open>Fetch\<close> has
  advanced the pc already: the instruction is at \<open>pc c - 4\<close> and the next one at \<open>pc c\<close>. Without the
  extension C, the manual has a jump or a taken branch to a target that is not a multiple of 4 raise an
  instruction-address-misaligned exception, without a write to rd; the program never raises it.
\<close>

section \<open>Reference\<close>

definition jump_to :: "u64 \<Rightarrow> cpu \<Rightarrow> cpu" where
  "jump_to a c = c\<lparr>pc := a\<rparr>"

definition aligned :: "u64 \<Rightarrow> bool" where
  "aligned a \<longleftrightarrow> a AND 3 = 0"

text \<open>A jump from \<open>c\<close> that has prepared the state \<open>d\<close>.\<close>

definition isa_jump :: "u64 \<Rightarrow> cpu \<Rightarrow> cpu \<Rightarrow> unit exec" where
  "isa_jump a d c = (if aligned a then Ret () (jump_to a d) else Throw InstructionAddressMisaligned c)"

primrec isa_branch :: "branch \<Rightarrow> u64 \<Rightarrow> u64 \<Rightarrow> bool" where
  "isa_branch Beq a b = (a = b)"
| "isa_branch Bne a b = (a \<noteq> b)"
| "isa_branch Blt a b = (sint a < sint b)"
| "isa_branch Bge a b = (sint b \<le> sint a)"
| "isa_branch Bltu a b = (a < b)"
| "isa_branch Bgeu a b = (b \<le> a)"

definition upper :: "20 word \<Rightarrow> u64" where
  "upper im = push_bit 12 (scast im)"

definition offset2 :: "'a::len word \<Rightarrow> u64" where
  "offset2 off = push_bit 1 (scast off)"

definition isa_branch_step :: "branch \<Rightarrow> regno \<Rightarrow> regno \<Rightarrow> 12 word \<Rightarrow> cpu \<Rightarrow> unit exec" where
  "isa_branch_step op r1 r2 off c =
     (if isa_branch op (regs c (unat r1)) (regs c (unat r2)) then isa_jump (pc c - 4 + offset2 off) c c else Ret () c)"

definition isa_jal :: "regno \<Rightarrow> 20 word \<Rightarrow> cpu \<Rightarrow> unit exec" where
  "isa_jal d off c = isa_jump (pc c - 4 + offset2 off) (set_reg (unat d) (pc c) c) c"

definition isa_jalr :: "regno \<Rightarrow> regno \<Rightarrow> 12 word \<Rightarrow> cpu \<Rightarrow> unit exec" where
  "isa_jalr d r1 im c = isa_jump ((regs c (unat r1) + scast im) AND NOT 1) (set_reg (unat d) (pc c) c) c"

lemma jump_to_inject [simp]: "jump_to a c = jump_to b c \<longleftrightarrow> a = b"
proof
  assume "jump_to a c = jump_to b c"
  then have "pc (jump_to a c) = pc (jump_to b c)"
    by simp
  then show "a = b"
    by (simp add: jump_to_def)
qed simp

lemma upper_int: "int_to_u64 (push_bit 12 (ucast im)) = upper im" for im :: "20 word"
proof (rule bit_word_eqI)
  fix n
  assume n: "n < LENGTH(64)"
  have long: "\<not> bit im k" if "20 \<le> k" for k
    using that by (auto dest: bit_imp_le_length)
  consider "n < 12" | "12 \<le> n \<and> n < 32" | "32 \<le> n"
    by linarith
  then show "bit (int_to_u64 (push_bit 12 (ucast im))) n = bit (upper im) n"
    unfolding bit_int_to_u64 bit_push_ucast upper_def bit_push_scast
  proof cases
    case 2
    then have "min 19 (n - 12) = n - 12"
      by linarith
    with 2 show "(n < 64 \<and> (if n < 32 then n < 32 \<and> 12 \<le> n \<and> bit im (n - 12) else 31 < 32 \<and> 12 \<le> (31 :: nat) \<and> bit im (31 - 12))) =
        (n < LENGTH(64) \<and> 12 \<le> n \<and> bit im (min (LENGTH(20) - 1) (n - 12)))"
      by simp
  qed (use n long in \<open>auto simp: min_def\<close>)
qed

lemma upper_zero: "ucast (push_bit 12 (ucast im) :: u32) = upper im \<longleftrightarrow> \<not> bit im 19" for im :: "20 word"
proof -
  have "ucast (push_bit 12 (ucast im) :: u32) = (scast (push_bit 12 (ucast im) :: u32) :: u64) \<longleftrightarrow>
      \<not> bit (push_bit 12 (ucast im) :: u32) 31"
    by (rule zero_extend_iff)
  then show ?thesis
    unfolding upper_int [symmetric] int_to_u64_def bit_push_ucast by simp
qed

lemma pc_rel: "a + b - 4 = a - 4 + b" for a b :: u64
  by (simp add: algebra_simps)

section \<open>What the entries do\<close>

lemma execute_branch:
  "execute (branch_entry op) (assemble (Branch op r1 r2 off)) c =
     Ret () (if isa_branch op (regs c (unat r1)) (regs c (unat r2))
             then jump_to (pc c - 4 + offset2 off) c else c)"
proof -
  have "int_to_u64 (sign_extend_13b (push_bit 1 (ucast off))) = offset2 off"
    unfolding sign_extend_13b_scast branch_offset offset2_def ..
  moreover have "c\<lparr>pc := pc c\<rparr> = c"
    by simp
  ultimately show ?thesis
    by (cases op) (simp_all add: insns_I_defs fields_B Let_def GetPc_def SetPc_def jump_to_def
        pc_rel del: One_nat_def push_bit_of_1)
qed

lemma execute_LUI: "execute i_LUI (assemble (Lui d up)) c = Ret () (set_reg (unat d) (upper up) c)"
  by (simp add: i_LUI_def fields_U upper_int)

lemma execute_AUIPC:
  "execute i_AUIPC (assemble (Auipc d up)) c =
     Ret () (set_reg (unat d) (pc c - 4 + ucast (push_bit 12 (ucast up) :: u32)) c)"
  by (simp add: i_AUIPC_def fields_U GetPc_def pc_rel)

lemma execute_JAL:
  "execute i_JAL (assemble (Jal d off)) c =
     Ret () (jump_to (pc c - 4 + int_to_u64 (sign_extend_20b (push_bit 1 (ucast off)))) (set_reg (unat d) (pc c) c))"
  by (simp add: i_JAL_def fields_J Let_def GetPc_def SetPc_def jump_to_def pc_rel del: push_bit_of_1 One_nat_def)

lemma execute_JALR:
  "execute i_JALR (assemble (Jalr d r1 im)) c =
     Ret () (jump_to ((regs (set_reg (unat d) (pc c) c) (unat r1) + scast im) AND NOT 1) (set_reg (unat d) (pc c) c))"
  by (simp add: i_JALR_def fields_I Let_def GetPc_def SetPc_def jump_to_def imm_scast)

lemma AUIPC_iff:
  "execute i_AUIPC (assemble (Auipc d up)) c = Ret () (set_reg (unat d) (pc c - 4 + upper up) c) \<longleftrightarrow> \<not> bit up 19"
  by (simp add: execute_AUIPC upper_zero del: assemble.simps)

lemma JAL_iff:
  "execute i_JAL (assemble (Jal d off)) c =
     Ret () (jump_to (pc c - 4 + offset2 off) (set_reg (unat d) (pc c) c)) \<longleftrightarrow> bit off 18 = bit off 19"
  by (simp add: execute_JAL jump_offset_iff [symmetric] offset2_def del: assemble.simps push_bit_of_1 One_nat_def)

lemma JALR_iff:
  "execute i_JALR (assemble (Jalr d r1 im)) c =
     Ret () (jump_to ((regs c (unat r1) + scast im) AND NOT 1) (set_reg (unat d) (pc c) c)) \<longleftrightarrow>
   (if unat d = unat r1 then (pc c + scast im) AND NOT 1 = (regs c (unat r1) + scast im) AND NOT 1 else True)"
  by (simp add: execute_JALR del: assemble.simps)

lemma jump_conforms_iff:
  "Ret () (jump_to b d) = isa_jump a d c \<longleftrightarrow> aligned a \<and> b = a"
  by (simp add: isa_jump_def)

section \<open>Properties\<close>

text \<open>
  C10. Branches. All six branches test what the manual says; if the condition holds they go to the instruction's
  address plus the sign-extended offset, else to the next instruction, and nothing but the pc changes. This is
  what the manual prescribes exactly if the branch is not taken or its target is a multiple of 4: a
  taken branch to another target raises an exception there, which the program lacks.
\<close>

theorem branch_conforms:
  "execute (branch_entry op) (assemble (Branch op r1 r2 off)) c =
     Ret () (if isa_branch op (regs c (unat r1)) (regs c (unat r2))
             then jump_to (pc c - 4 + offset2 off) c else c) \<and>
   (execute (branch_entry op) (assemble (Branch op r1 r2 off)) c = isa_branch_step op r1 r2 off c \<longleftrightarrow>
      (if isa_branch op (regs c (unat r1)) (regs c (unat r2)) then aligned (pc c - 4 + offset2 off) else True))"
  unfolding execute_branch isa_branch_step_def by (simp add: jump_conforms_iff)

text \<open>
  C28. Upper immediates and jumps. LUI follows the manual always; AUIPC exactly if the immediate is not
  negative (it is zero-extended). JAL and JALR follow it only if the target is a multiple of 4 (the
  program never raises the exception for the others): then JAL exactly if the top two bits of the offset agree (it is
  sign-extended from bit 19), and JALR exactly if rd and rs1 differ or the clobbered rs1 leads to the
  same target (rd is written before rs1 is read).
\<close>

theorem jumps_conform_iff:
  "execute i_LUI (assemble (Lui d up)) c = Ret () (set_reg (unat d) (upper up) c) \<and>
   (execute i_AUIPC (assemble (Auipc d up)) c = Ret () (set_reg (unat d) (pc c - 4 + upper up) c) \<longleftrightarrow>
      \<not> bit up 19) \<and>
   (execute i_JAL (assemble (Jal d off)) c = isa_jal d off c \<longleftrightarrow>
      aligned (pc c - 4 + offset2 off) \<and> bit off 18 = bit off 19) \<and>
   (execute i_JALR (assemble (Jalr d r1 im)) c = isa_jalr d r1 im c \<longleftrightarrow>
      aligned ((regs c (unat r1) + scast im) AND NOT 1) \<and>
      (if unat d = unat r1 then (pc c + scast im) AND NOT 1 = (regs c (unat r1) + scast im) AND NOT 1 else True))"
proof (intro conjI execute_LUI AUIPC_iff)
  have "execute i_JAL (assemble (Jal d off)) c = isa_jal d off c \<longleftrightarrow>
      aligned (pc c - 4 + offset2 off) \<and>
      execute i_JAL (assemble (Jal d off)) c =
        Ret () (jump_to (pc c - 4 + offset2 off) (set_reg (unat d) (pc c) c))"
    unfolding execute_JAL isa_jal_def jump_conforms_iff by simp
  then show "execute i_JAL (assemble (Jal d off)) c = isa_jal d off c \<longleftrightarrow>
      aligned (pc c - 4 + offset2 off) \<and> bit off 18 = bit off 19"
    unfolding JAL_iff .
  have "execute i_JALR (assemble (Jalr d r1 im)) c = isa_jalr d r1 im c \<longleftrightarrow>
      aligned ((regs c (unat r1) + scast im) AND NOT 1) \<and>
      execute i_JALR (assemble (Jalr d r1 im)) c =
        Ret () (jump_to ((regs c (unat r1) + scast im) AND NOT 1) (set_reg (unat d) (pc c) c))"
    unfolding execute_JALR isa_jalr_def jump_conforms_iff by simp
  then show "execute i_JALR (assemble (Jalr d r1 im)) c = isa_jalr d r1 im c \<longleftrightarrow>
      aligned ((regs c (unat r1) + scast im) AND NOT 1) \<and>
      (if unat d = unat r1 then (pc c + scast im) AND NOT 1 = (regs c (unat r1) + scast im) AND NOT 1 else True)"
    unfolding JALR_iff .
qed

end
