(* ===== verification/Isa_Mem.thy ===== *)
theory Isa_Mem
  imports Isa_Control
begin

text \<open>
  Loads, stores, CSR accesses and atomics against the manual.
\<close>

section \<open>Loads and stores\<close>

primrec load_size :: "load \<Rightarrow> nat" where
  "load_size Lb = 1"
| "load_size Lh = 2"
| "load_size Lw = 4"
| "load_size Ld = 8"
| "load_size Lbu = 1"
| "load_size Lhu = 2"
| "load_size Lwu = 4"

primrec store_size :: "store \<Rightarrow> nat" where
  "store_size Sb = 1"
| "store_size Sh = 2"
| "store_size Sw = 4"
| "store_size Sd = 8"

text \<open>The value a load puts into rd: the loaded bytes, sign- or zero-extended.\<close>

primrec isa_ext :: "load \<Rightarrow> u64 \<Rightarrow> u64" where
  "isa_ext Lb v = scast (ucast v :: u8)"
| "isa_ext Lh v = scast (ucast v :: u16)"
| "isa_ext Lw v = scast (ucast v :: u32)"
| "isa_ext Ld v = v"
| "isa_ext Lbu v = ucast (ucast v :: u8)"
| "isa_ext Lhu v = ucast (ucast v :: u16)"
| "isa_ext Lwu v = ucast (ucast v :: u32)"

text \<open>
  The effective address of the manual, and the one of the program: it zero-extends the immediate, so
  a negative one is 4096 too high.
\<close>

definition isa_address :: "u64 \<Rightarrow> 12 word \<Rightarrow> u64" where
  "isa_address base im = base + scast im"

definition code_address :: "u64 \<Rightarrow> 12 word \<Rightarrow> u64" where
  "code_address base im = isa_address base im + (if bit im 11 then 4096 else 0)"

lemma code_address_eq: "base + ucast (ucast im :: u32) = code_address base im"
proof -
  have "ucast im = (scast im :: u64) + (if bit im 11 then 4096 else 0)"
  proof (cases "bit im 11")
    case True
    have "(scast im :: u64) = word_of_int (uint im - 4096)"
      using sint_msb12 [of im] True by (simp add: scast_eq)
    also have "\<dots> = word_of_int (uint im) - 4096"
      by simp
    finally show ?thesis
      using True by simp
  next
    case False
    then show ?thesis
      by (simp add: ucast_scast_iff)
  qed
  then show ?thesis
    by (simp add: imm_ucast code_address_def isa_address_def algebra_simps)
qed

definition mem_read :: "cpu \<Rightarrow> u64 \<Rightarrow> nat \<Rightarrow> u64" where
  "mem_read c a n = read_bytes (ram (mmu c)) (unat (a - KERNBASE)) n"

definition mem_write :: "u64 \<Rightarrow> nat \<Rightarrow> u64 \<Rightarrow> cpu \<Rightarrow> cpu" where
  "mem_write a n v c =
     c\<lparr>mmu := (mmu c)\<lparr>ram := write_bytes (ram (mmu c)) (unat (a - KERNBASE)) n v\<rparr>\<rparr>"

lemma mem_write_simps [simp]:
  "regs (mem_write a n v c) = regs c" "pc (mem_write a n v c) = pc c" "csrs (mem_write a n v c) = csrs c"
  "priv_mode (mem_write a n v c) = priv_mode c"
  "paging_mode (mmu (mem_write a n v c)) = paging_mode (mmu c)"
  by (simp_all add: mem_write_def)

lemma CPU_Load_ram:
  "paging_mode (mmu c) = Bare \<Longrightarrow> in_ram a (int n) \<Longrightarrow> CPU_Load a (int n) d c = Ret (Some (mem_read c a n)) c"
  by (simp add: CPU_Load_def bus_Load_in_ram mem_read_def)

lemma CPU_Store_ram:
  "paging_mode (mmu c) = Bare \<Longrightarrow> in_ram a (int n) \<Longrightarrow> CPU_Store a (int n) v c = Ret () (mem_write a n v c)"
  by (simp add: CPU_Store_def bus_Store_in_ram mem_write_def)

lemma take_bit_mem_read: "n \<le> 8 \<Longrightarrow> take_bit (8 * n) (mem_read c a n) = mem_read c a n"
  by (rule bit_word_eqI) (auto simp: mem_read_def bit_read_bytes bit_take_bit_iff)

lemma ucast_ucast_take:
  "ucast (ucast v :: u8) = take_bit 8 v" "ucast (ucast v :: u16) = take_bit 16 v"
  "ucast (ucast v :: u32) = take_bit 32 v" for v :: u64
  by (rule bit_word_eqI; auto simp: bit_unsigned_iff bit_take_bit_iff)+

lemma execute_load:
  assumes "paging_mode (mmu c) = Bare" and "in_ram (code_address (regs c (unat r1)) im) (int (load_size op))"
  shows "execute (load_entry op) (encode_I im r1 f3 d opc) c =
     Ret () (set_reg (unat d) (isa_ext op (mem_read c (code_address (regs c (unat r1)) im) (load_size op))) c)"
proof -
  obtain a where a: "a = code_address (regs c (unat r1)) im"
    by blast
  have "CPU_Load a (int (load_size op)) None c = Ret (Some (mem_read c a (load_size op))) c"
    using assms unfolding a by (intro CPU_Load_ram)
  then show ?thesis
    unfolding a [symmetric]
    by (cases op) (simp_all add: insns_I_defs i_LD_def i_LWU_def fields_I Let_def code_address_eq a [symmetric]
        ucast_ucast_take take_bit_mem_read [of 1, simplified] take_bit_mem_read [of 2, simplified]
        take_bit_mem_read [of 4, simplified])
qed

lemma execute_store:
  assumes "paging_mode (mmu c) = Bare" and "in_ram (code_address (regs c (unat r1)) im) (int (store_size op))"
  shows "execute (store_entry op) (encode_S im r2 r1 f3 opc) c =
     Ret () (mem_write (code_address (regs c (unat r1)) im) (store_size op) (regs c (unat r2)) c)"
proof -
  obtain a where a: "a = code_address (regs c (unat r1)) im"
    by blast
  have "CPU_Store a (int (store_size op)) v c = Ret () (mem_write a (store_size op) v c)" for v
    using assms unfolding a by (intro CPU_Store_ram)
  then show ?thesis
    unfolding a [symmetric]
    by (cases op) (simp_all add: insns_I_defs i_SD_def fields_S Let_def code_address_eq a [symmetric])
qed

section \<open>CSR instructions\<close>

primrec csr_source :: "csrop \<Rightarrow> regno \<Rightarrow> cpu \<Rightarrow> u64" where
  "csr_source Csrrw r c = regs c (unat r)"
| "csr_source Csrrs r c = regs c (unat r)"
| "csr_source Csrrc r c = regs c (unat r)"
| "csr_source Csrrwi r c = ucast r"
| "csr_source Csrrsi r c = ucast r"
| "csr_source Csrrci r c = ucast r"

primrec csr_update :: "csrop \<Rightarrow> u64 \<Rightarrow> u64 \<Rightarrow> u64" where
  "csr_update Csrrw old src = src"
| "csr_update Csrrs old src = old OR src"
| "csr_update Csrrc old src = old AND NOT src"
| "csr_update Csrrwi old src = src"
| "csr_update Csrrsi old src = old OR src"
| "csr_update Csrrci old src = old AND NOT src"

lemma csr_number:
  "GetCsr (ucast (n :: 12 word) :: u32) c = csrs c (unat n)"
  "SetCsr (ucast (n :: 12 word) :: u32) v c = Ret () (set_csr (unat n) v c)"
proof -
  have "unat (ucast n :: u32) = unat n"
    by (simp add: unsigned_ucast_eq take_bit_nat_eq_self less_trans [OF unsigned_less])
  moreover have "unat n < 4096"
    using unsigned_less [of n] by simp
  ultimately show "GetCsr (ucast n :: u32) c = csrs c (unat n)"
    and "SetCsr (ucast n :: u32) v c = Ret () (set_csr (unat n) v c)"
    by (simp_all add: GetCsr_small SetCsr_small)
qed

lemma regno_ucast: "ucast (ucast r :: u32) = (ucast r :: u64)" for r :: regno
  by (rule bit_word_eqI) (auto simp: bit_unsigned_iff dest: bit_imp_le_length)

lemma low32_ops:
  "ucast ((ucast v :: u32) OR ucast r) = take_bit 32 v OR (ucast r :: u64)"
  "ucast ((ucast v :: u32) AND NOT (ucast r)) = take_bit 32 v AND NOT (ucast r :: u64)"
  for v :: u64 and r :: regno
  by (rule bit_word_eqI; auto simp: bit_unsigned_iff bit_or_iff bit_and_iff bit_not_iff bit_take_bit_iff
      dest: bit_imp_le_length)+

lemma execute_csr:
  "execute (csr_entry op) (encode_I n r f3 d opc) c =
     (let old = take_bit 32 (csrs c (unat n))
      in Ret () (set_reg (unat d) old (set_csr (unat n) (csr_update op old (csr_source op r c)) c)))"
  by (cases op) (simp_all add: insns_I64_defs fields_I Let_def csr_number ucast_ucast_take low32_ops regno_ucast)

text \<open>
  The manual on the two scratch registers, which hold any value and have no fields: sscratch can be accessed in
  supervisor and machine mode, mscratch in machine mode; any other access is an illegal instruction. A
  CSR instruction writes the old value to rd and the new one to the CSR; x0 stays 0.
\<close>

datatype scratch = Sscratch | Mscratch

primrec scratch_number :: "scratch \<Rightarrow> 12 word" where
  "scratch_number Sscratch = 0x140"
| "scratch_number Mscratch = 0x340"

primrec may_access :: "scratch \<Rightarrow> PrivilegeMode \<Rightarrow> bool" where
  "may_access Sscratch mode = (mode \<noteq> USER)"
| "may_access Mscratch mode = (mode = MACHINE)"

definition isa_scratch :: "csrop \<Rightarrow> regno \<Rightarrow> regno \<Rightarrow> scratch \<Rightarrow> cpu \<Rightarrow> unit exec" where
  "isa_scratch op d r k c =
     (let n = unat (scratch_number k); old = csrs c n
      in if may_access k (priv_mode c)
         then Ret () (set_reg 0 0 (set_reg (unat d) old (set_csr n (csr_update op old (csr_source op r c)) c)))
         else Throw IllegalInstruction c)"

text \<open>The old values that the program's truncation does not change the result for.\<close>

primrec kept_bits :: "csrop \<Rightarrow> u64 \<Rightarrow> u64 \<Rightarrow> bool" where
  "kept_bits Csrrw old src = True"
| "kept_bits Csrrs old src = (drop_bit 32 (old AND NOT src) = 0)"
| "kept_bits Csrrc old src = (drop_bit 32 (old AND NOT src) = 0)"
| "kept_bits Csrrwi old src = True"
| "kept_bits Csrrsi old src = (drop_bit 32 (old AND NOT src) = 0)"
| "kept_bits Csrrci old src = (drop_bit 32 (old AND NOT src) = 0)"

definition csr_agrees :: "csrop \<Rightarrow> regno \<Rightarrow> u64 \<Rightarrow> u64 \<Rightarrow> bool" where
  "csr_agrees op d old src \<longleftrightarrow> (if d = 0 then kept_bits op old src else unat old < 2 ^ 32)"

lemma take_bit_32_iff: "take_bit 32 v = v \<longleftrightarrow> unat v < 2 ^ 32" for v :: u64
  by (metis take_bit_nat_eq_self_iff unsigned_take_bit_eq unsigned_word_eqI)

lemma high_bits_iff: "drop_bit 32 (v :: u64) = 0 \<longleftrightarrow> (\<forall>n\<ge>32. \<not> bit v n)"
proof
  assume zero: "drop_bit 32 v = 0"
  show "\<forall>n\<ge>32. \<not> bit v n"
  proof (intro allI impI)
    fix n :: nat
    assume "32 \<le> n"
    moreover have "\<not> bit (drop_bit 32 v) (n - 32)"
      unfolding zero by simp
    ultimately show "\<not> bit v n"
      by (simp add: bit_drop_bit_eq)
  qed
qed (auto intro!: bit_word_eqI simp: bit_drop_bit_eq)

lemma update_kept_iff:
  "csr_update op (take_bit 32 old) src = csr_update op old src \<longleftrightarrow> kept_bits op old src"
proof -
  have or_iff: "take_bit 32 old OR src = old OR src \<longleftrightarrow> drop_bit 32 (old AND NOT src) = 0"
    unfolding high_bits_iff unfolding bit_eq_iff
    by (auto simp: bit_or_iff bit_and_iff bit_not_iff bit_take_bit_iff not_le dest: bit_imp_le_length)
  have and_iff: "take_bit 32 old AND NOT src = old AND NOT src \<longleftrightarrow> drop_bit 32 (old AND NOT src) = 0"
    unfolding high_bits_iff unfolding bit_eq_iff
    by (auto simp: bit_and_iff bit_not_iff bit_take_bit_iff not_le dest: bit_imp_le_length)
  show ?thesis
    by (cases op) (simp_all only: csr_update.simps kept_bits.simps or_iff and_iff simp_thms)
qed

lemma csr_result_iff:
  "set_reg 0 0 (set_reg i v (set_csr n x c)) = set_reg 0 0 (set_reg i v' (set_csr n x' c)) \<longleftrightarrow>
     x = x' \<and> (i = 0 \<or> v = v')" (is "?s = ?t \<longleftrightarrow> _")
proof
  assume eq: "?s = ?t"
  show "x = x' \<and> (i = 0 \<or> v = v')"
    using arg_cong [OF eq, of "\<lambda>c. csrs c n"] arg_cong [OF eq, of "\<lambda>c. regs c i"] by (auto split: if_splits)
qed (auto simp: set_reg_def)

text \<open>
  C31. CSR accesses. In any mode and for any of the 4096 numbers the CSR instructions throw nothing: rd gets the low half of
  the old value and the CSR the update of that half (with the effect of \<open>SetCsr\<close> on the MMU). On the scratch
  registers, from a state with x0 zero and up to what is written to x0, this is what the manual
  prescribes exactly if the mode may access the register and the upper half does not matter: with an rd
  other than x0 it must be 0; else the written value replaces it, or sets or clears all its bits.
\<close>

theorem csr_conforms_iff:
  "execute (csr_entry op) (assemble (Csr op d r n)) c =
     Ret () (set_reg (unat d) (take_bit 32 (csrs c (unat n)))
       (set_csr (unat n) (csr_update op (take_bit 32 (csrs c (unat n))) (csr_source op r c)) c)) \<and>
   (with_state (set_reg 0 0) (execute (csr_entry op) (assemble (Csr op d r (scratch_number k))) (set_reg 0 0 c)) =
      isa_scratch op d r k (set_reg 0 0 c) \<longleftrightarrow>
    may_access k (priv_mode c) \<and>
    csr_agrees op d (csrs c (unat (scratch_number k))) (csr_source op r (set_reg 0 0 c)))"
proof -
  obtain old src where old: "old = csrs c (unat (scratch_number k))" "src = csr_source op r (set_reg 0 0 c)"
    by blast
  have "csr_update op (take_bit 32 old) src = csr_update op old src \<and> (unat d = 0 \<or> take_bit 32 old = old) \<longleftrightarrow>
      csr_agrees op d old src"
  proof (cases "d = 0")
    case True
    then show ?thesis
      by (simp add: csr_agrees_def update_kept_iff)
  next
    case False
    then have "unat d \<noteq> 0"
      by (simp add: unat_eq_0)
    with False show ?thesis
      using take_bit_32_iff [of old] by (auto simp: csr_agrees_def)
  qed
  then show ?thesis
    by (simp add: execute_csr isa_scratch_def Let_def csr_result_iff old)
qed

section \<open>Properties of loads and stores\<close>

lemma mem_read_write: "n \<le> 8 \<Longrightarrow> mem_read (mem_write a n v c) a n = take_bit (8 * n) v"
  by (simp add: mem_read_def mem_write_def read_write_bytes)

lemma isa_ext_take: "isa_ext op (take_bit (8 * load_size op) v) = isa_ext op v"
proof -
  have "ucast (take_bit 8 v) = (ucast v :: u8)" "ucast (take_bit 16 v) = (ucast v :: u16)"
    "ucast (take_bit 32 v) = (ucast v :: u32)" "take_bit 64 v = v"
    by (rule bit_word_eqI; simp add: bit_unsigned_iff bit_take_bit_iff)+
  then show ?thesis
    by (cases op) simp_all
qed

lemma load_size_le: "load_size op \<le> 8"
  by (cases op) simp_all

text \<open>A machine with an address in x1, a value in x2 and the byte 0xEE all over the RAM.\<close>

definition mem_machine :: cpu where
  "mem_machine = set_reg 1 0x80001000 (set_reg 2 0x1122334455667788 (cpu_new (mmu_new (\<lambda>_. 0xEE)) KERNBASE))"

lemma mem_machine_simps [simp]:
  "paging_mode (mmu mem_machine) = Bare" "ram (mmu mem_machine) = (\<lambda>_. 0xEE)"
  "regs mem_machine 1 = 0x80001000" "regs mem_machine (Suc 0) = 0x80001000"
  "regs mem_machine 2 = 0x1122334455667788"
  by (simp_all add: mem_machine_def cpu_new_def mmu_new_def)

lemma mem_machine_address:
  "code_address 0x80001000 8 = 0x80001008" "code_address 0x80001000 0xFFF = 0x80001FFF"
  "in_ram 0x80001008 8" "in_ram 0x80001FFF 1"
  by (simp_all add: code_address_def isa_address_def in_ram_def access_size_def valid_addr_def config_defs)

text \<open>
  C11. Loads. With paging off, a load whose address lies in the RAM writes to rd the bytes there,
  sign- or zero-extended as the manual says, and changes nothing else. The address is the manual's,
  plus 4096 if the immediate is negative.
\<close>

theorem load_conforms:
  assumes "paging_mode (mmu c) = Bare" and "in_ram (code_address (regs c (unat r1)) im) (int (load_size op))"
  shows "execute (load_entry op) (assemble (Load op d r1 im)) c =
     Ret () (set_reg (unat d) (isa_ext op (mem_read c (code_address (regs c (unat r1)) im) (load_size op))) c)"
  using execute_load [OF assms] by simp

lemma load_conforms_witness:
  "execute i_LB (assemble (Load Lb 3 1 0xFFF)) mem_machine = Ret () (set_reg 3 (- 0x12) mem_machine)"
proof -
  have "in_ram (code_address (regs mem_machine (unat (1 :: regno))) 0xFFF) (int (load_size Lb))"
    by (simp add: mem_machine_address)
  from load_conforms [OF mem_machine_simps(1) this, of 3] show ?thesis
    by (simp add: mem_machine_address mem_read_def bytes_eval)
qed

text \<open>
  C25. Stores. With paging off, a store whose address lies in the RAM writes the low bytes of rs2 there,
  least significant first, and changes nothing else; the address is as for loads.
\<close>

theorem store_conforms:
  assumes "paging_mode (mmu c) = Bare" and "in_ram (code_address (regs c (unat r1)) im) (int (store_size op))"
  shows "execute (store_entry op) (assemble (Store op r1 r2 im)) c =
     Ret () (mem_write (code_address (regs c (unat r1)) im) (store_size op) (regs c (unat r2)) c)"
  using execute_store [OF assms] by simp

lemma store_conforms_witness:
  "execute i_SD (assemble (Store Sd 1 2 8)) mem_machine =
     Ret () (mem_write 0x80001008 8 0x1122334455667788 mem_machine)"
proof -
  have "in_ram (code_address (regs mem_machine (unat (1 :: regno))) 8) (int (store_size Sd))"
    by (simp add: mem_machine_address)
  from store_conforms [OF mem_machine_simps(1) this, of 2] show ?thesis
    by (simp add: mem_machine_address)
qed

text \<open>
  C12. A load right after a store of the same size through the same base and immediate gives the stored
  register, cut to the size and extended.
\<close>

theorem store_load_roundtrip:
  assumes "paging_mode (mmu c) = Bare" and "in_ram (code_address (regs c (unat r1)) im) (int (load_size lop))"
    and "store_size sop = load_size lop"
  shows "obind (execute (store_entry sop) (assemble (Store sop r1 r2 im)) c)
     (\<lambda>_. execute (load_entry lop) (assemble (Load lop d r1 im))) =
   Ret () (set_reg (unat d) (isa_ext lop (regs c (unat r2)))
     (mem_write (code_address (regs c (unat r1)) im) (store_size sop) (regs c (unat r2)) c))"
proof -
  obtain a where a: "a = code_address (regs c (unat r1)) im"
    by blast
  obtain c' where c': "c' = mem_write a (store_size sop) (regs c (unat r2)) c"
    by blast
  have "execute (store_entry sop) (assemble (Store sop r1 r2 im)) c = Ret () c'"
    using execute_store assms unfolding a c' by simp
  moreover have "execute (load_entry lop) (assemble (Load lop d r1 im)) c' =
      Ret () (set_reg (unat d) (isa_ext lop (mem_read c' a (load_size lop))) c')"
    using execute_load [of c' r1 im lop] assms unfolding a c' by simp
  moreover have "isa_ext lop (mem_read c' a (load_size lop)) = isa_ext lop (regs c (unat r2))"
    unfolding c' assms(3) by (simp add: mem_read_write load_size_le isa_ext_take)
  ultimately show ?thesis
    by (simp add: a c')
qed

lemma store_load_roundtrip_witness:
  "obind (execute i_SD (assemble (Store Sd 1 2 8)) mem_machine)
     (\<lambda>_. execute i_LD (assemble (Load Ld 3 1 8))) =
   Ret () (set_reg 3 0x1122334455667788 (mem_write 0x80001008 8 0x1122334455667788 mem_machine))"
proof -
  have "in_ram (code_address (regs mem_machine (unat (1 :: regno))) 8) (int (load_size Ld))"
    "store_size Sd = load_size Ld"
    by (simp_all add: mem_machine_address)
  from store_load_roundtrip [OF mem_machine_simps(1) this, of 2 3] show ?thesis
    by (simp add: mem_machine_address)
qed

section \<open>Atomics\<close>

lemma parsed_small:
  "unat (rd (parse_R w)) < 32" "unat (rd (parse_I w)) < 32" "unat (rd (parse_U w)) < 32" "unat (rd (parse_J w)) < 32"
  "unat (rs1 (parse_R w)) < 32" "unat (rs2 (parse_R w)) < 32" "unat (imm (parse_I w)) < 4096"
  using unat_mask32_less [of 7 11 w] unat_mask32_less [of 15 19 w] unat_mask32_less [of 20 31 w] unat_mask32_less [of 20 24 w]
  by (simp_all add: parse_R_def parse_I_def parse_U_def parse_J_def)

lemma SetReg_parsed [simp]:
  "SetReg (rd (parse_R w)) v c = Ret () (set_reg (unat (rd (parse_R w))) v c)"
  "SetReg (rd (parse_I w)) v c = Ret () (set_reg (unat (rd (parse_I w))) v c)"
  "SetReg (rd (parse_U w)) v c = Ret () (set_reg (unat (rd (parse_U w))) v c)"
  "SetReg (rd (parse_J w)) v c = Ret () (set_reg (unat (rd (parse_J w))) v c)"
  "SetReg (rs1 (parse_R w)) v c = Ret () (set_reg (unat (rs1 (parse_R w))) v c)"
  "SetCsr (imm (parse_I w)) v c = Ret () (set_csr (unat (imm (parse_I w))) v c)"
  by (simp_all add: SetReg_small SetCsr_small parsed_small)

lemma GetReg_parsed [simp]:
  "GetReg (rs1 (parse_R w)) c = regs c (unat (rs1 (parse_R w)))"
  "GetReg (rs2 (parse_R w)) c = regs c (unat (rs2 (parse_R w)))"
  by (simp_all add: GetReg_small parsed_small)

text \<open>
  The AMO entries that pass the contents of rs1 to \<open>SetReg\<close> as the number of a register, and those that take rs1
  itself for the memory cell, with what they compute.
\<close>

definition indexed_amos :: "instruction list" where
  "indexed_amos =
     [i_AMOSWAP_W, i_AMOADD_W, i_AMOXOR_W, i_AMOAND_W, i_AMOOR_W, i_AMOMIN_W, i_AMOMAX_W, i_AMOMINU_W,
      i_AMOMAXU_W, i_AMOMIN_D, i_AMOMAX_D, i_AMOMINU_D, i_AMOMAXU_D]"

definition register_amos :: "(instruction \<times> (u64 \<Rightarrow> u64 \<Rightarrow> u64)) list" where
  "register_amos =
     [(i_AMOSWAP_D, \<lambda>a b. b), (i_AMOADD_D, (+)), (i_AMOXOR_D, (XOR)), (i_AMOAND_D, (AND)), (i_AMOOR_D, (OR))]"

text \<open>Read as an int, an address of the RAM is negative.\<close>

lemma ram_address_negative:
  assumes "valid_addr KERNBASE MEMORY_SIZE a"
  shows "to_int a < 0"
proof -
  have "0x80000000 \<le> unat a" "unat a < 0x88000000"
    using assms unfolding windows_nat by (simp_all add: config_defs)
  then have "int 0x80000000 \<le> int (unat a)" "int (unat a) < int 0x88000000"
    by linarith+
  then have high: "0x80000000 \<le> uint a" "uint a < 0x88000000"
    by simp_all
  then have low: "uint (ucast a :: u32) = uint a"
    by (simp add: unsigned_ucast_eq take_bit_int_eq_self)
  have "sint (ucast a :: u32) = signed_take_bit 31 (uint a)"
    unfolding low [symmetric] by (simp add: sint_uint)
  moreover have "bit (uint a) 31"
    using high by (simp add: bit_iff_odd div_pos_geq)
  ultimately show ?thesis
    by (simp add: to_int_def signed_take_bit_negative_iff)
qed

lemma SetReg_ram_address: "valid_addr KERNBASE MEMORY_SIZE a \<Longrightarrow> SetReg a v c = Undef Out_Of_Bounds"
  using ram_address_negative [of a] by (simp add: SetReg_def Let_def)

text \<open>
  C40. Atomic memory operations. When rs1 holds an address of the RAM, 13 of the 18 entries (all word ones and the double-word
  minima and maxima) have undefined behaviour: they write the register file out of bounds. The other five
  treat rs1 as the memory cell: its contents go to rd, and then rs1 itself, not the RAM, gets the result.
\<close>

theorem amo_on_ram_address:
  assumes "valid_addr KERNBASE MEMORY_SIZE (regs c (unat (rs1 (parse_R w))))"
  shows "list_all (\<lambda>i. execute i w c = Undef Out_Of_Bounds) indexed_amos \<and>
    list_all (\<lambda>(i, f). execute i w c =
      (let a = regs c (unat (rs1 (parse_R w)));
           c' = set_reg (unat (rd (parse_R w))) a c
       in Ret () (set_reg (unat (rs1 (parse_R w))) (f a (regs c' (unat (rs2 (parse_R w))))) c'))) register_amos"
proof
  show "list_all (\<lambda>i. execute i w c = Undef Out_Of_Bounds) indexed_amos"
    unfolding indexed_amos_def list.pred_inject using assms
    by (intro conjI list.pred_inject(1); simp add: insns_A_defs Let_def GetReg_parsed SetReg_ram_address)
  show "list_all (\<lambda>(i, f). execute i w c =
      (let a = regs c (unat (rs1 (parse_R w)));
           c' = set_reg (unat (rd (parse_R w))) a c
       in Ret () (set_reg (unat (rs1 (parse_R w))) (f a (regs c' (unat (rs2 (parse_R w))))) c'))) register_amos"
    unfolding register_amos_def list.pred_inject
    by (intro conjI list.pred_inject(1); simp add: insns_A_defs Let_def GetReg_parsed SetReg_parsed)
qed

lemma amo_on_ram_address_witness:
  "execute i_AMOADD_W 0x0020A1AF mem_machine = Undef Out_Of_Bounds \<and>
   (case execute i_AMOADD_D 0x0020B1AF mem_machine of
      Ret _ c \<Rightarrow> regs c 3 = 0x80001000 \<and> regs c 1 = 0x1122334455667788 + 0x80001000 \<and> mmu c = mmu mem_machine
    | _ \<Rightarrow> False)"
proof -
  have address: "valid_addr KERNBASE MEMORY_SIZE (regs mem_machine (unat (rs1 (parse_R w))))" if "w = 0x0020A1AF \<or> w = 0x0020B1AF" for w
    using that by (auto simp: parse_R_def mask32_def valid_addr_def config_defs)
  show ?thesis
    using amo_on_ram_address [OF address [of "0x0020A1AF"]] amo_on_ram_address [OF address [of "0x0020B1AF"]]
    by (simp add: indexed_amos_def register_amos_def parse_R_def mask32_def Let_def)
qed

text \<open>The number of a register as an address is below every device.\<close>

lemma reserved_faults:
  assumes "paging_mode (mmu c) = Bare"
  shows "CPU_Load (ucast (rs1 (parse_R w))) 4 d c = Throw LoadAccessFault c"
    "CPU_Load (ucast (rs1 (parse_R w))) 8 d c = Throw LoadAccessFault c"
    "CPU_Store (ucast (rs1 (parse_R w))) 4 v c = Throw StoreAMOAccessFault c"
    "CPU_Store (ucast (rs1 (parse_R w))) 8 v c = Throw StoreAMOAccessFault c"
proof -
  obtain r where r: "r = (ucast (rs1 (parse_R w)) :: u64)"
    by blast
  have "unat r < 32"
    using unat_mask32_less [of 15 19 w] unfolding r
    by (simp add: parse_R_def unsigned_ucast_eq take_bit_nat_eq_self)
  then have low: "\<not> mapped r"
    unfolding mapped_iff windows_nat by (simp add: config_defs)
  have "access_size 4" "access_size 8"
    by (simp_all add: access_size_def)
  then have "bus_Load r n d (mmu c) = Throw LoadAccessFault (mmu c)"
    "bus_Store r n v (mmu c) = Throw StoreAMOAccessFault (mmu c)" if "n = 4 \<or> n = 8" for n d v
    using that low by (auto simp: bus_Throw_iff)
  then show "CPU_Load (ucast (rs1 (parse_R w))) 4 d c = Throw LoadAccessFault c"
    "CPU_Load (ucast (rs1 (parse_R w))) 8 d c = Throw LoadAccessFault c"
    "CPU_Store (ucast (rs1 (parse_R w))) 4 v c = Throw StoreAMOAccessFault c"
    "CPU_Store (ucast (rs1 (parse_R w))) 8 v c = Throw StoreAMOAccessFault c"
    using assms by (simp_all add: r [symmetric] CPU_Load_def CPU_Store_def)
qed

text \<open>
  C24. With paging off, every load-reserved and store-conditional faults: the entries use the register's number as
  the address, which is below 32 and belongs to no device. Nothing is changed.
\<close>

theorem lr_sc_always_fault:
  assumes "paging_mode (mmu c) = Bare"
  shows "execute i_LR_W w c = Throw LoadAccessFault c \<and> execute i_LR_D w c = Throw LoadAccessFault c \<and>
    execute i_SC_W w c = Throw StoreAMOAccessFault c \<and> execute i_SC_D w c = Throw StoreAMOAccessFault c"
  using assms by (simp add: insns_A_defs reserved_faults)

lemma lr_sc_always_fault_witness:
  "execute i_LR_D 0x1000302f mem_machine = Throw LoadAccessFault mem_machine"
  using lr_sc_always_fault [OF mem_machine_simps(1), of "0x1000302f"] by blast

end
