(* ===== verification/Entry_Safety.thy ===== *)
theory Entry_Safety
  imports Isa_Mem
begin

text \<open>
  Undefined behaviour of the entries of the instruction table: which of them can reach any, of which kind, on a word that
  they match and with paging off, and which never do.
\<close>

section \<open>The entries by kind of undefined behaviour\<close>

text \<open>None; shifts too far; the atomics that index the registers by a value (\<open>indexed_amos\<close>); loads; stores of several bytes.\<close>

definition safe_entries :: "instruction list" where
  "safe_entries =
     [i_SRET, i_MRET, i_LUI, i_AUIPC, i_JAL, i_JALR, i_BEQ, i_BNE, i_BLT, i_BGE, i_BLTU, i_BGEU, i_ADDI,
      i_SLTI, i_SLTIU, i_XORI, i_ORI, i_ANDI, i_SLLI, i_SRLI, i_ADD, i_SUB, i_SLT, i_SLTU, i_XOR, i_OR,
      i_AND, i_FENCE, i_ECALL, i_EBREAK, i_ADDIW, i_SLLIW, i_SRLIW, i_SRAIW, i_ADDW, i_SUBW, i_FENCE_I,
      i_CSRRW, i_CSRRS, i_CSRRC, i_CSRRWI, i_CSRRSI, i_CSRRCI, i_MUL, i_MULH, i_MULHSU, i_MULHU, i_DIV,
      i_DIVU, i_REM, i_REMU, i_MULW, i_DIVW, i_DIVUW, i_REMW, i_REMUW, i_LR_W, i_SC_W, i_LR_D, i_SC_D,
      i_AMOSWAP_D, i_AMOADD_D, i_AMOXOR_D, i_AMOAND_D, i_AMOOR_D]"

definition unsafe_shifts :: "instruction list" where
  "unsafe_shifts = [i_SLL, i_SRL, i_SRA, i_SLLW, i_SRLW, i_SRAW, i_SRAI]"

definition loads :: "instruction list" where
  "loads = [i_LB, i_LH, i_LW, i_LBU, i_LHU, i_LWU, i_LD]"

definition wide_stores :: "instruction list" where
  "wide_stores = [i_SH, i_SW, i_SD]"

primrec entries_with :: "undefined_behaviour \<Rightarrow> instruction list" where
  "entries_with Out_Of_Bounds = indexed_amos @ loads @ wide_stores"
| "entries_with Indeterminate_Value = loads @ [i_SB]"
| "entries_with Shift_Too_Far = unsafe_shifts"
| "entries_with Signed_Overflow = []"
| "entries_with Null_Pointer = []"

text \<open>\<open>Step\<close> sets x0 to 0 before it runs an entry.\<close>

definition can_be_undefined :: "undefined_behaviour \<Rightarrow> instruction \<Rightarrow> bool" where
  "can_be_undefined u i \<longleftrightarrow>
     (\<exists>w c. paging_mode (mmu c) = Bare \<and> regs c 0 = 0 \<and> matches w i \<and> execute i w c = Undef u)"

lemma table_parts:
  "set instructions = set safe_entries \<union> set unsafe_shifts \<union> set indexed_amos \<union> set loads \<union> set wide_stores \<union> {i_SB}"
  (is "_ = ?parts")
proof
  show "?parts \<subseteq> set instructions"
    unfolding safe_entries_def unsafe_shifts_def indexed_amos_def loads_def wide_stores_def
      instructions_def insns_I_def insns_I64_def insns_M_def insns_A_def by simp
  show "set instructions \<subseteq> ?parts"
    unfolding safe_entries_def unsafe_shifts_def indexed_amos_def loads_def wide_stores_def
      instructions_def insns_I_def insns_I64_def insns_M_def insns_A_def by simp
qed

section \<open>The kinds that an entry cannot reach\<close>

definition only_undefined :: "undefined_behaviour set \<Rightarrow> instruction \<Rightarrow> bool" where
  "only_undefined us i \<longleftrightarrow>
     (\<forall>w c u. paging_mode (mmu c) = Bare \<longrightarrow> matches w i \<longrightarrow> execute i w c = Undef u \<longrightarrow> u \<in> us)"

lemma only_undefinedI:
  "(\<And>w c u. paging_mode (mmu c) = Bare \<Longrightarrow> matches w i \<Longrightarrow> execute i w c = Undef u \<Longrightarrow> u \<in> us) \<Longrightarrow>
   only_undefined us i"
  by (simp add: only_undefined_def)

lemma never_undefinedI:
  "(\<And>w c u. paging_mode (mmu c) = Bare \<Longrightarrow> matches w i \<Longrightarrow> execute i w c \<noteq> Undef u) \<Longrightarrow> only_undefined {} i"
  by (simp add: only_undefined_def)

lemma only_undefinedD: "list_all (only_undefined us) is \<Longrightarrow> i \<in> set is \<Longrightarrow> can_be_undefined u i \<Longrightarrow> u \<in> us"
  by (auto simp: list_all_iff only_undefined_def can_be_undefined_def)

lemma obind_Undef_iff:
  "obind m f = Undef u \<longleftrightarrow> m = Undef u \<or> (\<exists>a s. m = Ret a s \<and> f a s = Undef u)"
  by (cases m) simp_all

text \<open>The amount of a matching SLLI or SRLI, and the zero immediate of an R-type.\<close>

lemma imm_R: "imm (parse_R w) = 0"
  by (simp add: parse_R_def)

lemma matching_amount:
  assumes "w AND 0xfc00707f = v" and "v AND 0xfc000000 = 0"
  shows "unat (imm (parse_I w)) < 64"
proof -
  have high: "\<not> bit w k" if "26 \<le> k" for k
  proof
    assume k: "bit w k"
    have "w AND 0xfc000000 = v AND 0xfc000000"
      unfolding assms(1) [symmetric] by (simp add: and.assoc)
    then have "bit (w AND 0xfc000000) k = bit (0 :: u32) k"
      using assms(2) by simp
    moreover have "bit (0xfc000000 :: u32) k"
    proof -
      have "k < 32"
        using k by (auto dest: bit_imp_le_length)
      moreover have "(0xfc000000 :: u32) = push_bit 26 (mask 6)"
        by (simp add: mask_eq_exp_minus_1)
      ultimately show ?thesis
        using that by (simp only: bit_push_bit_iff bit_mask_iff) (simp add: possible_bit_def, arith)
    qed
    ultimately show False
      using k by (simp only: bit_and_iff) simp
  qed
  have low: "n < 6" if "bit w (20 + n)" for n
    using that high [of "20 + n"] by (cases "n < 6") simp_all
  have "imm (parse_I w) = take_bit 6 (imm (parse_I w))"
  proof (rule bit_word_eqI)
    fix n
    show "bit (imm (parse_I w)) n = bit (take_bit 6 (imm (parse_I w))) n"
      using low [of n] by (auto simp: parse_I_def bit_mask32 bit_take_bit_iff)
  qed
  then have "unat (imm (parse_I w)) = take_bit 6 (unat (imm (parse_I w)))"
    by (metis unsigned_take_bit_eq)
  then show ?thesis
    using take_bit_nat_less_exp [of 6 "unat (imm (parse_I w))"] by simp
qed

lemmas undefined_simps = obind_Undef_iff SetReg_parsed imm_R shl64_def shr64_def

lemma safe_entries_defined: "list_all (only_undefined {}) safe_entries"
  unfolding safe_entries_def list.pred_inject
  by (intro conjI list.pred_inject(1) never_undefinedI;
      simp only: insn_defs instruction.select_convs Let_def matches_def;
      simp add: undefined_simps SetPc_def SetMode_def reserved_faults matching_amount split: PrivilegeMode.split)

lemma unsafe_shifts_only: "list_all (only_undefined {Shift_Too_Far}) unsafe_shifts"
  unfolding unsafe_shifts_def list.pred_inject
  by (intro conjI list.pred_inject(1) only_undefinedI;
      simp add: insn_defs Let_def undefined_simps split: if_splits)

lemma SetReg_Undef: "SetReg r v c = Undef u \<Longrightarrow> u = Out_Of_Bounds"
  by (simp add: SetReg_def Let_def split: if_splits)

lemma indexed_amos_only: "list_all (only_undefined {Out_Of_Bounds}) indexed_amos"
  unfolding indexed_amos_def list.pred_inject
  by (intro conjI list.pred_inject(1) only_undefinedI;
      auto simp: insn_defs Let_def obind_Undef_iff SetReg_parsed dest: SetReg_Undef)

lemma with_state_Undef_iff: "with_state f m = Undef u \<longleftrightarrow> m = Undef u"
  by (cases m) simp_all

lemma uart_modify_Undef: "uart_modify i f dev = Undef u \<Longrightarrow> u = Indeterminate_Value"
  by (cases "buffer dev i") (simp_all add: uart_modify_def)

lemma CPU_Load_Undef:
  "paging_mode (mmu c) = Bare \<Longrightarrow> CPU_Load a n d c = Undef u \<Longrightarrow> u \<in> {Out_Of_Bounds, Indeterminate_Value}"
  by (auto simp: CPU_Load_def bus_Load_def with_state_Undef_iff ram_Load_def uart_Load_def obind_Undef_iff Let_def
      stub_defs dest: uart_modify_Undef split: if_splits)

lemma CPU_Store_Undef:
  assumes "paging_mode (mmu c) = Bare" "CPU_Store a n v c = Undef u"
  shows "u = (if n = 1 then Indeterminate_Value else Out_Of_Bounds)"
proof -
  have "\<not> unat MEMORY_SIZE < unat (a - KERNBASE) + 1" if "valid_addr KERNBASE MEMORY_SIZE a"
    using ram_dev.index_less [OF that] by simp
  then show ?thesis
    using assms
    by (auto simp: CPU_Store_def bus_Store_def with_state_Undef_iff ram_Store_def uart_Store_def Let_def stub_defs not_le
        dest: uart_modify_Undef split: if_splits)
qed

lemma read_cell_Undef: "read_cell d s = Undef u \<Longrightarrow> u = Indeterminate_Value"
  by (cases d) simp_all

lemma loads_only: "list_all (only_undefined {Out_Of_Bounds, Indeterminate_Value}) loads"
  unfolding loads_def list.pred_inject
  by (intro conjI list.pred_inject(1) only_undefinedI;
      auto simp: insn_defs Let_def obind_Undef_iff SetReg_parsed dest: CPU_Load_Undef read_cell_Undef)

lemma stores_only:
  "list_all (only_undefined {Out_Of_Bounds}) wide_stores" "only_undefined {Indeterminate_Value} i_SB"
  unfolding wide_stores_def list.pred_inject
  by (intro conjI list.pred_inject(1) only_undefinedI; simp add: insn_defs Let_def; drule (1) CPU_Store_Undef; simp)+

section \<open>The kinds that it can reach\<close>

text \<open>
  A machine with the same value in all registers but x0, and the matcher with x1 for rs1 and rs2 (as an immediate of a load, 1).
\<close>

definition uniform :: "u64 \<Rightarrow> cpu" where
  "uniform v = (cpu_new (mmu_new (\<lambda>_. 0)) 0)\<lparr>regs := (\<lambda>_. v)(0 := 0)\<rparr>"

lemma uniform_simps [simp]:
  "regs (uniform v) 0 = 0" "regs (uniform v) 1 = v" "regs (uniform v) (Suc 0) = v" "paging_mode (mmu_new m) = Bare"
  "mmu (uniform v) = mmu_new (\<lambda>_. 0)"
  by (simp_all add: uniform_def cpu_new_def mmu_new_def)

definition word_x1 :: "instruction \<Rightarrow> u32" where
  "word_x1 i = instruction_matcher i OR 0x00108000"

lemma can_be_undefinedI:
  "matches (word_x1 i) i \<Longrightarrow> execute i (word_x1 i) (uniform v) = Undef u \<Longrightarrow> can_be_undefined u i"
  unfolding can_be_undefined_def by (intro exI [of _ "word_x1 i"] exI [of _ "uniform v"]) simp

lemmas run_simps = matches_def word_x1_def insn_defs parse_R_def parse_I_def parse_S_def mask32_def mask_and_shift32_def
  GetReg_small Let_def

lemma unsafe_shifts_undefined: "list_all (can_be_undefined Shift_Too_Far) unsafe_shifts"
  unfolding unsafe_shifts_def list.pred_inject
  by (intro conjI list.pred_inject(1) can_be_undefinedI [where v = "0xFFFFFFFF"];
      simp add: run_simps shl64_def shr64_def)

lemma SetReg_minus_1: "SetReg (0xFFFFFFFF :: u64) v c = Undef Out_Of_Bounds"
  by (simp add: SetReg_def to_int_def)

lemma indexed_amos_undefined: "list_all (can_be_undefined Out_Of_Bounds) indexed_amos"
  unfolding indexed_amos_def list.pred_inject
  by (intro conjI list.pred_inject(1) can_be_undefinedI [where v = "0xFFFFFFFF"]; simp add: run_simps SetReg_minus_1)

text \<open>The last byte of the RAM, the status register of the UART, its transmit register, and VIRTIO.\<close>

lemma overrun:
  assumes "n = 2 \<or> n = 4 \<or> n = 8"
  shows "CPU_Load 0x87FFFFFF n d (uniform v) = Undef Out_Of_Bounds"
    "CPU_Store 0x87FFFFFF n x (uniform v) = Undef Out_Of_Bounds"
  using assms
  by (auto simp: CPU_Load_def CPU_Store_def bus_Load_ram bus_Store_ram ram_Load_def ram_Store_def access_size_def
      valid_addr_def config_defs Let_def)

lemma uart_registers:
  "CPU_Load 0x10000005 1 d (uniform v) = Undef Out_Of_Bounds"
  "CPU_Store 0x10000000 1 x (uniform v) = Undef Indeterminate_Value"
proof -
  have "valid_addr UART_BASE UART_SIZE 0x10000005" "\<not> valid_addr KERNBASE MEMORY_SIZE 0x10000005"
    "valid_addr UART_BASE UART_SIZE 0x10000000" "\<not> valid_addr KERNBASE MEMORY_SIZE 0x10000000"
    by (simp_all add: valid_addr_def config_defs UART_BASE_def UART_SIZE_def)
  note window = this
  have "uart_Load UART_BASE 0x10000005 1 d dev = Undef Out_Of_Bounds" for dev
    using window(1) by (rule uart_Load_past_base) (simp add: UART_BASE_def)
  with window show "CPU_Load 0x10000005 1 d (uniform v) = Undef Out_Of_Bounds"
    by (simp add: CPU_Load_def bus_Load_def)
  have "uart_Store 0x10000000 1 x uart_init = Undef Indeterminate_Value"
    by (simp add: uart_Store_def thr_def UART_BASE_def uart_modify_def uart_init_def)
  with window show "CPU_Store 0x10000000 1 x (uniform v) = Undef Indeterminate_Value"
    by (simp add: CPU_Store_def bus_Store_def mmu_new_def)
qed

lemma virtio_window: "CPU_Load 0x10001000 n d (uniform v) = Ret d (uniform v)"
  by (simp add: CPU_Load_def bus_Load_def stub_defs valid_addr_def config_defs)

lemma loads_undefined:
  "list_all (can_be_undefined Out_Of_Bounds) loads" "list_all (can_be_undefined Indeterminate_Value) loads"
proof -
  have "can_be_undefined Out_Of_Bounds i_LB" "can_be_undefined Out_Of_Bounds i_LBU"
    by (rule can_be_undefinedI [where v = "0x10000004"]; simp add: run_simps uart_registers; fail)+
  moreover have "can_be_undefined Out_Of_Bounds i_LH" "can_be_undefined Out_Of_Bounds i_LW"
    "can_be_undefined Out_Of_Bounds i_LHU" "can_be_undefined Out_Of_Bounds i_LWU" "can_be_undefined Out_Of_Bounds i_LD"
    by (rule can_be_undefinedI [where v = "0x87FFFFFE"]; simp add: run_simps overrun; fail)+
  ultimately show "list_all (can_be_undefined Out_Of_Bounds) loads"
    by (simp add: loads_def)
  show "list_all (can_be_undefined Indeterminate_Value) loads"
    unfolding loads_def list.pred_inject
    by (intro conjI list.pred_inject(1) can_be_undefinedI [where v = "0x10000FFF"]; simp add: run_simps virtio_window)
qed

lemma stores_undefined:
  "list_all (can_be_undefined Out_Of_Bounds) wide_stores" "can_be_undefined Indeterminate_Value i_SB"
  unfolding wide_stores_def list.pred_inject
  by (intro conjI list.pred_inject(1) can_be_undefinedI [where v = "0x87FFFFFF"]; simp add: run_simps overrun)
    (rule can_be_undefinedI [where v = "0x10000000"]; simp add: run_simps uart_registers)

lemma all_undefined:
  "i \<in> set unsafe_shifts \<Longrightarrow> can_be_undefined Shift_Too_Far i"
  "i \<in> set indexed_amos \<Longrightarrow> can_be_undefined Out_Of_Bounds i"
  "i \<in> set loads \<Longrightarrow> can_be_undefined Out_Of_Bounds i"
  "i \<in> set loads \<Longrightarrow> can_be_undefined Indeterminate_Value i"
  "i \<in> set wide_stores \<Longrightarrow> can_be_undefined Out_Of_Bounds i"
  "can_be_undefined Indeterminate_Value i_SB"
  using unsafe_shifts_undefined indexed_amos_undefined loads_undefined stores_undefined
  by (auto simp only: list_all_iff)

lemma never_undefined_entry: "i \<in> set safe_entries \<Longrightarrow> \<not> can_be_undefined u i"
  using only_undefinedD [OF safe_entries_defined] by blast

lemma undefined_entry:
  assumes "i \<in> set instructions" "can_be_undefined u i"
  shows "i \<in> set (entries_with u)"
proof -
  consider "i \<in> set unsafe_shifts" | "i \<in> set indexed_amos" | "i \<in> set loads" | "i \<in> set wide_stores" | "i = i_SB"
    using assms never_undefined_entry unfolding table_parts by blast
  then show ?thesis
    using assms(2) only_undefinedD [OF unsafe_shifts_only, of i u] only_undefinedD [OF indexed_amos_only, of i u]
      only_undefinedD [OF loads_only, of i u] only_undefinedD [OF stores_only(1), of i u]
      only_undefinedD [of "{Indeterminate_Value}" "[i_SB]" i u] stores_only(2)
    by cases auto
qed

section \<open>Properties\<close>

text \<open>
  C30. Which instructions can have undefined behaviour, and of which kind. With paging off and x0 zero, the entries that
  reach a kind on some word they match and some machine are exactly these: out-of-bounds access, 13 of the
  atomics (they index the registers by a value), all loads (the wide ones overrun the RAM, the byte ones the
  buffer of the UART) and the stores of several bytes; an indeterminate value, all loads (the stub devices assign
  nothing) and SB (the uninitialised UART); a shift too far, the shifts by a register and SRAI;
  a signed overflow or a null pointer, none. The other 65 entries never do.
\<close>

theorem undefined_entries:
  "{i \<in> set instructions. can_be_undefined u i} = set (entries_with u) \<and>
   {i \<in> set instructions. \<nexists>u. can_be_undefined u i} = set safe_entries \<and> card (set safe_entries) = 65"
proof (intro conjI equalityI subsetI)
  fix i
  assume "i \<in> {i \<in> set instructions. can_be_undefined u i}"
  then show "i \<in> set (entries_with u)"
    using undefined_entry by blast
next
  fix i
  assume "i \<in> set (entries_with u)"
  then show "i \<in> {i \<in> set instructions. can_be_undefined u i}"
    unfolding table_parts by (cases u) (auto simp: all_undefined)
next
  fix i
  assume "i \<in> {i \<in> set instructions. \<nexists>u. can_be_undefined u i}"
  then show "i \<in> set safe_entries"
    unfolding table_parts using all_undefined by blast
next
  fix i
  assume "i \<in> set safe_entries"
  then show "i \<in> {i \<in> set instructions. \<nexists>u. can_be_undefined u i}"
    unfolding table_parts using never_undefined_entry by blast
next
  have "distinct (map instruction.name safe_entries)"
    by (simp add: safe_entries_def insn_defs)
  then show "card (set safe_entries) = 65"
    by (simp only: distinct_map distinct_card) (simp add: safe_entries_def)
qed

end
