(* ===== verification/Isa_Machine.thy ===== *)
theory Isa_Machine
  imports Isa_Mem
begin

text \<open>
  Whole programs. The manual's machine, as far as user programs without CSR and system instructions see it: the pc,
  the registers with x0 zero, and the RAM. One step of it is one instruction; the emulator simulates it
  as long as the instructions are ones on which it follows the manual, paging is off and
  no interrupt is taken. The locale \<open>loop_simulation\<close> carries a simulation of one round of a loop over
  to any number of rounds; it is interpreted on \<open>Run\<close> here and on the loop of \<open>main\<close> in \<open>Main_Prog\<close>.
\<close>

section \<open>The manual's machine\<close>

record isa_state =
  ipc :: u64
  ireg :: "regno \<Rightarrow> u64"
  iram :: ram

definition isa_put :: "regno \<Rightarrow> u64 \<Rightarrow> isa_state \<Rightarrow> isa_state" where
  "isa_put d v s = s\<lparr>ireg := if d = 0 then ireg s else (ireg s)(d := v)\<rparr>"

definition isa_goto :: "u64 \<Rightarrow> isa_state \<Rightarrow> isa_state" where
  "isa_goto a s = s\<lparr>ipc := a\<rparr>"

definition isa_fetch :: "u64 \<Rightarrow> nat \<Rightarrow> isa_state \<Rightarrow> u64" where
  "isa_fetch a n s = read_bytes (iram s) (unat (a - KERNBASE)) n"

definition isa_write :: "u64 \<Rightarrow> nat \<Rightarrow> u64 \<Rightarrow> isa_state \<Rightarrow> isa_state" where
  "isa_write a n v s = s\<lparr>iram := write_bytes (iram s) (unat (a - KERNBASE)) n v\<rparr>"

text \<open>Execution; the CSR and system instructions are outside this machine.\<close>

primrec isa_exec :: "instr \<Rightarrow> isa_state \<Rightarrow> isa_state" where
  "isa_exec (Alu op d r1 r2) s = isa_goto (ipc s + 4) (isa_put d (isa_alu op (ireg s r1) (ireg s r2)) s)"
| "isa_exec (Alui op d r1 im) s = isa_goto (ipc s + 4) (isa_put d (isa_alui op (ireg s r1) im) s)"
| "isa_exec (Shifti op d r1 n) s = isa_goto (ipc s + 4) (isa_put d (isa_shifti op (ireg s r1) (unat n)) s)"
| "isa_exec (Lui d im) s = isa_goto (ipc s + 4) (isa_put d (upper im) s)"
| "isa_exec (Auipc d im) s = isa_goto (ipc s + 4) (isa_put d (ipc s + upper im) s)"
| "isa_exec (Jal d off) s = isa_goto (ipc s + offset2 off) (isa_put d (ipc s + 4) s)"
| "isa_exec (Jalr d r1 im) s = isa_goto ((ireg s r1 + scast im) AND NOT 1) (isa_put d (ipc s + 4) s)"
| "isa_exec (Branch op r1 r2 off) s =
     isa_goto (if isa_branch op (ireg s r1) (ireg s r2) then ipc s + offset2 off else ipc s + 4) s"
| "isa_exec (Load op d r1 im) s =
     isa_goto (ipc s + 4) (isa_put d (isa_ext op (isa_fetch (isa_address (ireg s r1) im) (load_size op) s)) s)"
| "isa_exec (Store op r1 r2 im) s =
     isa_goto (ipc s + 4) (isa_write (isa_address (ireg s r1) im) (store_size op) (ireg s r2) s)"
| "isa_exec (Csr op d r n) s = s"
| "isa_exec (System op) s = s"

text \<open>The instructions of this machine: no CSR and system instructions, and loads and stores inside the RAM.\<close>

primrec in_memory :: "instr \<Rightarrow> isa_state \<Rightarrow> bool" where
  "in_memory (Alu op d r1 r2) s = True"
| "in_memory (Alui op d r1 im) s = True"
| "in_memory (Shifti op d r1 n) s = True"
| "in_memory (Lui d im) s = True"
| "in_memory (Auipc d im) s = True"
| "in_memory (Jal d off) s = True"
| "in_memory (Jalr d r1 im) s = True"
| "in_memory (Branch op r1 r2 off) s = True"
| "in_memory (Load op d r1 im) s = in_ram (isa_address (ireg s r1) im) (int (load_size op))"
| "in_memory (Store op r1 r2 im) s = in_ram (isa_address (ireg s r1) im) (int (store_size op))"
| "in_memory (Csr op d r n) s = False"
| "in_memory (System op) s = False"

text \<open>
  A step: the word at the pc is a legal instruction, and the next pc is aligned (a misaligned target is an
  exception on the manual's machine).
\<close>

inductive isa_step :: "instr \<Rightarrow> isa_state \<Rightarrow> isa_state \<Rightarrow> bool" where
  exec: "legal i \<Longrightarrow> in_ram (ipc s) 4 \<Longrightarrow> assemble i = ucast (isa_fetch (ipc s) 4 s) \<Longrightarrow> in_memory i s \<Longrightarrow>
    t = isa_exec i s \<Longrightarrow> ipc t AND 3 = 0 \<Longrightarrow> isa_step i s t"

inductive_simps isa_step_iff: "isa_step i s t"

text \<open>Where the emulator follows the manual, instruction by instruction.\<close>

primrec follows :: "instr \<Rightarrow> isa_state \<Rightarrow> bool" where
  "follows (Alu op d r1 r2) s = alu_agrees op (ireg s r1) (ireg s r2)"
| "follows (Alui op d r1 im) s = alui_agrees op (ireg s r1) im"
| "follows (Shifti op d r1 n) s =
     (if op = Srai then False else if word_shift op then isa_shifti op (ireg s r1) (unat n) = ireg s r1 else True)"
| "follows (Lui d im) s = True"
| "follows (Auipc d im) s = (\<not> bit im 19)"
| "follows (Jal d off) s = (bit off 18 = bit off 19)"
| "follows (Jalr d r1 im) s =
     (if d = r1 then (ipc s + 4 + scast im) AND NOT 1 = (ireg s r1 + scast im) AND NOT 1 else True)"
| "follows (Branch op r1 r2 off) s = True"
| "follows (Load op d r1 im) s = (\<not> bit im 11)"
| "follows (Store op r1 r2 im) s = (\<not> bit im 11)"
| "follows (Csr op d r n) s = False"
| "follows (System op) s = False"

definition conforming_step :: "isa_state \<Rightarrow> isa_state \<Rightarrow> bool" where
  "conforming_step s t \<longleftrightarrow> (\<exists>i. isa_step i s t \<and> follows i s)"

section \<open>The emulator's state, seen as the manual's\<close>

definition abs_state :: "cpu \<Rightarrow> isa_state" where
  "abs_state c = \<lparr>ipc = pc c, ireg = (\<lambda>r. if r = 0 then 0 else regs c (unat r)), iram = ram (mmu c)\<rparr>"

lemma abs_state_simps [simp]:
  "ipc (abs_state c) = pc c" "ireg (abs_state c) r = (if r = 0 then 0 else regs c (unat r))"
  "iram (abs_state c) = ram (mmu c)"
  by (simp_all add: abs_state_def)

lemma unat_regno_0 [simp]: "unat r = 0 \<longleftrightarrow> r = 0" for r :: regno
  by (simp add: unat_eq_0)

lemma unat_regno_eq: "unat r = unat d \<longleftrightarrow> r = d" for r d :: regno
  by (rule word_unat_eq_iff [symmetric])

lemma ready_reg: "regs (ready c) (unat r) = ireg (abs_state c) r"
  by (simp add: unat_eq_0)

lemma abs_ready: "abs_state (ready c) = isa_goto (pc c + 4) (abs_state c)"
  by (auto simp: abs_state_def isa_goto_def unat_eq_0)

lemma abs_set_reg: "abs_state (set_reg (unat d) v c) = isa_put d v (abs_state c)"
  by (simp add: abs_state_def isa_put_def fun_eq_iff unat_regno_eq)

lemma abs_jump_to: "abs_state (jump_to a c) = isa_goto a (abs_state c)"
  by (simp add: abs_state_def isa_goto_def jump_to_def cong: if_cong)

lemma abs_mem_write: "abs_state (mem_write a n v c) = isa_write a n v (abs_state c)"
  by (simp add: abs_state_def isa_write_def mem_write_def cong: if_cong)

lemma isa_commutes:
  "isa_put d v (isa_goto a s) = isa_goto a (isa_put d v s)"
  "isa_write b n v (isa_goto a s) = isa_goto a (isa_write b n v s)"
  "isa_goto a (isa_goto b s) = isa_goto a s" "ipc (isa_goto a s) = a"
  by (simp_all add: isa_put_def isa_goto_def isa_write_def)

lemma mem_read_ready: "mem_read (ready c) a n = isa_fetch a n (abs_state c)"
  by (simp add: mem_read_def isa_fetch_def)

lemmas abs_ops = abs_set_reg abs_jump_to abs_mem_write abs_ready isa_commutes mem_read_ready

text \<open>What no instruction of the machine touches: CSRs, mode, and of the MMU all but the RAM.\<close>

definition same_system :: "cpu \<Rightarrow> cpu \<Rightarrow> bool" where
  "same_system c d \<longleftrightarrow> csrs d = csrs c \<and> priv_mode d = priv_mode c \<and> (\<exists>m. mmu d = (mmu c)\<lparr>ram := m\<rparr>)"

lemma same_system_trans: "same_system c d \<Longrightarrow> same_system d e \<Longrightarrow> same_system c e"
  by (auto simp: same_system_def)

lemma same_system_ops:
  "same_system c c" "same_system c (ready c)" "same_system c (set_reg i v c)" "same_system c (jump_to a c)"
  "same_system c (mem_write a n v c)"
  by (auto simp: same_system_def jump_to_def mem_write_def intro: exI [of _ "ram (mmu c)"])

section \<open>One instruction\<close>

definition simulates :: "instr \<Rightarrow> cpu \<Rightarrow> bool" where
  "simulates i c \<longleftrightarrow> (\<exists>d. execute (entry i) (assemble i) (ready c) = Ret () d \<and>
     abs_state d = isa_exec i (abs_state c) \<and> same_system c d)"

lemma simulatesI:
  assumes "execute (entry i) (assemble i) (ready c) = Ret () d"
    and "abs_state d = isa_exec i (abs_state c)" and "same_system (ready c) d"
  shows "simulates i c"
  using assms same_system_trans [OF same_system_ops(2) assms(3)] by (auto simp: simulates_def)

lemma simulates_alu:
  assumes "alu_agrees op (ireg (abs_state c) r1) (ireg (abs_state c) r2)"
  shows "simulates (Alu op d r1 r2) c"
proof (rule simulatesI)
  show "execute (entry (Alu op d r1 r2)) (assemble (Alu op d r1 r2)) (ready c) =
      Ret () (set_reg (unat d) (isa_alu op (ireg (abs_state c) r1) (ireg (abs_state c) r2)) (ready c))"
    using assms unfolding code_alu_iff [symmetric]
    by (simp only: entry.simps assemble.simps split_def execute_alu ready_reg option.case)
qed (simp_all only: abs_ops isa_exec.simps same_system_ops abs_state_simps)

lemma simulates_alui:
  assumes "alui_agrees op (ireg (abs_state c) r1) im"
  shows "simulates (Alui op d r1 im) c"
proof (rule simulatesI)
  show "execute (entry (Alui op d r1 im)) (assemble (Alui op d r1 im)) (ready c) =
      Ret () (set_reg (unat d) (isa_alui op (ireg (abs_state c) r1) im) (ready c))"
    using assms unfolding code_alui_iff [symmetric]
    by (simp only: entry.simps assemble.simps split_def execute_alui ready_reg)
qed (simp_all only: abs_ops isa_exec.simps same_system_ops abs_state_simps)

lemma simulates_shifti:
  assumes "follows (Shifti op d r1 n) (abs_state c)"
  shows "simulates (Shifti op d r1 n) c"
proof (rule simulatesI)
  have "code_shifti op (ireg (abs_state c) r1) (unat n) = Some (isa_shifti op (ireg (abs_state c) r1) (unat n))"
    using assms unfolding code_shifti_iff follows.simps .
  then show "execute (entry (Shifti op d r1 n)) (assemble (Shifti op d r1 n)) (ready c) =
      Ret () (set_reg (unat d) (isa_shifti op (ireg (abs_state c) r1) (unat n)) (ready c))"
    using execute_shifti [of op n r1 "fst (snd (shifti_code op))" d "snd (snd (shifti_code op))" "ready c"]
    by (simp only: entry.simps assemble.simps split_def ready_reg option.case)
qed (simp_all only: abs_ops isa_exec.simps same_system_ops abs_state_simps)

lemma ready_system: "pc (ready c) = pc c + 4" "mmu (ready c) = mmu c"
  by simp_all

lemma simulates_upper:
  "simulates (Lui d im) c" "\<not> bit im 19 \<Longrightarrow> simulates (Auipc d im) c"
proof -
  show "simulates (Lui d im) c"
    by (rule simulatesI, simp only: entry.simps execute_LUI)
      (simp_all only: abs_ops isa_exec.simps same_system_ops abs_state_simps)
  assume "\<not> bit im 19"
  then show "simulates (Auipc d im) c"
    by (intro simulatesI, simp only: entry.simps AUIPC_iff [THEN iffD2])
      (simp_all only: abs_ops isa_exec.simps same_system_ops abs_state_simps ready_system add_diff_cancel_right')
qed

lemma simulates_jump:
  "follows (Jal d off) (abs_state c) \<Longrightarrow> simulates (Jal d off) c"
  "follows (Jalr d r1 im) (abs_state c) \<Longrightarrow> simulates (Jalr d r1 im) c"
proof -
  have system: "same_system (ready c) (jump_to a (set_reg i v (ready c)))" for a i v
    by (rule same_system_trans [OF same_system_ops(3,4)])
  {
    assume "follows (Jal d off) (abs_state c)"
    then show "simulates (Jal d off) c"
      by (intro simulatesI, simp only: entry.simps follows.simps JAL_iff [THEN iffD2])
        (simp_all only: system abs_ops isa_exec.simps abs_state_simps ready_system add_diff_cancel_right')
  next
    assume "follows (Jalr d r1 im) (abs_state c)"
    then have "if unat d = unat r1 then (pc (ready c) + scast im) AND NOT 1 =
        (regs (ready c) (unat r1) + scast im) AND NOT 1 else True"
      by (simp only: unat_regno_eq follows.simps ready_reg ready_system abs_state_simps(1))
    then show "simulates (Jalr d r1 im) c"
      by (intro simulatesI, simp only: entry.simps JALR_iff [THEN iffD2] ready_reg)
        (simp_all only: system abs_ops isa_exec.simps abs_state_simps ready_system)
  }
qed

lemma simulates_branch: "simulates (Branch op r1 r2 off) c"
proof -
  obtain t where t: "t = isa_branch op (ireg (abs_state c) r1) (ireg (abs_state c) r2)"
    by blast
  have run: "execute (entry (Branch op r1 r2 off)) (assemble (Branch op r1 r2 off)) (ready c) =
      Ret () (if t then jump_to (pc c + offset2 off) (ready c) else ready c)"
    by (simp only: entry.simps execute_branch ready_reg ready_system add_diff_cancel_right' t)
  have exec: "isa_exec (Branch op r1 r2 off) (abs_state c) =
      isa_goto (if t then pc c + offset2 off else pc c + 4) (abs_state c)"
    by (simp only: t isa_exec.simps abs_state_simps(1))
  show ?thesis
  proof (rule simulatesI [OF run])
    show "abs_state (if t then jump_to (pc c + offset2 off) (ready c) else ready c) =
        isa_exec (Branch op r1 r2 off) (abs_state c)"
      by (cases t) (simp_all only: exec abs_ops if_True if_False)
    show "same_system (ready c) (if t then jump_to (pc c + offset2 off) (ready c) else ready c)"
      by (simp add: same_system_ops)
  qed
qed

lemma code_address_isa: "\<not> bit im 11 \<Longrightarrow> code_address base im = isa_address base im"
  by (simp add: code_address_def)

lemma simulates_load:
  assumes "paging_mode (mmu c) = Bare" "in_memory (Load op d r1 im) (abs_state c)" "follows (Load op d r1 im) (abs_state c)"
  shows "simulates (Load op d r1 im) c"
proof (rule simulatesI)
  have address: "code_address (ireg (abs_state c) r1) im = isa_address (ireg (abs_state c) r1) im"
    using assms(3) by (intro code_address_isa) simp
  show "execute (entry (Load op d r1 im)) (assemble (Load op d r1 im)) (ready c) = Ret () (set_reg (unat d)
      (isa_ext op (isa_fetch (isa_address (ireg (abs_state c) r1) im) (load_size op) (abs_state c))) (ready c))"
    using assms(1,2) execute_load [of "ready c" r1 im op "load_code op" d]
    by (simp only: entry.simps assemble.simps address in_memory.simps ready_system mem_read_ready ready_reg)
qed (simp_all only: abs_ops isa_exec.simps same_system_ops abs_state_simps)

lemma simulates_store:
  assumes "paging_mode (mmu c) = Bare" "in_memory (Store op r1 r2 im) (abs_state c)" "follows (Store op r1 r2 im) (abs_state c)"
  shows "simulates (Store op r1 r2 im) c"
proof (rule simulatesI)
  have address: "code_address (ireg (abs_state c) r1) im = isa_address (ireg (abs_state c) r1) im"
    using assms(3) by (intro code_address_isa) simp
  show "execute (entry (Store op r1 r2 im)) (assemble (Store op r1 r2 im)) (ready c) =
      Ret () (mem_write (isa_address (ireg (abs_state c) r1) im) (store_size op) (ireg (abs_state c) r2) (ready c))"
    using assms(1,2) execute_store [of "ready c" r1 im op r2 "store_code op"]
    by (simp only: entry.simps assemble.simps address in_memory.simps ready_system ready_reg)
qed (simp_all only: abs_ops isa_exec.simps same_system_ops abs_state_simps)

lemma simulates_instr:
  assumes "paging_mode (mmu c) = Bare" "in_memory i (abs_state c)" "follows i (abs_state c)"
  shows "simulates i c"
proof (cases i)
  case (Alu op d r1 r2)
  with assms(3) show ?thesis by (simp only: follows.simps simulates_alu)
next
  case (Alui op d r1 im)
  with assms(3) show ?thesis by (simp only: follows.simps simulates_alui)
next
  case (Auipc d im)
  with assms(3) show ?thesis by (simp add: simulates_upper)
next
  case (Csr op d r n)
  with assms(3) show ?thesis by simp
next
  case (System op)
  with assms(3) show ?thesis by simp
qed (use assms in \<open>simp_all only: simulates_shifti simulates_upper simulates_jump simulates_branch
    simulates_load simulates_store\<close>)

section \<open>One step of the emulator\<close>

text \<open>Paging is off and no interrupt is taken.\<close>

definition quiet :: "cpu \<Rightarrow> bool" where
  "quiet c \<longleftrightarrow> paging_mode (mmu c) = Bare \<and> (\<not> interrupts_enabled c \<or> pending_interrupts c = {})"

lemma same_system_cong:
  assumes "same_system c d"
  shows "paging_mode (mmu d) = paging_mode (mmu c)" "interrupts_enabled d = interrupts_enabled c"
    "pending_interrupts d = pending_interrupts c" "quiet d = quiet c"
proof -
  have eq: "csrs d = csrs c" "priv_mode d = priv_mode c"
    using assms by (simp_all add: same_system_def)
  show 1: "paging_mode (mmu d) = paging_mode (mmu c)"
    using assms by (auto simp: same_system_def)
  show 2: "interrupts_enabled d = interrupts_enabled c" and 3: "pending_interrupts d = pending_interrupts c"
    by (simp_all only: eq interrupts_enabled_def pending_interrupts_def)
  show "quiet d = quiet c"
    by (simp only: quiet_def 1 2 3)
qed

lemma HandleInterrupts_quiet: "quiet c \<Longrightarrow> HandleInterrupts c = Ret () c"
  by (auto simp: quiet_def HandleInterrupts_eq)

lemma instr_at_abs:
  "in_ram (pc c) 4 \<Longrightarrow> assemble i = ucast (isa_fetch (pc c) 4 (abs_state c)) \<Longrightarrow> instr_at (assemble i) c"
  by (simp only: instr_at_def isa_fetch_def abs_state_simps simp_thms)

lemma Step_simulates:
  assumes "quiet c" and "conforming_step (abs_state c) t"
  shows "\<exists>d. Step c = Ret () d \<and> abs_state d = t \<and> quiet d \<and> same_system c d"
proof -
  obtain i where i: "legal i" "in_ram (pc c) 4" "assemble i = ucast (isa_fetch (pc c) 4 (abs_state c))"
      "in_memory i (abs_state c)" "follows i (abs_state c)" and t: "t = isa_exec i (abs_state c)"
    using assms(2) by (auto simp: conforming_step_def isa_step_iff)
  have bare: "paging_mode (mmu c) = Bare"
    using assms(1) by (simp add: quiet_def)
  obtain d where d: "execute (entry i) (assemble i) (ready c) = Ret () d" "abs_state d = t" "same_system c d"
    using simulates_instr [OF bare i(4,5)] unfolding simulates_def t by blast
  have no_fence: "\<not> is_fence i"
    using i(4) by (cases i) (simp_all add: is_fence_def)
  have "Step c = HandleInterrupts d"
    by (subst Step_ram [OF bare instr_at_abs [OF i(2,3)] entry_in_table matches_entry [OF i(1) no_fence]
          assemble_not_0xf [OF no_fence]])
      (simp only: d(1) ocatch.simps obind.simps)
  with d assms(1) same_system_cong(4) [OF d(3)] show ?thesis
    by (simp add: HandleInterrupts_quiet)
qed

section \<open>Any number of rounds\<close>

text \<open>
  A loop over some inputs, which collects what its rounds print, and a simulation of one round that prints
  \<open>n\<close> lines as long as it goes well.
\<close>

locale loop_simulation =
  fixes round :: "'i \<Rightarrow> 's \<Rightarrow> ('o list, 's, 'e) outcome"
    and loop :: "'i list \<Rightarrow> 's \<Rightarrow> ('o list, 's, 'e) outcome"
    and spec :: "'t \<Rightarrow> 't \<Rightarrow> bool" and abs :: "'s \<Rightarrow> 't" and inv :: "'s \<Rightarrow> bool" and n :: nat
  assumes loop_Nil: "loop [] s = Ret [] s"
    and loop_Cons: "loop (i # is) s = obind (round i s) (\<lambda>out s. obind (loop is s) (\<lambda>out' s. Ret (out @ out') s))"
    and well: "inv s \<Longrightarrow> spec (abs s) t \<Longrightarrow> \<exists>out s'. round i s = Ret out s' \<and> length out = n \<and> abs s' = t \<and> inv s'"
begin

lemma simulates:
  "inv s \<Longrightarrow> (spec ^^ length is) (abs s) t \<Longrightarrow>
   \<exists>out s'. loop is s = Ret out s' \<and> length out = n * length is \<and> abs s' = t \<and> inv s'"
proof (induction "is" arbitrary: s)
  case Nil
  then show ?case by (simp add: loop_Nil)
next
  case (Cons i "is")
  obtain u where u: "spec (abs s) u" "(spec ^^ length is) u t"
    using Cons.prems(2) relpowp_Suc_D2 [of "length is" spec "abs s" t] by auto
  obtain out s' where s': "round i s = Ret out s'" "length out = n" "abs s' = u" "inv s'"
    using well [OF Cons.prems(1) u(1)] by blast
  from Cons.IH [OF s'(4)] u(2) s'(3) obtain out' s'' where
    "loop is s' = Ret out' s''" "length out' = n * length is" "abs s'' = t" "inv s''"
    by blast
  with s'(1,2) show ?case
    by (simp add: loop_Cons)
qed

end

interpretation run_sim: loop_simulation "\<lambda>u :: unit. run_round" "\<lambda>us. Run (length us)" conforming_step abs_state
    "\<lambda>d. quiet d \<and> same_system c d" 0
  for c
proof unfold_locales
  fix d t
  assume "quiet d \<and> same_system c d" and "conforming_step (abs_state d) t"
  with Step_simulates [of d t] same_system_trans
  show "\<exists>out e. run_round d = Ret out e \<and> length out = 0 \<and> abs_state e = t \<and> quiet e \<and> same_system c e"
    by (fastforce simp: run_round_def)
qed simp_all

lemma Run_simulates:
  assumes "quiet c" and "(conforming_step ^^ k) (abs_state c) t"
  shows "\<exists>d. Run k c = Ret [] d \<and> abs_state d = t \<and> same_system c d"
  using run_sim.simulates [of c c "replicate k ()" t] assms by (auto simp: same_system_ops)

section \<open>Properties\<close>

text \<open>
  C2. The emulator implements the manual's machine. From a state with paging off and no interrupt to take,
  if the manual's machine can do \<open>k\<close> steps from the emulator's pc, registers and RAM, each an instruction on
  which the emulator follows the manual, then \<open>k\<close> rounds of \<open>Run\<close> return, print nothing, and end in the state where the
  manual's machine ends; CSRs, mode and the other devices are as before.
\<close>

theorem run_refines_isa:
  assumes "quiet c" and "(conforming_step ^^ k) (abs_state c) t"
  shows "\<exists>d. Run k c = Ret [] d \<and> abs_state d = t \<and> csrs d = csrs c \<and> priv_mode d = priv_mode c \<and>
    mmu d = (mmu c)\<lparr>ram := iram t\<rparr>"
  using Run_simulates [OF assms] by (auto simp: same_system_def)

text \<open>The machine with \<open>addi x1, x0, 5\<close> in the RAM does one step.\<close>

lemma addi_machine_conforms: "conforming_step (abs_state addi_machine) (isa_exec (Alui Addi 1 0 5) (abs_state addi_machine))"
  unfolding conforming_step_def
proof (intro exI [of _ "Alui Addi 1 0 5"] conjI isa_step.exec refl)
  show "in_ram (ipc (abs_state addi_machine)) 4"
    by (simp add: addi_machine_def cpu_new_def in_ram_def access_size_def valid_addr_def config_defs)
  show "assemble (Alui Addi 1 0 5) = ucast (isa_fetch (ipc (abs_state addi_machine)) 4 (abs_state addi_machine))"
    by (simp add: addi_machine_def cpu_new_def mmu_new_def isa_fetch_def bytes_eval encode_I_def)
  show "ipc (isa_exec (Alui Addi 1 0 5) (abs_state addi_machine)) AND 3 = 0"
    by (simp add: isa_goto_def addi_machine_def cpu_new_def config_defs)
qed simp_all

lemma run_refines_isa_witness:
  "\<exists>d. Run 1 addi_machine = Ret [] d \<and> regs d 1 = 5 \<and> pc d = 0x80000004"
proof -
  have quiet: "quiet addi_machine"
    by (simp add: quiet_def interrupts_enabled_def addi_machine_def cpu_new_def mmu_new_def)
  have "(conforming_step ^^ 1) (abs_state addi_machine) (isa_exec (Alui Addi 1 0 5) (abs_state addi_machine))"
    using addi_machine_conforms by (simp only: relpowp_1)
  from run_refines_isa [OF quiet this] obtain d where d: "Run 1 addi_machine = Ret [] d"
      "abs_state d = isa_exec (Alui Addi 1 0 5) (abs_state addi_machine)"
    by blast
  have "ireg (abs_state d) 1 = 5" "ipc (abs_state d) = 0x80000004"
    unfolding d(2) by (simp_all add: isa_goto_def isa_put_def addi_machine_def cpu_new_def KERNBASE_def)
  with d(1) show ?thesis
    by auto
qed

end
