(* ===== verification/Sum_Program.thy ===== *)
theory Sum_Program
  imports Isa_Machine
begin

text \<open>
  A program run by the emulator: \<open>add x2, x2, x1\<close>; \<open>addi x1, x1, -1\<close>; \<open>bne x1, x0, -8\<close>. It adds the numbers
  from x1 down to 1. The proof is about the manual's machine only; the simulation of
  \<open>Isa_Machine\<close> carries it over to \<open>Run\<close>.
\<close>

definition sum_code :: "u32 list" where
  "sum_code = [0x00110133, 0xFFF08093, 0xFE009CE3]"

text \<open>The three words at an address of the RAM.\<close>

definition sum_at :: "u64 \<Rightarrow> isa_state \<Rightarrow> bool" where
  "sum_at a s \<longleftrightarrow> a AND 3 = 0 \<and> in_ram a 4 \<and> in_ram (a + 4) 4 \<and> in_ram (a + 8) 4 \<and>
     ucast (isa_fetch a 4 s) = sum_code ! 0 \<and> ucast (isa_fetch (a + 4) 4 s) = sum_code ! 1 \<and>
     ucast (isa_fetch (a + 8) 4 s) = sum_code ! 2"

lemma sum_assembled:
  "assemble (Alu Add 2 2 1) = sum_code ! 0" "assemble (Alui Addi 1 1 0xFFF) = sum_code ! 1"
  "assemble (Branch Bne 1 0 0xFFC) = sum_code ! 2"
  by (simp_all add: sum_code_def encode_R_def encode_I_def encode_B_def)

lemma aligned_plus_4: "a AND 3 = 0 \<Longrightarrow> (a + 4) AND 3 = 0" for a :: u64
proof -
  have "v AND 3 = take_bit 2 v" for v :: u64
    by (simp add: take_bit_eq_mask mask_eq_exp_minus_1)
  moreover have "take_bit 2 (a + 4) = take_bit 2 a"
    by transfer (simp add: take_bit_eq_mod)
  ultimately show "a AND 3 = 0 \<Longrightarrow> (a + 4) AND 3 = 0"
    by simp
qed

section \<open>The program on the manual's machine\<close>

text \<open>The state at \<open>p\<close> with counter \<open>v\<close> and sum \<open>w\<close>.\<close>

definition sum_state :: "isa_state \<Rightarrow> u64 \<Rightarrow> u64 \<Rightarrow> u64 \<Rightarrow> isa_state" where
  "sum_state s p v w = s\<lparr>ipc := p, ireg := (ireg s)(1 := v, 2 := w)\<rparr>"

lemma sum_state_simps [simp]:
  "ipc (sum_state s p v w) = p" "ireg (sum_state s p v w) = (ireg s)(1 := v, 2 := w)"
  "isa_fetch b n (sum_state s p v w) = isa_fetch b n s"
  by (simp_all add: sum_state_def isa_fetch_def)

lemma sum_exec:
  "isa_exec (Alu Add 2 2 1) (sum_state s p v w) = sum_state s (p + 4) v (w + v)"
  "isa_exec (Alui Addi 1 1 0xFFF) (sum_state s p v w) = sum_state s (p + 4) (v - 1) w"
  "isa_exec (Branch Bne 1 0 0xFFC) (sum_state s p v w) =
     sum_state s (if v = ireg s 0 then p + 4 else p - 8) v w"
  by (simp_all add: sum_state_def isa_goto_def isa_put_def offset2_def fun_upd_twist)

lemma three_steps: "P s t \<Longrightarrow> P t u \<Longrightarrow> P u v \<Longrightarrow> (P ^^ 3) s v"
  by (auto simp: numeral_3_eq_3 OO_def)

lemma sum_round:
  assumes "sum_at a s" and "ireg s 0 = 0"
  shows "(conforming_step ^^ 3) (sum_state s a v w) (sum_state s (if v = 1 then a + 12 else a) (v - 1) (w + v))"
proof -
  note code = assms(1) [unfolded sum_at_def]
  have aligned: "a AND 3 = 0" "(a + 4) AND 3 = 0" "(a + 4 + 4) AND 3 = 0" "(a + 4 + 4 + 4) AND 3 = 0"
    using code by (simp_all only: aligned_plus_4)
  then have aligned': "(a + 8) AND 3 = 0" "(a + 12) AND 3 = 0"
    by (simp_all add: add.assoc)
  have "conforming_step (sum_state s a v w) (sum_state s (a + 4) v (w + v))"
    unfolding conforming_step_def
    by (intro exI [of _ "Alu Add 2 2 1"] conjI isa_step.exec)
      (use code aligned in \<open>simp_all only: sum_exec sum_assembled sum_state_simps legal.simps in_memory.simps
        follows.simps alu_agrees.simps\<close>)
  moreover have "conforming_step (sum_state s (a + 4) v (w + v)) (sum_state s (a + 8) (v - 1) (w + v))"
    unfolding conforming_step_def
    by (intro exI [of _ "Alui Addi 1 1 0xFFF"] conjI isa_step.exec)
      (use code aligned aligned' in \<open>simp_all add: add.commute [of _ a] sum_exec sum_assembled del: assemble.simps isa_exec.simps\<close>)
  moreover have "conforming_step (sum_state s (a + 8) (v - 1) (w + v))
      (sum_state s (if v = 1 then a + 12 else a) (v - 1) (w + v))"
    unfolding conforming_step_def
    by (intro exI [of _ "Branch Bne 1 0 0xFFC"] conjI isa_step.exec)
      (use code aligned' assms(2) in \<open>simp_all add: add.commute [of _ a] sum_exec sum_assembled del: assemble.simps isa_exec.simps\<close>)
  ultimately show ?thesis
    by (rule three_steps)
qed

definition triangle :: "nat \<Rightarrow> nat" where
  "triangle n = n * (n + 1) div 2"

lemma triangle_Suc: "triangle (Suc n) = triangle n + Suc n"
proof -
  have "Suc n * (Suc n + 1) = n * (n + 1) + Suc n * 2"
    by simp
  then show ?thesis
    unfolding triangle_def by (simp only: div_mult_self1 zero_neq_numeral simp_thms)
qed

lemma sum_loop:
  assumes "sum_at a s" and "ireg s 0 = 0" and "Suc n < 2 ^ 64"
  shows "(conforming_step ^^ (3 * Suc n)) (sum_state s a (of_nat (Suc n)) w)
    (sum_state s (a + 12) 0 (w + of_nat (triangle (Suc n))))"
  using assms(3)
proof (induction n arbitrary: w)
  case 0
  show ?case
    using sum_round [OF assms(1,2), of 1 w] by (simp add: triangle_def)
next
  case (Suc n)
  have "(of_nat (Suc (Suc n)) :: u64) \<noteq> 1"
  proof
    assume "(of_nat (Suc (Suc n)) :: u64) = 1"
    then have "unat (of_nat (Suc (Suc n)) :: u64) = unat (1 :: u64)"
      by (rule arg_cong)
    with Suc.prems show False
      by (simp add: unat_of_nat take_bit_nat_eq_self del: of_nat_Suc)
  qed
  then have "(conforming_step ^^ 3) (sum_state s a (of_nat (Suc (Suc n))) w)
      (sum_state s a (of_nat (Suc n)) (w + of_nat (Suc (Suc n))))"
    using sum_round [OF assms(1,2), of "of_nat (Suc (Suc n))" w] by simp
  moreover have "(conforming_step ^^ (3 * Suc n)) (sum_state s a (of_nat (Suc n)) (w + of_nat (Suc (Suc n))))
      (sum_state s (a + 12) 0 (w + of_nat (Suc (Suc n)) + of_nat (triangle (Suc n))))"
    using Suc by simp
  moreover have "w + of_nat (Suc (Suc n)) + of_nat (triangle (Suc n)) = w + of_nat (triangle (Suc (Suc n)))"
    by (simp add: triangle_Suc [of "Suc n"] algebra_simps)
  moreover have "3 * Suc (Suc n) = 3 + 3 * Suc n"
    by simp
  ultimately show ?case
    by (simp only: relpowp_add) blast
qed

section \<open>The program on the emulator\<close>

text \<open>
  C29. A program runs as it should. With the three words at the pc, \<open>n\<close> in x1 and 0 in x2, paging off and no
  interrupt to take, \<open>3 * n\<close> rounds of \<open>Run\<close> return without a message, with the sum of the numbers up to \<open>n\<close>
  (modulo two to the 64) in x2 and the pc behind the program, for every positive \<open>n\<close> that fits.
\<close>

theorem run_sums:
  assumes "quiet c" and "sum_at (pc c) (abs_state c)" and "regs c 1 = of_nat n" and "regs c 2 = 0"
    and "0 < n" and "n < 2 ^ 64"
  shows "\<exists>d. Run (3 * n) c = Ret [] d \<and> regs d 2 = of_nat (n * (n + 1) div 2) \<and> regs d 1 = 0 \<and> pc d = pc c + 12"
proof -
  obtain m where n: "n = Suc m"
    using assms(5) by (cases n) auto
  have start: "abs_state c = sum_state (abs_state c) (pc c) (of_nat n) 0"
    using assms(3,4) by (simp add: sum_state_def abs_state_def fun_eq_iff)
  have "(conforming_step ^^ (3 * n)) (abs_state c) (sum_state (abs_state c) (pc c + 12) 0 (of_nat (triangle n)))"
    using sum_loop [OF assms(2), of m 0] assms(6) unfolding n [symmetric] start [symmetric] by simp
  with assms(1) obtain d where d: "Run (3 * n) c = Ret [] d"
      "abs_state d = sum_state (abs_state c) (pc c + 12) 0 (of_nat (triangle n))"
    using Run_simulates by blast
  have "ireg (abs_state d) 1 = 0" "ireg (abs_state d) 2 = of_nat (triangle n)" "ipc (abs_state d) = pc c + 12"
    unfolding d(2) by simp_all
  with d(1) show ?thesis
    by (simp add: triangle_def)
qed

definition sum_machine :: cpu where
  "sum_machine = set_reg 1 10 (cpu_new (mmu_new (\<lambda>i. if i < 12
     then [0x33, 0x01, 0x11, 0x00, 0x93, 0x80, 0xF0, 0xFF, 0xE3, 0x9C, 0x00, 0xFE] ! i else 0)) KERNBASE)"

lemma run_sums_witness: "\<exists>d. Run 30 sum_machine = Ret [] d \<and> regs d 2 = 55"
proof -
  have "quiet sum_machine"
    by (simp add: quiet_def interrupts_enabled_def sum_machine_def cpu_new_def mmu_new_def)
  moreover have "sum_at (pc sum_machine) (abs_state sum_machine)"
    by (simp add: sum_at_def sum_code_def isa_fetch_def sum_machine_def cpu_new_def mmu_new_def bytes_eval
        in_ram_def access_size_def valid_addr_def config_defs)
  moreover have "regs sum_machine 1 = of_nat 10" "regs sum_machine 2 = 0"
    by (simp_all add: sum_machine_def cpu_new_def)
  ultimately have "\<exists>d. Run (3 * 10) sum_machine = Ret [] d \<and> regs d 2 = of_nat (10 * (10 + 1) div 2) \<and>
      regs d 1 = 0 \<and> pc d = pc sum_machine + 12"
    by (intro run_sums) simp_all
  then show ?thesis
    by auto
qed

end
