(* ===== verification/Trap_Return.thy ===== *)
theory Trap_Return
  imports Isa
begin

text \<open>
  Trap entry together with the return instructions SRET and MRET, environment calls as whole steps,
  and where an interrupt resumes.
\<close>

section \<open>SRET and MRET\<close>

text \<open>The interrupt-enable stack on return: the previous-enable bit moves back and is set.\<close>

definition pop_ie :: "nat \<Rightarrow> nat \<Rightarrow> u64 \<Rightarrow> u64" where
  "pop_ie ie pie v = set_bit pie (if bit v pie then set_bit ie v else unset_bit ie v)"

definition mpp :: "u64 \<Rightarrow> u64" where
  "mpp v = drop_bit 11 v AND 3"

lemma set_csr_twice: "set_csr i v (set_csr i w c) = set_csr i v c"
  by (simp add: set_csr_def set_paging_def)

lemma execute_SRET:
  "execute i_SRET w c =
     Ret () (set_csr 0x100 (unset_bit 8 (pop_ie 1 5 (csrs c 0x100)))
       (c\<lparr>pc := csrs c 0x141, priv_mode := (if bit (csrs c 0x100) 8 then SUPERVISOR else USER)\<rparr>))"
  unfolding i_SRET_def instruction.select_convs Let_def SetPc_def SetMode_def GetCsr_def csr_index csr_small
    obind.simps csr_and_1 clear_bit put_bit not_not
  by (simp add: set_csr_twice pop_ie_def)

lemma execute_MRET:
  "execute i_MRET w c =
     Ret () (set_csr 0x300 (pop_ie 3 7 (csrs c 0x300) AND NOT (push_bit 11 3))
       (c\<lparr>pc := csrs c 0x341, priv_mode := (if mpp (csrs c 0x300) = 2 then MACHINE
            else if mpp (csrs c 0x300) = 1 then SUPERVISOR else USER)\<rparr>))"
  unfolding i_MRET_def instruction.select_convs Let_def SetPc_def SetMode_def GetCsr_def csr_index csr_small
    obind.simps csr_and_1 clear_bit put_bit not_not mpp_def
  by (simp add: set_csr_twice pop_ie_def)

lemma bit_pop_ie:
  "bit (pop_ie ie pie v) n \<longleftrightarrow> (if n = pie then n < 64 else if n = ie then n < 64 \<and> bit v pie else bit v n)"
  using bit_imp_le_length [of v n] bit_imp_le_length [of v pie]
  by (auto simp: pop_ie_def bit_set_bit_iff bit_unset_bit_iff possible_bit_def)

lemma bit_push_ie:
  "bit (push_ie ie pie v) n \<longleftrightarrow> n \<noteq> ie \<and> (if n = pie then n < 64 \<and> bit v ie else bit v n)"
  using bit_imp_le_length [of v n] bit_imp_le_length [of v pie]
  by (auto simp: push_ie_def bit_set_bit_iff bit_unset_bit_iff possible_bit_def)

text \<open>
  C5. SRET undoes a trap taken to supervisor mode: it resumes at the trapping instruction (its address
  with bit 0 cleared), in the mode that trapped, with the same interrupt enable; registers, memory and all other
  CSRs are as before the trap, except sepc, scause and stval, which record it, and SPIE and SPP of sstatus.
\<close>

theorem sret_undoes_trap:
  assumes "delegated t c"
  shows "\<exists>d. execute i_SRET w (HandleTrap t c) = Ret () d \<and>
    pc d = (pc c - 4) AND NOT 1 \<and> priv_mode d = priv_mode c \<and> regs d = regs c \<and> mmu d = mmu c \<and>
    csrs d = (csrs c)(0x141 := (pc c - 4) AND NOT 1, 0x142 := trap_code t, 0x143 := 0,
      0x100 := unset_bit 8 (set_bit 5 (csrs c 0x100)))"
proof -
  have mode: "priv_mode c = USER \<or> priv_mode c = SUPERVISOR"
    using assms by (cases "priv_mode c") (auto simp: delegated_def)
  have "unset_bit 8 (pop_ie 1 5 (unset_bit 8 (push_ie 1 5 v))) = unset_bit 8 (set_bit 5 v)"
    "unset_bit 8 (pop_ie 1 5 (set_bit 8 (push_ie 1 5 v))) = unset_bit 8 (set_bit 5 v)" for v
    by (rule bit_word_eqI;
        auto simp: bit_pop_ie bit_push_ie bit_set_bit_iff bit_unset_bit_iff possible_bit_def)+
  with mode show ?thesis
    by (auto simp: execute_SRET HandleTrap_delegated [OF assms] bit_set_bit_iff bit_unset_bit_iff
        possible_bit_def fun_eq_iff)
qed

lemma sret_undoes_trap_witness:
  "\<exists>d. execute i_SRET 0x10200073
      (HandleTrap EnvironmentCallFromUMode
        (cpu_new (mmu_new (\<lambda>_. 0)) 0x80000004\<lparr>priv_mode := USER, csrs := (\<lambda>_. 0)(0x302 := 0x100)\<rparr>)) = Ret () d \<and>
    pc d = 0x80000000 \<and> priv_mode d = USER"
proof -
  have "delegated EnvironmentCallFromUMode
      (cpu_new (mmu_new (\<lambda>_. 0)) 0x80000004\<lparr>priv_mode := USER, csrs := (\<lambda>_. 0)(0x302 := 0x100)\<rparr>)"
    by (simp add: delegated_def cause_number_def interrupt_bit_def)
  from sret_undoes_trap [OF this, of "0x10200073"] show ?thesis
    by (auto simp: cpu_new_def)
qed

lemma bit_mpp_field: "bit (push_bit 11 3 :: u64) n \<longleftrightarrow> n = 11 \<or> n = 12"
  and bit_mpp: "bit (mpp v) n \<longleftrightarrow> n < 2 \<and> bit v (n + 11)"
proof -
  have three: "(3 :: u64) = mask 2"
    by (simp add: mask_eq_exp_minus_1)
  show "bit (push_bit 11 3 :: u64) n \<longleftrightarrow> n = 11 \<or> n = 12"
    unfolding three bit_push_bit_iff bit_mask_iff possible_bit_def by auto
  show "bit (mpp v) n \<longleftrightarrow> n < 2 \<and> bit v (n + 11)"
    unfolding mpp_def three by (auto simp: bit_and_iff bit_mask_iff bit_drop_bit_eq possible_bit_def add.commute)
qed

text \<open>
  C33. MRET after a trap taken to machine mode resumes at the trapping instruction with the same
  interrupt enable, but always in user mode, whatever mode trapped: trap entry clears MPP instead of
  recording the mode.
\<close>

theorem mret_after_trap:
  assumes "\<not> delegated t c"
  shows "\<exists>d. execute i_MRET w (HandleTrap t c) = Ret () d \<and>
    pc d = (pc c - 4) AND NOT 1 \<and> priv_mode d = USER \<and> regs d = regs c \<and> mmu d = mmu c \<and>
    csrs d = (csrs c)(0x341 := (pc c - 4) AND NOT 1, 0x342 := trap_code t, 0x343 := 0,
      0x300 := set_bit 7 (csrs c 0x300) AND NOT (push_bit 11 3))"
proof -
  have "pop_ie 3 7 (push_ie 3 7 v AND NOT (push_bit 11 3)) AND NOT (push_bit 11 3) =
      set_bit 7 v AND NOT (push_bit 11 3)" for v
    by (rule bit_word_eqI)
      (unfold bit_not_mask bit_pop_ie bit_push_ie bit_set_bit_iff bit_mpp_field possible_bit_def, simp)
  moreover have "mpp (pop_ie 3 7 v) = mpp v" "mpp (v AND NOT (push_bit 11 3)) = 0" for v
    by (rule bit_word_eqI; unfold bit_mpp bit_pop_ie bit_not_mask bit_mpp_field; auto)+
  ultimately show ?thesis
    by (auto simp: execute_MRET HandleTrap_machine [OF assms] fun_eq_iff)
qed

text \<open>The mode the architecture encodes in MPP; 2 is reserved.\<close>

definition mpp_mode :: "u64 \<Rightarrow> PrivilegeMode option" where
  "mpp_mode v = (if mpp v = 0 then Some USER else if mpp v = 1 then Some SUPERVISOR
     else if mpp v = 3 then Some MACHINE else None)"

text \<open>
  The mode MRET returns to is the one MPP encodes only for user and supervisor mode: the encoding of
  machine mode is 3, which the entry takes for user mode (it tests for the reserved 2).
\<close>

theorem mret_mode_iff:
  "(\<exists>d. execute i_MRET w c = Ret () d \<and> mpp_mode (csrs c 0x300) = Some (priv_mode d)) \<longleftrightarrow>
     mpp (csrs c 0x300) = 0 \<or> mpp (csrs c 0x300) = 1"
  by (auto simp: execute_MRET mpp_mode_def)

section \<open>Traps of instructions and interrupts\<close>

primrec ecall_trap :: "PrivilegeMode \<Rightarrow> trap_value" where
  "ecall_trap USER = EnvironmentCallFromUMode"
| "ecall_trap SUPERVISOR = EnvironmentCallFromSMode"
| "ecall_trap MACHINE = EnvironmentCallFromMMode"

lemma execute_ECALL: "execute i_ECALL w c = Throw (ecall_trap (priv_mode c)) c"
  by (cases "priv_mode c") (simp_all add: i_ECALL_def GetMode_def)

text \<open>Where a trap leaves the exception pc and the cause.\<close>

definition epc_of :: "cpu \<Rightarrow> u64" where
  "epc_of c = (if priv_mode c = SUPERVISOR then csrs c 0x141 else csrs c 0x341)"

definition cause_of :: "cpu \<Rightarrow> u64" where
  "cause_of c = (if priv_mode c = SUPERVISOR then csrs c 0x142 else csrs c 0x342)"

lemma trap_records:
  "epc_of (HandleTrap t c) = (pc c - 4) AND NOT 1" "cause_of (HandleTrap t c) = trap_code t"
  by (cases "delegated t c"; simp add: HandleTrap_delegated HandleTrap_machine epc_of_def cause_of_def)+

text \<open>
  C32. An environment call. With paging off, a step on ECALL enters the trap for the calling mode, with the
  address of the ECALL (bit 0 cleared) as exception pc and the number of the trap as cause, at the
  vector of the mode that \<open>delegated\<close> selects; then interrupts are served.
\<close>

theorem ecall_step:
  assumes "paging_mode (mmu c) = Bare" and "instr_at 0x73 c"
  shows "\<exists>d. Step c = HandleInterrupts d \<and> epc_of d = pc c AND NOT 1 \<and>
    cause_of d = trap_code (ecall_trap (priv_mode c)) \<and>
    (if delegated (ecall_trap (priv_mode c)) c
     then priv_mode d = SUPERVISOR \<and> pc d = csrs c 0x105 AND NOT 1
     else priv_mode d = MACHINE \<and> pc d = csrs c 0x305 AND NOT 1)"
proof (intro exI conjI)
  let ?t = "ecall_trap (priv_mode c)"
  let ?d = "HandleTrap ?t (ready c)"
  have "i_ECALL \<in> set instructions" "matches 0x73 i_ECALL" "(0x73 :: u32) \<noteq> 0xf"
    by (simp_all add: table_eval matches_def i_ECALL_def)
  from Step_ram [OF assms this] show "Step c = HandleInterrupts ?d"
    by (simp add: execute_ECALL)
  show "epc_of ?d = pc c AND NOT 1" "cause_of ?d = trap_code ?t"
    by (simp_all add: trap_records)
  have "\<not> is_interrupt ?t"
    by (cases "priv_mode c") (simp_all add: is_interrupt_def interrupt_bit_def)
  moreover have "delegated ?t (ready c) = delegated ?t c"
    by (simp add: delegated_def)
  ultimately show "if delegated ?t c then priv_mode ?d = SUPERVISOR \<and> pc ?d = csrs c 0x105 AND NOT 1
     else priv_mode ?d = MACHINE \<and> pc ?d = csrs c 0x305 AND NOT 1"
    by (simp add: HandleTrap_delegated HandleTrap_machine vector_target_def)
qed

lemma ecall_step_witness:
  "\<exists>d. Step (cpu_new (mmu_new (\<lambda>i. if i = 0 then 0x73 else 0)) KERNBASE) = HandleInterrupts d \<and>
     epc_of d = KERNBASE \<and> cause_of d = 0xB"
proof -
  let ?c = "cpu_new (mmu_new (\<lambda>i. if i = 0 then 0x73 else 0)) KERNBASE"
  have "paging_mode (mmu ?c) = Bare" "instr_at 0x73 ?c"
    by (simp_all add: instr_at_def in_ram_def cpu_new_def mmu_new_def bytes_eval valid_addr_def config_defs
        access_size_def)
  from ecall_step [OF this] show ?thesis
    by (auto simp: cpu_new_def KERNBASE_def)
qed

text \<open>
  C34. Where an interrupt resumes. Interrupts are served after an instruction, when the pc is at the next
  one; the exception pc is four bytes before that, so it never is the next instruction: without a jump,
  the interrupted instruction is executed a second time on return.
\<close>

theorem interrupt_epc:
  assumes "interrupts_enabled c" and "pending_interrupts c \<noteq> {}"
  shows "\<exists>d. HandleInterrupts c = Ret () d \<and> epc_of d = (pc c - 4) AND NOT 1 \<and> epc_of d \<noteq> pc c"
proof -
  have "(v - 4) AND NOT 1 \<noteq> v" for v :: u64
  proof
    assume "(v - 4) AND NOT 1 = v"
    then have "2 * ((v - 4) div 2) = v"
      using clear_bit [of "v - 4" 0] by (simp add: unset_bit_0)
    then have "v - 4 = v + (v - 4) mod 2"
      by (metis mult_div_mod_eq)
    then have "4 + (v - 4) mod 2 = 0"
      by (simp add: algebra_simps)
    then show False
      by (cases "even (v - 4)") (simp_all add: even_iff_mod_2_eq_zero odd_iff_mod_2_eq_one)
  qed
  with assms show ?thesis
    by (auto simp: HandleInterrupts_eq take_interrupt_def trap_records)
qed

lemma interrupt_epc_witness:
  "\<exists>d. HandleInterrupts (cpu_new (mmu_new (\<lambda>_. 0)) 0x80000008\<lparr>csrs := (\<lambda>_. 0)(0x300 := 8, 0x304 := 0x80, 0x344 := 0x80)\<rparr>) = Ret () d \<and>
     epc_of d = 0x80000004"
proof -
  let ?c = "cpu_new (mmu_new (\<lambda>_. 0)) 0x80000008\<lparr>csrs := (\<lambda>_. 0)(0x300 := 8, 0x304 := 0x80, 0x344 := 0x80)\<rparr>"
  have "interrupts_enabled ?c" "mtip \<in> pending_interrupts ?c"
    by (simp_all add: interrupts_enabled_def pending_interrupts_def cpu_new_def)
  then have "interrupts_enabled ?c" "pending_interrupts ?c \<noteq> {}"
    by auto
  from interrupt_epc [OF this] show ?thesis
    by (auto simp: cpu_new_def)
qed

lemma mret_after_trap_witness:
  "\<exists>d. execute i_MRET 0x30200073 (HandleTrap LoadAccessFault (cpu_new (mmu_new (\<lambda>_. 0)) 0x80000008)) = Ret () d \<and>
     pc d = 0x80000004 \<and> priv_mode d = USER"
proof -
  have "\<not> delegated LoadAccessFault (cpu_new (mmu_new (\<lambda>_. 0)) 0x80000008)"
    by (simp add: delegated_def cpu_new_def)
  from mret_after_trap [OF this, of "0x30200073"] show ?thesis
    by (auto simp: cpu_new_def)
qed

end
