(* ===== verification/Console.thy ===== *)
theory Console
  imports Prelude
begin

text \<open>
  What the program uses of \<open>std::ostream\<close>: strings, unsigned numbers in the base the stream is in, and
  the manipulators \<open>std::hex\<close> and \<open>std::dec\<close>, which stay in effect. Numbers have no prefix and lower-case digits.
\<close>

section \<open>Numbers\<close>

definition digit :: "nat \<Rightarrow> char" where
  "digit n = ''0123456789abcdef'' ! n"

fun digits :: "nat \<Rightarrow> nat \<Rightarrow> string" where
  "digits base n = (if base \<le> 1 \<or> n < base then [digit n] else digits base (n div base) @ [digit (n mod base)])"

declare digits.simps [simp del]

definition dec_of_int :: "int \<Rightarrow> string" where
  "dec_of_int i = (if i < 0 then CHR ''-'' # digits 10 (nat (- i)) else digits 10 (nat i))"

definition hex_of_word :: "'a::len word \<Rightarrow> string" where
  "hex_of_word w = digits 16 (unat w)"

section \<open>Reading them back\<close>

definition digit_value :: "char \<Rightarrow> nat" where
  "digit_value c = (if of_char c < (58 :: nat) then of_char c - 48 else of_char c - 87)"

definition number_value :: "nat \<Rightarrow> string \<Rightarrow> nat" where
  "number_value base = foldl (\<lambda>n c. n * base + digit_value c) 0"

lemma digit_value_digit: "n < 16 \<Longrightarrow> digit_value (digit n) = n"
proof -
  have "list_all (\<lambda>n. digit_value (digit n) = n) [0..<16]"
    by (simp add: digit_def digit_value_def upt_rec)
  then show "n < 16 \<Longrightarrow> digit_value (digit n) = n"
    by (simp add: list_all_iff)
qed

lemma number_value_digits: "1 < base \<Longrightarrow> base \<le> 16 \<Longrightarrow> number_value base (digits base n) = n"
proof (induction base n rule: digits.induct)
  case (1 base n)
  show ?case
  proof (cases "n < base")
    case True
    with 1 show ?thesis
      by (simp add: digits.simps [of base n] number_value_def digit_value_digit)
  next
    case False
    have "n mod base < 16"
      using 1(2,3) mod_less_divisor [of base n] by linarith
    then have "number_value base (digits base n) = number_value base (digits base (n div base)) * base + n mod base"
      using False 1(2,3) by (simp add: digits.simps [of base n] number_value_def digit_value_digit)
    also have "number_value base (digits base (n div base)) = n div base"
      using False 1 by simp
    finally show ?thesis
      by simp
  qed
qed

lemma hex_of_word_value: "number_value 16 (hex_of_word w) = unat w"
  by (simp add: hex_of_word_def number_value_digits)

lemma hex_of_word_inject: "hex_of_word v = hex_of_word w \<longleftrightarrow> v = w"
  by (metis hex_of_word_value word_unat_eq_iff)

lemma digits_no_newline: "1 < base \<Longrightarrow> base \<le> 16 \<Longrightarrow> CHR 0x0A \<notin> set (digits base n)"
proof (induction base n rule: digits.induct)
  case (1 base n)
  have "list_all (\<lambda>n. CHR 0x0A \<noteq> digit n) [0..<16]"
    by (simp add: digit_def upt_rec)
  then have digit: "CHR 0x0A \<noteq> digit n" if "n < 16" for n
    using that by (simp add: list_all_iff)
  have "n mod base < 16"
    using 1(2,3) mod_less_divisor [of base n] by linarith
  with 1 digit [of n] digit [of "n mod base"] show ?case
    by (auto simp: digits.simps [of base n])
qed

section \<open>Streams\<close>

record ostream =
  chars :: string
  hexmode :: bool

definition put :: "string \<Rightarrow> ostream \<Rightarrow> ostream" where
  "put s os = os\<lparr>chars := chars os @ s\<rparr>"

definition put_nat :: "nat \<Rightarrow> ostream \<Rightarrow> ostream" where
  "put_nat n os = put (digits (if hexmode os then 16 else 10) n) os"

definition put_word :: "'a::len word \<Rightarrow> ostream \<Rightarrow> ostream" where
  "put_word w = put_nat (unat w)"

definition hex :: "ostream \<Rightarrow> ostream" where
  "hex os = os\<lparr>hexmode := True\<rparr>"

definition endl :: "ostream \<Rightarrow> ostream" where
  "endl = put [CHR 0x0A]"

text \<open>\<open>os << a << b << ...\<close>\<close>

definition stream :: "(ostream \<Rightarrow> ostream) list \<Rightarrow> ostream \<Rightarrow> ostream" where
  "stream = fold id"

lemma stream_simps [simp]:
  "stream [] os = os" "stream (f # fs) os = stream fs (f os)" "stream (fs @ gs) os = stream gs (stream fs os)"
  by (simp_all add: stream_def)

lemma ostream_simps [simp]:
  "chars (put s os) = chars os @ s" "hexmode (put s os) = hexmode os"
  "chars (hex os) = chars os" "hexmode (hex os) = True"
  "chars (endl os) = chars os @ [CHR 0x0A]" "hexmode (endl os) = hexmode os"
  "hexmode (put_word w os) = hexmode os" "hexmode (put_nat n os) = hexmode os"
  "chars (put_nat n os) = chars os @ digits (if hexmode os then 16 else 10) n"
  by (simp_all add: put_def hex_def endl_def put_word_def put_nat_def)

lemma chars_put_word [simp]: "hexmode os \<Longrightarrow> chars (put_word w os) = chars os @ hex_of_word w"
  by (simp add: put_word_def hex_of_word_def)

end
