(* ===== verification/Debug.thy ===== *)
theory Debug
  imports Step Console
begin

text \<open>
  The debug functions of \<open>source/cpu.cpp\<close>: the dumps of the state, an entry and the fields of an instruction, and
  the test entry point \<open>RunInstruction\<close>, with what they write to standard output. \<open>RegisterNames\<close> is a
  \<open>std::map\<close>; its \<open>at\<close> throws \<open>std::out_of_range\<close> for a key that is not there. A CPU and the stream are one state.
\<close>

section \<open>The dumps\<close>

datatype out_of_range = OutOfRange

definition RegisterNames :: "(nat \<times> string) list" where
  "RegisterNames =
     [(0, ''zero''), (1, ''ra''), (2, ''sp''), (3, ''gp''), (4, ''tp''), (5, ''t0''), (6, ''t1''), (7, ''t2''),
      (8, ''s0''), (9, ''s1''), (10, ''a0''), (11, ''a1''), (12, ''a2''), (13, ''a3''), (14, ''a4''), (15, ''a5''),
      (16, ''a6''), (17, ''a7''), (18, ''s2''), (19, ''s3''), (20, ''s4''), (21, ''s5''), (22, ''s6''), (23, ''s7''),
      (24, ''s8''), (25, ''s9''), (26, ''s10''), (27, ''s11''), (28, ''t3''), (29, ''t4''), (30, ''t5''), (31, ''t6'')]"

primrec dump_regs :: "nat list \<Rightarrow> cpu \<Rightarrow> ostream \<Rightarrow> (unit, ostream, out_of_range) outcome" where
  "dump_regs [] cpu os = Ret () os"
| "dump_regs (i # is) cpu os =
     (case map_of RegisterNames i of
        None \<Rightarrow> Throw OutOfRange os
      | Some reg_name \<Rightarrow>
          dump_regs is cpu (stream [put reg_name, put '': '', hex, put_word (regs cpu i), endl] os))"

definition DumpRegs :: "cpu \<Rightarrow> ostream \<Rightarrow> (unit, ostream, out_of_range) outcome" where
  "DumpRegs cpu os = dump_regs [0..<nat N_REG] cpu (stream [put ''--- REGISTERS ---'', endl] os)"

definition dump_csr :: "cpu \<Rightarrow> nat \<Rightarrow> ostream \<Rightarrow> ostream" where
  "dump_csr cpu i = stream [put ''csr'', put_nat i, put '': '', hex, put_word (csrs cpu i), endl]"

definition DumpCsrs :: "cpu \<Rightarrow> ostream \<Rightarrow> ostream" where
  "DumpCsrs cpu = fold (dump_csr cpu) [0..<nat N_CSR]"

definition DumpInstruction :: "instruction \<Rightarrow> cpu \<Rightarrow> ostream \<Rightarrow> ostream" where
  "DumpInstruction inst cpu = stream
     [put ''--- INSTRUCTION ---'', endl,
      put ''name: '', put (name inst), endl,
      put ''format: '', put [format inst], endl,
      put ''mask_field: '', hex, put_word (mask_field inst), endl,
      put ''instruction_matcher: '', hex, put_word (instruction_matcher inst), endl,
      put ''pc: '', hex, put_word (pc cpu), endl]"

definition DumpInstructionFields :: "InstructionFields \<Rightarrow> ostream \<Rightarrow> ostream" where
  "DumpInstructionFields inst = stream
     [put ''--- INSTRUCTION FIELDS ---'', endl,
      put ''opcode: '', hex, put_word (opcode inst), endl,
      put ''rd: '', hex, put_word (rd inst), endl,
      put ''funct3: '', hex, put_word (funct3 inst), endl,
      put ''rs1: '', hex, put_word (rs1 inst), endl,
      put ''rs2: '', hex, put_word (rs2 inst), endl,
      put ''funct7: '', hex, put_word (funct7 inst), endl,
      put ''imm: '', hex, put_word (imm inst), endl]"

text \<open>The test entry point. The commented-out dump of the fields is not part of it.\<close>

definition RunInstruction ::
    "u32 \<Rightarrow> cpu \<times> ostream \<Rightarrow> (int, cpu \<times> ostream, trap_value + out_of_range) outcome" where
  "RunInstruction instruction s =
     (case s of (cpu, os) \<Rightarrow>
      obind (relabel (\<lambda>cpu. (cpu, os)) Inl (Decode instruction cpu)) (\<lambda>inst (cpu, os).
      let os = DumpInstruction inst cpu os
      in obind (relabel (\<lambda>cpu. (cpu, os)) Inl (execute inst instruction cpu)) (\<lambda>_ (cpu, os).
         obind (relabel (\<lambda>os. (cpu, os)) Inr (DumpRegs cpu os)) (\<lambda>_ (cpu, os).
         Ret 0 (cpu\<lparr>pc := pc cpu + 4\<rparr>, os)))))"

section \<open>What they print\<close>

abbreviation newline :: char where
  "newline \<equiv> CHR 0x0A"

definition reg_line :: "cpu \<Rightarrow> nat \<Rightarrow> string" where
  "reg_line cpu i = the (map_of RegisterNames i) @ '': '' @ hex_of_word (regs cpu i)"

lemma register_names:
  assumes "i < 32"
  shows "\<exists>n. map_of RegisterNames i = Some n \<and> newline \<notin> set n \<and> CHR '':'' \<notin> set n"
proof -
  have "list_all (\<lambda>i. case map_of RegisterNames i of None \<Rightarrow> False
      | Some n \<Rightarrow> newline \<notin> set n \<and> CHR '':'' \<notin> set n) [0..<32]"
    by (simp add: RegisterNames_def upt_rec)
  with assms have "case map_of RegisterNames i of None \<Rightarrow> False
      | Some n \<Rightarrow> newline \<notin> set n \<and> CHR '':'' \<notin> set n"
    by (auto simp only: list_all_iff set_upt atLeastLessThan_iff)
  then show ?thesis
    by (cases "map_of RegisterNames i") auto
qed

lemma dump_regs_lines:
  "list_all (\<lambda>i. i < 32) is \<Longrightarrow>
   \<exists>os'. dump_regs is cpu os = Ret () os' \<and> chars os' = chars os @ concat (map (\<lambda>i. reg_line cpu i @ [newline]) is)"
proof (induction "is" arbitrary: os)
  case (Cons i "is")
  from Cons.prems obtain n where n: "map_of RegisterNames i = Some n"
    using register_names [of i] by auto
  obtain os1 where os1: "os1 = stream [put n, put '': '', hex, put_word (regs cpu i), endl] os"
    by blast
  have "chars os1 = chars os @ reg_line cpu i @ [newline]"
    by (simp add: os1 reg_line_def n)
  with Cons.IH [of os1] Cons.prems show ?case
    by (auto simp: n os1 [symmetric] simp del: stream_simps)
qed simp

lemma line_no_newline: "i < 32 \<Longrightarrow> newline \<notin> set (reg_line cpu i)"
  using register_names [of i] by (auto simp: reg_line_def hex_of_word_def digits_no_newline)

lemma first_occurrence:
  "z \<notin> set xs \<Longrightarrow> z \<notin> set ys \<Longrightarrow> xs @ z # xs' = ys @ z # ys' \<longleftrightarrow> xs = ys \<and> xs' = ys'"
proof (induction xs arbitrary: ys)
  case Nil
  then show ?case
    by (cases ys) auto
next
  case (Cons x xs)
  then show ?case
    by (cases ys) auto
qed

lemma lines_inject:
  assumes "\<And>i. i \<in> set is \<Longrightarrow> newline \<notin> set (f i) \<and> newline \<notin> set (g i)"
  shows "concat (map (\<lambda>i. f i @ [newline]) is) = concat (map (\<lambda>i. g i @ [newline]) is) \<longleftrightarrow> map f is = map g is"
  using assms
proof (induction "is")
  case (Cons i "is")
  then have "newline \<notin> set (f i)" "newline \<notin> set (g i)"
    by simp_all
  note head = first_occurrence [OF this]
  show ?case
    using Cons by (simp add: head)
qed simp

lemma reg_line_inject: "reg_line c i = reg_line d i \<longleftrightarrow> regs c i = regs d i"
  by (simp add: reg_line_def hex_of_word_inject)

lemma DumpRegs_lines:
  "\<exists>os'. DumpRegs c os = Ret () os' \<and>
     chars os' = chars os @ ''--- REGISTERS ---'' @ [newline] @ concat (map (\<lambda>i. reg_line c i @ [newline]) [0..<32])"
  using dump_regs_lines [of "[0..<32]" c "stream [put ''--- REGISTERS ---'', endl] os"]
  by (simp add: DumpRegs_def N_REG_def list_all_iff del: upt_rec_numeral)

section \<open>The test entry point\<close>

lemma DumpRegs_returns: obtains os' where "DumpRegs c os = Ret () os'"
  using DumpRegs_lines by blast

lemma RunInstruction_matches:
  assumes "i \<in> set instructions" "matches w i" "w \<noteq> 0xf"
  shows "RunInstruction w (c, os) =
    obind (relabel (\<lambda>d. (d, DumpInstruction i c os)) Inl (execute i w c)) (\<lambda>_ (d, os).
      obind (relabel (\<lambda>os. (d, os)) Inr (DumpRegs d os)) (\<lambda>_ (d, os). Ret 0 (d\<lparr>pc := pc d + 4\<rparr>, os)))"
  by (simp add: RunInstruction_def Decode_matches [OF assms] Let_def)

text \<open>An invariant of the CPU carries over to the pair.\<close>

lemma cpu_ok_RunInstruction:
  assumes "cpu_ok (fst s)"
  shows "out_all (\<lambda>s. cpu_ok (fst s)) (RunInstruction w s)"
proof -
  obtain c os where s: "s = (c, os)"
    by (cases s)
  have relabelled: "out_all P (relabel f g m) = out_all (\<lambda>s. P (f s)) m" for P :: "cpu \<times> ostream \<Rightarrow> bool" and f :: "'x \<Rightarrow> cpu \<times> ostream"
      and g :: "'e \<Rightarrow> trap_value + out_of_range" and m :: "('a, 'x, 'e) outcome"
    by (cases m) simp_all
  show ?thesis
  proof (cases rule: Decode_cases [of w c])
    case (found i)
    then have "out_all cpu_ok (execute i w c)"
      using assms by (intro cpu_ok_execute) (simp_all add: s)
    then show ?thesis
      using found(3) by (cases "execute i w c")
        (auto simp: s RunInstruction_def Let_def cpu_ok_pc relabelled intro!: out_all_obind)
  next
    case illegal
    with assms show ?thesis
      by (simp add: s RunInstruction_def)
  qed
qed

interpretation cpu_tests: step_invariant "RunInstruction w" "\<lambda>s. cpu_ok (fst s)"
  by unfold_locales (rule cpu_ok_RunInstruction)

section \<open>Properties\<close>

text \<open>
  C38. The register dump. It never throws, it writes a title and one line per register with its ABI name
  and its value in hexadecimal, and it shows everything: two CPUs print the same exactly if all 32 registers agree.
\<close>

theorem dump_regs_faithful:
  "(\<exists>os'. DumpRegs c os = Ret () os' \<and> chars os' = chars os @ ''--- REGISTERS ---'' @ [newline] @
      concat (map (\<lambda>i. the (map_of RegisterNames i) @ '': '' @ hex_of_word (regs c i) @ [newline]) [0..<32])) \<and>
   (DumpRegs c os = DumpRegs d os \<longleftrightarrow> map (regs c) [0..<32] = map (regs d) [0..<32])"
proof
  show "\<exists>os'. DumpRegs c os = Ret () os' \<and> chars os' = chars os @ ''--- REGISTERS ---'' @ [newline] @
      concat (map (\<lambda>i. the (map_of RegisterNames i) @ '': '' @ hex_of_word (regs c i) @ [newline]) [0..<32])"
    using DumpRegs_lines [of c os] by (simp only: reg_line_def append_assoc)
  show "DumpRegs c os = DumpRegs d os \<longleftrightarrow> map (regs c) [0..<32] = map (regs d) [0..<32]"
  proof
    assume same: "DumpRegs c os = DumpRegs d os"
    obtain os' where "DumpRegs c os = Ret () os'"
        and "chars os' = chars os @ ''--- REGISTERS ---'' @ [newline] @ concat (map (\<lambda>i. reg_line c i @ [newline]) [0..<32])"
      using DumpRegs_lines by blast
    moreover obtain os'' where "DumpRegs d os = Ret () os''"
        and "chars os'' = chars os @ ''--- REGISTERS ---'' @ [newline] @ concat (map (\<lambda>i. reg_line d i @ [newline]) [0..<32])"
      using DumpRegs_lines by blast
    ultimately have "concat (map (\<lambda>i. reg_line c i @ [newline]) [0..<32]) = concat (map (\<lambda>i. reg_line d i @ [newline]) [0..<32])"
      using same by (simp only: outcome.inject append.assoc same_append_eq simp_thms)
    then have "map (reg_line c) [0..<32] = map (reg_line d) [0..<32]"
      by (subst (asm) lines_inject) (simp_all only: set_upt atLeastLessThan_iff line_no_newline simp_thms not_False_eq_True)
    then show "map (regs c) [0..<32] = map (regs d) [0..<32]"
      by (simp only: map_eq_conv reg_line_inject)
  next
    assume "map (regs c) [0..<32] = map (regs d) [0..<32]"
    then have "regs c i = regs d i" if "i < 32" for i
      using that by (simp only: map_eq_conv set_upt atLeastLessThan_iff) simp
    then have "dump_regs is c os = dump_regs is d os" if "list_all (\<lambda>i. i < 32) is" for os "is"
      using that by (induction "is" arbitrary: os) (simp_all split: option.split)
    then show "DumpRegs c os = DumpRegs d os"
      by (simp add: DumpRegs_def N_REG_def list_all_iff del: upt_rec_numeral)
  qed
qed

text \<open>
  The CSR dump writes the numbers of the CSRs in hexadecimal, without a prefix, in whatever base the
  stream starts: the manipulator of the first value stays in effect (CSR 768 is shown as csr300).
\<close>

theorem dump_csrs_in_hex:
  "chars (DumpCsrs c os) =
     chars os @ concat (map (\<lambda>i. ''csr'' @ digits 16 i @ '': '' @ hex_of_word (csrs c i) @ [newline]) [0..<4096])"
proof -
  have line: "chars (dump_csr c i os) = chars os @ ''csr'' @ digits 16 i @ '': '' @ hex_of_word (csrs c i) @ [newline] \<and>
      hexmode (dump_csr c i os)" if "i = 0 \<or> hexmode os" for i os
    using that by (auto simp: dump_csr_def digits.simps [of _ 0])
  have "chars (fold (dump_csr c) [0..<n] os) =
      chars os @ concat (map (\<lambda>i. ''csr'' @ digits 16 i @ '': '' @ hex_of_word (csrs c i) @ [newline]) [0..<n]) \<and>
      (n = 0 \<or> hexmode (fold (dump_csr c) [0..<n] os))" for n
  proof (induction n)
    case (Suc n)
    with line [of n "fold (dump_csr c) [0..<n] os"] show ?case
      by simp
  qed simp
  from this [of 4096] show ?thesis
    by (simp only: DumpCsrs_def N_CSR_def nat_numeral)
qed

end
