(* ===== verification/Elf.thy ===== *)
theory Elf
  imports Cpu_State Console
begin

text \<open>
  \<open>source/elf_parser.cpp\<close>: reading an ELF file into the image of the RAM. The header \<open><elf.h>\<close> of the C
  library is not part of the program, so what the code uses of it (sizes and offsets of the structures,
  constants) is the parameter \<open>elf_h\<close>, which also holds the texts of the library's exceptions; \<open>elf_h_ok\<close> is
  what a C compiler guarantees, that the fields lie inside their structures. The file system is a parameter
  too, with the outcomes of \<open>file_read\<close>. Structures are read little-endian, as on the hosts the program is built for.
  A copy that leaves a vector's elements is undefined; a copy of no program headers (\<open>e_phnum\<close> zero) copies
  nothing, also if the data of the empty vector is null. \<open>vector::at\<close> throws \<open>std::out_of_range\<close>, whose text
  has the index and the size. The 128 MiB of the image are always there.
\<close>

section \<open>The C library's elf.h\<close>

record elf_h =
  sizeof_Ehdr :: nat
  sizeof_Phdr :: nat
  e_machine_at :: nat
  e_entry_at :: nat
  e_phoff_at :: nat
  e_phnum_at :: nat
  p_type_at :: nat
  p_offset_at :: nat
  p_vaddr_at :: nat
  p_filesz_at :: nat
  p_memsz_at :: nat
  ELFMAG :: "u8 list"
  EI_CLASS :: nat
  ELFCLASS64 :: u8
  EM_RISCV :: u16
  PT_LOAD :: u32
  out_of_range_text :: "nat \<Rightarrow> nat \<Rightarrow> string"
  vector_size_text :: string

definition elf_h_ok :: "elf_h \<Rightarrow> bool" where
  "elf_h_ok h \<longleftrightarrow>
     4 \<le> sizeof_Ehdr h \<and> length (ELFMAG h) = 4 \<and> EI_CLASS h < sizeof_Ehdr h \<and>
     e_machine_at h + 2 \<le> sizeof_Ehdr h \<and> e_entry_at h + 8 \<le> sizeof_Ehdr h \<and>
     e_phoff_at h + 8 \<le> sizeof_Ehdr h \<and> e_phnum_at h + 2 \<le> sizeof_Ehdr h \<and>
     p_type_at h + 4 \<le> sizeof_Phdr h \<and> p_offset_at h + 8 \<le> sizeof_Phdr h \<and>
     p_vaddr_at h + 8 \<le> sizeof_Phdr h \<and> p_filesz_at h + 8 \<le> sizeof_Phdr h \<and>
     p_memsz_at h + 8 \<le> sizeof_Phdr h"

section \<open>Bytes\<close>

text \<open>The little-endian value of some bytes, and the \<open>n\<close>-byte field at an offset.\<close>

primrec le_value :: "u8 list \<Rightarrow> u64" where
  "le_value [] = 0"
| "le_value (b # bs) = ucast b OR push_bit 8 (le_value bs)"

definition field :: "u8 list \<Rightarrow> nat \<Rightarrow> nat \<Rightarrow> u64" where
  "field bytes off n = le_value (take n (drop off bytes))"

text \<open>\<open>memcpy(&dst[at], src, n)\<close> on a vector.\<close>

definition overwrite :: "u8 list \<Rightarrow> nat \<Rightarrow> u8 list \<Rightarrow> u8 list" where
  "overwrite dst at src = take at dst @ src @ drop (at + length src) dst"

section \<open>The loader\<close>

text \<open>
  The exceptions, all of them derived from \<open>std::exception\<close>, and their \<open>what()\<close>; the state is the caller's
  entry point, which starts uninitialised, and the lines on standard error.
\<close>

datatype elf_error =
    Could_not_open_file
  | Not_an_ELF_file
  | Not_a_RISC_V_ELF_file
  | Segment_too_large
  | Out_of_range nat nat  \<comment> \<open>of \<open>vector::at\<close>: index and size\<close>
  | Vector_size           \<comment> \<open>of the constructor of the vector\<close>

primrec elf_what :: "elf_h \<Rightarrow> elf_error \<Rightarrow> string" where
  "elf_what h Could_not_open_file = ''Could not open file''"
| "elf_what h Not_an_ELF_file = ''Not an ELF file''"
| "elf_what h Not_a_RISC_V_ELF_file = ''Not a 64-bit RISC-V ELF file''"
| "elf_what h Segment_too_large = ''Segment too large''"
| "elf_what h (Out_of_range i n) = out_of_range_text h i n"
| "elf_what h Vector_size = vector_size_text h"

record load_state =
  entry_point :: "u64 option"
  err :: "string list"

type_synonym ('a, 's) loading = "('a, 's load_state_scheme, elf_error) outcome"

text \<open>
  What reading a file gives: it does not open; it opens, but its size is unknown or too large (\<open>tellg\<close> gives -1, as for a
  directory or a pipe, or a size for which there is no memory), so that the constructor of the
  vector throws; or the vector of its size, with zeros where \<open>read\<close> came short, which the code does not check.
\<close>

datatype file_read =
    Not_open
  | Bad_size
  | Read "u8 list"

definition ReadIntoVector :: "(string \<Rightarrow> file_read) \<Rightarrow> string \<Rightarrow> 's load_state_scheme \<Rightarrow> (u8 list, 's) loading" where
  "ReadIntoVector files file s =
     (case files file of
        Not_open \<Rightarrow> Throw Could_not_open_file s
      | Bad_size \<Rightarrow> Throw Vector_size s
      | Read binary \<Rightarrow> Ret binary s)"

text \<open>The fields of the headers that are used.\<close>

record Elf64_Ehdr =
  e_entry :: u64
  e_phoff :: u64
  e_phnum :: u16

record Elf64_Phdr =
  p_type :: u32
  p_offset :: u64
  p_vaddr :: u64
  p_filesz :: u64
  p_memsz :: u64

definition GetHeader :: "elf_h \<Rightarrow> u8 list \<Rightarrow> 's load_state_scheme \<Rightarrow> (Elf64_Ehdr, 's) loading" where
  "GetHeader h binary s =
     (if length binary < sizeof_Ehdr h \<or> binary ! 0 \<noteq> ELFMAG h ! 0 \<or> binary ! 1 \<noteq> ELFMAG h ! 1
         \<or> binary ! 2 \<noteq> ELFMAG h ! 2 \<or> binary ! 3 \<noteq> ELFMAG h ! 3
      then Throw Not_an_ELF_file s
      else if binary ! EI_CLASS h \<noteq> ELFCLASS64 h \<or> ucast (field binary (e_machine_at h) 2) \<noteq> EM_RISCV h
      then Throw Not_a_RISC_V_ELF_file s
      else Ret \<lparr>e_entry = field binary (e_entry_at h) 8, e_phoff = field binary (e_phoff_at h) 8,
                e_phnum = ucast (field binary (e_phnum_at h) 2)\<rparr> s)"

definition phdr_at :: "elf_h \<Rightarrow> u8 list \<Rightarrow> nat \<Rightarrow> Elf64_Phdr" where
  "phdr_at h binary off =
     \<lparr>p_type = ucast (field binary (off + p_type_at h) 4),
      p_offset = field binary (off + p_offset_at h) 8,
      p_vaddr = field binary (off + p_vaddr_at h) 8,
      p_filesz = field binary (off + p_filesz_at h) 8,
      p_memsz = field binary (off + p_memsz_at h) 8\<rparr>"

text \<open>The program headers: \<open>binary.at(e_phoff)\<close>, then the copy of all of them.\<close>

definition read_phdrs :: "elf_h \<Rightarrow> u8 list \<Rightarrow> Elf64_Ehdr \<Rightarrow> 's load_state_scheme \<Rightarrow> (Elf64_Phdr list, 's) loading" where
  "read_phdrs h binary header s =
     (let off = unat (e_phoff header); n = unat (e_phnum header)
      in if length binary \<le> off then Throw (Out_of_range off (length binary)) s
         else if length binary < off + n * sizeof_Phdr h then Undef Out_Of_Bounds
         else Ret (map (\<lambda>i. phdr_at h binary (off + i * sizeof_Phdr h)) [0..<n]) s)"

text \<open>
  One round of the loop, for a segment of type \<open>PT_LOAD\<close>. The sum of offset and size wraps. If both \<open>at\<close>
  throw, C++ leaves open which one does first; here it is the one on the image.
\<close>

definition load_segment :: "u8 list \<Rightarrow> Elf64_Phdr \<Rightarrow> u8 list \<Rightarrow> 's load_state_scheme \<Rightarrow> (u8 list, 's) loading" where
  "load_segment binary segment mem s =
     (let segment_offset = p_vaddr segment - KERNBASE
      in if segment_offset + p_memsz segment > of_nat (length mem) then Throw Segment_too_large s
         else if length mem \<le> unat segment_offset
         then Throw (Out_of_range (unat segment_offset) (length mem)) s
         else if length binary \<le> unat (p_offset segment)
         then Throw (Out_of_range (unat (p_offset segment)) (length binary)) s
         else if length mem < unat segment_offset + unat (p_filesz segment) \<or>
                 length binary < unat (p_offset segment) + unat (p_filesz segment)
         then Undef Out_Of_Bounds
         else Ret (overwrite mem (unat segment_offset)
                (take (unat (p_filesz segment)) (drop (unat (p_offset segment)) binary))) s)"

fun load_segments :: "elf_h \<Rightarrow> u8 list \<Rightarrow> Elf64_Phdr list \<Rightarrow> u8 list \<Rightarrow> 's load_state_scheme \<Rightarrow> (u8 list, 's) loading" where
  "load_segments h binary [] mem s = Ret mem s"
| "load_segments h binary (segment # segments) mem s =
     (if p_type segment = PT_LOAD h
      then obind (load_segment binary segment mem s) (load_segments h binary segments)
      else load_segments h binary segments mem s)"

definition LoadSegments :: "elf_h \<Rightarrow> u8 list \<Rightarrow> Elf64_Ehdr \<Rightarrow> 's load_state_scheme \<Rightarrow> (u8 list, 's) loading" where
  "LoadSegments h binary header s =
     obind (read_phdrs h binary header s) (\<lambda>phdrs.
     load_segments h binary phdrs (replicate (unat MEMORY_SIZE) 0))"

text \<open>The caller's \<open>entry_point\<close> is assigned between the calls.\<close>

definition LoadELF64_body :: "elf_h \<Rightarrow> (string \<Rightarrow> file_read) \<Rightarrow> string \<Rightarrow> 's load_state_scheme \<Rightarrow> (u8 list, 's) loading" where
  "LoadELF64_body h files file s =
     obind (ReadIntoVector files file s) (\<lambda>binary s.
     obind (GetHeader h binary s) (\<lambda>header s.
     LoadSegments h binary header (s\<lparr>entry_point := Some (e_entry header)\<rparr>)))"

definition LoadELF64 :: "elf_h \<Rightarrow> (string \<Rightarrow> file_read) \<Rightarrow> string \<Rightarrow> 's load_state_scheme \<Rightarrow> (u8 list, 's) loading" where
  "LoadELF64 h files file s =
     ocatch (LoadELF64_body h files file s) (\<lambda>e s. Ret [] (s\<lparr>err := err s @ [elf_what h e]\<rparr>))"

section \<open>What is loaded\<close>

text \<open>
  The program headers of a file, those that are loaded, and when the copies stay inside the file and
  the image. The second conjunct of \<open>segment_ok\<close> is the code's size check, wrap-around included.
\<close>

definition segment_offset :: "Elf64_Phdr \<Rightarrow> nat" where
  "segment_offset seg = unat (p_vaddr seg - KERNBASE)"

definition phdrs :: "elf_h \<Rightarrow> u8 list \<Rightarrow> Elf64_Ehdr \<Rightarrow> Elf64_Phdr list" where
  "phdrs h binary header =
     map (\<lambda>i. phdr_at h binary (unat (e_phoff header) + i * sizeof_Phdr h)) [0..<unat (e_phnum header)]"

definition loadable :: "elf_h \<Rightarrow> u8 list \<Rightarrow> Elf64_Ehdr \<Rightarrow> Elf64_Phdr list" where
  "loadable h binary header = filter (\<lambda>seg. p_type seg = PT_LOAD h) (phdrs h binary header)"

definition table_ok :: "elf_h \<Rightarrow> u8 list \<Rightarrow> Elf64_Ehdr \<Rightarrow> bool" where
  "table_ok h binary header \<longleftrightarrow>
     unat (e_phoff header) < length binary \<and>
     unat (e_phoff header) + unat (e_phnum header) * sizeof_Phdr h \<le> length binary"

definition segment_ok :: "u8 list \<Rightarrow> Elf64_Phdr \<Rightarrow> bool" where
  "segment_ok binary seg \<longleftrightarrow>
     p_vaddr seg - KERNBASE + p_memsz seg \<le> MEMORY_SIZE \<and>
     segment_offset seg < unat MEMORY_SIZE \<and> unat (p_offset seg) < length binary \<and>
     segment_offset seg + unat (p_filesz seg) \<le> unat MEMORY_SIZE \<and>
     unat (p_offset seg) + unat (p_filesz seg) \<le> length binary"

text \<open>The byte of the image at an index: the one of the last segment that covers it.\<close>

definition covers :: "nat \<Rightarrow> Elf64_Phdr \<Rightarrow> bool" where
  "covers j seg \<longleftrightarrow> segment_offset seg \<le> j \<and> j < segment_offset seg + unat (p_filesz seg)"

definition file_byte :: "u8 list \<Rightarrow> nat \<Rightarrow> Elf64_Phdr \<Rightarrow> u8" where
  "file_byte binary j seg = binary ! (unat (p_offset seg) + (j - segment_offset seg))"

definition image_byte :: "u8 list \<Rightarrow> Elf64_Phdr list \<Rightarrow> nat \<Rightarrow> u8 \<Rightarrow> u8" where
  "image_byte binary segs j old =
     (case find (covers j) (rev segs) of None \<Rightarrow> old | Some seg \<Rightarrow> file_byte binary j seg)"

lemma find_append: "find P (xs @ ys) = (case find P xs of None \<Rightarrow> find P ys | Some x \<Rightarrow> Some x)"
  by (induction xs) simp_all

lemma image_byte_Nil [simp]: "image_byte binary [] j old = old"
  by (simp add: image_byte_def)

lemma image_byte_Cons [simp]:
  "image_byte binary (seg # segs) j old =
     image_byte binary segs j (if covers j seg then file_byte binary j seg else old)"
  by (simp add: image_byte_def find_append split: option.split)

lemma length_overwrite [simp]: "at + length src \<le> length dst \<Longrightarrow> length (overwrite dst at src) = length dst"
  by (simp add: overwrite_def)

lemma nth_overwrite:
  assumes "at + length src \<le> length dst" "j < length dst"
  shows "overwrite dst at src ! j = (if at \<le> j \<and> j < at + length src then src ! (j - at) else dst ! j)"
  using assms by (auto simp: overwrite_def nth_append min_def)

lemma length_MEMORY_SIZE: "length mem = unat MEMORY_SIZE \<Longrightarrow> of_nat (length mem) = MEMORY_SIZE"
  by simp

text \<open>A round of the loop on an image of the size of the RAM.\<close>

definition put_segment :: "u8 list \<Rightarrow> Elf64_Phdr \<Rightarrow> u8 list \<Rightarrow> u8 list" where
  "put_segment binary seg mem =
     overwrite mem (segment_offset seg) (take (unat (p_filesz seg)) (drop (unat (p_offset seg)) binary))"

lemma load_segment_Ret_iff:
  assumes "length mem = unat MEMORY_SIZE"
  shows "load_segment binary seg mem s = Ret m s' \<longleftrightarrow>
    s' = s \<and> segment_ok binary seg \<and> m = put_segment binary seg mem"
  using assms
  by (auto simp: load_segment_def Let_def segment_ok_def put_segment_def segment_offset_def not_less not_le)

lemma put_segment:
  assumes "segment_ok binary seg" "length mem = unat MEMORY_SIZE"
  shows "length (put_segment binary seg mem) = unat MEMORY_SIZE"
    and "j < unat MEMORY_SIZE \<Longrightarrow>
      put_segment binary seg mem ! j = (if covers j seg then file_byte binary j seg else mem ! j)"
proof -
  have len: "length (take (unat (p_filesz seg)) (drop (unat (p_offset seg)) binary)) = unat (p_filesz seg)"
  proof -
    have "unat (p_filesz seg) \<le> length binary - unat (p_offset seg)"
      using assms(1) unfolding segment_ok_def by linarith
    then show ?thesis
      by simp
  qed
  have fits: "segment_offset seg + unat (p_filesz seg) \<le> length mem"
    using assms by (simp add: segment_ok_def)
  show "length (put_segment binary seg mem) = unat MEMORY_SIZE"
    using fits assms(2) by (simp only: put_segment_def length_overwrite len)
  show "put_segment binary seg mem ! j = (if covers j seg then file_byte binary j seg else mem ! j)"
    if "j < unat MEMORY_SIZE"
    unfolding put_segment_def using assms that fits len
    by (subst nth_overwrite) (auto simp: covers_def file_byte_def segment_ok_def)
qed

lemma load_segments_Ret_iff:
  "length mem = unat MEMORY_SIZE \<Longrightarrow>
   load_segments h binary segs mem s = Ret m s' \<longleftrightarrow>
     s' = s \<and> list_all (segment_ok binary) (filter (\<lambda>seg. p_type seg = PT_LOAD h) segs) \<and>
     length m = unat MEMORY_SIZE \<and>
     (\<forall>j<unat MEMORY_SIZE. m ! j = image_byte binary (filter (\<lambda>seg. p_type seg = PT_LOAD h) segs) j (mem ! j))"
proof (induction segs arbitrary: mem)
  case Nil
  then show ?case
    by (auto intro: nth_equalityI)
next
  case (Cons seg segs)
  show ?case
  proof (cases "p_type seg = PT_LOAD h")
    case False
    with Cons show ?thesis by simp
  next
    case True
    show ?thesis
    proof (cases "segment_ok binary seg")
      case False
      with True Cons.prems show ?thesis
        by (simp add: obind_Ret_iff load_segment_Ret_iff)
    next
      case ok: True
      have put: "length (put_segment binary seg mem) = unat MEMORY_SIZE"
        by (rule put_segment(1) [OF ok Cons.prems])
      have "load_segment binary seg mem s = Ret (put_segment binary seg mem) s"
        using ok Cons.prems by (simp add: load_segment_Ret_iff)
      then have eq: "load_segments h binary (seg # segs) mem s =
          load_segments h binary segs (put_segment binary seg mem) s"
        using True by simp
      show ?thesis
        unfolding eq Cons.IH [OF put] using True ok
        by (simp add: put_segment(2) [OF ok Cons.prems] cong: imp_cong)
    qed
  qed
qed


definition image_of :: "u8 list \<Rightarrow> Elf64_Phdr list \<Rightarrow> u8 list" where
  "image_of binary segs = map (\<lambda>j. image_byte binary segs j 0) [0..<unat MEMORY_SIZE]"

lemma length_image_of [simp]: "length (image_of binary segs) = unat MEMORY_SIZE"
  by (simp add: image_of_def)

lemma image_of_iff:
  "m = image_of binary segs \<longleftrightarrow>
     length m = unat MEMORY_SIZE \<and> (\<forall>j<unat MEMORY_SIZE. m ! j = image_byte binary segs j 0)"
  by (auto simp: image_of_def intro: nth_equalityI)

lemma LoadSegments_Ret_iff:
  "LoadSegments h binary header s = Ret img s' \<longleftrightarrow>
     s' = s \<and> table_ok h binary header \<and> list_all (segment_ok binary) (loadable h binary header) \<and>
     img = image_of binary (loadable h binary header)"
proof -
  have zero: "(replicate (unat MEMORY_SIZE) 0 :: u8 list) ! j = 0" if "j < unat MEMORY_SIZE" for j
    using that by simp
  have phdrs: "read_phdrs h binary header s = Ret ps t \<longleftrightarrow> t = s \<and> table_ok h binary header \<and> ps = phdrs h binary header" for ps t
    by (auto simp: read_phdrs_def Let_def table_ok_def phdrs_def not_le not_less)
  show ?thesis
    by (auto simp: LoadSegments_def obind_Ret_iff phdrs load_segments_Ret_iff loadable_def image_of_iff zero)
qed

text \<open>The loader's outcomes: it never loops, and its undefined behaviour is a copy out of bounds.\<close>

definition copies_only :: "('a, 's, 'e) outcome \<Rightarrow> bool" where
  "copies_only r \<longleftrightarrow> (case r of Undef u \<Rightarrow> u = Out_Of_Bounds | Diverge \<Rightarrow> False | _ \<Rightarrow> True)"

lemma copies_only_simps [simp]:
  "copies_only (Ret a s)" "copies_only (Throw e s)" "copies_only (Undef u) \<longleftrightarrow> u = Out_Of_Bounds"
  "\<not> copies_only Diverge"
  by (simp_all add: copies_only_def)

lemma copies_only_obind: "copies_only m \<Longrightarrow> (\<And>a s. copies_only (f a s)) \<Longrightarrow> copies_only (obind m f)"
  by (cases m) simp_all

lemma copies_only_load_segments: "copies_only (load_segments h binary segs mem s)"
  by (induction h binary segs mem s rule: load_segments.induct)
    (auto simp: load_segment_def Let_def intro!: copies_only_obind)

lemma copies_only_LoadSegments: "copies_only (LoadSegments h binary header s)"
  unfolding LoadSegments_def by (intro copies_only_obind copies_only_load_segments) (simp add: read_phdrs_def Let_def)

lemma copies_only_body: "copies_only (LoadELF64_body h files file s)"
  unfolding LoadELF64_body_def
  by (intro copies_only_obind copies_only_LoadSegments)
    (simp_all add: ReadIntoVector_def GetHeader_def split: file_read.split)

text \<open>Only the handler writes to standard error, and the loader leaves the rest of the caller's state alone.\<close>

lemma load_segments_keeps: "out_all (\<lambda>t. t = s) (load_segments h binary segs mem s)"
proof (induction segs arbitrary: mem)
  case (Cons seg segs)
  have "out_all (\<lambda>t. t = s) (load_segment binary seg mem s)"
    by (simp add: load_segment_def Let_def)
  with Cons show ?case
    by (cases "load_segment binary seg mem s") simp_all
qed simp

lemma LoadSegments_keeps: "out_all (\<lambda>t. t = s) (LoadSegments h binary header s)"
  by (simp add: LoadSegments_def read_phdrs_def Let_def load_segments_keeps)

lemma GetHeader_keeps: "out_all (\<lambda>t. t = s) (GetHeader h binary s)"
  by (simp add: GetHeader_def)

lemma body_keeps: "out_all (\<lambda>t. \<exists>e. t = s\<lparr>entry_point := e\<rparr>) (LoadELF64_body h files filename s)"
proof (cases "files filename")
  case Not_open
  then show ?thesis
    by (auto simp: LoadELF64_body_def ReadIntoVector_def intro: exI [of _ "entry_point s"])
next
  case Bad_size
  then show ?thesis
    by (auto simp: LoadELF64_body_def ReadIntoVector_def intro: exI [of _ "entry_point s"])
next
  case (Read binary)
  show ?thesis
  proof (cases "GetHeader h binary s")
    case (Ret header t)
    with GetHeader_keeps [of s h binary] have "t = s"
      by simp
    moreover have "out_all (\<lambda>t. \<exists>e. t = s\<lparr>entry_point := e\<rparr>)
        (LoadSegments h binary header (s\<lparr>entry_point := Some (e_entry header)\<rparr>))"
      by (rule out_all_mono [OF LoadSegments_keeps]) blast
    ultimately show ?thesis
      using Read Ret by (simp add: LoadELF64_body_def ReadIntoVector_def)
  next
    case (Throw e t)
    with GetHeader_keeps [of s h binary] Read show ?thesis
      by (auto simp: LoadELF64_body_def ReadIntoVector_def intro: exI [of _ "entry_point s"])
  qed (simp_all add: Read LoadELF64_body_def ReadIntoVector_def)
qed

lemma body_keeps_err: "out_all (\<lambda>t. err t = err s) (LoadELF64_body h files filename s)"
  by (rule out_all_mono [OF body_keeps]) auto

lemma LoadELF64_Ret_iff:
  "LoadELF64 h files file s = Ret img s' \<longleftrightarrow>
     LoadELF64_body h files file s = Ret img s' \<or>
     img = [] \<and> (\<exists>e t. LoadELF64_body h files file s = Throw e t \<and> s' = t\<lparr>err := err t @ [elf_what h e]\<rparr>)"
  by (cases "LoadELF64_body h files file s") (auto simp: LoadELF64_def)

lemma LoadELF64_body_Ret_iff:
  "LoadELF64_body h files file s = Ret img s' \<longleftrightarrow>
     (\<exists>binary header. files file = Read binary \<and> GetHeader h binary s = Ret header s \<and>
        table_ok h binary header \<and> list_all (segment_ok binary) (loadable h binary header) \<and>
        img = image_of binary (loadable h binary header) \<and> s' = s\<lparr>entry_point := Some (e_entry header)\<rparr>)"
proof -
  have "GetHeader h binary s = Ret header t \<Longrightarrow> t = s" for binary header t
    by (auto simp: GetHeader_def split: if_splits)
  then show ?thesis
    by (fastforce simp: LoadELF64_body_def obind_Ret_iff ReadIntoVector_def LoadSegments_Ret_iff split: file_read.splits)
qed

lemma MEMORY_SIZE_pos: "unat MEMORY_SIZE \<noteq> 0"
  by (simp add: MEMORY_SIZE_def)

lemma image_of_not_Nil [simp]: "image_of binary segs \<noteq> []"
  using MEMORY_SIZE_pos length_image_of by (metis length_0_conv)

section \<open>The layout gives fields inside the file\<close>

lemma header_in_file:
  assumes "elf_h_ok h" and "GetHeader h binary s = Ret header s'"
  shows "EI_CLASS h < length binary" "e_machine_at h + 2 \<le> length binary" "e_entry_at h + 8 \<le> length binary"
    "e_phoff_at h + 8 \<le> length binary" "e_phnum_at h + 2 \<le> length binary"
  using assms by (auto simp: elf_h_ok_def GetHeader_def split: if_splits)

section \<open>Properties\<close>

text \<open>
  C14. The ELF loader, completely. Loading the segments succeeds exactly if the program headers lie inside
  the file and every segment of type PT_LOAD passes the code's size check, starts inside the RAM and
  the file, and is copied without leaving either. Then each byte of the image is the file's byte of the
  last such segment that covers it, or 0.
\<close>

theorem elf_contents:
  "LoadSegments h binary header s = Ret img s' \<longleftrightarrow>
     s' = s \<and> table_ok h binary header \<and> list_all (segment_ok binary) (loadable h binary header) \<and>
     length img = unat MEMORY_SIZE \<and>
     img = map (\<lambda>j. image_byte binary (loadable h binary header) j 0) [0..<unat MEMORY_SIZE]"
  by (auto simp: LoadSegments_Ret_iff image_of_def)

text \<open>
  C35. \<open>LoadELF64\<close> never throws and always ends. On every error it gives the empty vector and writes
  exactly one line to standard error, the message of the exception; else it writes nothing and gives an image of exactly the
  size of the RAM together with the entry point of the file. The only undefined behaviour is a copy out of
  the bounds of the file or the image.
\<close>

theorem elf_outcome:
  "case LoadELF64 h files file s of
     Ret img s' \<Rightarrow>
       if img = [] then \<exists>e. err s' = err s @ [elf_what h e]
       else length img = unat MEMORY_SIZE \<and>
         (\<exists>binary header. files file = Read binary \<and> GetHeader h binary s = Ret header s \<and>
            s' = s\<lparr>entry_point := Some (e_entry header)\<rparr>)
   | Throw e s' \<Rightarrow> False
   | Undef u \<Rightarrow> u = Out_Of_Bounds
   | Diverge \<Rightarrow> False"
proof (cases "LoadELF64_body h files file s")
  case (Ret img s')
  with Ret [unfolded LoadELF64_body_Ret_iff] show ?thesis
    by (auto simp: LoadELF64_def)
next
  case (Throw e s')
  then show ?thesis
    using body_keeps_err [of s h files "file"] by (auto simp: LoadELF64_def)
next
  case (Undef u)
  then show ?thesis
    using copies_only_body [of h files "file" s] by (simp add: LoadELF64_def)
next
  case Diverge
  then show ?thesis
    using copies_only_body [of h files "file" s] by simp
qed

end
