(* ===== verification/Main_Prog.thy ===== *)
theory Main_Prog
  imports Elf Isa_Machine Console
begin

text \<open>
  \<open>source/main.cpp\<close>: the command line, loading the file into a CPU, and the loop that steps it, with the lines
  written to standard output and standard error. The result is the exit code (\<open>Inl\<close>) or the CPU the loop
  has come to (\<open>Inr\<close>). The loop waits for a key in every round and shows how long the step took; the times are a
  parameter, one per round (\<open>clock\<close>), so a list of them is that many rounds.
\<close>

section \<open>The program\<close>

record main_state = load_state +
  out :: "string list"

definition main_start :: main_state where
  "main_start = \<lparr>entry_point = None, err = [], out = []\<rparr>"

definition say :: "string \<Rightarrow> main_state \<Rightarrow> main_state" where
  "say line s = s\<lparr>out := out s @ [line]\<rparr>"

definition complain :: "string \<Rightarrow> main_state \<Rightarrow> main_state" where
  "complain line s = s\<lparr>err := err s @ [line]\<rparr>"

type_synonym 'a main_outcome = "('a, main_state, elf_error + trap_value) outcome"

text \<open>Without arguments \<open>argv[0]\<close> is a null pointer, which must not be printed.\<close>

definition ParseOptions :: "string list \<Rightarrow> main_state \<Rightarrow> int main_outcome" where
  "ParseOptions argv s =
     (if length argv \<noteq> 3
      then if argv = [] then Undef Null_Pointer
           else Ret (- 1) (say (''Usage: '' @ argv ! 0 @ '' [option]'' @ '' <binary>'') s)
      else if argv ! 1 = ''-xv6'' then Ret 0 s
      else if argv ! 1 = ''-elf'' then Ret 1 s
      else Ret (- 1) (say ''Options: -xv6, -elf'' (say (''Usage: '' @ argv ! 0 @ '' [option]'' @ '' <binary>'') s)))"

definition main_setup ::
    "elf_h \<Rightarrow> (string \<Rightarrow> file_read) \<Rightarrow> string list \<Rightarrow> (int + cpu) main_outcome" where
  "main_setup h files argv =
     obind (ParseOptions argv main_start) (\<lambda>option s.
     if option = - 1 then Ret (Inl (- 1)) s
     else if option = 0 then Ret (Inl (- 1)) (say ''xv6 mode not implemented'' s)
     else
       let s = (if option = 1 then say ''ELF mode'' s else s)
       in obind (relabel id Inl (LoadELF64 h files (argv ! 2) s)) (\<lambda>binary s.
          if of_nat (length binary) > MEMORY_SIZE then Ret (Inl (- 1)) (complain ''Binary too large'' s)
          else if binary = [] then Ret (Inl (- 1)) (complain ''Failure while reading or binary empty'' s)
          else
            obind (read_cell (entry_point s) s) (\<lambda>entry s.
            obind (relabel (\<lambda>_. s) Inr (CPU_entry binary entry)) (\<lambda>cpu s.
            Ret (Inr cpu) (say (''PC: '' @ hex_of_word (GetPc cpu)) s)))))"

text \<open>One round of the loop, with the lines it prints; and a round for each time.\<close>

definition main_round :: "int \<Rightarrow> cpu \<Rightarrow> string list exec" where
  "main_round us cpu =
     obind (ocatch (obind (Step cpu) (\<lambda>_ cpu. Ret [] cpu)) (\<lambda>e cpu. Ret [''Trap: '' @ trap_what e] cpu)) (\<lambda>trap cpu.
     Ret (trap @ [dec_of_int us @ '' us'', ''PC: '' @ hex_of_word (GetPc cpu)]) cpu)"

primrec main_loop :: "int list \<Rightarrow> cpu \<Rightarrow> string list exec" where
  "main_loop [] cpu = Ret [] cpu"
| "main_loop (us # clock) cpu =
     obind (main_round us cpu) (\<lambda>lines cpu. obind (main_loop clock cpu) (\<lambda>lines' cpu. Ret (lines @ lines') cpu))"

definition main_prog ::
    "elf_h \<Rightarrow> (string \<Rightarrow> file_read) \<Rightarrow> string list \<Rightarrow> int list \<Rightarrow> (int + cpu) main_outcome" where
  "main_prog h files argv clock =
     obind (main_setup h files argv) (\<lambda>r s.
       case r of
         Inl code \<Rightarrow> Ret (Inl code) s
       | Inr cpu \<Rightarrow>
           (case main_loop clock cpu of
              Ret lines cpu \<Rightarrow> Ret (Inr cpu) (s\<lparr>out := out s @ lines\<rparr>)
            | Throw e cpu \<Rightarrow> Throw (Inr e) s
            | Undef u \<Rightarrow> Undef u
            | Diverge \<Rightarrow> Diverge))"

section \<open>Building the CPU\<close>

lemma CPU_entry_image:
  assumes "length img = unat MEMORY_SIZE"
  shows "CPU_entry img ent =
    Ret (cpu_new (mmu_new (\<lambda>j. if j < unat MEMORY_SIZE then img ! j else 0)) ent) ()"
  using assms by (simp add: CPU_entry_def mmu_init_def ram_init_def)

text \<open>The RAM that holds a file's segments.\<close>

definition image_ram :: "u8 list \<Rightarrow> Elf64_Phdr list \<Rightarrow> ram" where
  "image_ram binary segs = (\<lambda>j. if j < unat MEMORY_SIZE then image_byte binary segs j 0 else 0)"

lemma image_ram_eq:
  "(\<lambda>j. if j < unat MEMORY_SIZE then image_of binary segs ! j else 0) = image_ram binary segs"
  by (auto simp: image_ram_def image_of_def)

lemma CPU_entry_loaded:
  "CPU_entry (image_of binary segs) ent = Ret (cpu_new (mmu_new (image_ram binary segs)) ent) ()"
  by (simp add: CPU_entry_image image_ram_eq)

lemma LoadELF64_cases:
  obtains (error) p e where "LoadELF64 h files filename s = Ret [] (s\<lparr>entry_point := p, err := err s @ [elf_what h e]\<rparr>)"
  | (undefined) "LoadELF64 h files filename s = Undef Out_Of_Bounds"
  | (loaded) binary header where "files filename = Read binary" "GetHeader h binary s = Ret header s"
      "table_ok h binary header" "list_all (segment_ok binary) (loadable h binary header)"
      "LoadELF64 h files filename s =
         Ret (image_of binary (loadable h binary header)) (s\<lparr>entry_point := Some (e_entry header)\<rparr>)"
proof (cases "LoadELF64_body h files filename s")
  case (Ret img s')
  from Ret [unfolded LoadELF64_body_Ret_iff] obtain binary header where
    "files filename = Read binary" "GetHeader h binary s = Ret header s"
      "table_ok h binary header" "list_all (segment_ok binary) (loadable h binary header)"
      "img = image_of binary (loadable h binary header)" "s' = s\<lparr>entry_point := Some (e_entry header)\<rparr>"
    by blast
  with Ret show ?thesis
    by (intro loaded) (auto simp: LoadELF64_def)
next
  case (Throw e s')
  with body_keeps [of s h files filename] obtain x where "s' = s\<lparr>entry_point := x\<rparr>"
    by auto
  with Throw show ?thesis
    by (intro error) (simp add: LoadELF64_def)
next
  case (Undef u)
  then show ?thesis
    using copies_only_body [of h files filename s] by (intro undefined) (simp add: LoadELF64_def)
next
  case Diverge
  then show ?thesis
    using copies_only_body [of h files filename s] by simp
qed

text \<open>The state when the file is loaded, and the outcomes after that.\<close>

definition elf_start :: main_state where
  "elf_start = say ''ELF mode'' main_start"

definition elf_args :: "string list \<Rightarrow> bool" where
  "elf_args argv \<longleftrightarrow> length argv = 3 \<and> argv ! 1 = ''-elf''"

lemma main_setup_elf:
  assumes "elf_args argv"
  shows "LoadELF64 h files (argv ! 2) elf_start = Ret [] s \<Longrightarrow>
      main_setup h files argv = Ret (Inl (- 1)) (complain ''Failure while reading or binary empty'' s)"
    and "LoadELF64 h files (argv ! 2) elf_start = Undef u \<Longrightarrow> main_setup h files argv = Undef u"
    and "LoadELF64 h files (argv ! 2) elf_start = Ret (image_of binary segs) (elf_start\<lparr>entry_point := Some ent\<rparr>) \<Longrightarrow>
      main_setup h files argv = Ret (Inr (cpu_new (mmu_new (image_ram binary segs)) ent))
        \<lparr>entry_point = Some ent, err = [], out = [''ELF mode'', ''PC: '' @ hex_of_word ent]\<rparr>"
  using assms
  by (simp_all add: main_setup_def ParseOptions_def elf_args_def elf_start_def [symmetric] CPU_entry_loaded)
    (simp add: elf_start_def main_start_def say_def GetPc_def cpu_new_def)

lemma LoadELF64_loads:
  assumes "files filename = Read binary" "GetHeader h binary s = Ret header s"
      "table_ok h binary header" "list_all (segment_ok binary) (loadable h binary header)"
  shows "LoadELF64 h files filename s =
    Ret (image_of binary (loadable h binary header)) (s\<lparr>entry_point := Some (e_entry header)\<rparr>)"
proof -
  have "LoadELF64_body h files filename s =
      Ret (image_of binary (loadable h binary header)) (s\<lparr>entry_point := Some (e_entry header)\<rparr>)"
    using assms by (auto simp: LoadELF64_body_Ret_iff)
  then show ?thesis
    by (simp add: LoadELF64_def)
qed

section \<open>The loop\<close>

interpretation main_sim: loop_simulation main_round main_loop conforming_step abs_state quiet 2
proof unfold_locales
  fix us c t
  assume "quiet c" and "conforming_step (abs_state c) t"
  with Step_simulates [of c t]
  show "\<exists>out d. main_round us c = Ret out d \<and> length out = 2 \<and> abs_state d = t \<and> quiet d"
    by (auto simp: main_round_def)
qed simp_all

lemma cpu_ok_main_round: "cpu_ok c \<Longrightarrow> out_all cpu_ok (main_round us c)"
  unfolding main_round_def by (intro outcome_inv)

lemma main_round_never_throws: "main_round us c \<noteq> Throw e d"
  by (cases "Step c") (simp_all add: main_round_def)

lemma main_loop_never_throws: "main_loop clock c \<noteq> Throw e d"
  by (induction clock arbitrary: c) (simp_all add: obind_Throw_iff main_round_never_throws)

text \<open>The manual's machine after loading a file: zero registers, the segments in the RAM.\<close>

definition boot_state :: "u8 list \<Rightarrow> Elf64_Phdr list \<Rightarrow> u64 \<Rightarrow> isa_state" where
  "boot_state binary segs start = \<lparr>ipc = start, ireg = (\<lambda>_. 0), iram = image_ram binary segs\<rparr>"

lemma fresh_cpu:
  "abs_state (cpu_new (mmu_new (image_ram binary segs)) start) = boot_state binary segs start"
  "quiet (cpu_new (mmu_new m) start)"
  by (simp_all add: boot_state_def abs_state_def quiet_def interrupts_enabled_def cpu_new_def mmu_new_def
      cong: if_cong)

text \<open>No exception leaves \<open>main\<close>.\<close>

lemma main_setup_never_throws: "main_setup h files argv \<noteq> Throw e s"
proof (cases "elf_args argv")
  case False
  then show ?thesis
    by (auto simp: main_setup_def ParseOptions_def elf_args_def Let_def)
next
  case True
  show ?thesis
  proof (cases rule: LoadELF64_cases [of h files "argv ! 2" elf_start])
    case (loaded binary header)
    show ?thesis
      using main_setup_elf(3) [OF True loaded(5)] by simp
  qed (simp_all add: main_setup_elf [OF True])
qed

lemma main_never_throws: "main_prog h files argv clock \<noteq> Throw e s"
proof (cases "main_setup h files argv")
  case (Ret r s)
  then show ?thesis
    using main_loop_never_throws [of clock] by (cases r) (auto simp: main_prog_def split: outcome.split)
next
  case (Throw e s)
  then show ?thesis
    by (simp add: main_setup_never_throws)
qed (simp_all add: main_prog_def)

section \<open>Properties\<close>

text \<open>
  C36. Every way \<open>main\<close> can go before its loop. It exits with code -1 after saying why (the usage or the missing mode on
  standard output; for a file, the loader's message and its own on standard error); or, without any argument,
  prints a null pointer; or a malformed file makes a copy of the loader run out of bounds; or there is a CPU at
  the entry point of the file named on the command line, in the reset state, whose RAM holds the file's
  segments, and nothing was written to standard error. It throws nothing, it always gets there, and the entry
  point is never read uninitialised.
\<close>

theorem main_setup_outcome:
  "case main_setup h files argv of
     Ret (Inl code) s \<Rightarrow> code = - 1 \<and>
       (if elf_args argv
        then \<exists>e. err s = [elf_what h e, ''Failure while reading or binary empty''] \<and> out s = [''ELF mode'']
        else err s = [] \<and> out s =
          (if length argv = 3 \<and> argv ! 1 = ''-xv6'' then [''xv6 mode not implemented'']
           else (''Usage: '' @ hd argv @ '' [option] <binary>'') # (if length argv = 3 then [''Options: -xv6, -elf''] else [])))
   | Ret (Inr c) s \<Rightarrow>
       elf_args argv \<and> cpu_ok c \<and> err s = [] \<and>
       (\<exists>binary header. files (argv ! 2) = Read binary \<and> GetHeader h binary elf_start = Ret header elf_start \<and>
          c = cpu_new (mmu_new (image_ram binary (loadable h binary header))) (e_entry header))
   | Throw e s \<Rightarrow> False
   | Undef u \<Rightarrow> u = Out_Of_Bounds \<or> argv = [] \<and> u = Null_Pointer
   | Diverge \<Rightarrow> False"
proof (cases "elf_args argv")
  case False
  then show ?thesis
    by (auto simp: main_setup_def ParseOptions_def elf_args_def say_def main_start_def Let_def hd_conv_nth)
next
  case True
  show ?thesis
  proof (cases rule: LoadELF64_cases [of h files "argv ! 2" elf_start])
    case (error p e)
    with main_setup_elf(1) [OF True] True show ?thesis
      by (auto simp: complain_def elf_start_def say_def main_start_def)
  next
    case undefined
    with main_setup_elf(2) [OF True] show ?thesis by simp
  next
    case (loaded binary header)
    with main_setup_elf(3) [OF True loaded(5)] True show ?thesis
      by (auto simp: cpu_ok_new)
  qed
qed

lemma boot:
  assumes "elf_args argv" and "files (argv ! 2) = Read binary"
    and "GetHeader h binary elf_start = Ret header elf_start" and "table_ok h binary header"
    and "list_all (segment_ok binary) (loadable h binary header)"
  shows "main_setup h files argv =
    Ret (Inr (cpu_new (mmu_new (image_ram binary (loadable h binary header))) (e_entry header)))
      \<lparr>entry_point = Some (e_entry header), err = [], out = [''ELF mode'', ''PC: '' @ hex_of_word (e_entry header)]\<rparr>"
proof -
  note loaded = LoadELF64_loads [where files = files and filename = "argv ! 2", OF assms(2-5)]
  show ?thesis
    by (rule main_setup_elf(3) [where files = files, OF assms(1) loaded])
qed

text \<open>
  C15. Booting. With the options \<open>-elf\<close> and a file whose header is accepted and whose segments can be loaded,
  \<open>main\<close> starts its loop with the CPU at the file's entry point, in the reset state, and with every byte of
  the RAM the byte of the last loaded segment that covers it, or 0.
\<close>

theorem boot_ram_holds_image:
  assumes "elf_args argv" and "files (argv ! 2) = Read binary"
    and "GetHeader h binary elf_start = Ret header elf_start" and "table_ok h binary header"
    and "list_all (segment_ok binary) (loadable h binary header)"
  shows "main_setup h files argv =
    Ret (Inr (cpu_new (mmu_new (\<lambda>j. if j < unat MEMORY_SIZE then image_byte binary (loadable h binary header) j 0 else 0))
        (e_entry header)))
      \<lparr>entry_point = Some (e_entry header), err = [], out = [''ELF mode'', ''PC: '' @ hex_of_word (e_entry header)]\<rparr>"
  unfolding boot [where files = files, OF assms] image_ram_def ..

text \<open>
  A file of 124 bytes with the layout of the System V ABI: one segment with the instruction
  \<open>addi x1, x0, 5\<close> at the start of the RAM.
\<close>

definition abi_elf_h :: elf_h where
  "abi_elf_h =
     \<lparr>sizeof_Ehdr = 64, sizeof_Phdr = 56, e_machine_at = 18, e_entry_at = 24, e_phoff_at = 32, e_phnum_at = 56,
      p_type_at = 0, p_offset_at = 8, p_vaddr_at = 16, p_filesz_at = 32, p_memsz_at = 40,
      ELFMAG = [0x7f, 0x45, 0x4c, 0x46], EI_CLASS = 4, ELFCLASS64 = 2, EM_RISCV = 243, PT_LOAD = 1,
      out_of_range_text = (\<lambda>i n. ''vector::_M_range_check: __n (which is '' @ dec_of_int (int i) @
        '') >= this->size() (which is '' @ dec_of_int (int n) @ '')''),
      vector_size_text = ''cannot create std::vector larger than max_size()''\<rparr>"

lemma abi_elf_h_ok: "elf_h_ok abi_elf_h"
  by (simp add: elf_h_ok_def abi_elf_h_def)

definition small_file :: "u8 list" where
  "small_file =
     [0x7f, 0x45, 0x4c, 0x46, 2, 1, 1, 0,  0, 0, 0, 0, 0, 0, 0, 0,
      2, 0, 243, 0, 1, 0, 0, 0,  0, 0, 0, 0x80, 0, 0, 0, 0,
      64, 0, 0, 0, 0, 0, 0, 0,  0, 0, 0, 0, 0, 0, 0, 0,
      0, 0, 0, 0, 64, 0, 56, 0,  1, 0, 0, 0, 0, 0, 0, 0,
      1, 0, 0, 0, 5, 0, 0, 0,  120, 0, 0, 0, 0, 0, 0, 0,
      0, 0, 0, 0x80, 0, 0, 0, 0,  0, 0, 0, 0x80, 0, 0, 0, 0,
      4, 0, 0, 0, 0, 0, 0, 0,  4, 0, 0, 0, 0, 0, 0, 0,
      0, 16, 0, 0, 0, 0, 0, 0,  0x93, 0x00, 0x50, 0x00]"

definition small_files :: "string \<Rightarrow> file_read" where
  "small_files = (\<lambda>_. Not_open)(''a.elf'' := Read small_file)"

definition small_header :: Elf64_Ehdr where
  "small_header = \<lparr>e_entry = 0x80000000, e_phoff = 64, e_phnum = 1\<rparr>"

definition small_segment :: Elf64_Phdr where
  "small_segment = \<lparr>p_type = 1, p_offset = 120, p_vaddr = 0x80000000, p_filesz = 4, p_memsz = 4\<rparr>"

lemma small_file_parsed:
  "GetHeader abi_elf_h small_file s = Ret small_header s"
  "table_ok abi_elf_h small_file small_header"
  "loadable abi_elf_h small_file small_header = [small_segment]"
  "list_all (segment_ok small_file) [small_segment]"
  by (simp_all add: GetHeader_def abi_elf_h_def small_file_def small_header_def field_def table_ok_def
      loadable_def phdrs_def phdr_at_def small_segment_def segment_ok_def segment_offset_def config_defs)

lemma small_file_args:
  "elf_args [''rremu'', ''-elf'', ''a.elf'']"
  "small_files ([''rremu'', ''-elf'', ''a.elf''] ! 2) = Read small_file"
  by (simp_all add: elf_args_def small_files_def)

lemma small_file_segments: "list_all (segment_ok small_file) (loadable abi_elf_h small_file small_header)"
  by (simp only: small_file_parsed(3,4))

lemma small_image:
  "image_ram small_file [small_segment] 0 = 0x93" "image_ram small_file [small_segment] (Suc 0) = 0x00"
  "image_ram small_file [small_segment] (Suc (Suc 0)) = 0x50" "image_ram small_file [small_segment] (Suc (Suc (Suc 0))) = 0x00"
  by (simp_all add: image_ram_def covers_def file_byte_def segment_offset_def small_segment_def config_defs)
    (simp_all add: small_file_def)

lemma boot_ram_holds_image_witness:
  "\<exists>m. main_setup abi_elf_h small_files [''rremu'', ''-elf'', ''a.elf''] =
     Ret (Inr (cpu_new (mmu_new m) 0x80000000))
       \<lparr>entry_point = Some 0x80000000, err = [], out = [''ELF mode'', ''PC: 80000000'']\<rparr>"
proof -
  have "hex_of_word (0x80000000 :: u64) = ''80000000''"
    by (simp add: hex_of_word_def digits.simps digit_def)
  with boot_ram_holds_image [where files = "small_files", OF small_file_args small_file_parsed(1,2) small_file_segments]
  show ?thesis
    by (simp add: small_header_def) blast
qed

text \<open>
  C3. From the file to the result. If a loadable file is named on the command line and the manual's machine, started at its
  entry point with its segments in the RAM, can do as many steps as there are rounds, each a \<open>conforming_step\<close>
  (no CSR or system instruction, loads and stores inside the RAM, an aligned next pc, and operands on which the
  emulator follows the manual: no SRAI, no negative AUIPC immediate or address offset, and so on), then \<open>main\<close> gets through those rounds and the CPU is then in the state
  where the manual's machine is. No trap is reported (two lines a round: time and pc) and nothing is
  written to standard error.
\<close>

theorem program_runs_as_isa:
  assumes "elf_args argv" and "files (argv ! 2) = Read binary"
    and "GetHeader h binary elf_start = Ret header elf_start" and "table_ok h binary header"
    and "list_all (segment_ok binary) (loadable h binary header)"
    and "(conforming_step ^^ length clock) (boot_state binary (loadable h binary header) (e_entry header)) t"
  shows "\<exists>c s. main_prog h files argv clock = Ret (Inr c) s \<and> abs_state c = t \<and>
    err s = [] \<and> length (out s) = 2 + 2 * length clock"
proof -
  obtain c where c: "c = cpu_new (mmu_new (image_ram binary (loadable h binary header))) (e_entry header)"
    by blast
  have "quiet c" "(conforming_step ^^ length clock) (abs_state c) t"
    using assms(6) by (simp_all only: c fresh_cpu)
  from main_sim.simulates [OF this] obtain lines d where
    "main_loop clock c = Ret lines d" "length lines = 2 * length clock" "abs_state d = t"
    by blast
  then show ?thesis
    by (simp add: main_prog_def boot [where files = files, OF assms(1-5)] c)
qed

lemma program_runs_as_isa_witness:
  "\<exists>c s. main_prog abi_elf_h small_files [''rremu'', ''-elf'', ''a.elf''] [7] = Ret (Inr c) s \<and>
     pc c = 0x80000004 \<and> regs c 1 = 5"
proof -
  let ?s = "boot_state small_file (loadable abi_elf_h small_file small_header) (e_entry small_header)"
  let ?t = "isa_exec (Alui Addi 1 0 5) ?s"
  have word: "ucast (isa_fetch 0x80000000 4 ?s) = (0x00500093 :: u32)"
    unfolding boot_state_def small_file_parsed(3) isa_fetch_def by (simp add: small_image bytes_eval KERNBASE_def)
  have "isa_step (Alui Addi 1 0 5) ?s ?t"
  proof (rule isa_step.exec [OF _ _ _ _ refl])
    show "assemble (Alui Addi 1 0 5) = ucast (isa_fetch (ipc ?s) 4 ?s)"
      using word by (simp add: boot_state_def small_header_def encode_I_def)
  qed (simp_all add: boot_state_def small_header_def isa_goto_def in_ram_def access_size_def valid_addr_def config_defs)
  then have "conforming_step ?s ?t"
    unfolding conforming_step_def by (intro exI [of _ "Alui Addi 1 0 5"]) simp
  then have "(conforming_step ^^ length [7 :: int]) ?s ?t"
    by (simp only: list.size One_nat_def [symmetric] add_0 relpowp_1)
  note run = program_runs_as_isa [where files = "small_files", OF small_file_args small_file_parsed(1,2)
      small_file_segments this]
  from run obtain c s where
    c: "main_prog abi_elf_h small_files [''rremu'', ''-elf'', ''a.elf''] [7] = Ret (Inr c) s" "abs_state c = ?t"
    by blast
  have "ireg (abs_state c) 1 = 5" "ipc (abs_state c) = 0x80000004"
    unfolding c(2) by (simp_all add: isa_goto_def isa_put_def boot_state_def small_header_def)
  with c(1) show ?thesis
    by auto
qed

end
