(* ===== verification/Spec2Isabelle.thy ===== *)
theory Spec2Isabelle
  imports Prelude Config Trap Device Ram Mmu Paging Bus Formats Cpu_State Traps Insn Insn_I Insn_I64
    Insn_M Insn_A Decode Step Isa Isa_Alu Isa_Control Isa_Mem Entry_Safety Isa_Machine Sum_Program Trap_Return
    Console Debug Elf Main_Prog
begin

text \<open>
  A model of RREMU, a 64-bit RISC-V emulator in C++, and its correctness.

  \<^bold>\<open>The program.\<close> \<open>main\<close> reads an ELF file into an image of the RAM, builds a \<open>CPU\<close> with it and steps
  the CPU for ever. A step fetches a word through the MMU, finds its entry in the table \<open>instructions[]\<close>,
  runs the entry's lambda on the CPU, turns an exception of the lambda into a trap entry, and serves
  interrupts. The MMU is also the bus: it translates addresses (Bare or Sv39) and picks the device (RAM,
  UART, VIRTIO, CLINT, PLIC) whose window holds the address.

  \<^bold>\<open>Conventions.\<close> Machine integers are words of their width, so arithmetic wraps; where an integer becomes
  an \<open>int\<close> the conversion is written out (\<open>to_int\<close>, \<open>int_to_u64\<close>). An operation is a function from the state to
  an \<open>outcome\<close>: \<open>Ret\<close> and \<open>Throw\<close> carry the state as the code leaves it, \<open>Undef\<close> is undefined behaviour with
  its kind, \<open>Diverge\<close> is a recursion that never ends. Undefined behaviour is modelled where the code can reach
  it: array indexes, shifts too far, overflow of \<open>int\<close>, reads of uninitialised objects. The
  host is little-endian, as the targets of the build are; right shifts of negative integers are arithmetic.
  Predicates and functions that are not named in the source (\<open>cpu_ok\<close>, \<open>in_ram\<close>, \<open>instr_at\<close>, \<open>isa_alu\<close>, ...) belong
  to the statements.

  \<^bold>\<open>Theories and sources.\<close>
  \<^item> \<open>Prelude\<close>: outcomes, integer conversions, generic lemmas on words; \<open>outcome_inv\<close> collects the rules by
    which an invariant goes through sequencing, \<open>try\<close> and the accessors.
  \<^item> \<open>Config\<close>: \<open>include/config.h\<close>. \<open>Trap\<close>: \<open>include/trap.h\<close>, the causes, their codes and messages.
  \<^item> \<open>Device\<close>: the interface \<open>BaseDevice\<close> (\<open>include/base_device.h\<close>) as the locale \<open>base_device\<close>, the UART
    (\<open>include/uart.h\<close>) and the stubs (\<open>virtio.h\<close>, \<open>clint.h\<close>, \<open>plic.h\<close>). \<open>Ram\<close>: \<open>include/ram.h\<close>. Each device
    interprets the locale.
  \<^item> \<open>Mmu\<close>: \<open>source/mmu.cpp\<close> and \<open>include/mmu.h\<close>: dispatch, page table entries, the page walk. \<open>MMU::Load\<close> and
    \<open>MMU::Translate\<close> call each other without an end, so the model gives the nested calls a depth.
    \<open>Paging\<close> has the outcome of a translation in every mode and compares the addresses computed from page
    table entries with the Sv39 specification; \<open>Bus\<close> has the laws of loads, stores and faults.
  \<^item> \<open>Formats\<close>: \<open>mask\<close>, \<open>sign_extend_*\<close> and \<open>parse_instruction\<close> of \<open>source/cpu.cpp\<close>, and the encodings of the
    manual that they invert.
  \<^item> \<open>Cpu_State\<close>: \<open>include/cpu.h\<close>: the state (pc, registers, CSRs, mode, MMU), its accessors and
    \<open>UpdatePagingMode\<close>; the invariant \<open>cpu_ok\<close>. \<open>Traps\<close>: \<open>HandleTrap\<close>, \<open>interrupt_handlers\<close>, \<open>HandleInterrupts\<close>.
  \<^item> \<open>Insn\<close>, \<open>Insn_I\<close>, \<open>Insn_I64\<close>, \<open>Insn_M\<close>, \<open>Insn_A\<close>: the 96 entries of \<open>instructions[]\<close>, one
    definition each. \<open>Decode\<close>: the table and \<open>CPU::Decode\<close>. \<open>Step\<close>: \<open>Fetch\<close>, \<open>Step\<close>, \<open>Run\<close>
    and the reachable states. \<open>Debug\<close>: the dumps and \<open>RunInstruction\<close>, over the streams of \<open>Console\<close>.
  \<^item> \<open>Isa\<close>, \<open>Isa_Alu\<close>, \<open>Isa_Control\<close>, \<open>Isa_Mem\<close>, \<open>Trap_Return\<close>: the instructions as the RISC-V manual prescribes
    them (encoding, operands, results, the exception for a misaligned jump target, the modes that may access the scratch
    registers), and for which operands the entries of the table follow it. \<open>Entry_Safety\<close>: which entries can have
    undefined behaviour, and of which kind.
    \<open>Isa_Machine\<close>: the manual's machine for whole programs and its simulation by \<open>Run\<close> (locale
    \<open>loop_simulation\<close>, interpreted on \<open>Run\<close> and on the loop of \<open>main\<close>). \<open>Sum_Program\<close>: a program proved on it.
  \<^item> \<open>Elf\<close>: \<open>source/elf_parser.cpp\<close>. \<open>Main_Prog\<close>: \<open>source/main.cpp\<close>.

  \<^bold>\<open>What the lemmas show.\<close> Decoding: which words each entry takes, and that only the word 0xf is matched by
  two; each instruction of RV64IM, Zifencei and Zicsr, SRET and MRET, in the encoding of the manual is
  decoded to its entry, except that a FENCE goes to FENCE.I, whose mask accepts every word with its opcode. Execution: for each class of
  computations, jumps and branches the exact set of operands on which the code does what the manual says (a
  conformance theorem is an equivalence, so that it also tells where the code departs; jumps and taken branches depart
  whenever the target is not a multiple of 4, as the program never raises that exception); loads and stores
  with the program's address beside the manual's; the effect of the CSR instructions, none of which checks the mode,
  compared with the manual on the scratch registers; the atomics, none of which works on the memory cell that
  rs1 points to: they take rs1 itself for the cell, write outside the register file, or fault. For each kind of undefined behaviour, the
  entries that can reach it. Traps: the whole effect of a trap entry, and what the return instructions undo. Memory: which accesses
  fault, which overrun, and the laws of a memory for the others; where the Sv39 computations agree with the specification.
  The cycle: what a step does, which traps leave it, when it ends, what stays invariant in all
  reachable states. The loader: the image is the file's segments or nothing. The program: what \<open>main\<close>
  does before its loop, and that from the file on it computes what the manual's machine does, as long as
  each of its steps is a \<open>conforming_step\<close>: no CSR, system or atomic instruction, loads and stores inside the RAM, an
  aligned next pc, and operands on which the emulator conforms.

  \<^bold>\<open>Bounds and fuel.\<close> The nested calls of the walk have \<open>call_depth\<close> 1024. It is enough because it is irrelevant:
  with Sv39 on, the result is \<open>Diverge\<close> for every depth, and with translation off one call is made
  (\<open>translate_outcome\<close>). \<open>Run k\<close> is the first \<open>k\<close> rounds of a loop that the program never leaves, and \<open>main_loop clock\<close> as many rounds as
  \<open>clock\<close> has entries; the theorems hold for every number of rounds. Everything else is structural recursion or
  shown to terminate.

  \<^bold>\<open>Parameters.\<close> \<open><elf.h>\<close> belongs to the C library: the sizes, offsets and constants the loader uses are the
  record \<open>elf_h\<close>; the witnesses instantiate it with the layout of the System V ABI. The file system is a function from names to what reading
  gives (\<open>file_read\<close>: not opened, no usable size, or the bytes that are read, with zeros after a short read).
  The times that \<open>main\<close> measures are a list.

  \<^bold>\<open>Not modelled.\<close> Running out of memory, except for the vector of the file. A null pointer handed to \<open>memcpy\<close> for zero bytes
  (a file without program headers): it copies nothing. \<open>GetReg\<close> and \<open>GetCsr\<close> have no check of their bounds, as they only get
  five-bit fields, twelve-bit fields and constants. The waiting for a key in the loop of \<open>main\<close>, whose character is not used. The UART's thread members, which are never started, and the register
  names and the enum \<open>AccessType\<close> that nothing uses. The tests, which call an interface the classes no longer have, and
  the build files.
\<close>

end
